(* ===== verification/JS_Prelude.thy ===== *)
theory JS_Prelude
  imports Main "HOL-Library.Word" "HOL-Library.Sublist"
begin

text \<open>
  What every component of the development shares: JavaScript strings as lists of 16-bit
  code units with the library functions the scripts call on them (\<open>substring\<close>,
  \<open>indexOf\<close>, \<open>toString(16)\<close>, \<open>escape\<close>, \<open>unescape\<close>, \<open>toLowerCase\<close> and the
  regular-expression replacements they use), script execution as a state transformer that
  keeps the effects made before an exception, and the simplification rules of both.
  The collections are \<open>js_string\<close> (string literals), \<open>js_run\<close> (execution of script
  blocks) and \<open>dom_simps\<close> (the document operations, filled by theory DOM).
\<close>

named_theorems js_string \<open>rules that keep string literals folded and decide them\<close>
named_theorems js_run \<open>execution rules for script combinators\<close>
named_theorems dom_simps \<open>reading a document after an update\<close>

section \<open>Strings\<close>

text \<open>
  A JavaScript string is a sequence of UTF-16 code units, and \<open>length\<close>, \<open>charAt\<close> and
  \<open>charCodeAt\<close> count code units. Literals of the sources are ASCII and are written
  \<open>js ''text''\<close>.
\<close>

type_synonym cu = "16 word"
type_synonym jstr = "cu list"

definition cu_of :: "char \<Rightarrow> cu" where
  "cu_of c = word_of_nat (of_char c)"

definition js :: "string \<Rightarrow> jstr" where
  "js s = map cu_of s"

lemma unat_cu_of [simp]: "unat (cu_of c) = of_char c"
proof -
  have "of_char c < (2 :: nat) ^ 16"
    by (rule less_le_trans [OF nat_of_char_less_256]) simp
  then show ?thesis
    by (simp add: cu_of_def unsigned_of_nat take_bit_eq_mod)
qed

lemma cu_of_inj [simp]: "cu_of a = cu_of b \<longleftrightarrow> a = b"
  by (metis unat_cu_of of_char_eq_iff)

lemma cu_of_numeral:
  "cu_of c = numeral w \<longleftrightarrow> of_char c = unat (numeral w :: cu)"
  "numeral w = cu_of c \<longleftrightarrow> of_char c = unat (numeral w :: cu)"
  by (metis unat_cu_of unsigned_word_eqI)+

lemma js_Nil [simp]: "js [] = []"
  by (simp add: js_def)

lemma js_Cons: "js (c # s) = cu_of c # js s"
  by (simp add: js_def)

lemma js_eq_Nil [simp]: "js s = [] \<longleftrightarrow> s = []" "[] = js s \<longleftrightarrow> s = []"
  by (auto simp: js_def)

lemma js_inj [simp]: "js s = js t \<longleftrightarrow> s = t"
  by (auto simp: js_def inj_map_eq_map inj_def)

lemma length_js [simp]: "length (js s) = length s"
  by (simp add: js_def)

lemma js_append: "js s @ js t = js (s @ t)"
  by (simp add: js_def)

lemma js_append_inj [simp]: "js s @ x = js t @ x \<longleftrightarrow> s = t"
  by simp

text \<open>Two texts that start with literals: compare the literals while both last.\<close>

lemma js_append_eq [js_string]:
  "js (c # s) @ x = js (d # t) @ y \<longleftrightarrow> c = d \<and> js s @ x = js t @ y"
  "js (c # s) @ x = js (d # t) \<longleftrightarrow> c = d \<and> js s @ x = js t"
  "js (d # t) = js (c # s) @ x \<longleftrightarrow> c = d \<and> js t = js s @ x"
  "js (c # s) @ x = js [] \<longleftrightarrow> False"
  "js [] = js (c # s) @ x \<longleftrightarrow> False"
  "js (c # s) @ x = [] \<longleftrightarrow> False"
  by (auto simp: js_Cons)

subsection \<open>Parts of strings\<close>

text \<open>
  \<open>charAt\<close> gives the empty string out of range; \<open>substring(a,b)\<close> clamps both indices
  to the string and swaps them when they are out of order; \<open>substr(a,n)\<close> with
  \<open>0 \<le> a\<close> takes at most \<open>n\<close> code units.
\<close>

definition charAt :: "jstr \<Rightarrow> nat \<Rightarrow> jstr" where
  "charAt s i = (if i < length s then [s ! i] else [])"

definition clamp_index :: "jstr \<Rightarrow> int \<Rightarrow> nat" where
  "clamp_index s i = nat (max 0 (min i (int (length s))))"

definition substring2 :: "jstr \<Rightarrow> int \<Rightarrow> int \<Rightarrow> jstr" where
  "substring2 s i j =
     (let a = clamp_index s i; b = clamp_index s j; lo = min a b; hi = max a b
      in take (hi - lo) (drop lo s))"

definition substring1 :: "jstr \<Rightarrow> int \<Rightarrow> jstr" where
  "substring1 s i = drop (clamp_index s i) s"

definition substr :: "jstr \<Rightarrow> nat \<Rightarrow> nat \<Rightarrow> jstr" where
  "substr s i n = take n (drop i s)"

lemma substring1_nat [simp]: "substring1 s (int n) = drop n s"
  by (cases "n \<le> length s") (auto simp: substring1_def clamp_index_def)

lemma substring2_prefix: "0 \<le> j \<Longrightarrow> substring2 s 0 j = take (nat j) s"
  by (auto simp: substring2_def clamp_index_def Let_def min_def max_def)

text \<open>
  \<open>indexOf(p, from)\<close>: the first position at or after \<open>from\<close> where \<open>p\<close> occurs, \<open>-1\<close>
  when there is none; \<open>lastIndexOf\<close> of one code unit; \<open>split\<close> at one code unit.
\<close>

fun indexOf_from :: "nat \<Rightarrow> jstr \<Rightarrow> jstr \<Rightarrow> int" where
  "indexOf_from k [] p = (if p = [] then int k else -1)"
| "indexOf_from k (c # s) p =
     (if prefix p (c # s) then int k else indexOf_from (Suc k) s p)"

definition indexOf :: "jstr \<Rightarrow> jstr \<Rightarrow> int" where
  "indexOf s p = indexOf_from 0 s p"

definition indexOf2 :: "jstr \<Rightarrow> jstr \<Rightarrow> nat \<Rightarrow> int" where
  "indexOf2 s p from = indexOf_from (min from (length s)) (drop from s) p"

fun lastIndexOf_acc :: "int \<Rightarrow> nat \<Rightarrow> jstr \<Rightarrow> cu \<Rightarrow> int" where
  "lastIndexOf_acc r k [] c = r"
| "lastIndexOf_acc r k (d # s) c =
     lastIndexOf_acc (if d = c then int k else r) (Suc k) s c"

definition lastIndexOf :: "jstr \<Rightarrow> cu \<Rightarrow> int" where
  "lastIndexOf s c = lastIndexOf_acc (-1) 0 s c"

fun split_at :: "cu \<Rightarrow> jstr \<Rightarrow> jstr list" where
  "split_at c [] = [[]]"
| "split_at c (d # s) =
     (if d = c then [] # split_at c s
      else case split_at c s of [] \<Rightarrow> [[d]] | w # ws \<Rightarrow> (d # w) # ws)"

lemma indexOf_from_bounds:
  "indexOf_from k s p = -1 \<or>
   (int k \<le> indexOf_from k s p \<and> indexOf_from k s p \<le> int (k + length s))"
  by (induction k s p rule: indexOf_from.induct) auto

lemma indexOf_from_ge: "-1 \<le> indexOf_from k s p"
  using indexOf_from_bounds [of k s p] by auto

lemma indexOf_from_Some:
  assumes "indexOf_from k s p = int (k + n)"
  shows "\<exists>u v. s = u @ p @ v \<and> length u = n"
  using assms
proof (induction k s p arbitrary: n rule: indexOf_from.induct)
  case (1 k p)
  then show ?case by (auto split: if_splits)
next
  case (2 k c s p)
  show ?case
  proof (cases "prefix p (c # s)")
    case True
    with "2.prems" have "n = 0" by simp
    with True show ?thesis by (auto simp: prefix_def)
  next
    case False
    with "2.prems" have eq: "indexOf_from (Suc k) s p = int (k + n)" by simp
    with indexOf_from_bounds [of "Suc k" s p] obtain m where m: "n = Suc m"
      by (cases n) auto
    with eq have "indexOf_from (Suc k) s p = int (Suc k + m)" by simp
    from "2.IH" [OF False this] obtain u v where "s = u @ p @ v" "length u = m" by blast
    then have "c # s = (c # u) @ p @ v" "length (c # u) = n"
      by (simp_all add: m)
    then show ?thesis by blast
  qed
qed

lemma indexOf_from_None: "indexOf_from k s p = -1 \<longleftrightarrow> \<not> sublist p s"
  by (induction k s p rule: indexOf_from.induct)
     (auto simp: sublist_Cons_right)

text \<open>The first occurrence: nothing before it matches.\<close>

lemma indexOf_from_first:
  assumes "\<And>m. m < length u \<Longrightarrow> \<not> prefix p (drop m (u @ p @ v))"
  shows "indexOf_from k (u @ p @ v) p = int (k + length u)"
  using assms
proof (induction u arbitrary: k)
  case Nil
  then show ?case by (cases "p @ v") (auto simp flip: prefix_def, metis prefixI)
next
  case (Cons c u)
  have "\<not> prefix p (c # u @ p @ v)" using Cons.prems [of 0] by simp
  moreover have "indexOf_from (Suc k) (u @ p @ v) p = int (Suc k + length u)"
  proof (rule Cons.IH)
    fix m assume "m < length u"
    then show "\<not> prefix p (drop m (u @ p @ v))"
      using Cons.prems [of "Suc m"] by simp
  qed
  ultimately show ?case by simp
qed

section \<open>Script execution\<close>

text \<open>
  A piece of script reads and changes the state and ends with a value or with an
  exception; the changes made before an exception stay. \<open>TypeError\<close> is what using
  \<open>null\<close> or \<open>undefined\<close> as an object raises, \<open>ReferenceError\<close> what reading a
  variable that no script defined raises, \<open>DOMException\<close> what a document
  operation raises when it would break the tree. \<open>NoReturn\<close> is not an exception of the
  language: it stands for a loop that never ends, so that a theorem that a script
  returns excludes it.
\<close>

datatype js_error = TypeError | ReferenceError | DOMException | NoReturn

type_synonym ('s, 'a) script = "'s \<Rightarrow> (js_error + 'a) \<times> 's"

definition jret :: "'a \<Rightarrow> ('s, 'a) script" where
  "jret x = (\<lambda>s. (Inr x, s))"

definition jthrow :: "js_error \<Rightarrow> ('s, 'a) script" where
  "jthrow e = (\<lambda>s. (Inl e, s))"

definition jbind :: "('s, 'a) script \<Rightarrow> ('a \<Rightarrow> ('s, 'b) script) \<Rightarrow> ('s, 'b) script" where
  "jbind m f = (\<lambda>s. case m s of (Inl e, s') \<Rightarrow> (Inl e, s') | (Inr x, s') \<Rightarrow> f x s')"

definition jget :: "('s \<Rightarrow> 'a) \<Rightarrow> ('s, 'a) script" where
  "jget f = (\<lambda>s. (Inr (f s), s))"

definition jmod :: "('s \<Rightarrow> 's) \<Rightarrow> ('s, unit) script" where
  "jmod f = (\<lambda>s. (Inr (), f s))"

definition jwhen :: "bool \<Rightarrow> ('s, unit) script \<Rightarrow> ('s, unit) script" where
  "jwhen b m = (if b then m else jret ())"

text \<open>\<open>of_option\<close> turns a null reference into the exception its use raises.\<close>

definition of_option :: "js_error \<Rightarrow> 'a option \<Rightarrow> ('s, 'a) script" where
  "of_option e x = (case x of None \<Rightarrow> jthrow e | Some y \<Rightarrow> jret y)"

primrec block :: "('s, unit) script list \<Rightarrow> ('s, unit) script" where
  "block [] = jret ()"
| "block (m # ms) = jbind m (\<lambda>_. block ms)"

primrec for_each :: "('a \<Rightarrow> ('s, unit) script) \<Rightarrow> 'a list \<Rightarrow> ('s, unit) script" where
  "for_each f [] = jret ()"
| "for_each f (x # xs) = jbind (f x) (\<lambda>_. for_each f xs)"

lemma run_jret [simp, js_run]: "jret x s = (Inr x, s)"
  by (simp add: jret_def)

lemma run_jthrow [simp, js_run]: "jthrow e s = (Inl e, s)"
  by (simp add: jthrow_def)

lemma run_jget [simp, js_run]: "jget f s = (Inr (f s), s)"
  by (simp add: jget_def)

lemma run_jmod [simp, js_run]: "jmod f s = (Inr (), f s)"
  by (simp add: jmod_def)

lemma run_jwhen [simp, js_run]: "jwhen b m s = (if b then m s else (Inr (), s))"
  by (simp add: jwhen_def)

lemma run_of_option [simp, js_run]:
  "of_option e (Some x) s = (Inr x, s)"
  "of_option e None s = (Inl e, s)"
  by (simp_all add: of_option_def)

lemma run_jbind [js_run]:
  "jbind m f s = (case m s of (Inl e, s') \<Rightarrow> (Inl e, s') | (Inr x, s') \<Rightarrow> f x s')"
  by (simp add: jbind_def)

lemma run_jbind_Inr: "m s = (Inr x, s') \<Longrightarrow> jbind m f s = f x s'"
  by (simp add: jbind_def)

lemma run_jbind_Inl: "m s = (Inl e, s') \<Longrightarrow> jbind m f s = (Inl e, s')"
  by (simp add: jbind_def)

lemma jbind_assoc: "jbind (jbind m f) g = jbind m (\<lambda>x. jbind (f x) g)"
  by (rule ext) (simp add: jbind_def split: prod.split sum.split)

lemma for_each_append:
  "for_each f (xs @ ys) = jbind (for_each f xs) (\<lambda>_. for_each f ys)"
  by (induction xs) (simp_all add: jbind_assoc, simp add: fun_eq_iff run_jbind)

text \<open>An invariant of the state that every piece keeps is kept by the block.\<close>

definition keeps :: "('s \<Rightarrow> bool) \<Rightarrow> ('s, 'a) script \<Rightarrow> bool" where
  "keeps I m \<longleftrightarrow> (\<forall>s. I s \<longrightarrow> I (snd (m s)))"

lemma keepsD: "keeps I m \<Longrightarrow> I s \<Longrightarrow> I (snd (m s))"
  by (simp add: keeps_def)

lemma keeps_jret [intro]: "keeps I (jret x)"
  by (simp add: keeps_def)

lemma keeps_jthrow [intro]: "keeps I (jthrow e)"
  by (simp add: keeps_def)

lemma keeps_jget [intro]: "keeps I (jget f)"
  by (simp add: keeps_def)

lemma keeps_of_option [intro]: "keeps I (of_option e x)"
  by (cases x) (simp_all add: keeps_def)

lemma keeps_jmod [intro]: "(\<And>s. I s \<Longrightarrow> I (f s)) \<Longrightarrow> keeps I (jmod f)"
  by (simp add: keeps_def)

lemma keeps_jwhen [intro]: "(b \<Longrightarrow> keeps I m) \<Longrightarrow> keeps I (jwhen b m)"
  by (simp add: jwhen_def keeps_jret)

lemma keeps_jbind [intro]:
  assumes "keeps I m" and "\<And>x. keeps I (f x)"
  shows "keeps I (jbind m f)"
  unfolding keeps_def
proof (intro allI impI)
  fix s assume "I s"
  with assms(1) have "I (snd (m s))" by (rule keepsD)
  then show "I (snd (jbind m f s))"
    by (cases "m s"; cases "fst (m s)") (auto simp: run_jbind intro: keepsD [OF assms(2)])
qed

lemma keeps_if [intro]:
  "(b \<Longrightarrow> keeps I m) \<Longrightarrow> (\<not> b \<Longrightarrow> keeps I n) \<Longrightarrow> keeps I (if b then m else n)"
  by simp

lemma keeps_block [intro]: "(\<And>m. m \<in> set ms \<Longrightarrow> keeps I m) \<Longrightarrow> keeps I (block ms)"
  by (induction ms) auto

lemma keeps_for_each [intro]:
  "(\<And>x. x \<in> set xs \<Longrightarrow> keeps I (f x)) \<Longrightarrow> keeps I (for_each f xs)"
  by (induction xs) auto

text \<open>
  Total correctness: from a state of the invariant the script returns a value and the
  invariant holds again.
\<close>

definition safe :: "('s \<Rightarrow> bool) \<Rightarrow> ('s, 'a) script \<Rightarrow> bool" where
  "safe I m \<longleftrightarrow> (\<forall>s. I s \<longrightarrow> (\<exists>x s'. m s = (Inr x, s') \<and> I s'))"

lemma safeD: "safe I m \<Longrightarrow> I s \<Longrightarrow> \<exists>x s'. m s = (Inr x, s') \<and> I s'"
  by (simp add: safe_def)

lemma safe_jret: "safe I (jret x)"
  by (simp add: safe_def)

lemma safe_jget: "safe I (jget f)"
  by (simp add: safe_def)

lemma safe_jmod: "(\<And>s. I s \<Longrightarrow> I (f s)) \<Longrightarrow> safe I (jmod f)"
  by (simp add: safe_def)

lemma safe_jbind:
  assumes "safe I m" "\<And>x. safe I (f x)"
  shows "safe I (jbind m f)"
  unfolding safe_def
proof (intro allI impI)
  fix s assume "I s"
  from safeD [OF assms(1) this] obtain x s' where "m s = (Inr x, s')" "I s'" by blast
  with safeD [OF assms(2) \<open>I s'\<close>, of x]
  show "\<exists>y s''. jbind m f s = (Inr y, s'') \<and> I s''" by (simp add: run_jbind_Inr)
qed

lemma safe_jget_bind:
  \<comment> \<open>the continuation may use what the read value says of the state\<close>
  assumes "\<And>s. I s \<Longrightarrow> \<exists>x s'. f (g s) s = (Inr x, s') \<and> I s'"
  shows "safe I (jbind (jget g) f)"
  using assms by (simp add: safe_def run_jbind)

lemma safe_jwhen: "safe I m \<Longrightarrow> safe I (jwhen b m)"
  by (simp add: jwhen_def safe_jret)

lemma safe_if: "safe I m \<Longrightarrow> safe I n \<Longrightarrow> safe I (if b then m else n)"
  by simp

lemma safe_block_Nil: "safe I (block [])"
  by (simp add: safe_jret)

lemma safe_block_Cons: "safe I m \<Longrightarrow> safe I (block ms) \<Longrightarrow> safe I (block (m # ms))"
  by (simp add: safe_jbind)

lemmas safe_blocks = safe_block_Nil safe_block_Cons
lemmas safe_intros = safe_jbind safe_jret safe_jget safe_jwhen safe_if

section \<open>Stores of cells\<close>

text \<open>
  The contract of anything that maps references to mutable cells: a write changes the
  cell it names and no other. The consequences for sequences of writes are proved once
  here and used for documents.
\<close>

locale cell_store =
  fixes read :: "'s \<Rightarrow> 'k \<Rightarrow> 'v option"
    and modify :: "'s \<Rightarrow> 'k \<Rightarrow> ('v \<Rightarrow> 'v) \<Rightarrow> 's"
  assumes read_write:
    "read (modify s k f) k' = (if k' = k then map_option f (read s k') else read s k')"
begin

definition writes :: "('k \<times> ('v \<Rightarrow> 'v)) list \<Rightarrow> 's \<Rightarrow> 's" where
  "writes us s = fold (\<lambda>(k, f) s. modify s k f) us s"

lemma writes_Nil [simp]: "writes [] s = s"
  by (simp add: writes_def)

lemma writes_Cons [simp]: "writes ((k, f) # us) s = writes us (modify s k f)"
  by (simp add: writes_def)

lemma read_writes_other: "k \<notin> fst ` set us \<Longrightarrow> read (writes us s) k = read s k"
  by (induction us arbitrary: s) (auto simp: read_write)

lemma read_writes_once:
  assumes "distinct (map fst us)" "(k, f) \<in> set us"
  shows "read (writes us s) k = map_option f (read s k)"
  using assms
proof (induction us arbitrary: s)
  case (Cons u us)
  obtain k' f' where u: "u = (k', f')" by (cases u)
  show ?case
  proof (cases "k' = k")
    case True
    then have "k \<notin> fst ` set us" and "f' = f" using Cons.prems u
      by (auto simp: image_iff)
    then show ?thesis
      using u True by (simp add: read_writes_other read_write)
  next
    case False
    then have "(k, f) \<in> set us" using Cons.prems u by auto
    with Cons.IH Cons.prems u False show ?thesis by (simp add: read_write)
  qed
qed simp

lemma read_write_Some:
  "read (modify s k f) k' = Some v \<Longrightarrow> \<exists>v'. read s k' = Some v'"
  by (auto simp: read_write split: if_splits)

end

end
