(* ===== verification/JS_Strings.thy ===== *)
theory JS_Strings
  imports JS_Prelude
begin

text \<open>
  The string conversions of the JavaScript library that the scripts rely on: number to
  string in radix 10 and 16, \<open>escape\<close> and \<open>unescape\<close> (ECMA-262, annex B), letter case,
  the comparison \<open><=\<close> of strings and the regular-expression replacements of blanks.
  The round trip of \<open>escape\<close> and the injectivity of the conversions are what the search
  components rest on.
\<close>

section \<open>Numbers as strings\<close>

definition hexlo :: "nat \<Rightarrow> cu" where
  "hexlo n = word_of_nat (if n < 10 then 48 + n else 87 + n)"

definition hexup :: "nat \<Rightarrow> cu" where
  "hexup n = word_of_nat (if n < 10 then 48 + n else 55 + n)"

definition hexval :: "cu \<Rightarrow> nat option" where
  "hexval c = (let n = unat c in
     if 48 \<le> n \<and> n \<le> 57 then Some (n - 48)
     else if 65 \<le> n \<and> n \<le> 70 then Some (n - 55)
     else if 97 \<le> n \<and> n \<le> 102 then Some (n - 87)
     else None)"

lemma unat_hexlo: "n < 16 \<Longrightarrow> unat (hexlo n) = (if n < 10 then 48 + n else 87 + n)"
  by (simp add: hexlo_def unsigned_of_nat take_bit_eq_mod)

lemma unat_hexup: "n < 16 \<Longrightarrow> unat (hexup n) = (if n < 10 then 48 + n else 55 + n)"
  by (simp add: hexup_def unsigned_of_nat take_bit_eq_mod)

lemma hexval_hexlo [simp]: "n < 16 \<Longrightarrow> hexval (hexlo n) = Some n"
  by (auto simp: hexval_def unat_hexlo Let_def)

lemma hexval_hexup [simp]: "n < 16 \<Longrightarrow> hexval (hexup n) = Some n"
  by (auto simp: hexval_def unat_hexup Let_def)

lemma hexlo_inj: "m < 16 \<Longrightarrow> n < 16 \<Longrightarrow> hexlo m = hexlo n \<longleftrightarrow> m = n"
  by (metis hexval_hexlo option.inject)

fun toString16 :: "nat \<Rightarrow> jstr" where
  "toString16 n = (if n < 16 then [hexlo n] else toString16 (n div 16) @ [hexlo (n mod 16)])"

declare toString16.simps [simp del]

definition digit :: "nat \<Rightarrow> cu" where
  "digit n = word_of_nat (48 + n)"

fun nat_str :: "nat \<Rightarrow> jstr" where
  "nat_str n = (if n < 10 then [digit n] else nat_str (n div 10) @ [digit (n mod 10)])"

declare nat_str.simps [simp del]

definition num_str :: "int \<Rightarrow> jstr" where
  "num_str i = (if i < 0 then js ''-'' @ nat_str (nat (- i)) else nat_str (nat i))"

lemma unat_digit: "n < 10 \<Longrightarrow> unat (digit n) = 48 + n"
  unfolding digit_def unsigned_of_nat by (simp add: take_bit_eq_mod)

lemma digit_inj: "m < 10 \<Longrightarrow> n < 10 \<Longrightarrow> digit m = digit n \<longleftrightarrow> m = n"
  by (metis add_left_cancel unat_digit)

lemma nat_str_nonempty [simp]: "nat_str n \<noteq> []"
  by (subst nat_str.simps) simp

lemma toString16_nonempty [simp]: "toString16 n \<noteq> []"
  by (subst toString16.simps) simp

lemma nat_str_step: "10 \<le> n \<Longrightarrow> nat_str n = nat_str (n div 10) @ [digit (n mod 10)]"
  by (subst nat_str.simps) simp

lemma nat_str_small: "n < 10 \<Longrightarrow> nat_str n = [digit n]"
  by (subst nat_str.simps) simp

lemma nat_str_digits: "c \<in> set (nat_str n) \<Longrightarrow> 48 \<le> unat c \<and> unat c \<le> 57"
proof (induction n rule: nat_str.induct)
  case (1 n)
  show ?case
  proof (cases "n < 10")
    case True
    with "1.prems" show ?thesis by (simp add: nat_str_small unat_digit)
  next
    case False
    with "1.prems" consider "c \<in> set (nat_str (n div 10))" | "c = digit (n mod 10)"
      by (auto simp: nat_str_step)
    then show ?thesis
    proof cases
      case 1
      with "1.IH" [OF False] show ?thesis by simp
    next
      case 2
      then show ?thesis by (simp add: unat_digit)
    qed
  qed
qed

lemma nat_str_length: "length (nat_str n) = 1 \<longleftrightarrow> n < 10"
proof (cases "n < 10")
  case False
  then have "length (nat_str n) = Suc (length (nat_str (n div 10)))"
    by (simp add: nat_str_step)
  with False show ?thesis by simp
qed (simp add: nat_str_small)

lemma nat_str_inj: "nat_str m = nat_str n \<longleftrightarrow> m = n"
proof
  assume "nat_str m = nat_str n"
  then show "m = n"
  proof (induction m arbitrary: n rule: nat_str.induct)
    case (1 m)
    have same: "m < 10 \<longleftrightarrow> n < 10"
      using "1.prems" nat_str_length [of m] nat_str_length [of n] by simp
    show ?case
    proof (cases "m < 10")
      case True
      with same "1.prems" show ?thesis by (simp add: nat_str_small digit_inj)
    next
      case False
      with same "1.prems" have "nat_str (m div 10) = nat_str (n div 10)"
        and d: "digit (m mod 10) = digit (n mod 10)"
        by (simp_all add: nat_str_step)
      with "1.IH" [OF False] have "m div 10 = n div 10" by blast
      moreover from d have "m mod 10 = n mod 10" by (simp add: digit_inj)
      ultimately show ?thesis by (metis div_mult_mod_eq)
    qed
  qed
qed simp

lemma num_str_inj [simp]: "num_str i = num_str j \<longleftrightarrow> i = j"
proof -
  have minus: "nat_str m \<noteq> js ''-'' @ x" for m x
  proof
    assume "nat_str m = js ''-'' @ x"
    then have "cu_of (CHR ''-'') \<in> set (nat_str m)" by (simp add: js_Cons)
    from nat_str_digits [OF this] show False by simp
  qed
  show ?thesis
    using minus [symmetric] minus
    by (auto simp: num_str_def nat_str_inj)
qed

lemma num_str_of_nat: "num_str (int n) = nat_str n"
  by (simp add: num_str_def)

section \<open>escape and unescape\<close>

text \<open>
  \<open>escape\<close> keeps ASCII letters, digits and \<open>@*_+-./\<close>; a code unit below 256 becomes
  \<open>%XX\<close> and any other \<open>%uXXXX\<close>, in upper-case hexadecimal.
\<close>

definition escape_safe :: "cu \<Rightarrow> bool" where
  "escape_safe c = (let n = unat c in
     (65 \<le> n \<and> n \<le> 90) \<or> (97 \<le> n \<and> n \<le> 122) \<or> (48 \<le> n \<and> n \<le> 57) \<or>
     n \<in> {64, 42, 95, 43, 45, 46, 47})"

definition escape_cu :: "cu \<Rightarrow> jstr" where
  "escape_cu c = (let n = unat c in
     if escape_safe c then [c]
     else if n < 256 then js ''%'' @ [hexup (n div 16), hexup (n mod 16)]
     else js ''%u'' @ [hexup (n div 4096), hexup (n div 256 mod 16),
                       hexup (n div 16 mod 16), hexup (n mod 16)])"

definition escape :: "jstr \<Rightarrow> jstr" where
  "escape s = concat (map escape_cu s)"

text \<open>
  \<open>unescape\<close> reads \<open>%uXXXX\<close> and \<open>%XX\<close> and leaves every other code unit, a \<open>%\<close> that
  starts neither included, as it is.
\<close>

definition hex2 :: "cu \<Rightarrow> cu \<Rightarrow> nat option" where
  "hex2 a b = (case (hexval a, hexval b) of
     (Some x, Some y) \<Rightarrow> Some (x * 16 + y) | _ \<Rightarrow> None)"

definition hex4 :: "cu \<Rightarrow> cu \<Rightarrow> cu \<Rightarrow> cu \<Rightarrow> nat option" where
  "hex4 a b c d = (case (hex2 a b, hex2 c d) of
     (Some x, Some y) \<Rightarrow> Some (x * 256 + y) | _ \<Rightarrow> None)"

definition read_esc :: "jstr \<Rightarrow> (nat \<times> nat) option" where
  \<comment> \<open>the text after a \<open>%\<close>: code unit value and number of code units it takes\<close>
  "read_esc s = (case s of
      a # b # c # d # e # _ \<Rightarrow>
        (case (if a = cu_of (CHR ''u'') then hex4 b c d e else None) of
           Some n \<Rightarrow> Some (n, 5)
         | None \<Rightarrow> map_option (\<lambda>n. (n, 2)) (hex2 a b))
    | a # b # _ \<Rightarrow> map_option (\<lambda>n. (n, 2)) (hex2 a b)
    | _ \<Rightarrow> None)"

function unescape :: "jstr \<Rightarrow> jstr" where
  "unescape [] = []"
| "unescape (c # s) =
     (if c = cu_of (CHR ''%'')
      then case read_esc s of
             Some (n, k) \<Rightarrow> word_of_nat n # unescape (drop k s)
           | None \<Rightarrow> c # unescape s
      else c # unescape s)"
  by pat_completeness auto
termination
  by (relation "measure length") auto

lemma hex2_up [simp]: "m < 16 \<Longrightarrow> n < 16 \<Longrightarrow> hex2 (hexup m) (hexup n) = Some (m * 16 + n)"
  by (simp add: hex2_def)

lemma hex2_u: "hex2 (cu_of (CHR ''u'')) x = None"
  by (simp add: hex2_def hexval_def Let_def)

lemma hexup_not_u: "n < 16 \<Longrightarrow> hexup n \<noteq> cu_of (CHR ''u'')"
  by (metis hexval_hexup hex2_up hex2_u option.distinct(1))

lemma read_esc_2:
  "m < 16 \<Longrightarrow> n < 16 \<Longrightarrow> read_esc (hexup m # hexup n # s) = Some (m * 16 + n, 2)"
  by (auto simp: read_esc_def hexup_not_u split: list.split)

lemma read_esc_4:
  assumes "a < 16" "b < 16" "c < 16" "d < 16"
  shows "read_esc (cu_of (CHR ''u'') # hexup a # hexup b # hexup c # hexup d # s)
         = Some ((a * 16 + b) * 256 + (c * 16 + d), 5)"
  using assms by (simp add: read_esc_def hex4_def)

lemma recombine4:
  fixes n :: nat
  assumes "n = q * 16 + r" "q = q2 * 16 + r2" "q2 = q3 * 16 + r3"
  shows "(q3 * 16 + r3) * 256 + (r2 * 16 + r) = n"
  using assms by simp

lemma cu_split4:
  fixes n :: nat
  shows "(n div 4096 * 16 + n div 256 mod 16) * 256 + (n div 16 mod 16 * 16 + n mod 16) = n"
proof (rule recombine4)
  show "n = n div 16 * 16 + n mod 16" by simp
  show "n div 16 = n div 256 * 16 + n div 16 mod 16"
    using div_mult_mod_eq [of "n div 16" 16] by (simp flip: div_mult2_eq)
  show "n div 256 = n div 4096 * 16 + n div 256 mod 16"
    using div_mult_mod_eq [of "n div 256" 16] by (simp flip: div_mult2_eq)
qed

lemma unescape_escape_cu: "unescape (escape_cu c @ s) = c # unescape s"
proof -
  let ?n = "unat c"
  have n: "?n < 65536" using unsigned_less [of c] by simp
  have not_pct: "c \<noteq> cu_of (CHR ''%'')" if "escape_safe c"
    using that by (auto simp: escape_safe_def Let_def)
  consider "escape_safe c" | "\<not> escape_safe c" "?n < 256" | "\<not> escape_safe c" "256 \<le> ?n"
    by linarith
  then show ?thesis
  proof cases
    case 1
    with not_pct show ?thesis by (simp add: escape_cu_def Let_def)
  next
    case 2
    then have "read_esc (hexup (?n div 16) # hexup (?n mod 16) # s) = Some (?n, 2)"
      using read_esc_2 [of "?n div 16" "?n mod 16" s] by simp
    with 2 show ?thesis by (simp add: escape_cu_def Let_def js_Cons)
  next
    case 3
    have "?n div 4096 < 16" using n by simp
    then have "read_esc (cu_of (CHR ''u'') # hexup (?n div 4096) # hexup (?n div 256 mod 16)
        # hexup (?n div 16 mod 16) # hexup (?n mod 16) # s) = Some (?n, 5)"
      using read_esc_4 [of "?n div 4096" "?n div 256 mod 16" "?n div 16 mod 16" "?n mod 16" s]
      by (simp only: cu_split4)
    with 3 show ?thesis
      by (simp add: escape_cu_def Let_def js_Cons)
  qed
qed

lemma unescape_escape_append: "unescape (escape s @ t) = s @ unescape t"
  by (induction s) (simp_all add: escape_def unescape_escape_cu)

lemma unescape_escape [simp]: "unescape (escape s) = s"
  using unescape_escape_append [of s "[]"] by simp

section \<open>Letter case\<close>

text \<open>
  \<open>toLowerCase\<close> of an all-ASCII string maps \<open>A\<close>--\<open>Z\<close> to \<open>a\<close>--\<open>z\<close>. For other strings
  the engine applies the Unicode tables (which are neither part of the scripts nor of the
  pages), so they are the parameter \<open>U\<close>.
\<close>

definition lower_cu :: "cu \<Rightarrow> cu" where
  "lower_cu c = (if 65 \<le> unat c \<and> unat c \<le> 90 then c + 32 else c)"

definition is_ascii :: "jstr \<Rightarrow> bool" where
  "is_ascii s = list_all (\<lambda>c. unat c < 128) s"

definition toLowerCase :: "(jstr \<Rightarrow> jstr) \<Rightarrow> jstr \<Rightarrow> jstr" where
  "toLowerCase U s = (if is_ascii s then map lower_cu s else U s)"

lemma unat_lower_cu:
  "unat (lower_cu c) = (if 65 \<le> unat c \<and> unat c \<le> 90 then unat c + 32 else unat c)"
  by (simp add: lower_cu_def unat_word_ariths)

lemma lower_cu_idem [simp]: "lower_cu (lower_cu c) = lower_cu c"
  unfolding lower_cu_def [of "lower_cu c"] by (auto simp: unat_lower_cu split: if_splits)

lemma is_ascii_lower [simp]: "is_ascii (map lower_cu s) \<longleftrightarrow> is_ascii s"
  by (induction s) (auto simp: is_ascii_def unat_lower_cu)

lemma toLowerCase_idem: "is_ascii s \<Longrightarrow> toLowerCase U (toLowerCase U s) = toLowerCase U s"
  by (simp add: toLowerCase_def comp_def)

lemma is_ascii_append [simp]: "is_ascii (s @ t) \<longleftrightarrow> is_ascii s \<and> is_ascii t"
  by (auto simp: is_ascii_def)

lemma is_ascii_Nil [simp]: "is_ascii []"
  by (simp add: is_ascii_def)

lemma is_ascii_Cons: "is_ascii (c # s) \<longleftrightarrow> unat c < 128 \<and> is_ascii s"
  by (simp add: is_ascii_def)

section \<open>Blanks\<close>

text \<open>
  The three replacements of blanks: \<open>/ +/g\<close> (every blank), \<open>/^ +/\<close> (leading) and
  \<open>/ +$/\<close> (trailing), each with the empty string.
\<close>

abbreviation blank :: cu where
  "blank \<equiv> cu_of (CHR '' '')"

definition remove_blanks :: "jstr \<Rightarrow> jstr" where
  "remove_blanks s = filter (\<lambda>c. c \<noteq> blank) s"

definition strip_leading :: "jstr \<Rightarrow> jstr" where
  "strip_leading s = dropWhile (\<lambda>c. c = blank) s"

definition strip_trailing :: "jstr \<Rightarrow> jstr" where
  "strip_trailing s = rev (dropWhile (\<lambda>c. c = blank) (rev s))"

lemma remove_blanks_eq_Nil: "remove_blanks s = [] \<longleftrightarrow> strip_leading s = []"
  by (simp add: remove_blanks_def strip_leading_def filter_empty_conv dropWhile_eq_Nil_conv)

lemma strip_leading_hd: "strip_leading s \<noteq> [] \<Longrightarrow> hd (strip_leading s) \<noteq> blank"
  unfolding strip_leading_def by (rule hd_dropWhile)

section \<open>Comparison\<close>

text \<open>\<open>s <= t\<close> on strings compares code units lexicographically.\<close>

fun str_le :: "jstr \<Rightarrow> jstr \<Rightarrow> bool" where
  "str_le [] t = True"
| "str_le (c # s) [] = False"
| "str_le (c # s) (d # t) = (c < d \<or> (c = d \<and> str_le s t))"

lemma str_le_refl [simp]: "str_le s s"
  by (induction s) auto

lemma str_le_total: "str_le s t \<or> str_le t s"
  by (induction s t rule: str_le.induct) auto

lemma str_le_antisym: "str_le s t \<Longrightarrow> str_le t s \<Longrightarrow> s = t"
proof (induction s t rule: str_le.induct)
  case (1 t)
  then show ?case by (cases t) auto
qed auto

lemma str_le_trans: "str_le s t \<Longrightarrow> str_le t u \<Longrightarrow> str_le s u"
proof (induction s t arbitrary: u rule: str_le.induct)
  case (3 c s d t)
  then show ?case by (cases u) auto
qed auto

section \<open>Literals\<close>

text \<open>The conversions on ASCII literals, computed on the literal.\<close>

definition char_lower :: "char \<Rightarrow> char" where
  "char_lower c = (if 65 \<le> (of_char c :: nat) \<and> (of_char c :: nat) \<le> 90
     then char_of (of_char c + 32 :: nat) else c)"

lemma lower_cu_of: "lower_cu (cu_of c) = cu_of (char_lower c)"
proof (cases "65 \<le> (of_char c :: nat) \<and> (of_char c :: nat) \<le> 90")
  case True
  then have "unat (lower_cu (cu_of c)) = unat (cu_of (char_lower c))"
    by (simp add: unat_lower_cu char_lower_def)
  then show ?thesis by (rule unsigned_word_eqI)
qed (auto simp: lower_cu_def char_lower_def)

lemma toLowerCase_js [js_string]:
  "list_all (\<lambda>c. of_char c < (128 :: nat)) s \<Longrightarrow> toLowerCase U (js s) = js (map char_lower s)"
  by (simp add: toLowerCase_def is_ascii_def js_def lower_cu_of list_all_iff)

lemma substr_js [js_string]: "substr (js s) i n = js (take n (drop i s))"
  by (simp add: substr_def js_def take_map drop_map)

lemma remove_blanks_js [js_string]: "remove_blanks (js s) = js (filter (\<lambda>c. c \<noteq> CHR '' '') s)"
  by (simp add: remove_blanks_def js_def filter_map comp_def)

lemma strip_leading_js [js_string]: "strip_leading (js s) = js (dropWhile (\<lambda>c. c = CHR '' '') s)"
  by (simp add: strip_leading_def js_def dropWhile_map comp_def)

lemma strip_trailing_js [js_string]:
  "strip_trailing (js s) = js (rev (dropWhile (\<lambda>c. c = CHR '' '') (rev s)))"
  by (simp add: strip_trailing_def js_def dropWhile_map comp_def rev_map)

lemma prefix_js [js_string]: "prefix (js s) (js t) \<longleftrightarrow> prefix s t"
proof
  assume "prefix (js s) (js t)"
  then have "prefix (js s) (map cu_of t)" by (simp add: js_def)
  then obtain u where "prefix u t" "js s = map cu_of u" by (blast dest: prefix_map_rightE)
  then show "prefix s t" by (metis js_def js_inj)
qed (simp add: js_def map_mono_prefix)

lemma indexOf_js [js_string]:
  "indexOf (js s) (js p) = indexOf_from 0 (js s) (js p)"
  "indexOf_from k (js (c # s)) (js p) =
     (if prefix p (c # s) then int k else indexOf_from (Suc k) (js s) (js p))"
  "indexOf_from k (js []) (js p) = (if p = [] then int k else -1)"
  by (simp_all add: indexOf_def js_Cons prefix_js [of p "c # s", unfolded js_Cons])

section \<open>Cutting at a mark\<close>

lemma cut_at:
  "c \<notin> set u \<Longrightarrow> c \<notin> set u' \<Longrightarrow> u @ c # a = u' @ c # b \<Longrightarrow> u = u' \<and> a = b"
proof (induction u arbitrary: u')
  case Nil
  then show ?case by (cases u') auto
next
  case (Cons x u)
  then show ?case by (cases u') auto
qed

end
