(* ===== verification/DOM.thy ===== *)
theory DOM
  imports JS_Strings
begin

text \<open>
  The part of the document object model the scripts use. A document is a tree of nodes
  with an identity each (the reference a script holds), together with the trees that
  have been created but not attached yet. Nodes carry attributes (\<open>id\<close> and \<open>class\<close>
  are attributes, as \<open>setAttribute\<close> makes them), an inline style, the text last
  assigned to \<open>innerHTML\<close> and the value of an input field. Layout is computed by the
  browser and enters as a parameter (\<open>geometry\<close>).
\<close>

section \<open>Nodes, trees, documents\<close>

record node =
  tag :: string  \<comment> \<open>\<open>nodeName.toLowerCase()\<close>; \<open>#text\<close> for a text node\<close>
  attrs :: "string \<Rightarrow> jstr option"
  style :: "string \<Rightarrow> jstr"
  html :: jstr
  val :: jstr

datatype dtree = DT (dkey: nat) (dnode: node) (kids: "dtree list")

record document =
  root :: dtree
  loose :: "dtree list"
  fresh :: nat
  focused :: "nat option"

definition new_node :: "string \<Rightarrow> node" where
  "new_node t = \<lparr>tag = t, attrs = Map.empty, style = (\<lambda>_. []), html = [], val = []\<rparr>"

abbreviation idAttr :: "node \<Rightarrow> jstr option" where
  "idAttr n \<equiv> attrs n ''id''"

definition className :: "node \<Rightarrow> jstr" where
  "className n = (case attrs n ''class'' of None \<Rightarrow> [] | Some c \<Rightarrow> c)"

text \<open>All subtrees in document order (preorder).\<close>

fun subtrees :: "dtree \<Rightarrow> dtree list" where
  "subtrees (DT k n ts) = DT k n ts # concat (map subtrees ts)"

definition forest :: "dtree list \<Rightarrow> dtree list" where
  "forest ts = concat (map subtrees ts)"

definition all_trees :: "document \<Rightarrow> dtree list" where
  "all_trees d = forest (root d # loose d)"

definition keys :: "dtree list \<Rightarrow> nat list" where
  "keys ts = map dkey (forest ts)"

definition wf_doc :: "document \<Rightarrow> bool" where
  "wf_doc d \<longleftrightarrow> distinct (keys (root d # loose d)) \<and>
     (\<forall>k \<in> set (keys (root d # loose d)). k < fresh d)"

section \<open>Reading\<close>

definition tree_at :: "document \<Rightarrow> nat \<Rightarrow> dtree option" where
  "tree_at d k = find (\<lambda>t. dkey t = k) (all_trees d)"

definition node_at :: "document \<Rightarrow> nat \<Rightarrow> node option" where
  "node_at d k = map_option dnode (tree_at d k)"

definition getElementById :: "document \<Rightarrow> jstr \<Rightarrow> nat option" where
  "getElementById d i =
     (if i = [] then None
      else map_option dkey (find (\<lambda>t. idAttr (dnode t) = Some i) (subtrees (root d))))"

definition getElementsByTagName :: "document \<Rightarrow> string \<Rightarrow> nat list" where
  "getElementsByTagName d t = map dkey (filter (\<lambda>x. tag (dnode x) = t) (subtrees (root d)))"

definition childNodes :: "document \<Rightarrow> nat \<Rightarrow> nat list" where
  "childNodes d k = (case tree_at d k of None \<Rightarrow> [] | Some t \<Rightarrow> map dkey (kids t))"

definition firstChild :: "document \<Rightarrow> nat \<Rightarrow> nat option" where
  "firstChild d k = (case childNodes d k of [] \<Rightarrow> None | c # _ \<Rightarrow> Some c)"

definition parentNode :: "document \<Rightarrow> nat \<Rightarrow> nat option" where
  "parentNode d k =
     map_option dkey (find (\<lambda>t. k \<in> set (map dkey (kids t))) (all_trees d))"

fun next_after :: "nat \<Rightarrow> nat list \<Rightarrow> nat option" where
  "next_after k [] = None"
| "next_after k (x # xs) =
     (if x = k then (case xs of [] \<Rightarrow> None | y # _ \<Rightarrow> Some y) else next_after k xs)"

definition nextSibling :: "document \<Rightarrow> nat \<Rightarrow> nat option" where
  "nextSibling d k =
     (case parentNode d k of None \<Rightarrow> None | Some p \<Rightarrow> next_after k (childNodes d p))"

section \<open>Changing\<close>

fun upd_tree :: "nat \<Rightarrow> (node \<Rightarrow> node) \<Rightarrow> dtree \<Rightarrow> dtree" where
  "upd_tree k f (DT k' n ts) = DT k' (if k' = k then f n else n) (map (upd_tree k f) ts)"

definition upd_node :: "document \<Rightarrow> nat \<Rightarrow> (node \<Rightarrow> node) \<Rightarrow> document" where
  "upd_node d k f =
     d\<lparr>root := upd_tree k f (root d), loose := map (upd_tree k f) (loose d)\<rparr>"

definition createElement :: "string \<Rightarrow> document \<Rightarrow> nat \<times> document" where
  "createElement t d =
     (fresh d, d\<lparr>loose := loose d @ [DT (fresh d) (new_node t) []], fresh := Suc (fresh d)\<rparr>)"

fun remove_tree :: "nat \<Rightarrow> dtree \<Rightarrow> dtree" where
  "remove_tree c (DT k n ts) = DT k n (map (remove_tree c) (filter (\<lambda>t. dkey t \<noteq> c) ts))"

fun insert_last :: "nat \<Rightarrow> dtree \<Rightarrow> dtree \<Rightarrow> dtree" where
  "insert_last p t (DT k n ts) =
     DT k n (map (insert_last p t) ts @ (if k = p then [t] else []))"

text \<open>
  \<open>p.appendChild(c)\<close>: the tree of \<open>c\<close> leaves the place it has and becomes the last
  child of \<open>p\<close>. Appending a node into its own subtree is refused.
\<close>

definition appendChild :: "nat \<Rightarrow> nat \<Rightarrow> document \<Rightarrow> (js_error + unit) \<times> document" where
  "appendChild p c d =
     (case tree_at d c of
        None \<Rightarrow> (Inl TypeError, d)
      | Some t \<Rightarrow>
          if p \<in> set (keys [t]) then (Inl DOMException, d)
          else (Inr (),
            d\<lparr>root := insert_last p t (remove_tree c (root d)),
              loose := map (insert_last p t)
                (map (remove_tree c) (filter (\<lambda>u. dkey u \<noteq> c) (loose d)))\<rparr>))"

definition set_attr :: "string \<Rightarrow> jstr \<Rightarrow> node \<Rightarrow> node" where
  "set_attr a v n = n\<lparr>attrs := (attrs n)(a \<mapsto> v)\<rparr>"

definition set_style :: "string \<Rightarrow> jstr \<Rightarrow> node \<Rightarrow> node" where
  "set_style p v n = n\<lparr>style := (style n)(p := v)\<rparr>"

definition set_html :: "jstr \<Rightarrow> node \<Rightarrow> node" where
  "set_html v n = n\<lparr>html := v\<rparr>"

definition set_val :: "jstr \<Rightarrow> node \<Rightarrow> node" where
  "set_val v n = n\<lparr>val := v\<rparr>"

section \<open>Layout\<close>

text \<open>The numbers the browser computes for a node, in CSS pixels.\<close>

record geometry =
  offsetWidth :: "nat \<Rightarrow> int"
  offsetHeight :: "nat \<Rightarrow> int"
  offsetLeft :: "nat \<Rightarrow> int"
  offsetTop :: "nat \<Rightarrow> int"
  offsetParent :: "nat \<Rightarrow> nat option"
  clientWidth :: "nat \<Rightarrow> int"

definition bodyNode :: "document \<Rightarrow> nat option" where
  "bodyNode d = map_option dkey (find (\<lambda>t. tag (dnode t) = ''body'') (subtrees (root d)))"

section \<open>Reading after an update\<close>

lemma forest_Nil [simp]: "forest [] = []"
  by (simp add: forest_def)

lemma forest_Cons: "forest (t # ts) = subtrees t @ forest ts"
  by (simp add: forest_def)

lemma forest_append: "forest (ts @ us) = forest ts @ forest us"
  by (simp add: forest_def)

lemma subtrees_forest: "subtrees (DT k n ts) = DT k n ts # forest ts"
  by (simp add: forest_def)

lemma keys_Nil [simp]: "keys [] = []"
  by (simp add: keys_def)

lemma keys_Cons: "keys (DT k n ts # us) = k # keys ts @ keys us"
  by (simp add: keys_def forest_Cons subtrees_forest del: subtrees.simps)

lemma keys_Cons': "keys (t # us) = dkey t # keys (kids t) @ keys us"
  by (cases t) (simp add: keys_Cons)

lemma keys_append: "keys (ts @ us) = keys ts @ keys us"
  by (simp add: keys_def forest_append)

lemma subtrees_upd: "subtrees (upd_tree k f t) = map (upd_tree k f) (subtrees t)"
proof (induction t)
  case (DT k' n ts)
  have "concat (map subtrees (map (upd_tree k f) ts)) = map (upd_tree k f) (concat (map subtrees ts))"
    using DT by (induction ts) auto
  then show ?case by simp
qed

lemma dkey_upd [simp]: "dkey (upd_tree k f t) = dkey t"
  by (cases t) simp

lemma dnode_upd: "dnode (upd_tree k f t) = (if dkey t = k then f (dnode t) else dnode t)"
  by (cases t) simp

lemma kids_upd: "kids (upd_tree k f t) = map (upd_tree k f) (kids t)"
  by (cases t) simp

lemma all_trees_upd: "all_trees (upd_node d k f) = map (upd_tree k f) (all_trees d)"
proof -
  have "forest (map (upd_tree k f) ts) = map (upd_tree k f) (forest ts)" for ts
    by (induction ts) (simp_all add: forest_Cons subtrees_upd)
  then show ?thesis
    by (simp add: all_trees_def upd_node_def forest_Cons subtrees_upd)
qed

lemma find_map: "find P (map f xs) = map_option f (find (P \<circ> f) xs)"
  by (induction xs) auto

lemma find_cong2: "(\<And>x. x \<in> set xs \<Longrightarrow> P x = Q x) \<Longrightarrow> find P xs = find Q xs"
  by (induction xs) auto

lemma tree_at_upd: "tree_at (upd_node d k f) k' = map_option (upd_tree k f) (tree_at d k')"
  by (simp add: tree_at_def all_trees_upd find_map comp_def)

lemma find_Some_P: "find P xs = Some x \<Longrightarrow> P x \<and> x \<in> set xs"
  by (induction xs) (auto split: if_splits)

lemma tree_at_dkey: "tree_at d k = Some t \<Longrightarrow> dkey t = k"
  by (auto simp: tree_at_def dest: find_Some_P)

lemma node_at_upd [dom_simps]:
  "node_at (upd_node d k f) k' =
     (if k' = k then map_option f (node_at d k') else node_at d k')"
  by (cases "tree_at d k'") (auto simp: node_at_def tree_at_upd dnode_upd dest: tree_at_dkey)

lemma root_upd: "root (upd_node d k f) = upd_tree k f (root d)"
  by (simp add: upd_node_def)

lemma getElementById_upd:
  assumes "\<And>n. idAttr (f n) = idAttr n"
  shows "getElementById (upd_node d k f) i = getElementById d i"
  using assms
  by (auto simp: getElementById_def root_upd subtrees_upd find_map comp_def dnode_upd
      option.map_comp intro!: arg_cong [where f = "map_option dkey"] find_cong2)

lemma childNodes_upd [dom_simps]: "childNodes (upd_node d k f) k' = childNodes d k'"
  by (auto simp: childNodes_def tree_at_upd kids_upd split: option.split)

lemma firstChild_upd [dom_simps]: "firstChild (upd_node d k f) k' = firstChild d k'"
  by (simp add: firstChild_def childNodes_upd)

lemma parentNode_upd [dom_simps]: "parentNode (upd_node d k f) k' = parentNode d k'"
  by (simp add: parentNode_def all_trees_upd find_map comp_def kids_upd option.map_comp image_image)

lemma nextSibling_upd [dom_simps]: "nextSibling (upd_node d k f) k' = nextSibling d k'"
  by (simp add: nextSibling_def parentNode_upd childNodes_upd split: option.split)

lemma wf_doc_upd [dom_simps]: "wf_doc (upd_node d k f) \<longleftrightarrow> wf_doc d"
proof -
  have "map dkey (all_trees (upd_node d k f)) = map dkey (all_trees d)"
    by (simp add: all_trees_upd)
  then have "keys (root (upd_node d k f) # loose (upd_node d k f)) = keys (root d # loose d)"
    by (simp only: keys_def all_trees_def)
  moreover have "fresh (upd_node d k f) = fresh d"
    by (simp add: upd_node_def)
  ultimately show ?thesis by (simp only: wf_doc_def)
qed

lemma focused_upd [dom_simps]: "focused (upd_node d k f) = focused d"
  by (simp add: upd_node_def)

lemma setters [simp]:
  "idAttr (set_style p v n) = idAttr n" "idAttr (set_html v n) = idAttr n"
  "idAttr (set_val v n) = idAttr n"
  "style (set_style p v n) = (style n)(p := v)" "style (set_html h n) = style n"
  "style (set_val w n) = style n" "style (set_attr a w n) = style n"
  "val (set_val v n) = v" "val (set_style p w n) = val n" "val (set_html h n) = val n"
  "val (set_attr a w n) = val n"
  "html (set_html h n) = h" "html (set_style p w n) = html n" "html (set_val w n) = html n"
  "html (set_attr a w n) = html n"
  "tag (set_style p v n) = tag n" "tag (set_html v n) = tag n" "tag (set_val v n) = tag n"
  "tag (set_attr a v n) = tag n"
  "attrs (set_attr a v n) = (attrs n)(a \<mapsto> v)" "attrs (set_style p v n) = attrs n"
  "attrs (set_html v n) = attrs n" "attrs (set_val v n) = attrs n"
  by (simp_all add: set_style_def set_html_def set_val_def set_attr_def)

lemma getElementById_setters [dom_simps]:
  "getElementById (upd_node d k (set_style p v)) i = getElementById d i"
  "getElementById (upd_node d k (set_html v)) i = getElementById d i"
  "getElementById (upd_node d k (set_val v)) i = getElementById d i"
  "a \<noteq> ''id'' \<Longrightarrow> getElementById (upd_node d k (set_attr a v)) i = getElementById d i"
  by (simp_all add: getElementById_upd)

lemma bodyNode_upd:
  assumes "\<And>n. tag (f n) = tag n"
  shows "bodyNode (upd_node d k f) = bodyNode d"
  using assms
  by (auto simp: bodyNode_def root_upd subtrees_upd find_map comp_def dnode_upd
      option.map_comp intro!: arg_cong [where f = "map_option dkey"] find_cong2)

lemma bodyNode_setters [dom_simps]:
  "bodyNode (upd_node d k (set_style p v)) = bodyNode d"
  "bodyNode (upd_node d k (set_html v)) = bodyNode d"
  "bodyNode (upd_node d k (set_val v)) = bodyNode d"
  "bodyNode (upd_node d k (set_attr a v)) = bodyNode d"
  by (simp_all add: bodyNode_upd)

lemma getElementById_node: "getElementById d i = Some k \<Longrightarrow> \<exists>n. node_at d k = Some n"
proof -
  assume "getElementById d i = Some k"
  then obtain t where "t \<in> set (subtrees (root d))" "dkey t = k"
    by (auto simp: getElementById_def dest!: find_Some_P split: if_splits)
  then have "t \<in> set (all_trees d)" by (simp add: all_trees_def forest_Cons)
  then have "tree_at d k \<noteq> None" using \<open>dkey t = k\<close>
    by (auto simp: tree_at_def find_None_iff)
  then show ?thesis by (auto simp: node_at_def)
qed

text \<open>The node with an \<open>id\<close>, and its inline \<open>display\<close>.\<close>

definition elemNode :: "document \<Rightarrow> jstr \<Rightarrow> node option" where
  "elemNode d i = (case getElementById d i of None \<Rightarrow> None | Some k \<Rightarrow> node_at d k)"

definition displayOf :: "document \<Rightarrow> jstr \<Rightarrow> jstr option" where
  "displayOf d i = map_option (\<lambda>n. style n ''display'') (elemNode d i)"

text \<open>A document is a store of nodes.\<close>

interpretation dom: cell_store node_at upd_node
  by unfold_locales (rule node_at_upd)

end
