(* ===== verification/Search_Box.thy ===== *)
theory Search_Box
  imports DOM
begin

text \<open>
  The search panel, class \<open>SearchBox\<close> of \<open>search.js\<close>: its instance variables, the event
  handlers of the search field and of the filter menu, the debounce timers, and the
  choice of the result page. The page is a document of theory DOM; \<open>site\<close> collects what
  the scripts get from elsewhere (the generated index tables, the browser's layout, and
  the Unicode and number-syntax tables of the engine).
\<close>

section \<open>State\<close>

record site =
  unicode_lower :: "jstr \<Rightarrow> jstr"
  number_gt_one :: "jstr \<Rightarrow> bool"
  layout :: "document \<Rightarrow> geometry"
  indexSectionsWithContent :: "jstr list"
  indexSectionNames :: "jstr list"
  indexSectionLabels :: "jstr list"

record search_box =
  boxName :: jstr
  resultsPath :: jstr
  keyTimeout :: nat
  keyTimeoutLength :: nat
  closeSelectionTimeout :: nat
  lastSearchValue :: jstr
  lastResultsPage :: jstr
  hideTimeout :: nat
  searchIndex :: int
  searchActive :: bool
  searchLabel :: jstr
  extension :: jstr

record search_results =
  lastMatchCount :: nat
  lastKey :: int
  repeatOn :: bool

text \<open>
  The browser window with the search panel and the results frame in it. A timer is its
  identifier (positive, as the platform gives them), the source text it runs and its
  delay.
\<close>

record world =
  box :: search_box
  page :: document
  timers :: "(nat \<times> jstr \<times> nat) list"
  nextTimer :: nat
  alerts :: "jstr list"
  frameLocation :: jstr
  frameMessages :: "jstr list"
  frame :: document
  results :: search_results

record key_event =
  keyCode :: int
  shiftKey :: bool

type_synonym 'a win = "(world, 'a) script"

abbreviation none_str :: jstr where "none_str \<equiv> js ''none''"
abbreviation block_str :: jstr where "block_str \<equiv> js ''block''"

section \<open>Page access\<close>

definition elem :: "jstr \<Rightarrow> nat win" where
  \<comment> \<open>\<open>document.getElementById(i)\<close>, used as an object\<close>
  "elem i = jbind (jget page) (\<lambda>d. of_option TypeError (getElementById d i))"

definition upd_page :: "nat \<Rightarrow> (node \<Rightarrow> node) \<Rightarrow> unit win" where
  "upd_page k f = jmod (\<lambda>w. w\<lparr>page := upd_node (page w) k f\<rparr>)"

definition page_node :: "nat \<Rightarrow> node win" where
  "page_node k = jbind (jget page) (\<lambda>d. of_option TypeError (node_at d k))"

definition upd_box :: "(search_box \<Rightarrow> search_box) \<Rightarrow> unit win" where
  "upd_box f = jmod (\<lambda>w. w\<lparr>box := f (box w)\<rparr>)"

definition set_display :: "jstr \<Rightarrow> jstr \<Rightarrow> unit win" where
  "set_display i v = jbind (elem i) (\<lambda>k. upd_page k (set_style ''display'' v))"

definition setTimeout :: "jstr \<Rightarrow> nat \<Rightarrow> nat win" where
  "setTimeout code ms =
     jbind (jget nextTimer) (\<lambda>t.
     jbind (jmod (\<lambda>w. w\<lparr>timers := timers w @ [(t, code, ms)], nextTimer := Suc t\<rparr>)) (\<lambda>_.
     jret t))"

definition clearTimeout :: "nat \<Rightarrow> unit win" where
  "clearTimeout t = jmod (\<lambda>w. w\<lparr>timers := filter (\<lambda>(i, _). i \<noteq> t) (timers w)\<rparr>)"

abbreviation MSearchField :: jstr where "MSearchField \<equiv> js ''MSearchField''"
abbreviation MSearchSelect :: jstr where "MSearchSelect \<equiv> js ''MSearchSelect''"
abbreviation MSearchSelectWindow :: jstr where "MSearchSelectWindow \<equiv> js ''MSearchSelectWindow''"
abbreviation MSearchResults :: jstr where "MSearchResults \<equiv> js ''MSearchResults''"
abbreviation MSearchResultsWindow :: jstr where "MSearchResultsWindow \<equiv> js ''MSearchResultsWindow''"
abbreviation MSearchClose :: jstr where "MSearchClose \<equiv> js ''MSearchClose''"
abbreviation MSearchBox :: jstr where "MSearchBox \<equiv> js ''MSearchBox''"

section \<open>Positions\<close>

text \<open>
  The loop of \<open>getXPos\<close> and \<open>getYPos\<close> up the chain of offset parents; \<open>None\<close> is the
  loop that does not end.
\<close>

partial_function (option) sumOffsets ::
  "(nat \<Rightarrow> int) \<Rightarrow> (nat \<Rightarrow> nat option) \<Rightarrow> nat option \<Rightarrow> int \<Rightarrow> nat option \<Rightarrow> int option" where
  "sumOffsets off par body x item =
     (case item of
        None \<Rightarrow> Some x
      | Some k \<Rightarrow> if Some k = body then Some x
                  else sumOffsets off par body (x + off k) (par k))"

definition getXPos :: "geometry \<Rightarrow> nat option \<Rightarrow> nat \<Rightarrow> int option" where
  "getXPos g body item =
     (if offsetWidth g item \<noteq> 0
      then sumOffsets (offsetLeft g) (offsetParent g) body 0 (Some item) else Some 0)"

definition getYPos :: "geometry \<Rightarrow> nat option \<Rightarrow> nat \<Rightarrow> int option" where
  "getYPos g body item =
     (if offsetWidth g item \<noteq> 0
      then sumOffsets (offsetTop g) (offsetParent g) body 0 (Some item) else Some 0)"

definition px :: "int \<Rightarrow> jstr" where
  "px n = num_str n @ js ''px''"

section \<open>Construction\<close>

definition SearchBox :: "jstr \<Rightarrow> jstr \<Rightarrow> jstr \<Rightarrow> jstr \<Rightarrow> jstr list \<times> search_box" where
  "SearchBox n path label ext =
     ((if n = [] \<or> path = [] then [js ''Missing parameters to SearchBox.''] else []),
      \<lparr>boxName = n, resultsPath = path, keyTimeout = 0, keyTimeoutLength = 500,
       closeSelectionTimeout = 300, lastSearchValue = [], lastResultsPage = [],
       hideTimeout = 0, searchIndex = 0, searchActive = False, searchLabel = label,
       extension = (if ext = [] then js ''.html'' else ext)\<rparr>)"

section \<open>Activation\<close>

definition Activate :: "bool \<Rightarrow> unit win" where
  "Activate isActive =
     jbind (if isActive then jret True
            else jbind (elem MSearchResultsWindow) (\<lambda>k.
                 jbind (page_node k) (\<lambda>n. jret (style n ''display'' = block_str)))) (\<lambda>open_it.
     if open_it then
       jbind (elem MSearchBox) (\<lambda>b.
       jbind (upd_page b (set_attr ''class'' (js ''MSearchBoxActive''))) (\<lambda>_.
       jbind (elem MSearchField) (\<lambda>f.
       jbind (page_node f) (\<lambda>n.
       jbind (jget (searchLabel \<circ> box)) (\<lambda>label.
       jwhen (val n = label)
         (block [upd_page f (set_val []),
                 upd_box (\<lambda>b. b\<lparr>searchActive := True\<rparr>)]))))))
     else
       jbind (elem MSearchBox) (\<lambda>b.
       jbind (upd_page b (set_attr ''class'' (js ''MSearchBoxInactive''))) (\<lambda>_.
       jbind (elem MSearchField) (\<lambda>f.
       jbind (jget (searchLabel \<circ> box)) (\<lambda>label.
       block [upd_page f (set_val label),
              upd_box (\<lambda>b. b\<lparr>searchActive := False, lastSearchValue := [],
                             lastResultsPage := []\<rparr>)])))))"

definition OnSearchFieldFocus :: "bool \<Rightarrow> unit win" where
  "OnSearchFieldFocus isActive = Activate isActive"

text \<open>
  Moving the focus runs the handlers that the search field carries in the page markup
  (\<open>onfocus\<close> and \<open>onblur\<close>, written by \<open>menu.js\<close>): losing the focus calls
  \<open>OnSearchFieldFocus(false)\<close>, gaining it \<open>OnSearchFieldFocus(true)\<close>.
\<close>

definition blurPage :: "unit win" where
  "blurPage =
     jbind (jget page) (\<lambda>d.
     jbind (jmod (\<lambda>w. w\<lparr>page := (page w)\<lparr>focused := None\<rparr>\<rparr>)) (\<lambda>_.
     jwhen (focused d \<noteq> None \<and> focused d = getElementById d MSearchField)
       (OnSearchFieldFocus False)))"

definition blurField :: "nat \<Rightarrow> unit win" where
  "blurField k = jbind (jget page) (\<lambda>d. jwhen (focused d = Some k) blurPage)"

definition focusNode :: "nat \<Rightarrow> unit win" where
  "focusNode k =
     jbind (jget page) (\<lambda>d.
     jwhen (focused d \<noteq> Some k)
       (block [blurPage,
               jmod (\<lambda>w. w\<lparr>page := (page w)\<lparr>focused := Some k\<rparr>\<rparr>),
               jwhen (getElementById d MSearchField = Some k) (OnSearchFieldFocus True)]))"

section \<open>The search\<close>

text \<open>
  The surrogate test compares the search text itself, not its length, with 1: the text
  is converted to a number. Texts with surrogates are no numbers; for the others the
  number syntax is \<open>number_gt_one\<close>.
\<close>

definition high_surrogate :: "cu \<Rightarrow> bool" where
  "high_surrogate c \<longleftrightarrow> 0xD800 \<le> unat c \<and> unat c \<le> 0xDBFF"

definition surrogate :: "cu \<Rightarrow> bool" where
  "surrogate c \<longleftrightarrow> 0xD800 \<le> unat c \<and> unat c \<le> 0xDFFF"

definition exceeds_one :: "site \<Rightarrow> jstr \<Rightarrow> bool" where
  "exceeds_one S s \<longleftrightarrow> list_all (\<lambda>c. \<not> surrogate c) s \<and> number_gt_one S s"

definition index_char :: "site \<Rightarrow> jstr \<Rightarrow> jstr" where
  "index_char S searchValue =
     (let low = toLowerCase (unicode_lower S) searchValue;
          idxChar = toLowerCase (unicode_lower S) (substr searchValue 0 1)
      in if (case low of [] \<Rightarrow> False | c # _ \<Rightarrow> high_surrogate c) \<and> exceeds_one S searchValue
         then substr searchValue 0 2 else idxChar)"

definition at :: "'a list \<Rightarrow> int \<Rightarrow> 'a option" where
  "at xs i = (if 0 \<le> i \<and> nat i < length xs then Some (xs ! nat i) else None)"

text \<open>The page to show and the address to load, from the index tables.\<close>

definition results_page :: "site \<Rightarrow> search_box \<Rightarrow> jstr \<Rightarrow> (jstr \<times> jstr) option" where
  "results_page S b searchValue =
     (case at (indexSectionsWithContent S) (searchIndex b) of
        None \<Rightarrow> None
      | Some content \<Rightarrow>
          (let idx = indexOf content (index_char S searchValue) in
           if idx \<noteq> -1 then
             (let p = resultsPath b @ js ''/'' @
                    (case at (indexSectionNames S) (searchIndex b) of
                       Some nm \<Rightarrow> nm | None \<Rightarrow> js ''undefined'') @
                    js ''_'' @ toString16 (nat idx) @ extension b
              in Some (p, p @ js ''?'' @ escape searchValue))
           else
             (let p = resultsPath b @ js ''/nomatches'' @ extension b in Some (p, p))))"

text \<open>Placing and showing the result window, the part of \<open>Search\<close> that is skipped when
  it is already shown.\<close>

definition openResultsWindow :: "site \<Rightarrow> nat \<Rightarrow> unit win" where
  "openResultsWindow S win =
     jbind (set_display MSearchClose (js ''inline-block'')) (\<lambda>_.
     jbind (elem MSearchBox) (\<lambda>sbox.
     jbind (jget page) (\<lambda>d.
     jbind (of_option NoReturn (getXPos (layout S d) (bodyNode d) sbox)) (\<lambda>x.
     jbind (of_option NoReturn (getYPos (layout S d) (bodyNode d) sbox)) (\<lambda>y.
     jbind (upd_page win (set_style ''display'' block_str)) (\<lambda>_.
     jbind (elem MSearchResults) (\<lambda>res.
     jbind (jget page) (\<lambda>d.
     jbind (of_option TypeError (bodyNode d)) (\<lambda>body.
     let left0 = x + 150 - offsetWidth (layout S d) res;
         top = y + 20;
         maxWidth = clientWidth (layout S d) body;
         left = (if left0 < 10 then 10 else left0);
         width = (if 400 + left + 8 > maxWidth then maxWidth - left - 8 else 400)
     in block [upd_page win (set_style ''top'' (px top)),
               upd_page win (set_style ''left'' (px left)),
               upd_page win (set_style ''width'' (px width))])))))))))"

definition Search :: "site \<Rightarrow> unit win" where
  "Search S =
     jbind (upd_box (\<lambda>b. b\<lparr>keyTimeout := 0\<rparr>)) (\<lambda>_.
     jbind (elem MSearchField) (\<lambda>f.
     jbind (page_node f) (\<lambda>fld.
     let searchValue = strip_leading (val fld) in
     jbind (jget box) (\<lambda>b.
     jbind (of_option TypeError (results_page S b searchValue)) (\<lambda>(resultsPage, withSearch).
     jbind (jmod (\<lambda>w. w\<lparr>frameLocation := withSearch\<rparr>)) (\<lambda>_.
     jbind (elem MSearchResultsWindow) (\<lambda>win.
     jbind (page_node win) (\<lambda>wn.
     block [jwhen (style wn ''display'' \<noteq> block_str) (openResultsWindow S win),
            upd_box (\<lambda>b. b\<lparr>lastSearchValue := searchValue,
                           lastResultsPage := resultsPage\<rparr>)]))))))))"

section \<open>The filter menu\<close>

definition select_items :: "document \<Rightarrow> nat \<Rightarrow> nat list" where
  "select_items d win =
     filter (\<lambda>c. case node_at d c of Some n \<Rightarrow> className n = js ''SelectItem'' | None \<Rightarrow> False)
       (childNodes d win)"

definition SelectItemCount :: "int win" where
  "SelectItemCount =
     jbind (elem MSearchSelectWindow) (\<lambda>win.
     jbind (jget page) (\<lambda>d. jret (int (length (select_items d win)))))"

text \<open>The loop of \<open>SelectItemSet\<close> over the menu entries, \<open>j\<close> counting them.\<close>

fun mark_items :: "int \<Rightarrow> int \<Rightarrow> nat list \<Rightarrow> unit win" where
  "mark_items item j [] = jret ()"
| "mark_items item j (child # rest) =
     jbind (jget page) (\<lambda>d.
     jbind (of_option TypeError (firstChild d child)) (\<lambda>nd.
     jbind (upd_page nd (set_html (if j = item then js ''&#8226;'' else js ''&#160;''))) (\<lambda>_.
     mark_items item (j + 1) rest)))"

definition SelectItemSet :: "int \<Rightarrow> unit win" where
  "SelectItemSet item =
     jbind (elem MSearchSelectWindow) (\<lambda>win.
     jbind (jget page) (\<lambda>d. mark_items item 0 (select_items d win)))"

definition OnSelectItem :: "site \<Rightarrow> int \<Rightarrow> unit win" where
  "OnSelectItem S item =
     jbind (upd_box (\<lambda>b. b\<lparr>searchIndex := item\<rparr>)) (\<lambda>_.
     jbind (SelectItemSet item) (\<lambda>_.
     jbind (elem MSearchField) (\<lambda>f.
     jbind (page_node f) (\<lambda>fld.
     jbind (jget (searchActive \<circ> box)) (\<lambda>active.
     jwhen (remove_blanks (val fld) \<noteq> [] \<and> active) (Search S))))))"

definition CloseSelectionWindow :: "unit win" where
  "CloseSelectionWindow = set_display MSearchSelectWindow none_str"

definition OnSearchSelectKey :: "site \<Rightarrow> key_event \<Rightarrow> unit win" where
  "OnSearchSelectKey S e =
     jbind (jget (searchIndex \<circ> box)) (\<lambda>idx.
     jbind (if keyCode e = 40 then jbind SelectItemCount (\<lambda>count. jret (idx < count))
            else jret False) (\<lambda>down.
     if down then
       block [upd_box (\<lambda>b. b\<lparr>searchIndex := idx + 1\<rparr>), OnSelectItem S (idx + 1)]
     else if keyCode e = 38 \<and> idx > 0 then
       block [upd_box (\<lambda>b. b\<lparr>searchIndex := idx - 1\<rparr>), OnSelectItem S (idx - 1)]
     else jwhen (keyCode e = 13 \<or> keyCode e = 27)
       (block [OnSelectItem S idx, CloseSelectionWindow,
               jbind (elem MSearchField) focusNode])))"

definition killHideTimer :: "unit win" where
  "killHideTimer =
     jbind (jget (hideTimeout \<circ> box)) (\<lambda>t.
     jwhen (t \<noteq> 0) (block [clearTimeout t, upd_box (\<lambda>b. b\<lparr>hideTimeout := 0\<rparr>)]))"

definition OnSearchSelectShow :: "site \<Rightarrow> unit win" where
  "OnSearchSelectShow S =
     jbind (elem MSearchSelect) (\<lambda>fld.
     jbind (jget page) (\<lambda>d.
     jbind (of_option NoReturn (getXPos (layout S d) (bodyNode d) fld)) (\<lambda>left.
     jbind (of_option NoReturn (getYPos (layout S d) (bodyNode d) fld)) (\<lambda>top0.
     let top = top0 + offsetHeight (layout S d) fld in
     jbind (elem MSearchSelectWindow) (\<lambda>win.
     block [upd_page win (set_style ''display'' block_str),
            upd_page win (set_style ''left'' (px left)),
            upd_page win (set_style ''top'' (px top)),
            killHideTimer])))))"

definition OnSearchSelectHide :: "unit win" where
  "OnSearchSelectHide =
     jbind (jget box) (\<lambda>b.
     jbind (setTimeout (boxName b @ js ''.CloseSelectionWindow()'') (closeSelectionTimeout b)) (\<lambda>t.
     upd_box (\<lambda>b. b\<lparr>hideTimeout := t\<rparr>)))"

section \<open>The search field\<close>

definition CloseResultsWindow :: "unit win" where
  "CloseResultsWindow =
     block [set_display MSearchResultsWindow none_str,
            set_display MSearchClose none_str,
            Activate False]"

definition killKeyTimer :: "unit win" where
  "killKeyTimer =
     jbind (jget (keyTimeout \<circ> box)) (\<lambda>t.
     jwhen (t \<noteq> 0) (block [clearTimeout t, upd_box (\<lambda>b. b\<lparr>keyTimeout := 0\<rparr>)]))"

definition focusFirstItem :: "unit win" where
  "focusFirstItem =
     jbind (elem MSearchSelectWindow) (\<lambda>win.
     jbind (jget page) (\<lambda>d.
     case select_items d win of [] \<Rightarrow> jret () | child # _ \<Rightarrow> focusNode child))"

definition escapeField :: "unit win" where
  "escapeField =
     block [jbind (elem MSearchField) blurField,
            set_display MSearchResultsWindow none_str,
            set_display MSearchClose none_str,
            upd_box (\<lambda>b. b\<lparr>lastSearchValue := []\<rparr>),
            Activate False]"

definition scheduleSearch :: "unit win" where
  "scheduleSearch =
     jbind (elem MSearchField) (\<lambda>f.
     jbind (page_node f) (\<lambda>fld.
     let searchValue = remove_blanks (val fld) in
     jbind (jget box) (\<lambda>b.
     jwhen (searchValue \<noteq> lastSearchValue b)
       (if searchValue \<noteq> [] then
          jbind (setTimeout (boxName b @ js ''.Search()'') (keyTimeoutLength b)) (\<lambda>t.
          upd_box (\<lambda>b. b\<lparr>keyTimeout := t\<rparr>))
        else
          block [set_display MSearchResultsWindow none_str,
                 set_display MSearchClose none_str,
                 upd_box (\<lambda>b. b\<lparr>lastSearchValue := []\<rparr>)]))))"

definition OnSearchFieldChange :: "site \<Rightarrow> key_event \<Rightarrow> unit win" where
  "OnSearchFieldChange S e =
     jbind killKeyTimer (\<lambda>_.
     if keyCode e = 40 \<or> keyCode e = 13 then
       (if shiftKey e then block [OnSearchSelectShow S, focusFirstItem]
        else block [jmod (\<lambda>w. w\<lparr>frameMessages := frameMessages w @ [js ''take_focus'']\<rparr>),
                    scheduleSearch])
     else if keyCode e = 27 then escapeField
     else scheduleSearch)"

section \<open>Well-formed pages\<close>

text \<open>
  The pages of the site: the seven elements of the panel and a body exist, and every
  entry of the filter menu starts with its mark.
\<close>

definition panel_ids :: "jstr list" where
  "panel_ids = [MSearchField, MSearchSelect, MSearchSelectWindow, MSearchResults,
     MSearchResultsWindow, MSearchClose, MSearchBox]"

definition page_ok :: "document \<Rightarrow> bool" where
  "page_ok d \<longleftrightarrow> list_all (\<lambda>i. getElementById d i \<noteq> None) panel_ids \<and> bodyNode d \<noteq> None \<and>
     (case getElementById d MSearchSelectWindow of None \<Rightarrow> True
      | Some win \<Rightarrow> list_all (\<lambda>c. firstChild d c \<noteq> None) (select_items d win))"

text \<open>
  Documented behaviour of the browser's layout: the offset parent of an element is an
  ancestor of it, so some depth decreases along the chain.
\<close>

definition offsets_ok :: "geometry \<Rightarrow> bool" where
  "offsets_ok g \<longleftrightarrow> (\<exists>h :: nat \<Rightarrow> nat. \<forall>k p. offsetParent g k = Some p \<longrightarrow> h p < h k)"

section \<open>Execution rules\<close>

lemma run_elem [js_run]:
  "elem i w = (case getElementById (page w) i of None \<Rightarrow> (Inl TypeError, w) | Some k \<Rightarrow> (Inr k, w))"
  by (simp add: elem_def run_jbind split: option.split)

lemma run_upd_page [js_run]: "upd_page k f w = (Inr (), w\<lparr>page := upd_node (page w) k f\<rparr>)"
  by (simp add: upd_page_def)

lemma run_upd_box [js_run]: "upd_box f w = (Inr (), w\<lparr>box := f (box w)\<rparr>)"
  by (simp add: upd_box_def)

lemma run_page_node [js_run]:
  "page_node k w = (case node_at (page w) k of None \<Rightarrow> (Inl TypeError, w) | Some n \<Rightarrow> (Inr n, w))"
  by (simp add: page_node_def run_jbind split: option.split)

lemma run_set_display [js_run]:
  "set_display i v w =
    (case getElementById (page w) i of None \<Rightarrow> (Inl TypeError, w)
     | Some k \<Rightarrow> (Inr (), w\<lparr>page := upd_node (page w) k (set_style ''display'' v)\<rparr>))"
  by (simp add: set_display_def js_run split: option.split)

lemma run_setTimeout [js_run]:
  "setTimeout c ms w =
     (Inr (nextTimer w), w\<lparr>timers := timers w @ [(nextTimer w, c, ms)], nextTimer := Suc (nextTimer w)\<rparr>)"
  by (simp add: setTimeout_def js_run)

lemma run_clearTimeout [js_run]:
  "clearTimeout t w = (Inr (), w\<lparr>timers := filter (\<lambda>(i, _). i \<noteq> t) (timers w)\<rparr>)"
  by (simp add: clearTimeout_def)


lemma panel_ids_found:
  assumes "page_ok d" "i \<in> set panel_ids"
  obtains k n where "getElementById d i = Some k" "node_at d k = Some n"
  using assms getElementById_node [of d i] by (fastforce simp: page_ok_def list_all_iff)

lemma panel_ids_members:
  "MSearchField \<in> set panel_ids" "MSearchSelect \<in> set panel_ids"
  "MSearchSelectWindow \<in> set panel_ids" "MSearchResults \<in> set panel_ids"
  "MSearchResultsWindow \<in> set panel_ids" "MSearchClose \<in> set panel_ids"
  "MSearchBox \<in> set panel_ids"
  by (simp_all add: panel_ids_def)

lemmas panel_found = panel_ids_members [THEN [2] panel_ids_found]

text \<open>The chain of offset parents below the body, and the sum over it.\<close>

inductive offset_chain :: "(nat \<Rightarrow> nat option) \<Rightarrow> nat option \<Rightarrow> nat option \<Rightarrow> nat list \<Rightarrow> bool"
  for par body where
  chain_null: "offset_chain par body None []"
| chain_body: "Some k = body \<Longrightarrow> offset_chain par body (Some k) []"
| chain_step: "Some k \<noteq> body \<Longrightarrow> offset_chain par body (par k) ks \<Longrightarrow>
    offset_chain par body (Some k) (k # ks)"

lemma sumOffsets_chain:
  "offset_chain par body item ks \<Longrightarrow>
   sumOffsets off par body x item = Some (x + sum_list (map off ks))"
proof (induction arbitrary: x rule: offset_chain.induct)
  case chain_null
  then show ?case by (subst sumOffsets.simps) simp
next
  case (chain_body k)
  then show ?case by (subst sumOffsets.simps) (auto split: option.split)
next
  case (chain_step k ks)
  then show ?case by (subst sumOffsets.simps) (simp add: add.assoc)
qed

lemma offset_chain_exists:
  assumes "\<And>k p. par k = Some p \<Longrightarrow> (h p :: nat) < h k"
  shows "\<exists>ks. offset_chain par body item ks"
proof -
  have "\<exists>ks. offset_chain par body (Some k) ks" for k
  proof (induction "h k" arbitrary: k rule: less_induct)
    case less
    show ?case
    proof (cases "Some k = body")
      case True
      then show ?thesis by (blast intro: chain_body)
    next
      case False
      have "\<exists>ks. offset_chain par body (par k) ks"
        using less assms by (cases "par k") (auto intro: chain_null)
      with False show ?thesis by (blast intro: chain_step)
    qed
  qed
  then show ?thesis by (cases item) (auto intro: chain_null)
qed

lemma offset_chain_offsets_ok:
  "offsets_ok g \<Longrightarrow> \<exists>ks. offset_chain (offsetParent g) body item ks"
  unfolding offsets_ok_def by (blast intro: offset_chain_exists)

lemma getPos_returns:
  assumes "offsets_ok g"
  obtains x y where "getXPos g body k = Some x" "getYPos g body k = Some y"
proof -
  from offset_chain_offsets_ok [OF assms]
  obtain ks where "offset_chain (offsetParent g) body (Some k) ks" by blast
  then show ?thesis
    using that by (cases "offsetWidth g k = 0") (auto simp: getXPos_def getYPos_def sumOffsets_chain)
qed

section \<open>Pages stay well formed\<close>

lemma select_items_cong:
  assumes "\<And>c. map_option className (node_at d' c) = map_option className (node_at d c)"
    and "childNodes d' win = childNodes d win"
  shows "select_items d' win = select_items d win"
  unfolding select_items_def assms(2)
proof (rule filter_cong [OF refl])
  fix c
  show "(case node_at d' c of None \<Rightarrow> False | Some n \<Rightarrow> className n = js ''SelectItem'') =
        (case node_at d c of None \<Rightarrow> False | Some n \<Rightarrow> className n = js ''SelectItem'')"
    using assms(1) [of c] by (cases "node_at d c"; cases "node_at d' c") auto
qed

lemma className_setters [simp]:
  "className (set_style p v n) = className n" "className (set_html h n) = className n"
  "className (set_val x n) = className n" "className (set_attr ''class'' c n) = c"
  by (simp_all add: className_def)

lemma select_items_setters [dom_simps]:
  "select_items (upd_node d k (set_style p v)) win = select_items d win"
  "select_items (upd_node d k (set_html h)) win = select_items d win"
  "select_items (upd_node d k (set_val x)) win = select_items d win"
  by (rule select_items_cong; simp add: dom_simps option.map_comp comp_def)+

lemma select_items_other [dom_simps]:
  "k \<notin> set (childNodes d win) \<Longrightarrow> select_items (upd_node d k f) win = select_items d win"
  unfolding select_items_def by (rule filter_cong) (auto simp: dom_simps)

lemma select_items_class:
  "c \<noteq> js ''SelectItem'' \<Longrightarrow>
   set (select_items (upd_node d k (set_attr ''class'' c)) win) \<subseteq> set (select_items d win)"
  by (auto simp: select_items_def dom_simps split: option.splits if_splits)

lemma page_ok_setters [dom_simps]:
  "page_ok (upd_node d k (set_style p v)) \<longleftrightarrow> page_ok d"
  "page_ok (upd_node d k (set_html h)) \<longleftrightarrow> page_ok d"
  "page_ok (upd_node d k (set_val x)) \<longleftrightarrow> page_ok d"
  by (simp_all add: page_ok_def dom_simps cong: option.case_cong)

lemma page_ok_class [dom_simps]:
  "page_ok d \<Longrightarrow> c \<noteq> js ''SelectItem'' \<Longrightarrow> page_ok (upd_node d k (set_attr ''class'' c))"
  using select_items_class [of c d k]
  by (fastforce simp: page_ok_def dom_simps list_all_iff split: option.splits)

lemma doc_focus [simp]:
  "getElementById (d\<lparr>focused := x\<rparr>) i = getElementById d i"
  "node_at (d\<lparr>focused := x\<rparr>) k = node_at d k"
  "childNodes (d\<lparr>focused := x\<rparr>) k = childNodes d k"
  "firstChild (d\<lparr>focused := x\<rparr>) k = firstChild d k"
  "bodyNode (d\<lparr>focused := x\<rparr>) = bodyNode d"
  by (simp_all add: getElementById_def node_at_def tree_at_def all_trees_def childNodes_def
      firstChild_def bodyNode_def)

lemma page_focus [simp]:
  "select_items (d\<lparr>focused := x\<rparr>) k = select_items d k"
  "page_ok (d\<lparr>focused := x\<rparr>) \<longleftrightarrow> page_ok d"
  by (simp_all add: select_items_def page_ok_def cong: option.case_cong)

end
