(* ===== verification/Search_Tables.thy ===== *)
theory Search_Tables
  imports Search_Box
begin

text \<open>
  The generated index tables of the two documentation sites (\<open>searchdata.js\<close>): for each
  section of the search index, the initial characters that have a result page, the name
  used in the page's file name and the label of the filter menu.
\<close>

section \<open>The site of the README pages\<close>

definition readme_indexSectionsWithContent :: "jstr list" where
  "readme_indexSectionsWithContent = map js [''abghoprt'', ''abghopr'', ''abhoprt'']"

definition readme_indexSectionNames :: "jstr list" where
  "readme_indexSectionNames = map js [''all'', ''files'', ''pages'']"

definition readme_indexSectionLabels :: "jstr list" where
  "readme_indexSectionLabels = map js [''All'', ''Files'', ''Pages'']"

section \<open>The site of the API specification\<close>

definition spec_indexSectionsWithContent :: "jstr list" where
  "spec_indexSectionsWithContent = map js
     [''_abcdefghiklmnoprstuvw'', ''_eorst'', ''corstv'', ''_cdefgmopstvw'',
      ''_abcdefghiklmnoprstuvw'', ''_ost'', ''t'', ''t'', ''_fgp'']"

definition spec_indexSectionNames :: "jstr list" where
  "spec_indexSectionNames = map js
     [''all'', ''classes'', ''files'', ''functions'', ''variables'', ''typedefs'',
      ''enums'', ''enumvalues'', ''defines'']"

definition spec_indexSectionLabels :: "jstr list" where
  "spec_indexSectionLabels = map js
     [''All'', ''Classes'', ''Files'', ''Functions'', ''Variables'', ''Typedefs'',
      ''Enumerations'', ''Enumerator'', ''Macros'']"

section \<open>A page of the site\<close>

text \<open>
  A layout for the examples: every element lies at its offset in the body (node 1).
\<close>

definition flat_layout :: "document \<Rightarrow> geometry" where
  "flat_layout d = \<lparr>offsetWidth = (\<lambda>_. 100), offsetHeight = (\<lambda>_. 20),
     offsetLeft = (\<lambda>k. int k), offsetTop = (\<lambda>k. int k),
     offsetParent = (\<lambda>k. if k \<le> 1 then None else Some 1), clientWidth = (\<lambda>_. 1000)\<rparr>"

definition readme_site :: site where
  "readme_site = \<lparr>unicode_lower = (\<lambda>s. s), number_gt_one = (\<lambda>s. False), layout = flat_layout,
     indexSectionsWithContent = readme_indexSectionsWithContent,
     indexSectionNames = readme_indexSectionNames,
     indexSectionLabels = readme_indexSectionLabels\<rparr>"

definition spec_site :: site where
  "spec_site = \<lparr>unicode_lower = (\<lambda>s. s), number_gt_one = (\<lambda>s. False), layout = flat_layout,
     indexSectionsWithContent = spec_indexSectionsWithContent,
     indexSectionNames = spec_indexSectionNames,
     indexSectionLabels = spec_indexSectionLabels\<rparr>"

definition elt :: "string \<Rightarrow> (string \<times> string) list \<Rightarrow> node" where
  "elt t as = (new_node t)\<lparr>attrs := map_of (map (\<lambda>(a, v). (a, js v)) as)\<rparr>"

text \<open>
  The elements of a page that the search panel uses, in the nesting of the page's markup
  (\<open>index.html\<close> and the search box written by \<open>menu.js\<close>), with the filter menu filled
  for the three sections.
\<close>

definition menu_item :: "nat \<Rightarrow> dtree" where
  "menu_item k = DT k (elt ''a'' [(''class'', ''SelectItem'')])
     [DT (k + 1) (elt ''span'' [(''class'', ''SelectionMark'')]) []]"

definition panel_doc :: document where
  "panel_doc = \<lparr>root = DT 0 (elt ''html'' [])
     [DT 1 (elt ''body'' [])
       [DT 2 (elt ''div'' [(''id'', ''MSearchBox''), (''class'', ''MSearchBoxInactive'')])
         [DT 3 (elt ''img'' [(''id'', ''MSearchSelect'')]) [],
          DT 4 ((elt ''input'' [(''id'', ''MSearchField'')])\<lparr>val := js ''Search''\<rparr>) [],
          DT 5 (elt ''a'' [(''id'', ''MSearchClose'')]) []],
        DT 6 (elt ''div'' [(''id'', ''MSearchSelectWindow'')])
          [menu_item 10, menu_item 12, menu_item 14],
        DT 7 (elt ''div'' [(''id'', ''MSearchResultsWindow'')])
          [DT 8 (elt ''iframe'' [(''id'', ''MSearchResults'')]) []]]],
     loose = [], fresh = 16, focused = None\<rparr>"

definition empty_doc :: document where
  "empty_doc = \<lparr>root = DT 0 (elt ''html'' []) [], loose = [], fresh = 1, focused = None\<rparr>"

definition panel_world :: world where
  "panel_world = \<lparr>box = snd (SearchBox (js ''searchBox'') (js ''search'') (js ''Search'') (js ''.html'')),
     page = panel_doc, timers = [], nextTimer = 1, alerts = [], frameLocation = [],
     frameMessages = [], frame = empty_doc,
     results = \<lparr>lastMatchCount = 0, lastKey = 0, repeatOn = False\<rparr>\<rparr>"

lemma flat_offsets_ok: "offsets_ok (flat_layout d)"
  unfolding offsets_ok_def by (rule exI [where x = id]) (auto simp: flat_layout_def split: if_splits)

lemma panel_doc_ids:
  "getElementById panel_doc MSearchBox = Some 2"
  "getElementById panel_doc MSearchSelect = Some 3"
  "getElementById panel_doc MSearchField = Some 4"
  "getElementById panel_doc MSearchClose = Some 5"
  "getElementById panel_doc MSearchSelectWindow = Some 6"
  "getElementById panel_doc MSearchResultsWindow = Some 7"
  "getElementById panel_doc MSearchResults = Some 8"
  "bodyNode panel_doc = Some 1" "focused panel_doc = None"
  by (simp_all add: panel_doc_def getElementById_def bodyNode_def elt_def new_node_def menu_item_def)

lemma panel_doc_nodes:
  "childNodes panel_doc 6 = [10, 12, 14]" "firstChild panel_doc 10 = Some 11"
  "firstChild panel_doc 12 = Some 13" "firstChild panel_doc 14 = Some 15"
  "node_at panel_doc 4 = Some ((elt ''input'' [(''id'', ''MSearchField'')])\<lparr>val := js ''Search''\<rparr>)"
  "node_at panel_doc 7 = Some (elt ''div'' [(''id'', ''MSearchResultsWindow'')])"
  "select_items panel_doc 6 = [10, 12, 14]"
  by (simp_all add: panel_doc_def childNodes_def firstChild_def node_at_def tree_at_def
      all_trees_def forest_def menu_item_def select_items_def elt_def className_def)

lemma page_ok_panel_doc: "page_ok panel_doc"
  by (simp add: page_ok_def panel_ids_def panel_doc_ids panel_doc_nodes)

end
