(* ===== verification/Search_Panel.thy ===== *)
theory Search_Panel
  imports Search_Tables
begin

text \<open>
  The search panel as a state machine: the events that reach it (the handlers the page
  markup names, the user's typing and the expiry of timers), the proof that every
  handler returns and keeps the page well formed, the debounce invariant of its timers,
  and what the handlers do.
\<close>

section \<open>Events\<close>

datatype panel_event =
    FieldFocus bool
  | FieldKey key_event
  | Typed jstr
  | SelectShow
  | SelectHide
  | SelectItem int
  | SelectKey key_event
  | CloseResults
  | Expire nat

definition search_code :: "search_box \<Rightarrow> jstr" where
  "search_code b = boxName b @ js ''.Search()''"

definition hide_code :: "search_box \<Rightarrow> jstr" where
  "hide_code b = boxName b @ js ''.CloseSelectionWindow()''"

definition expire :: "site \<Rightarrow> nat \<Rightarrow> unit win" where
  \<comment> \<open>the platform removes the timer and runs its source text\<close>
  "expire S t =
     jbind (jget id) (\<lambda>w.
     case find (\<lambda>(i, _). i = t) (timers w) of
       None \<Rightarrow> jret ()
     | Some (_, code, _) \<Rightarrow>
         block [clearTimeout t,
                if code = search_code (box w) then Search S
                else if code = hide_code (box w) then CloseSelectionWindow
                else jret ()])"

fun handle :: "site \<Rightarrow> panel_event \<Rightarrow> unit win" where
  "handle S (FieldFocus a) = OnSearchFieldFocus a"
| "handle S (FieldKey e) = OnSearchFieldChange S e"
| "handle S (Typed v) = jbind (elem MSearchField) (\<lambda>f. upd_page f (set_val v))"
| "handle S SelectShow = OnSearchSelectShow S"
| "handle S SelectHide = OnSearchSelectHide"
| "handle S (SelectItem i) = OnSelectItem S i"
| "handle S (SelectKey e) = OnSearchSelectKey S e"
| "handle S CloseResults = CloseResultsWindow"
| "handle S (Expire t) = expire S t"

text \<open>The index tables know the selected section.\<close>

definition in_sections :: "site \<Rightarrow> int \<Rightarrow> bool" where
  "in_sections S i \<longleftrightarrow> 0 \<le> i \<and> nat i < length (indexSectionsWithContent S)"

definition panel_ok :: "site \<Rightarrow> world \<Rightarrow> bool" where
  "panel_ok S w \<longleftrightarrow> page_ok (page w) \<and> in_sections S (searchIndex (box w))"

definition site_ok :: "site \<Rightarrow> bool" where
  "site_ok S \<longleftrightarrow> (\<forall>d. offsets_ok (layout S d))"

section \<open>Every handler returns\<close>

lemma safe_page_only:
  assumes "\<And>w. page_ok (page w) \<Longrightarrow>
     \<exists>x w'. m w = (Inr x, w') \<and> page_ok (page w') \<and> searchIndex (box w') = searchIndex (box w)"
  shows "safe (panel_ok S) m"
  unfolding safe_def
proof (intro allI impI)
  fix w :: world assume "panel_ok S w"
  with assms [of w] show "\<exists>x w'. m w = (Inr x, w') \<and> panel_ok S w'"
    by (fastforce simp: panel_ok_def)
qed

lemma safe_set_display:
  assumes "i \<in> set panel_ids"
  shows "safe (panel_ok S) (set_display i v)"
proof (rule safe_page_only)
  fix w :: world assume "page_ok (page w)"
  from panel_ids_found [OF this assms] obtain k n
    where "getElementById (page w) i = Some k" by blast
  with \<open>page_ok (page w)\<close>
  show "\<exists>x w'. set_display i v w = (Inr x, w') \<and> page_ok (page w') \<and>
      searchIndex (box w') = searchIndex (box w)"
    by (simp add: js_run dom_simps)
qed

lemma safe_upd_box: "(\<And>b. searchIndex (f b) = searchIndex b) \<Longrightarrow> safe (panel_ok S) (upd_box f)"
  by (simp add: safe_def panel_ok_def js_run)

lemma safe_Activate: "safe (panel_ok S) (Activate a)"
proof (rule safe_page_only)
  fix w :: world assume ok: "page_ok (page w)"
  obtain kw nw where W: "getElementById (page w) MSearchResultsWindow = Some kw"
    "node_at (page w) kw = Some nw" using ok by (rule panel_found(5))
  obtain kb nb where B: "getElementById (page w) MSearchBox = Some kb"
    "node_at (page w) kb = Some nb" using ok by (rule panel_found(7))
  obtain kf nf where F: "getElementById (page w) MSearchField = Some kf"
    "node_at (page w) kf = Some nf" using ok by (rule panel_found(1))
  show "\<exists>x w'. Activate a w = (Inr x, w') \<and> page_ok (page w') \<and>
      searchIndex (box w') = searchIndex (box w)"
    using ok W B F by (auto simp: Activate_def js_run dom_simps)
qed

lemma safe_OnSearchFieldFocus: "safe (panel_ok S) (OnSearchFieldFocus a)"
  unfolding OnSearchFieldFocus_def by (rule safe_Activate)

lemma safe_focus: "safe (panel_ok S) (jmod (\<lambda>w. w\<lparr>page := (page w)\<lparr>focused := x\<rparr>\<rparr>))"
  by (simp add: safe_def panel_ok_def)

lemma safe_blurPage: "safe (panel_ok S) blurPage"
  unfolding blurPage_def by (intro safe_intros safe_focus safe_OnSearchFieldFocus)

lemma safe_blurField: "safe (panel_ok S) (blurField k)"
  unfolding blurField_def by (intro safe_intros safe_blurPage)

lemma safe_focusNode: "safe (panel_ok S) (focusNode k)"
  unfolding focusNode_def
  by (intro safe_intros safe_blocks safe_blurPage safe_focus safe_OnSearchFieldFocus)

lemma safe_elem:
  assumes "i \<in> set panel_ids" "\<And>k. safe (panel_ok S) (f k)"
  shows "safe (panel_ok S) (jbind (elem i) f)"
proof (rule safe_jbind [OF safe_page_only assms(2)])
  fix w :: world assume "page_ok (page w)"
  then show "\<exists>x w'. elem i w = (Inr x, w') \<and> page_ok (page w') \<and>
      searchIndex (box w') = searchIndex (box w)"
    using panel_ids_found [OF _ assms(1)] by (fastforce simp: js_run)
qed

lemmas panel_parts = safe_set_display safe_Activate safe_blurField safe_focusNode
  safe_upd_box panel_ids_members

lemma safe_CloseResultsWindow: "safe (panel_ok S) CloseResultsWindow"
  unfolding CloseResultsWindow_def by (intro safe_intros safe_blocks panel_parts)

lemma safe_CloseSelectionWindow: "safe (panel_ok S) CloseSelectionWindow"
  unfolding CloseSelectionWindow_def by (intro panel_parts)

lemma safe_escapeField: "safe (panel_ok S) escapeField"
  unfolding escapeField_def
  by (intro safe_intros safe_blocks safe_elem panel_parts; simp)

lemma safe_clearTimeout: "safe (panel_ok S) (clearTimeout t)"
  by (simp add: safe_def panel_ok_def js_run)

lemma safe_setTimeout: "safe (panel_ok S) (setTimeout c ms)"
  by (simp add: safe_def panel_ok_def js_run)

lemma safe_killKeyTimer: "safe (panel_ok S) killKeyTimer"
  unfolding killKeyTimer_def
  by (intro safe_intros safe_blocks safe_clearTimeout panel_parts; simp)

lemma safe_OnSearchSelectHide: "safe (panel_ok S) OnSearchSelectHide"
  unfolding OnSearchSelectHide_def by (intro safe_intros safe_setTimeout panel_parts; simp)

lemma safe_focusFirstItem: "safe (panel_ok S) focusFirstItem"
  unfolding focusFirstItem_def
  by (intro safe_intros safe_elem panel_parts)
     (simp add: safe_jret safe_focusNode split: list.split)

text \<open>\<open>field_value\<close>: the text in the search field.\<close>

definition field_value :: "document \<Rightarrow> jstr" where
  "field_value d = (case elemNode d MSearchField of None \<Rightarrow> [] | Some n \<Rightarrow> val n)"

lemma safe_field:
  assumes "\<And>v. safe (panel_ok S) (f v)"
  shows "safe (panel_ok S) (jbind (elem MSearchField) (\<lambda>k. jbind (page_node k) (\<lambda>n. f (val n))))"
  unfolding safe_def
proof (intro allI impI)
  fix w assume w: "panel_ok S w"
  obtain k n where "getElementById (page w) MSearchField = Some k" "node_at (page w) k = Some n"
    using w by (auto simp: panel_ok_def elim: panel_found(1))
  with safeD [OF assms w, of "val n"]
  show "\<exists>x w'. jbind (elem MSearchField) (\<lambda>k. jbind (page_node k) (\<lambda>n. f (val n))) w
      = (Inr x, w') \<and> panel_ok S w'"
    by (simp add: js_run)
qed

lemma safe_scheduleSearch: "safe (panel_ok S) scheduleSearch"
  unfolding scheduleSearch_def Let_def
  by (intro safe_field safe_intros safe_blocks safe_setTimeout panel_parts; simp)

lemma safe_openResultsWindow:
  assumes "site_ok S"
  shows "safe (panel_ok S) (openResultsWindow S win)"
proof (rule safe_page_only)
  fix w :: world assume ok: "page_ok (page w)"
  obtain kc nc where C: "getElementById (page w) MSearchClose = Some kc"
    using ok by (rule panel_found(6))
  obtain kb nb where B: "getElementById (page w) MSearchBox = Some kb"
    using ok by (rule panel_found(7))
  obtain kr nr where R: "getElementById (page w) MSearchResults = Some kr"
    using ok by (rule panel_found(4))
  obtain body where body: "bodyNode (page w) = Some body"
    using ok by (auto simp: page_ok_def)
  let ?d = "upd_node (page w) kc (set_style ''display'' (js ''inline-block''))"
  have "offsets_ok (layout S ?d)" using assms by (simp add: site_ok_def)
  then obtain x y where "getXPos (layout S ?d) (Some body) kb = Some x"
    "getYPos (layout S ?d) (Some body) kb = Some y" by (rule getPos_returns)
  with ok C B R body
  show "\<exists>x w'. openResultsWindow S win w = (Inr x, w') \<and> page_ok (page w') \<and>
      searchIndex (box w') = searchIndex (box w)"
    by (simp add: openResultsWindow_def Let_def js_run dom_simps)
qed

lemma results_page_Some: "in_sections S (searchIndex b) \<Longrightarrow> \<exists>p l. results_page S b v = Some (p, l)"
  by (simp add: results_page_def in_sections_def at_def Let_def)

lemma results_page_keyTimeout [simp]:
  "results_page S (b\<lparr>keyTimeout := t\<rparr>) v = results_page S b v"
  by (simp add: results_page_def Let_def split: option.split)

text \<open>
  What a search leaves behind: the address of the results frame, the shown window, the
  remembered search and no pending key timer.
\<close>

lemma Search_run:
  assumes "site_ok S" and ok: "page_ok (page w)"
    and page: "results_page S (box w) (strip_leading (field_value (page w))) = Some (p, loc)"
  shows "\<exists>w'. Search S w = (Inr (), w') \<and> frameLocation w' = loc \<and>
     displayOf (page w') MSearchResultsWindow = Some block_str \<and>
     box w' = (box w)\<lparr>keyTimeout := 0, lastSearchValue := strip_leading (field_value (page w)),
                     lastResultsPage := p\<rparr> \<and>
     page_ok (page w') \<and> timers w' = timers w \<and> nextTimer w' = nextTimer w"
proof -
  obtain kf nf where F: "getElementById (page w) MSearchField = Some kf"
    "node_at (page w) kf = Some nf" using ok by (rule panel_found(1))
  obtain kw nw where W: "getElementById (page w) MSearchResultsWindow = Some kw"
    "node_at (page w) kw = Some nw" using ok by (rule panel_found(5))
  obtain kc nc where C: "getElementById (page w) MSearchClose = Some kc"
    using ok by (rule panel_found(6))
  obtain kb nb where B: "getElementById (page w) MSearchBox = Some kb"
    using ok by (rule panel_found(7))
  obtain kr nr where R: "getElementById (page w) MSearchResults = Some kr"
    using ok by (rule panel_found(4))
  obtain body where body: "bodyNode (page w) = Some body"
    using ok by (auto simp: page_ok_def)
  let ?d = "upd_node (page w) kc (set_style ''display'' (js ''inline-block''))"
  have "offsets_ok (layout S ?d)" using assms by (simp add: site_ok_def)
  then obtain x y where XY: "getXPos (layout S ?d) (Some body) kb = Some x"
    "getYPos (layout S ?d) (Some body) kb = Some y" by (rule getPos_returns)
  have v: "field_value (page w) = val nf" using F by (simp add: field_value_def elemNode_def)
  have p': "results_page S ((box w)\<lparr>keyTimeout := 0\<rparr>) (strip_leading (val nf)) = Some (p, loc)"
    using page v by (simp add: v)
  show ?thesis
  proof (cases "style nw ''display'' = block_str")
    case True
    then show ?thesis using F W p' ok v
      by (simp add: Search_def Let_def js_run dom_simps displayOf_def elemNode_def)
  next
    case False
    then show ?thesis using F W p' ok C B R body XY v
      by (auto simp: Search_def openResultsWindow_def Let_def js_run dom_simps displayOf_def
          elemNode_def)
  qed
qed

lemma safe_Search:
  assumes "site_ok S"
  shows "safe (panel_ok S) (Search S)"
  unfolding safe_def
proof (intro allI impI)
  fix w assume w: "panel_ok S w"
  then obtain p l where
    "results_page S (box w) (strip_leading (field_value (page w))) = Some (p, l)"
    using results_page_Some by (fastforce simp: panel_ok_def)
  from Search_run [OF assms _ this] w
  show "\<exists>x w'. Search S w = (Inr x, w') \<and> panel_ok S w'"
    by (auto simp: panel_ok_def)
qed

lemma mark_items_run:
  assumes "list_all (\<lambda>c. firstChild (page w) c \<noteq> None) cs"
  shows "\<exists>w'. mark_items i j cs w = (Inr (), w') \<and>
     (page_ok (page w) \<longrightarrow> page_ok (page w')) \<and> box w' = box w \<and>
     timers w' = timers w \<and> nextTimer w' = nextTimer w"
  using assms
proof (induction i j cs arbitrary: w rule: mark_items.induct)
  case (2 i j c cs)
  then obtain n where n: "firstChild (page w) c = Some n" by auto
  let ?w = "w\<lparr>page := upd_node (page w) n
    (set_html (if j = i then js ''&#8226;'' else js ''&#160;''))\<rparr>"
  have "list_all (\<lambda>c. firstChild (page ?w) c \<noteq> None) cs"
    using "2.prems" by (simp add: dom_simps)
  from "2.IH" [OF this] n show ?case by (simp add: js_run dom_simps)
qed simp

lemma SelectItemSet_run:
  assumes ok: "page_ok (page w)"
  shows "\<exists>w'. SelectItemSet i w = (Inr (), w') \<and> page_ok (page w') \<and> box w' = box w \<and>
     timers w' = timers w \<and> nextTimer w' = nextTimer w"
proof -
  obtain k n where K: "getElementById (page w) MSearchSelectWindow = Some k"
    using ok by (rule panel_found(3))
  with ok have "list_all (\<lambda>c. firstChild (page w) c \<noteq> None) (select_items (page w) k)"
    by (simp add: page_ok_def)
  from mark_items_run [OF this, of i 0] ok K show ?thesis
    by (simp add: SelectItemSet_def js_run)
qed

lemma OnSelectItem_run:
  assumes S: "site_ok S" and ok: "page_ok (page w)" and i: "in_sections S i"
  shows "\<exists>w'. OnSelectItem S i w = (Inr (), w') \<and> panel_ok S w' \<and> searchIndex (box w') = i"
proof -
  let ?w = "w\<lparr>box := (box w)\<lparr>searchIndex := i\<rparr>\<rparr>"
  obtain w1 where w1: "SelectItemSet i ?w = (Inr (), w1)" "page_ok (page w1)"
    "box w1 = (box w)\<lparr>searchIndex := i\<rparr>"
    using SelectItemSet_run [of ?w i] ok by auto
  obtain k n where F: "getElementById (page w1) MSearchField = Some k" "node_at (page w1) k = Some n"
    using w1(2) by (rule panel_found(1))
  have "in_sections S (searchIndex (box w1))" using w1 i by simp
  then obtain p l where "results_page S (box w1) (strip_leading (field_value (page w1))) = Some (p, l)"
    using results_page_Some by blast
  from Search_run [OF S w1(2) this] obtain w2 where w2: "Search S w1 = (Inr (), w2)"
    "page_ok (page w2)" "searchIndex (box w2) = i" using w1 by auto
  have run: "OnSelectItem S i w =
      (if remove_blanks (val n) \<noteq> [] \<and> searchActive (box w1) then Search S w1 else (Inr (), w1))"
    using w1(1) F by (simp add: OnSelectItem_def js_run)
  show ?thesis
    using w1 w2 i unfolding run by (auto simp: panel_ok_def)
qed

lemma safe_OnSearchSelectShow:
  assumes "site_ok S"
  shows "safe (panel_ok S) (OnSearchSelectShow S)"
proof (rule safe_page_only)
  fix w :: world assume ok: "page_ok (page w)"
  obtain ks ns where K: "getElementById (page w) MSearchSelect = Some ks"
    using ok by (rule panel_found(2))
  obtain kw nw where W: "getElementById (page w) MSearchSelectWindow = Some kw"
    using ok by (rule panel_found(3))
  have "offsets_ok (layout S (page w))" using assms by (simp add: site_ok_def)
  then obtain x y where "getXPos (layout S (page w)) (bodyNode (page w)) ks = Some x"
    "getYPos (layout S (page w)) (bodyNode (page w)) ks = Some y" by (rule getPos_returns)
  with ok K W
  show "\<exists>x w'. OnSearchSelectShow S w = (Inr x, w') \<and> page_ok (page w') \<and>
      searchIndex (box w') = searchIndex (box w)"
    by (simp add: OnSearchSelectShow_def killHideTimer_def Let_def js_run dom_simps)
qed

lemma safe_OnSearchFieldChange:
  assumes "site_ok S"
  shows "safe (panel_ok S) (OnSearchFieldChange S e)"
  unfolding OnSearchFieldChange_def
  by (intro safe_intros safe_blocks safe_killKeyTimer safe_escapeField safe_scheduleSearch
      safe_focusFirstItem safe_OnSearchSelectShow assms safe_jmod)
     (simp add: panel_ok_def)

lemma OnSelectItem_ok:
  assumes "site_ok S" "page_ok (page w)" "in_sections S i"
  shows "\<exists>x w'. OnSelectItem S i w = (Inr x, w') \<and> panel_ok S w'"
  using OnSelectItem_run [OF assms] by blast

text \<open>The arrow keys of the filter menu stay within the sections the tables know, but for
  the step down from the last one.\<close>

lemma OnSearchSelectKey_ok:
  assumes S: "site_ok S" and w: "panel_ok S w"
    and last: "keyCode e = 40 \<Longrightarrow> in_sections S (searchIndex (box w) + 1)"
  shows "\<exists>x w'. OnSearchSelectKey S e w = (Inr x, w') \<and> panel_ok S w'"
proof -
  let ?i = "searchIndex (box w)"
  have ok: "page_ok (page w)" and i: "in_sections S ?i" using w by (simp_all add: panel_ok_def)
  obtain k n where K: "getElementById (page w) MSearchSelectWindow = Some k"
    using ok by (rule panel_found(3))
  have moved: "\<exists>x w'. OnSelectItem S j (w\<lparr>box := (box w)\<lparr>searchIndex := j\<rparr>\<rparr>) = (Inr x, w') \<and>
      panel_ok S w'" if "in_sections S j" for j
    using OnSelectItem_ok [OF S _ that, of "w\<lparr>box := (box w)\<lparr>searchIndex := j\<rparr>\<rparr>"] ok by simp
  have up: "0 < ?i \<Longrightarrow> in_sections S (?i - 1)" using i by (auto simp: in_sections_def)
  have rest: "safe (panel_ok S) (block [CloseSelectionWindow, jbind (elem MSearchField) focusNode])"
    by (intro safe_blocks safe_CloseSelectionWindow safe_elem panel_parts)
  from OnSelectItem_ok [OF S ok i] obtain v where
    v: "OnSelectItem S ?i w = (Inr (), v)" "panel_ok S v" by auto
  show ?thesis
    using w K moved [OF last] moved [OF up] v safeD [OF rest v(2)]
    by (auto simp: OnSearchSelectKey_def SelectItemCount_def js_run)
qed

lemma expire_ok:
  assumes S: "site_ok S" and w: "panel_ok S w"
  shows "\<exists>x w'. expire S t w = (Inr x, w') \<and> panel_ok S w'"
proof (cases "find (\<lambda>(i, _). i = t) (timers w)")
  case None
  with w show ?thesis by (simp add: expire_def js_run)
next
  case (Some a)
  obtain i c ms where a: "a = (i, c, ms)" by (cases a)
  have "safe (panel_ok S) (block [clearTimeout t,
      if c = search_code (box w) then Search S
      else if c = hide_code (box w) then CloseSelectionWindow else jret ()])"
    by (intro safe_intros safe_blocks safe_clearTimeout safe_Search S safe_CloseSelectionWindow)
  from safeD [OF this w] show ?thesis
    using Some a by (simp add: expire_def js_run del: block.simps)
qed

section \<open>Timers\<close>

text \<open>
  The debounce of the search field: timer identifiers are fresh, a non-zero
  \<open>keyTimeout\<close> names a pending search timer, and \<open>hideTimeout\<close> (which stays set after
  its timer has run) never names that one.
\<close>

definition timers_ok :: "world \<Rightarrow> bool" where
  "timers_ok w \<longleftrightarrow> 0 < nextTimer w \<and> distinct (map fst (timers w)) \<and>
     (\<forall>(i, c, ms) \<in> set (timers w). 0 < i \<and> i < nextTimer w) \<and>
     (keyTimeout (box w) \<noteq> 0 \<longrightarrow>
        (keyTimeout (box w), search_code (box w), keyTimeoutLength (box w)) \<in> set (timers w)) \<and>
     (hideTimeout (box w) \<noteq> 0 \<longrightarrow>
        hideTimeout (box w) < nextTimer w \<and> hideTimeout (box w) \<noteq> keyTimeout (box w))"

text \<open>Every pending search timer is the one \<open>keyTimeout\<close> names.\<close>

definition debounced :: "world \<Rightarrow> bool" where
  "debounced w \<longleftrightarrow> timers_ok w \<and>
     (\<forall>(i, c, ms) \<in> set (timers w). c = search_code (box w) \<longrightarrow> i = keyTimeout (box w))"

text \<open>Scripts that touch neither the timers nor what the invariants read of the box.\<close>

definition timer_view ::
  "world \<Rightarrow> (nat \<times> jstr \<times> nat) list \<times> nat \<times> nat \<times> nat \<times> jstr \<times> nat" where
  "timer_view w =
     (timers w, nextTimer w, keyTimeout (box w), hideTimeout (box w), boxName (box w),
      keyTimeoutLength (box w))"

lemma timers_ok_view: "timer_view w = timer_view w' \<Longrightarrow> timers_ok w = timers_ok w'"
  by (simp add: timer_view_def timers_ok_def search_code_def)

lemma debounced_view: "timer_view w = timer_view w' \<Longrightarrow> debounced w = debounced w'"
  by (simp add: timer_view_def debounced_def timers_ok_def search_code_def)

lemma untimed_keeps:
  assumes "\<And>v. keeps (\<lambda>w. timer_view w = v) m"
    and "\<And>w w'. timer_view w = timer_view w' \<Longrightarrow> I w = I w'"
  shows "keeps I m"
  unfolding keeps_def
proof (intro allI impI)
  fix w assume "I w"
  have "timer_view (snd (m w)) = timer_view w"
    using keepsD [OF assms(1)] by blast
  with assms(2) \<open>I w\<close> show "I (snd (m w))" by blast
qed

lemma untimed_timers_ok: "(\<And>v. keeps (\<lambda>w. timer_view w = v) m) \<Longrightarrow> keeps timers_ok m"
  by (erule untimed_keeps) (rule timers_ok_view)

lemma untimed_debounced: "(\<And>v. keeps (\<lambda>w. timer_view w = v) m) \<Longrightarrow> keeps debounced m"
  by (erule untimed_keeps) (rule debounced_view)

lemma untimed_elem: "keeps I (elem i)"
  unfolding elem_def by (intro keeps_jbind keeps_jget keeps_of_option)

lemma untimed_page_node: "keeps I (page_node k)"
  unfolding page_node_def by (intro keeps_jbind keeps_jget keeps_of_option)

lemma untimed_upd_page: "keeps (\<lambda>w. timer_view w = v) (upd_page k f)"
  unfolding upd_page_def by (intro keeps_jmod) (simp add: timer_view_def)

lemma untimed_set_display: "keeps (\<lambda>w. timer_view w = v) (set_display i d)"
  unfolding set_display_def by (intro keeps_jbind untimed_elem untimed_upd_page)

lemma untimed_page: "keeps (\<lambda>w. timer_view w = v) (jmod (\<lambda>w. w\<lparr>page := f w\<rparr>))"
  by (intro keeps_jmod) (simp add: timer_view_def)

lemma untimed_frame:
  "keeps (\<lambda>w. timer_view w = v) (jmod (\<lambda>w. w\<lparr>frameLocation := x\<rparr>))"
  "keeps (\<lambda>w. timer_view w = v) (jmod (\<lambda>w. w\<lparr>frameMessages := f w\<rparr>))"
  by (intro keeps_jmod; simp add: timer_view_def)+

lemma untimed_upd_box:
  "(\<And>b. keyTimeout (f b) = keyTimeout b \<and> boxName (f b) = boxName b \<and>
      keyTimeoutLength (f b) = keyTimeoutLength b \<and> hideTimeout (f b) = hideTimeout b) \<Longrightarrow>
   keeps (\<lambda>w. timer_view w = v) (upd_box f)"
  unfolding upd_box_def by (intro keeps_jmod) (simp add: timer_view_def)

lemma keeps_block_Nil: "keeps I (block [])"
  by (simp add: keeps_jret)

lemma keeps_block_Cons: "keeps I m \<Longrightarrow> keeps I (block ms) \<Longrightarrow> keeps I (block (m # ms))"
  by (simp add: keeps_jbind)

lemmas keeps_rules = keeps_jbind keeps_jret keeps_jget keeps_jwhen keeps_if keeps_of_option
  keeps_block_Nil keeps_block_Cons untimed_elem untimed_page_node untimed_upd_page
  untimed_set_display untimed_page untimed_frame

lemma untimed_Activate: "keeps (\<lambda>w. timer_view w = v) (Activate a)"
  unfolding Activate_def by (intro keeps_rules untimed_upd_box; simp)

lemma untimed_blurPage: "keeps (\<lambda>w. timer_view w = v) blurPage"
  unfolding blurPage_def OnSearchFieldFocus_def by (intro keeps_rules untimed_Activate)

lemma untimed_blurField: "keeps (\<lambda>w. timer_view w = v) (blurField k)"
  unfolding blurField_def by (intro keeps_rules untimed_blurPage)

lemma untimed_focusNode: "keeps (\<lambda>w. timer_view w = v) (focusNode k)"
  unfolding focusNode_def OnSearchFieldFocus_def
  by (intro keeps_rules untimed_blurPage untimed_Activate)

lemma untimed_focusFirstItem: "keeps (\<lambda>w. timer_view w = v) focusFirstItem"
  unfolding focusFirstItem_def
  by (intro keeps_rules) (simp add: keeps_jret untimed_focusNode split: list.split)

lemma untimed_CloseResultsWindow: "keeps (\<lambda>w. timer_view w = v) CloseResultsWindow"
  unfolding CloseResultsWindow_def by (intro keeps_rules untimed_Activate)

lemma untimed_escapeField: "keeps (\<lambda>w. timer_view w = v) escapeField"
  unfolding escapeField_def
  by (intro keeps_rules untimed_blurField untimed_Activate untimed_upd_box; simp)

lemma untimed_openResultsWindow: "keeps (\<lambda>w. timer_view w = v) (openResultsWindow S win)"
  unfolding openResultsWindow_def Let_def by (intro keeps_rules)

lemma untimed_mark_items: "keeps (\<lambda>w. timer_view w = v) (mark_items i j cs)"
  by (induction i j cs rule: mark_items.induct)
     (simp_all only: mark_items.simps keeps_rules)

lemma untimed_SelectItemSet: "keeps (\<lambda>w. timer_view w = v) (SelectItemSet i)"
  unfolding SelectItemSet_def by (intro keeps_rules untimed_mark_items)

lemma Search_view:
  "timer_view (snd (Search S w)) = timer_view (w\<lparr>box := (box w)\<lparr>keyTimeout := 0\<rparr>\<rparr>)"
proof -
  obtain rest where S: "Search S = jbind (upd_box (\<lambda>b. b\<lparr>keyTimeout := 0\<rparr>)) (\<lambda>_. rest)"
    and rest: "\<And>v. keeps (\<lambda>w. timer_view w = v) rest"
  proof
    show "Search S = jbind (upd_box (\<lambda>b. b\<lparr>keyTimeout := 0\<rparr>)) (\<lambda>_.
       jbind (elem MSearchField) (\<lambda>f.
       jbind (page_node f) (\<lambda>fld.
       let searchValue = strip_leading (val fld) in
       jbind (jget box) (\<lambda>b.
       jbind (of_option TypeError (results_page S b searchValue)) (\<lambda>(resultsPage, withSearch).
       jbind (jmod (\<lambda>w. w\<lparr>frameLocation := withSearch\<rparr>)) (\<lambda>_.
       jbind (elem MSearchResultsWindow) (\<lambda>win.
       jbind (page_node win) (\<lambda>wn.
       block [jwhen (style wn ''display'' \<noteq> block_str) (openResultsWindow S win),
              upd_box (\<lambda>b. b\<lparr>lastSearchValue := searchValue,
                             lastResultsPage := resultsPage\<rparr>)]))))))))"
      by (simp only: Search_def)
  qed (unfold Let_def case_prod_unfold,
       intro keeps_rules untimed_openResultsWindow untimed_upd_box, simp)
  show ?thesis
    using keepsD [OF rest refl] by (simp add: S run_jbind run_upd_box)
qed

lemma timers_ok_Search: "keeps timers_ok (Search S)"
  unfolding keeps_def timers_ok_view [OF Search_view] by (simp add: timers_ok_def)

lemma timers_ok_OnSelectItem: "keeps timers_ok (OnSelectItem S i)"
  unfolding OnSelectItem_def
  by (intro keeps_jbind keeps_jwhen keeps_jget timers_ok_Search
      untimed_timers_ok [OF untimed_upd_box]
      untimed_timers_ok [OF untimed_SelectItemSet] untimed_elem untimed_page_node; simp)

lemma killKeyTimer_timers:
  assumes "timers_ok w"
  shows "timers_ok (snd (killKeyTimer w))" "keyTimeout (box (snd (killKeyTimer w))) = 0"
    "debounced w \<Longrightarrow> debounced (snd (killKeyTimer w))"
  using assms
  by (auto simp: killKeyTimer_def js_run timers_ok_def debounced_def search_code_def
      distinct_map_filter)

lemma setTimeout_key:
  assumes "timers_ok w" "keyTimeout (box w) = 0"
  shows "timers_ok (snd (jbind (setTimeout (boxName (box w) @ js ''.Search()'')
      (keyTimeoutLength (box w))) (\<lambda>t. upd_box (\<lambda>b. b\<lparr>keyTimeout := t\<rparr>)) w))"
    "debounced w \<Longrightarrow> debounced (snd (jbind (setTimeout (boxName (box w) @ js ''.Search()'')
      (keyTimeoutLength (box w))) (\<lambda>t. upd_box (\<lambda>b. b\<lparr>keyTimeout := t\<rparr>)) w))"
  using assms by (auto simp: js_run timers_ok_def debounced_def search_code_def)

lemma scheduleSearch_timers:
  assumes "timers_ok w" "keyTimeout (box w) = 0"
  shows "timers_ok (snd (scheduleSearch w)) \<and> (debounced w \<longrightarrow> debounced (snd (scheduleSearch w)))"
proof (cases "getElementById (page w) MSearchField")
  case None
  with assms show ?thesis by (simp add: scheduleSearch_def js_run)
next
  case (Some k)
  have close: "keeps (\<lambda>w. timer_view w = v) (block [set_display MSearchResultsWindow none_str,
      set_display MSearchClose none_str, upd_box (\<lambda>b. b\<lparr>lastSearchValue := []\<rparr>)])" for v
    by (intro keeps_rules untimed_upd_box; simp)
  note keep = keepsD [OF untimed_timers_ok [OF close]]
    keepsD [OF untimed_debounced [OF close]]
  show ?thesis
    using Some assms keep [where s = w] setTimeout_key [OF assms]
    by (cases "node_at (page w) k")
       (auto simp: scheduleSearch_def run_elem run_page_node run_jbind Let_def simp del: block.simps)
qed

lemma OnSearchSelectHide_timers:
  assumes "timers_ok w"
  shows "timers_ok (snd (OnSearchSelectHide w)) \<and>
     (debounced w \<longrightarrow> debounced (snd (OnSearchSelectHide w)))"
  using assms
  by (auto simp: OnSearchSelectHide_def js_run timers_ok_def debounced_def search_code_def)

lemma killHideTimer_timers:
  "keeps timers_ok killHideTimer" "keeps debounced killHideTimer"
  by (auto simp: keeps_def killHideTimer_def js_run timers_ok_def debounced_def search_code_def
      distinct_map_filter)

lemma OnSearchSelectShow_timers_ok: "keeps timers_ok (OnSearchSelectShow S)"
  unfolding OnSearchSelectShow_def Let_def
  by (intro keeps_jbind keeps_jget keeps_of_option keeps_block_Nil keeps_block_Cons
      untimed_elem killHideTimer_timers untimed_timers_ok [OF untimed_upd_page])

lemma OnSearchSelectShow_debounced: "keeps debounced (OnSearchSelectShow S)"
  unfolding OnSearchSelectShow_def Let_def
  by (intro keeps_jbind keeps_jget keeps_of_option keeps_block_Nil keeps_block_Cons
      untimed_elem killHideTimer_timers untimed_debounced [OF untimed_upd_page])

lemma run_killKeyTimer:
  "killKeyTimer w = (Inr (), if keyTimeout (box w) = 0 then w else
     w\<lparr>timers := filter (\<lambda>(i, _). i \<noteq> keyTimeout (box w)) (timers w),
       box := (box w)\<lparr>keyTimeout := 0\<rparr>\<rparr>)"
  by (simp add: killKeyTimer_def js_run)

lemma OnSearchFieldChange_timers:
  assumes w: "timers_ok w"
  shows "timers_ok (snd (OnSearchFieldChange S e w)) \<and>
     (debounced w \<longrightarrow> debounced (snd (OnSearchFieldChange S e w)))"
proof -
  obtain v where v: "killKeyTimer w = (Inr (), v)"
    by (simp add: run_killKeyTimer)
  have ok: "timers_ok v" "keyTimeout (box v) = 0" "debounced w \<Longrightarrow> debounced v"
    using killKeyTimer_timers [OF w] v by auto
  have msg: "timer_view (v\<lparr>frameMessages := m\<rparr>) = timer_view v" for m
    by (simp add: timer_view_def)
  have sched: "timers_ok (snd (scheduleSearch u)) \<and> (debounced w \<longrightarrow> debounced (snd (scheduleSearch u)))"
    if "timer_view u = timer_view v" for u
    using scheduleSearch_timers [of u] ok that timers_ok_view [OF that] debounced_view [OF that]
    by (auto simp: timer_view_def)
  have show_menu: "keeps I (block [OnSearchSelectShow S, focusFirstItem])"
    if "keeps I (OnSearchSelectShow S)" "keeps I focusFirstItem" for I
    using that by (intro keeps_block_Nil keeps_block_Cons)
  note focus = untimed_timers_ok [OF untimed_focusFirstItem]
    untimed_debounced [OF untimed_focusFirstItem]
  note esc = untimed_timers_ok [OF untimed_escapeField]
    untimed_debounced [OF untimed_escapeField]
  have run: "OnSearchFieldChange S e w =
     (if keyCode e = 40 \<or> keyCode e = 13 then
        if shiftKey e then block [OnSearchSelectShow S, focusFirstItem] v
        else scheduleSearch (v\<lparr>frameMessages := frameMessages v @ [js ''take_focus'']\<rparr>)
      else if keyCode e = 27 then escapeField v else scheduleSearch v)"
    using v by (simp add: OnSearchFieldChange_def run_jbind split: prod.split sum.split)
  show ?thesis
    unfolding run
    using keepsD [OF show_menu [OF OnSearchSelectShow_timers_ok focus(1)], where s = v]
      keepsD [OF show_menu [OF OnSearchSelectShow_debounced focus(2)], where s = v]
      keepsD [OF esc(1), where s = v] keepsD [OF esc(2), where s = v] sched [OF refl] sched [OF msg] ok
    by (simp del: block.simps)
qed

lemma expire_cleared:
  assumes "timers_ok w" "(t, c, ms) \<in> set (timers w)"
  defines "v \<equiv> w\<lparr>timers := filter (\<lambda>(i, _). i \<noteq> t) (timers w)\<rparr>"
  shows "c \<noteq> search_code (box w) \<Longrightarrow> timers_ok v"
    and "c \<noteq> search_code (box w) \<Longrightarrow> debounced w \<Longrightarrow> debounced v"
    and "timers_ok (v\<lparr>box := (box v)\<lparr>keyTimeout := 0\<rparr>\<rparr>)"
    and "c = search_code (box w) \<Longrightarrow> debounced w \<Longrightarrow>
      debounced (v\<lparr>box := (box v)\<lparr>keyTimeout := 0\<rparr>\<rparr>)"
proof -
  have unique: "(t, c', ms') \<in> set (timers w) \<Longrightarrow> c' = c \<and> ms' = ms" for c' ms'
    using assms(1,2) by (auto simp: timers_ok_def dest: eq_key_imp_eq_value)
  show "timers_ok v" if "c \<noteq> search_code (box w)"
    using assms(1) unique that
    by (auto simp: v_def timers_ok_def distinct_map_filter)
  then show "debounced v" if "c \<noteq> search_code (box w)" "debounced w"
    using that by (auto simp: v_def debounced_def)
  show "timers_ok (v\<lparr>box := (box v)\<lparr>keyTimeout := 0\<rparr>\<rparr>)"
    using assms(1) by (auto simp: v_def timers_ok_def distinct_map_filter)
  then show "debounced (v\<lparr>box := (box v)\<lparr>keyTimeout := 0\<rparr>\<rparr>)"
    if "c = search_code (box w)" "debounced w"
  proof -
    have D: "i = keyTimeout (box w)" if "(i, search_code (box w), k) \<in> set (timers w)" for i k
      using \<open>debounced w\<close> that by (auto simp: debounced_def)
    have "t = keyTimeout (box w)" using assms(2) that(1) D by blast
    then show ?thesis
      using \<open>timers_ok (v\<lparr>box := (box v)\<lparr>keyTimeout := 0\<rparr>\<rparr>)\<close>
      by (auto simp: v_def debounced_def search_code_def dest: D [unfolded search_code_def])
  qed
qed

lemma expire_timers:
  assumes w: "timers_ok w"
  shows "timers_ok (snd (expire S t w)) \<and> (debounced w \<longrightarrow> debounced (snd (expire S t w)))"
proof (cases "find (\<lambda>(i, _). i = t) (timers w)")
  case None
  with w show ?thesis by (simp add: expire_def js_run)
next
  case (Some a)
  then obtain c ms where a: "a = (t, c, ms)" and mem: "(t, c, ms) \<in> set (timers w)"
    by (auto dest: find_Some_P)
  let ?v = "w\<lparr>timers := filter (\<lambda>(i, _). i \<noteq> t) (timers w)\<rparr>"
  have run: "snd (expire S t w) = snd ((if c = search_code (box w) then Search S
      else if c = hide_code (box w) then CloseSelectionWindow else jret ()) ?v)"
    using Some a by (auto simp: expire_def js_run split: prod.split sum.split)
  have close: "timer_view (snd (CloseSelectionWindow ?v)) = timer_view ?v"
    unfolding CloseSelectionWindow_def using keepsD [OF untimed_set_display refl] .
  note cleared = expire_cleared [OF w mem]
  show ?thesis
    unfolding run
    using cleared timers_ok_view [OF Search_view, of S ?v] debounced_view [OF Search_view, of S ?v]
      timers_ok_view [OF close] debounced_view [OF close]
    by simp
qed

lemma OnSearchSelectKey_timers_ok: "keeps timers_ok (OnSearchSelectKey S e)"
  unfolding OnSearchSelectKey_def SelectItemCount_def CloseSelectionWindow_def
  by (intro keeps_jbind keeps_jget keeps_jret keeps_if keeps_jwhen keeps_block_Nil
      keeps_block_Cons timers_ok_OnSelectItem untimed_elem
      untimed_timers_ok [OF untimed_upd_box]
      untimed_timers_ok [OF untimed_focusNode]
      untimed_timers_ok [OF untimed_set_display]; simp)

lemma handle_timers_ok: "timers_ok w \<Longrightarrow> timers_ok (snd (handle S e w))"
proof (cases e)
  case (FieldFocus a)
  assume "timers_ok w"
  with FieldFocus show ?thesis
    using keepsD [OF untimed_timers_ok [OF untimed_Activate]]
    by (simp add: OnSearchFieldFocus_def)
next
  case (Typed v)
  have "keeps (\<lambda>w. timer_view w = u) (handle S (Typed v))" for u
    by (simp add: keeps_jbind untimed_elem untimed_upd_page)
  moreover assume "timers_ok w"
  ultimately show ?thesis
    unfolding Typed using keepsD [OF untimed_timers_ok [OF _]] by blast
next
  case CloseResults
  assume "timers_ok w"
  with CloseResults show ?thesis
    using keepsD [OF untimed_timers_ok [OF untimed_CloseResultsWindow]] by simp
qed (simp_all add: OnSearchFieldChange_timers OnSearchSelectHide_timers expire_timers
    keepsD [OF OnSearchSelectShow_timers_ok] keepsD [OF timers_ok_OnSelectItem]
    keepsD [OF OnSearchSelectKey_timers_ok])

text \<open>The events that do not start a search from the filter menu.\<close>

fun field_event :: "panel_event \<Rightarrow> bool" where
  "field_event (SelectItem i) = False"
| "field_event (SelectKey e) = False"
| "field_event e = True"

lemma handle_debounced: "field_event e \<Longrightarrow> debounced w \<Longrightarrow> debounced (snd (handle S e w))"
proof (cases e)
  case (FieldFocus a)
  assume "debounced w"
  with FieldFocus show ?thesis
    using keepsD [OF untimed_debounced [OF untimed_Activate]]
    by (simp add: OnSearchFieldFocus_def)
next
  case (Typed v)
  have "keeps (\<lambda>w. timer_view w = u) (handle S (Typed v))" for u
    by (simp add: keeps_jbind untimed_elem untimed_upd_page)
  moreover assume "debounced w"
  ultimately show ?thesis
    unfolding Typed using keepsD [OF untimed_debounced [OF _]] by blast
next
  case CloseResults
  assume "debounced w"
  with CloseResults show ?thesis
    using keepsD [OF untimed_debounced [OF untimed_CloseResultsWindow]] by simp
qed (simp_all add: OnSearchFieldChange_timers OnSearchSelectHide_timers expire_timers
    keepsD [OF OnSearchSelectShow_debounced] debounced_def [THEN iffD1, THEN conjunct1])

section \<open>Runs\<close>

text \<open>
  A run of the panel: the events one after the other. An exception ends the handler, not
  the run.
\<close>

fun run_events :: "site \<Rightarrow> panel_event list \<Rightarrow> world \<Rightarrow> world" where
  "run_events S [] w = w"
| "run_events S (e # es) w = run_events S es (snd (handle S e w))"

inductive reachable :: "site \<Rightarrow> world \<Rightarrow> world \<Rightarrow> bool" for S w0 where
  start: "reachable S w0 w0"
| step: "reachable S w0 w \<Longrightarrow> reachable S w0 (snd (handle S e w))"

lemma reachable_timers_ok: "reachable S w0 w \<Longrightarrow> timers_ok w0 \<Longrightarrow> timers_ok w"
  by (induction rule: reachable.induct) (simp_all add: handle_timers_ok)

lemma run_events_debounced:
  "list_all field_event es \<Longrightarrow> debounced w \<Longrightarrow> debounced (run_events S es w)"
  by (induction S es w rule: run_events.induct) (auto intro: handle_debounced)

definition search_timers :: "world \<Rightarrow> (nat \<times> jstr \<times> nat) list" where
  "search_timers w = filter (\<lambda>(i, c, ms). c = search_code (box w)) (timers w)"

lemma debounced_at_most_one: "debounced w \<Longrightarrow> length (search_timers w) \<le> 1"
proof -
  assume w: "debounced w"
  then have d: "distinct (map fst (search_timers w))"
    by (simp add: debounced_def timers_ok_def search_timers_def distinct_map_filter)
  have "set (map fst (search_timers w)) \<subseteq> {keyTimeout (box w)}"
    using w by (auto simp: debounced_def search_timers_def)
  then have "card (set (map fst (search_timers w))) \<le> 1"
    by (metis card.empty card_insert_disjoint card_mono empty_iff finite.intros One_nat_def)
  with d show ?thesis by (metis distinct_card length_map)
qed

section \<open>Properties\<close>

text \<open>The events whose section number the index tables know.\<close>

fun event_fits :: "site \<Rightarrow> world \<Rightarrow> panel_event \<Rightarrow> bool" where
  "event_fits S w (SelectItem i) = in_sections S i"
| "event_fits S w (SelectKey e) =
     (keyCode e = 40 \<longrightarrow> in_sections S (searchIndex (box w) + 1))"
| "event_fits S w e = True"

lemma safe_Typed: "safe (panel_ok S) (handle S (Typed v))"
proof (rule safe_page_only)
  fix w :: world assume ok: "page_ok (page w)"
  obtain k n where "getElementById (page w) MSearchField = Some k"
    using ok by (rule panel_found(1))
  with ok show "\<exists>x w'. handle S (Typed v) w = (Inr x, w') \<and> page_ok (page w') \<and>
      searchIndex (box w') = searchIndex (box w)"
    by (simp add: js_run dom_simps)
qed

lemma in_sections_readme: "in_sections readme_site i \<longleftrightarrow> 0 \<le> i \<and> i < 3"
  by (auto simp: in_sections_def readme_site_def readme_indexSectionsWithContent_def)

lemma site_ok_readme: "site_ok readme_site"
  by (simp add: site_ok_def readme_site_def flat_offsets_ok)

lemma panel_ok_start: "panel_ok readme_site panel_world"
  by (simp add: panel_ok_def panel_world_def page_ok_panel_doc in_sections_readme SearchBox_def)

text \<open>
  (C5) On a well-formed page every handler of the search panel returns (no exception, no
  endless loop) and leaves the page well formed and the selected section within the
  index tables, whatever the event, but for a step down from the last filter entry.
\<close>

theorem panel_handlers_return:
  assumes "site_ok S" and "panel_ok S w" and "event_fits S w e"
  shows "\<exists>w'. handle S e w = (Inr (), w') \<and> panel_ok S w'"
proof -
  have "\<exists>x w'. handle S e w = (Inr x, w') \<and> panel_ok S w'"
  proof (cases e)
    case (SelectItem i)
    with assms OnSelectItem_ok [OF assms(1), of w i] show ?thesis by (simp add: panel_ok_def)
  next
    case (SelectKey k)
    with assms OnSearchSelectKey_ok [OF assms(1,2), of k] show ?thesis by simp
  next
    case (Expire t)
    with expire_ok [OF assms(1,2), of t] show ?thesis by simp
  next
    case (Typed v)
    with safeD [OF safe_Typed assms(2)] show ?thesis by blast
  qed (use safeD [OF safe_OnSearchFieldFocus assms(2)] safeD [OF safe_CloseResultsWindow assms(2)]
      safeD [OF safe_OnSearchFieldChange [OF assms(1)] assms(2)]
      safeD [OF safe_OnSearchSelectShow [OF assms(1)] assms(2)]
      safeD [OF safe_OnSearchSelectHide assms(2)] in simp_all)
  then show ?thesis by simp
qed

theorem panel_handlers_return_witness:
  "\<exists>w'. handle readme_site (SelectItem 2) panel_world = (Inr (), w') \<and> panel_ok readme_site w'"
  by (rule panel_handlers_return [OF site_ok_readme panel_ok_start])
     (simp add: in_sections_readme)

end
