(* ===== verification/Search_Panel_Props.thy ===== *)
theory Search_Panel_Props
  imports Search_Panel
begin

text \<open>
  What the handlers of the search panel do: positions, the page a search loads, the
  filter menu, the timers, and how the panel is closed and reopened.
\<close>

section \<open>The field and the menu\<close>

lemma field_value_setters [dom_simps]:
  "field_value (upd_node d k (set_html h)) = field_value d"
  "field_value (upd_node d k (set_style p v)) = field_value d"
  "field_value (upd_node d k (set_attr ''class'' c)) = field_value d"
  by (auto simp: field_value_def elemNode_def dom_simps split: option.split)

lemma mark_items_field:
  "mark_items i j cs w = (Inr (), w') \<Longrightarrow> field_value (page w') = field_value (page w)"
proof (induction i j cs arbitrary: w rule: mark_items.induct)
  case (2 i j c cs)
  then obtain n where n: "firstChild (page w) c = Some n"
    by (cases "firstChild (page w) c") (simp_all add: js_run)
  with 2 show ?case by (simp add: js_run dom_simps)
qed simp

lemma SelectItemSet_field:
  assumes "page_ok (page w)"
  shows "\<exists>w'. SelectItemSet i w = (Inr (), w') \<and> page_ok (page w') \<and> box w' = box w \<and>
     timers w' = timers w \<and> field_value (page w') = field_value (page w)"
proof -
  obtain w' where w': "SelectItemSet i w = (Inr (), w')" "page_ok (page w')" "box w' = box w"
    "timers w' = timers w" using SelectItemSet_run [OF assms] by blast
  moreover have "field_value (page w') = field_value (page w)"
    using w'(1) by (auto simp: SelectItemSet_def js_run dest: mark_items_field split: option.splits)
  ultimately show ?thesis by blast
qed

section \<open>Activation\<close>

lemma displayOf_setters [dom_simps]:
  "displayOf (upd_node d k (set_val x)) i = displayOf d i"
  "displayOf (upd_node d k (set_attr ''class'' c)) i = displayOf d i"
  by (auto simp: displayOf_def elemNode_def dom_simps option.map_comp comp_def split: option.split)

lemma Activate_frame:
  assumes ok: "page_ok (page w)"
  shows "\<exists>w'. Activate a w = (Inr (), w') \<and> page_ok (page w') \<and>
     (\<forall>i. getElementById (page w') i = getElementById (page w) i) \<and>
     (\<forall>i. displayOf (page w') i = displayOf (page w) i) \<and>
     focused (page w') = focused (page w) \<and> searchLabel (box w') = searchLabel (box w) \<and>
     keyTimeout (box w') = keyTimeout (box w)"
proof -
  obtain kw nw where W: "getElementById (page w) MSearchResultsWindow = Some kw"
    "node_at (page w) kw = Some nw" using ok by (rule panel_found(5))
  obtain kb nb where B: "getElementById (page w) MSearchBox = Some kb"
    using ok by (rule panel_found(7))
  obtain kf nf where F: "getElementById (page w) MSearchField = Some kf"
    "node_at (page w) kf = Some nf" using ok by (rule panel_found(1))
  show ?thesis
    using ok W B F by (auto simp: Activate_def js_run dom_simps)
qed

lemma Activate_False_closed:
  assumes ok: "page_ok (page w)" and closed: "displayOf (page w) MSearchResultsWindow \<noteq> Some block_str"
  shows "\<exists>w'. Activate False w = (Inr (), w') \<and> page_ok (page w') \<and>
     (\<forall>i. getElementById (page w') i = getElementById (page w) i) \<and>
     (\<forall>i. displayOf (page w') i = displayOf (page w) i) \<and>
     focused (page w') = focused (page w) \<and> field_value (page w') = searchLabel (box w) \<and>
     box w' = (box w)\<lparr>searchActive := False, lastSearchValue := [], lastResultsPage := []\<rparr>"
proof -
  obtain kw nw where W: "getElementById (page w) MSearchResultsWindow = Some kw"
    "node_at (page w) kw = Some nw" using ok by (rule panel_found(5))
  obtain kb nb where B: "getElementById (page w) MSearchBox = Some kb"
    using ok by (rule panel_found(7))
  obtain kf nf where F: "getElementById (page w) MSearchField = Some kf"
    "node_at (page w) kf = Some nf" using ok by (rule panel_found(1))
  have "style nw ''display'' \<noteq> block_str" using closed W by (simp add: displayOf_def elemNode_def)
  then show ?thesis
    using ok W B F by (auto simp: Activate_def js_run dom_simps field_value_def elemNode_def)
qed

lemma displayOf_focus [simp]: "displayOf (d\<lparr>focused := x\<rparr>) i = displayOf d i"
  by (simp add: displayOf_def elemNode_def cong: option.case_cong)

lemma blurField_frame:
  assumes ok: "page_ok (page w)" and f: "getElementById (page w) MSearchField = Some k"
  shows "\<exists>w'. blurField k w = (Inr (), w') \<and> page_ok (page w') \<and>
     (\<forall>i. getElementById (page w') i = getElementById (page w) i) \<and>
     (\<forall>i. displayOf (page w') i = displayOf (page w) i) \<and> focused (page w') \<noteq> Some k \<and>
     searchLabel (box w') = searchLabel (box w) \<and> keyTimeout (box w') = keyTimeout (box w)"
  using ok f Activate_frame [of "w\<lparr>page := (page w)\<lparr>focused := None\<rparr>\<rparr>" False]
  by (auto simp: blurField_def blurPage_def OnSearchFieldFocus_def js_run)

lemma set_display_run:
  assumes ok: "page_ok (page w)" and i: "i \<in> set panel_ids"
  shows "\<exists>w'. set_display i v w = (Inr (), w') \<and> page_ok (page w') \<and> box w' = box w \<and>
     (\<forall>j. getElementById (page w') j = getElementById (page w) j) \<and>
     displayOf (page w') i = Some v \<and> focused (page w') = focused (page w) \<and>
     (\<forall>j. displayOf (page w) j = Some v \<longrightarrow> displayOf (page w') j = Some v)"
proof -
  obtain k n where K: "getElementById (page w) i = Some k" "node_at (page w) k = Some n"
    using ok i by (rule panel_ids_found)
  then show ?thesis
    using ok by (auto simp: js_run dom_simps displayOf_def elemNode_def split: option.splits)
qed

lemma hide_windows:
  assumes ok: "page_ok (page w)"
  obtains w1 w2 where "set_display MSearchResultsWindow none_str w = (Inr (), w1)"
    "set_display MSearchClose none_str w1 = (Inr (), w2)" "page_ok (page w2)" "box w2 = box w"
    "\<And>j. getElementById (page w2) j = getElementById (page w) j"
    "focused (page w2) = focused (page w)"
    "displayOf (page w2) MSearchResultsWindow = Some none_str"
    "displayOf (page w2) MSearchClose = Some none_str"
proof -
  obtain w1 where w1: "set_display MSearchResultsWindow none_str w = (Inr (), w1)"
    "page_ok (page w1)" "box w1 = box w"
    "\<forall>j. getElementById (page w1) j = getElementById (page w) j"
    "displayOf (page w1) MSearchResultsWindow = Some none_str"
    "focused (page w1) = focused (page w)"
    using set_display_run [OF ok panel_ids_members(5), of none_str] by blast
  obtain w2 where "set_display MSearchClose none_str w1 = (Inr (), w2)"
    "page_ok (page w2)" "box w2 = box w1"
    "\<forall>j. getElementById (page w2) j = getElementById (page w1) j"
    "displayOf (page w2) MSearchClose = Some none_str"
    "focused (page w2) = focused (page w1)"
    "\<forall>j. displayOf (page w1) j = Some none_str \<longrightarrow> displayOf (page w2) j = Some none_str"
    using set_display_run [OF w1(2) panel_ids_members(6), of none_str] by blast
  with w1 show ?thesis by (intro that [of w1 w2]) simp_all
qed

section \<open>Properties\<close>

inductive_simps offset_chain_Some: "offset_chain par body (Some k) ks"
inductive_simps offset_chain_None: "offset_chain par body None ks"

text \<open>
  (C31) \<open>getXPos\<close> and \<open>getYPos\<close> return: the sum of the offsets along the chain of offset
  parents below the body, or 0 for an element that is not laid out.
\<close>

theorem positions_are_sums:
  assumes "offsets_ok g"
  shows "\<exists>ks. offset_chain (offsetParent g) body (Some k) ks \<and>
     getXPos g body k = Some (if offsetWidth g k = 0 then 0 else sum_list (map (offsetLeft g) ks)) \<and>
     getYPos g body k = Some (if offsetWidth g k = 0 then 0 else sum_list (map (offsetTop g) ks))"
proof -
  from offset_chain_offsets_ok [OF assms]
  obtain ks where "offset_chain (offsetParent g) body (Some k) ks" by blast
  then show ?thesis by (auto simp: getXPos_def getYPos_def sumOffsets_chain)
qed

theorem positions_are_sums_witness:
  "getXPos (flat_layout panel_doc) (Some 1) 4 = Some 4"
proof -
  obtain ks where chain: "offset_chain (offsetParent (flat_layout panel_doc)) (Some 1) (Some 4) ks"
    and x: "getXPos (flat_layout panel_doc) (Some 1) 4 =
      Some (if offsetWidth (flat_layout panel_doc) 4 = 0 then 0
            else sum_list (map (offsetLeft (flat_layout panel_doc)) ks))"
    using positions_are_sums [OF flat_offsets_ok [of panel_doc], of "Some 1" 4] by blast
  from chain have "ks = [4]"
    by (simp add: offset_chain_Some flat_layout_def)
  with x show ?thesis by (simp add: flat_layout_def)
qed

text \<open>
  (C8) A search for a text whose first character has a result page in the selected
  section loads exactly that page, with the escaped text as its query, shows the result
  window and remembers the search; no key timer stays registered.
\<close>

theorem search_loads_results_page:
  assumes "site_ok S" "page_ok (page w)"
    and "at (indexSectionsWithContent S) (searchIndex (box w)) = Some content"
    and "at (indexSectionNames S) (searchIndex (box w)) = Some sec"
    and "indexOf content (index_char S v) = int n"
    and "strip_leading (field_value (page w)) = v"
  shows "\<exists>w'. Search S w = (Inr (), w') \<and>
     frameLocation w' = resultsPath (box w) @ js ''/'' @ sec @ js ''_'' @ toString16 n @
       extension (box w) @ js ''?'' @ escape v \<and>
     displayOf (page w') MSearchResultsWindow = Some block_str \<and>
     lastSearchValue (box w') = v \<and> keyTimeout (box w') = 0"
proof -
  let ?p = "resultsPath (box w) @ js ''/'' @ sec @ js ''_'' @ toString16 n @ extension (box w)"
  have "results_page S (box w) v = Some (?p, ?p @ js ''?'' @ escape v)"
    using assms by (simp add: results_page_def Let_def)
  with Search_run [OF assms(1,2), of ?p] assms(6) show ?thesis by auto
qed

theorem search_loads_results_page_witness:
  "\<exists>w'. Search readme_site (panel_world\<lparr>page := upd_node panel_doc 4 (set_val (js '' build''))\<rparr>)
       = (Inr (), w') \<and> frameLocation w' = js ''search/all_1.html?'' @ escape (js ''build'')"
proof -
  let ?w = "panel_world\<lparr>page := upd_node panel_doc 4 (set_val (js '' build''))\<rparr>"
  have hex: "toString16 (Suc 0) = js ''1''"
    by (simp add: toString16.simps hexlo_def js_Cons cu_of_def)
  have "page_ok (page ?w)" by (simp add: dom_simps page_ok_panel_doc)
  moreover have "at (indexSectionsWithContent readme_site) (searchIndex (box ?w)) = Some (js ''abghoprt'')"
    "at (indexSectionNames readme_site) (searchIndex (box ?w)) = Some (js ''all'')"
    by (simp_all add: at_def readme_site_def readme_indexSectionsWithContent_def
        readme_indexSectionNames_def panel_world_def SearchBox_def)
  moreover have "indexOf (js ''abghoprt'') (index_char readme_site (js ''build'')) = int 1"
    by (simp add: index_char_def js_string Let_def readme_site_def exceeds_one_def char_lower_def
        split: list.split)
  moreover have "strip_leading (field_value (page ?w)) = js ''build''"
    by (simp add: field_value_def elemNode_def dom_simps panel_doc_ids panel_doc_nodes js_string)
  ultimately obtain w' where "Search readme_site ?w = (Inr (), w')"
    "frameLocation w' = resultsPath (box ?w) @ js ''/'' @ js ''all'' @ js ''_'' @ toString16 1 @
       extension (box ?w) @ js ''?'' @ escape (js ''build'')"
    using search_loads_results_page [OF site_ok_readme, of ?w "js ''abghoprt''" "js ''all''" "js ''build''" 1]
    by blast
  then show ?thesis
    by (simp add: hex panel_world_def SearchBox_def flip: append_assoc add: js_append)
qed

text \<open>
  (C33) The step down from the last filter entry: the handler compares the section number
  with the number of entries, so it moves one past the last section, and the search it
  starts fails with a \<open>TypeError\<close> on the missing table entry.
\<close>

theorem select_key_runs_off_end:
  assumes ok: "page_ok (page w)"
    and win: "getElementById (page w) MSearchSelectWindow = Some win"
    and full: "length (select_items (page w) win) = length (indexSectionsWithContent S)"
    and last: "searchIndex (box w) + 1 = int (length (indexSectionsWithContent S))"
    and typed: "remove_blanks (field_value (page w)) \<noteq> []" and active: "searchActive (box w)"
    and key: "keyCode e = 40"
  shows "\<exists>w'. OnSearchSelectKey S e w = (Inl TypeError, w') \<and>
     searchIndex (box w') = int (length (indexSectionsWithContent S))"
proof -
  let ?n = "int (length (indexSectionsWithContent S))"
  let ?w = "w\<lparr>box := (box w)\<lparr>searchIndex := ?n\<rparr>\<rparr>"
  obtain w1 where w1: "SelectItemSet ?n ?w = (Inr (), w1)" "page_ok (page w1)"
    "box w1 = box ?w" "field_value (page w1) = field_value (page w)"
    using SelectItemSet_field [of ?w ?n] ok by auto
  obtain k n where F: "getElementById (page w1) MSearchField = Some k" "node_at (page w1) k = Some n"
    using w1(2) by (rule panel_found(1))
  have "val n = field_value (page w1)" using F by (simp add: field_value_def elemNode_def)
  moreover have "results_page S (box w1) v = None" for v
    by (simp add: results_page_def at_def w1(3))
  ultimately have "OnSelectItem S ?n ?w = (Inl TypeError, w1\<lparr>box := (box w1)\<lparr>keyTimeout := 0\<rparr>\<rparr>)"
    using w1 F typed active by (simp add: OnSelectItem_def Search_def Let_def js_run)
  moreover have "searchIndex (box w) < int (length (select_items (page w) win))"
    using full last by simp
  ultimately show ?thesis
    using win key last w1 by (simp add: OnSearchSelectKey_def SelectItemCount_def js_run)
qed

theorem select_key_runs_off_end_witness:
  "\<exists>w'. OnSearchSelectKey readme_site \<lparr>keyCode = 40, shiftKey = False\<rparr>
      (panel_world\<lparr>page := upd_node panel_doc 4 (set_val (js ''build'')),
         box := (box panel_world)\<lparr>searchIndex := 2, searchActive := True\<rparr>\<rparr>) = (Inl TypeError, w') \<and>
     searchIndex (box w') = int (length (indexSectionsWithContent readme_site))"
  by (rule select_key_runs_off_end [where win = 6])
     (simp_all add: dom_simps page_ok_panel_doc panel_doc_ids panel_doc_nodes readme_site_def
      readme_indexSectionsWithContent_def field_value_def elemNode_def js_string)

text \<open>
  (C9) In every state the panel reaches from its start, timer identifiers are unique and
  fresh, a non-zero \<open>keyTimeout\<close> names a pending search timer with the configured delay,
  and \<open>hideTimeout\<close> never names that timer, so showing the menu cannot cancel a search.
\<close>

theorem reachable_timers:
  assumes "timers_ok w0" and "reachable S w0 w"
  shows "timers_ok w"
  using assms reachable_timers_ok by blast

lemma timers_ok_start: "timers_ok panel_world"
  by (simp add: timers_ok_def panel_world_def SearchBox_def)

theorem reachable_timers_witness:
  "timers_ok (snd (handle readme_site SelectHide panel_world))"
  by (rule reachable_timers [OF timers_ok_start, of readme_site])
     (intro reachable.intros)

text \<open>
  (C10) Debounce: as long as no search is started from the filter menu, at most one search
  is pending, however the events of the field, the timers and the menu interleave.
\<close>

theorem at_most_one_pending_search:
  assumes "list_all field_event es" and "timers w = []" and "keyTimeout (box w) = 0"
    and "hideTimeout (box w) = 0" and "0 < nextTimer w"
  shows "length (search_timers (run_events S es w)) \<le> 1"
proof -
  have "debounced w" using assms by (simp add: debounced_def timers_ok_def)
  with run_events_debounced [OF assms(1)] show ?thesis by (blast intro: debounced_at_most_one)
qed

theorem at_most_one_pending_search_witness:
  "length (search_timers (run_events readme_site
     [FieldFocus True, Typed (js ''a''), FieldKey \<lparr>keyCode = 65, shiftKey = False\<rparr>,
      Typed (js ''ab''), FieldKey \<lparr>keyCode = 66, shiftKey = False\<rparr>] panel_world)) \<le> 1"
  by (rule at_most_one_pending_search) (simp_all add: panel_world_def SearchBox_def)

text \<open>
  (C34) A search started from the filter menu while a key timer is pending resets
  \<open>keyTimeout\<close> to 0 without cancelling that timer: it stays pending and unknown to the
  panel, so the next key stroke cannot cancel it.
\<close>

theorem menu_search_leaves_timer:
  assumes S: "site_ok S" and ok: "page_ok (page w)" and i: "in_sections S i"
    and typed: "remove_blanks (field_value (page w)) \<noteq> []" and active: "searchActive (box w)"
    and pending: "timers_ok w" "keyTimeout (box w) \<noteq> 0"
  shows "\<exists>w'. OnSelectItem S i w = (Inr (), w') \<and> keyTimeout (box w') = 0 \<and>
     (keyTimeout (box w), search_code (box w'), keyTimeoutLength (box w')) \<in> set (timers w')"
proof -
  let ?w = "w\<lparr>box := (box w)\<lparr>searchIndex := i\<rparr>\<rparr>"
  obtain w1 where w1: "SelectItemSet i ?w = (Inr (), w1)" "page_ok (page w1)"
    "box w1 = box ?w" "timers w1 = timers w" "field_value (page w1) = field_value (page w)"
    using SelectItemSet_field [of ?w i] ok by auto
  obtain k n where F: "getElementById (page w1) MSearchField = Some k" "node_at (page w1) k = Some n"
    using w1(2) by (rule panel_found(1))
  have v: "val n = field_value (page w1)" using F by (simp add: field_value_def elemNode_def)
  have "in_sections S (searchIndex (box w1))" using w1 i by simp
  then obtain p l where "results_page S (box w1) (strip_leading (field_value (page w1))) = Some (p, l)"
    using results_page_Some by blast
  from Search_run [OF S w1(2) this] obtain w2 where w2: "Search S w1 = (Inr (), w2)"
    "timers w2 = timers w" "keyTimeout (box w2) = 0" "boxName (box w2) = boxName (box w)"
    "keyTimeoutLength (box w2) = keyTimeoutLength (box w)" using w1 by auto
  have "OnSelectItem S i w = Search S w1"
    using w1 F v typed active by (simp add: OnSelectItem_def js_run)
  with w2 pending show ?thesis by (auto simp: timers_ok_def search_code_def)
qed

theorem menu_search_leaves_timer_witness:
  "\<exists>w'. OnSelectItem readme_site 1
      (panel_world\<lparr>page := upd_node panel_doc 4 (set_val (js ''build'')), nextTimer := 2,
         timers := [(1, js ''searchBox.Search()'', 500)],
         box := (box panel_world)\<lparr>keyTimeout := 1, searchActive := True\<rparr>\<rparr>) = (Inr (), w') \<and>
     keyTimeout (box w') = 0 \<and> (1, search_code (box w'), keyTimeoutLength (box w')) \<in> set (timers w')"
proof -
  let ?w = "panel_world\<lparr>page := upd_node panel_doc 4 (set_val (js ''build'')), nextTimer := 2,
         timers := [(1, js ''searchBox.Search()'', 500)],
         box := (box panel_world)\<lparr>keyTimeout := 1, searchActive := True\<rparr>\<rparr>"
  have "page_ok (page ?w)" "in_sections readme_site 1"
    by (simp_all add: dom_simps page_ok_panel_doc in_sections_readme)
  moreover have "remove_blanks (field_value (page ?w)) \<noteq> []"
    by (simp add: dom_simps panel_doc_ids panel_doc_nodes field_value_def elemNode_def js_string)
  moreover have "timers_ok ?w"
    by (simp add: timers_ok_def search_code_def panel_world_def SearchBox_def js_append)
  ultimately show ?thesis
    using menu_search_leaves_timer [OF site_ok_readme, of ?w 1] by simp
qed



text \<open>
  (C40) The test for surrogate pairs never takes two code units: the index is always looked
  up with the lower-cased first code unit. The hypothesis is the documented behaviour of
  Unicode lower-casing on the other strings: a text without surrogates gets none.
\<close>

theorem surrogate_pairs_never_looked_up:
  assumes "\<And>s. list_all (\<lambda>c. \<not> surrogate c) s \<Longrightarrow> list_all (\<lambda>c. \<not> surrogate c) (unicode_lower S s)"
  shows "index_char S v = toLowerCase (unicode_lower S) (take 1 v)"
proof (cases "exceeds_one S v")
  case True
  then have v: "list_all (\<lambda>c. \<not> surrogate c) v" by (simp add: exceeds_one_def)
  have "list_all (\<lambda>c. \<not> surrogate c) (toLowerCase (unicode_lower S) v)"
    using v assms [of v]
    by (auto simp: toLowerCase_def is_ascii_def list_all_iff surrogate_def unat_lower_cu)
  then have "\<not> (case toLowerCase (unicode_lower S) v of [] \<Rightarrow> False | c # _ \<Rightarrow> high_surrogate c)"
    by (auto simp: high_surrogate_def surrogate_def split: list.split)
  then show ?thesis by (simp add: index_char_def Let_def substr_def)
qed (simp add: index_char_def Let_def substr_def)

theorem surrogate_pairs_never_looked_up_witness:
  "index_char readme_site [0xD835, 0xDD38] = [0xD835]"
  using surrogate_pairs_never_looked_up [of readme_site "[0xD835, 0xDD38]"]
  by (simp add: readme_site_def toLowerCase_def is_ascii_def)

end
