(* ===== verification/Id_Codes.thy ===== *)
theory Id_Codes
  imports JS_Strings
begin

text \<open>
  \<open>convertToId\<close> of \<open>search.js\<close>, which turns a search text into the form of the row
  names on the result pages, and what makes the comparison of rows sound: it is a prefix
  code, one word per code unit, none a prefix of another. The same holds of \<open>escape\<close>,
  the encoding of the query, so both are instances of one locale.
\<close>

section \<open>Prefix codes\<close>

locale prefix_code =
  fixes enc :: "'a \<Rightarrow> 'b list"
  assumes enc_nonempty: "enc a \<noteq> []"
    and enc_prefix_free: "prefix (enc a) (enc b) \<Longrightarrow> a = b"
begin

definition encode :: "'a list \<Rightarrow> 'b list" where
  "encode xs = concat (map enc xs)"

lemma enc_same_start: "prefix (enc a @ u) (enc b @ v) \<Longrightarrow> a = b"
  by (metis append_prefixD enc_prefix_free prefix_same_cases prefixI)

text \<open>A code word string is a prefix of another followed by anything.\<close>

lemma encode_prefix_append:
  "prefix (encode xs) (encode ys @ t) \<longleftrightarrow>
     prefix xs ys \<or> (\<exists>us. xs = ys @ us \<and> prefix (encode us) t)"
proof (induction xs arbitrary: ys)
  case Nil
  show ?case by (simp add: encode_def)
next
  case (Cons x xs)
  show ?case
  proof (cases ys)
    case Nil
    then show ?thesis by (auto simp: encode_def)
  next
    case (Cons y zs)
    have "prefix (encode (x # xs)) (encode (y # zs) @ t) \<longleftrightarrow>
        x = y \<and> prefix (encode xs) (encode zs @ t)"
      using enc_same_start [of x "encode xs" y "encode zs @ t"]
      by (cases "x = y") (auto simp: encode_def)
    then show ?thesis using Cons.IH by (auto simp: Cons)
  qed
qed

lemma encode_eq_Nil: "encode xs = [] \<longleftrightarrow> xs = []"
  by (cases xs) (auto simp: encode_def enc_nonempty)

lemma encode_prefix: "prefix (encode xs) (encode ys) \<longleftrightarrow> prefix xs ys"
  using encode_prefix_append [of xs ys "[]"] by (auto simp: encode_eq_Nil)

lemma encode_inj: "encode xs = encode ys \<longleftrightarrow> xs = ys"
  by (metis encode_prefix prefix_order.antisym prefix_order.order_refl)

end

section \<open>Row names\<close>

definition id_plain :: "cu \<Rightarrow> bool" where
  \<comment> \<open>\<open>c.match(/[a-z0-9\u0080-\uFFFF]/)\<close>\<close>
  "id_plain c \<longleftrightarrow> (97 \<le> unat c \<and> unat c \<le> 122) \<or> (48 \<le> unat c \<and> unat c \<le> 57) \<or> 128 \<le> unat c"

definition id_cu :: "cu \<Rightarrow> jstr" where
  "id_cu c =
     (if id_plain c then [c]
      else if unat c < 16 then js ''_0'' @ toString16 (unat c)
      else js ''_'' @ toString16 (unat c))"

fun convertToId_from :: "jstr \<Rightarrow> jstr \<Rightarrow> jstr" where
  "convertToId_from result [] = result"
| "convertToId_from result (c # search) = convertToId_from (result @ id_cu c) search"

definition convertToId :: "jstr \<Rightarrow> jstr" where
  "convertToId search = convertToId_from [] search"

lemma convertToId_from_eq: "convertToId_from r s = r @ concat (map id_cu s)"
  by (induction r s rule: convertToId_from.induct) simp_all

lemma id_cu_hex:
  "\<not> id_plain c \<Longrightarrow> id_cu c = [cu_of (CHR ''_''), hexlo (unat c div 16), hexlo (unat c mod 16)]"
proof (cases "unat c < 16")
  case True
  assume "\<not> id_plain c"
  moreover have "cu_of (CHR ''0'') = hexlo 0"
    by (simp add: hexlo_def cu_of_def)
  ultimately show ?thesis using True
    by (simp add: id_cu_def js_Cons toString16.simps [of "unat c"])
next
  case False
  assume "\<not> id_plain c"
  moreover from this have "unat c div 16 < 16" by (auto simp: id_plain_def)
  ultimately show ?thesis using False
    by (simp add: id_cu_def js_Cons toString16.simps [of "unat c"]
        toString16.simps [of "unat c div 16"])
qed

lemma id_plain_not_mark: "id_plain c \<Longrightarrow> c \<noteq> cu_of (CHR ''_'')"
  by (auto simp: id_plain_def)

lemma unplain_small: "\<not> id_plain c \<Longrightarrow> unat c < 128"
  by (simp add: id_plain_def)

interpretation row_id: prefix_code id_cu
proof
  show "id_cu a \<noteq> []" for a
    by (cases "id_plain a") (simp_all add: id_cu_hex, simp add: id_cu_def)
next
  fix a b assume pre: "prefix (id_cu a) (id_cu b)"
  have plain: "id_cu c = [c]" if "id_plain c" for c using that by (simp add: id_cu_def)
  show "a = b"
  proof (cases "id_plain a \<or> id_plain b")
    case True
    with pre id_plain_not_mark show ?thesis
      by (cases "id_plain a"; cases "id_plain b") (auto simp: plain id_cu_hex)
  next
    case False
    with pre unplain_small [of a] unplain_small [of b]
    have "unat a div 16 = unat b div 16" "unat a mod 16 = unat b mod 16"
      by (auto simp: id_cu_hex hexlo_inj)
    then have "unat a = unat b" by (metis div_mult_mod_eq)
    then show ?thesis by (rule unsigned_word_eqI)
  qed
qed

lemma convertToId_encode: "convertToId = row_id.encode"
  by (simp add: fun_eq_iff convertToId_def convertToId_from_eq row_id.encode_def)

lemmas convertToId_prefix = row_id.encode_prefix [folded convertToId_encode]
lemmas convertToId_prefix_append = row_id.encode_prefix_append [folded convertToId_encode]
lemmas convertToId_inj = row_id.encode_inj [folded convertToId_encode]

section \<open>The query\<close>

interpretation query: prefix_code escape_cu
proof
  show "escape_cu a \<noteq> []" for a
    by (simp add: escape_cu_def Let_def)
next
  fix a b assume "prefix (escape_cu a) (escape_cu b)"
  then obtain t where "escape_cu b = escape_cu a @ t" by (auto simp: prefix_def)
  then have "unescape (escape_cu b @ []) = unescape (escape_cu a @ t)" by simp
  then have "[b] = a # unescape t" by (simp add: unescape_escape_cu del: append_Nil2)
  then show "a = b" by simp
qed

lemma escape_encode: "escape = query.encode"
  by (simp add: fun_eq_iff escape_def query.encode_def)

end
