(* ===== verification/DOM_Walk.thy ===== *)
theory DOM_Walk
  imports DOM "HOL-Library.Multiset"
begin

text \<open>
  Navigation in a well-formed document: parent, siblings and children of a node that is
  known by its place in the tree; and scripts that build new nodes: what a sequence of
  \<open>createElement\<close>, attribute changes and \<open>appendChild\<close> on unattached nodes amounts to.
\<close>

section \<open>Places in a well-formed document\<close>

lemma subtrees_self: "t \<in> set (subtrees t)"
  by (cases t) simp

lemma subtrees_trans: "u \<in> set (subtrees t) \<Longrightarrow> v \<in> set (subtrees u) \<Longrightarrow> v \<in> set (subtrees t)"
proof (induction t)
  case (DT k n ts)
  then show ?case by auto
qed

lemma kid_in_subtrees: "u \<in> set (kids t) \<Longrightarrow> u \<in> set (subtrees t)"
  by (cases t) (auto intro: subtrees_self)

lemma all_trees_kids:
  assumes "t \<in> set (all_trees d)" "u \<in> set (kids t)"
  shows "u \<in> set (all_trees d)"
  using assms kid_in_subtrees [OF assms(2)] subtrees_trans
  by (fastforce simp: all_trees_def forest_def)

lemma wf_doc_distinct: "wf_doc d \<Longrightarrow> distinct (map dkey (all_trees d))"
  by (simp add: wf_doc_def keys_def all_trees_def)

lemma wf_doc_same:
  assumes "wf_doc d" "t \<in> set (all_trees d)" "u \<in> set (all_trees d)" "dkey t = dkey u"
  shows "t = u"
  using wf_doc_distinct [OF assms(1)] assms(2-) by (auto simp: distinct_map inj_on_def)

lemma find_unique:
  assumes "x \<in> set xs" "P x" "\<And>y. y \<in> set xs \<Longrightarrow> P y \<Longrightarrow> y = x"
  shows "find P xs = Some x"
proof (cases "find P xs")
  case None
  with assms(1,2) show ?thesis by (simp add: find_None_iff)
next
  case (Some y)
  with assms(3) show ?thesis by (auto dest: find_Some_P)
qed

lemma tree_at_place: "wf_doc d \<Longrightarrow> t \<in> set (all_trees d) \<Longrightarrow> tree_at d (dkey t) = Some t"
  unfolding tree_at_def by (rule find_unique) (auto intro: wf_doc_same)

lemma tree_at_mem: "tree_at d k = Some t \<Longrightarrow> t \<in> set (all_trees d) \<and> dkey t = k"
  unfolding tree_at_def by (auto dest: find_Some_P)

lemma node_at_place: "wf_doc d \<Longrightarrow> t \<in> set (all_trees d) \<Longrightarrow> node_at d (dkey t) = Some (dnode t)"
  by (simp add: node_at_def tree_at_place)

lemma childNodes_place:
  "wf_doc d \<Longrightarrow> t \<in> set (all_trees d) \<Longrightarrow> childNodes d (dkey t) = map dkey (kids t)"
  by (simp add: childNodes_def tree_at_place)

text \<open>A node has one parent: the key lists of different subtrees do not overlap.\<close>

lemma keys_kids_subset: "u \<in> set ts \<Longrightarrow> set (keys [u]) \<subseteq> set (keys ts)"
  by (auto simp: keys_def forest_def)

lemma dkey_in_keys: "t \<in> set ts \<Longrightarrow> dkey t \<in> set (keys ts)"
  using subtrees_self [of t] by (auto simp: keys_def forest_def)


definition kid_keys :: "dtree list \<Rightarrow> nat list" where
  "kid_keys ts = concat (map (\<lambda>t. map dkey (kids t)) (forest ts))"

lemma kid_keys_Cons: "kid_keys (DT k n ts # us) = map dkey ts @ kid_keys ts @ kid_keys us"
  by (simp add: kid_keys_def forest_Cons subtrees_forest del: subtrees.simps)

lemma keys_partition_tree: "mset (keys [t]) = {#dkey t#} + mset (kid_keys [t])"
proof (induction t)
  case (DT k n ts)
  have "mset (keys ts) = mset (map dkey ts) + mset (kid_keys ts)"
    using DT
  proof (induction ts)
    case (Cons t ts)
    have "keys (t # ts) = keys [t] @ keys ts" "kid_keys (t # ts) = kid_keys [t] @ kid_keys ts"
      by (simp_all add: keys_def kid_keys_def forest_def)
    with Cons show ?case by simp
  qed (simp add: kid_keys_def)
  then show ?case by (simp add: keys_Cons kid_keys_Cons) (simp add: kid_keys_def)
qed

lemma keys_partition: "mset (keys ts) = mset (map dkey ts) + mset (kid_keys ts)"
proof (induction ts)
  case (Cons t ts)
  have "keys (t # ts) = keys [t] @ keys ts" "kid_keys (t # ts) = kid_keys [t] @ kid_keys ts"
    by (simp_all add: keys_def kid_keys_def forest_def)
  with Cons show ?case by (simp add: keys_partition_tree)
qed (simp add: kid_keys_def)

lemma distinct_concat_same:
  "distinct (concat (map f xs)) \<Longrightarrow> x \<in> set xs \<Longrightarrow> y \<in> set xs \<Longrightarrow> k \<in> set (f x) \<Longrightarrow>
   k \<in> set (f y) \<Longrightarrow> x = y"
  by (induction xs) auto

lemma distinct_concat_part: "distinct (concat (map f xs)) \<Longrightarrow> x \<in> set xs \<Longrightarrow> distinct (f x)"
  by (induction xs) auto

lemma wf_doc_kid_keys:
  assumes "wf_doc d"
  shows "distinct (concat (map (\<lambda>t. map dkey (kids t)) (all_trees d)))"
proof -
  have "distinct (map dkey (root d # loose d) @ kid_keys (root d # loose d))"
    using assms keys_partition [of "root d # loose d"] unfolding wf_doc_def
    by (metis mset_append mset_eq_imp_distinct_iff)
  then show ?thesis by (simp add: kid_keys_def all_trees_def)
qed

lemma parentNode_place:
  assumes "wf_doc d" "t \<in> set (all_trees d)" "u \<in> set (kids t)"
  shows "parentNode d (dkey u) = Some (dkey t)"
proof -
  have "find (\<lambda>t. dkey u \<in> set (map dkey (kids t))) (all_trees d) = Some t"
  proof (rule find_unique)
    fix y assume "y \<in> set (all_trees d)" "dkey u \<in> set (map dkey (kids y))"
    then show "y = t"
      using distinct_concat_same [OF wf_doc_kid_keys [OF assms(1)]] assms(2,3) by auto
  qed (use assms in auto)
  then show ?thesis by (simp add: parentNode_def)
qed

lemma distinct_kids: "wf_doc d \<Longrightarrow> t \<in> set (all_trees d) \<Longrightarrow> distinct (map dkey (kids t))"
  using distinct_concat_part [OF wf_doc_kid_keys] by blast

lemma next_after_split:
  "distinct (xs @ k # ys) \<Longrightarrow> next_after k (xs @ k # ys) = (case ys of [] \<Rightarrow> None | y # _ \<Rightarrow> Some y)"
  by (induction xs) auto

lemma nextSibling_place:
  assumes "wf_doc d" "t \<in> set (all_trees d)" "kids t = us @ u # vs"
  shows "nextSibling d (dkey u) = (case vs of [] \<Rightarrow> None | v # _ \<Rightarrow> Some (dkey v))"
proof -
  have "nextSibling d (dkey u) = next_after (dkey u) (map dkey us @ dkey u # map dkey vs)"
    using assms by (simp add: nextSibling_def parentNode_place [OF assms(1,2)] childNodes_place)
  also have "\<dots> = (case vs of [] \<Rightarrow> None | v # _ \<Rightarrow> Some (dkey v))"
    using distinct_kids [OF assms(1,2)] assms(3) by (subst next_after_split) (auto split: list.split)
  finally show ?thesis .
qed

lemma firstChild_place:
  "wf_doc d \<Longrightarrow> t \<in> set (all_trees d) \<Longrightarrow>
   firstChild d (dkey t) = (case kids t of [] \<Rightarrow> None | u # _ \<Rightarrow> Some (dkey u))"
  by (simp add: firstChild_def childNodes_place split: list.split)

text \<open>Below a node no descendant has its key.\<close>

lemma subtree_keys: "u \<in> set (subtrees t) \<Longrightarrow> dkey u \<in> set (keys [t])"
  by (simp add: keys_def forest_def)

lemma proper_subtree_key:
  assumes "wf_doc d" "t \<in> set (all_trees d)" "s \<in> set (subtrees t)" "u \<in> set (kids s)"
  shows "dkey u \<noteq> dkey t"
proof
  assume eq: "dkey u = dkey t"
  have "s \<in> set (all_trees d)"
    using assms(2,3) subtrees_trans by (fastforce simp: all_trees_def forest_def)
  then have "u \<in> set (all_trees d)" by (rule all_trees_kids) (rule assms(4))
  with eq have "u = t" using wf_doc_same assms(1,2) by blast
  have size: "y \<in> set (subtrees x) \<Longrightarrow> size y \<le> size x" for x y
  proof (induction x)
    case (DT k n ts)
    then show ?case by (fastforce dest: size_list_estimation' [where f = size] intro: le_SucI)
  qed
  have "size u < size s"
    using assms(4) by (cases s) (auto simp: less_Suc_eq_le intro: size_list_estimation')
  with size [OF assms(3)] \<open>u = t\<close> show False by simp
qed

lemma subtrees_all:
  "t \<in> set (all_trees d) \<Longrightarrow> s \<in> set (subtrees t) \<Longrightarrow> s \<in> set (all_trees d)"
  using subtrees_trans by (fastforce simp: all_trees_def forest_def)

end
