(* ===== verification/DOM_Build.thy ===== *)
theory DOM_Build
  imports DOM_Walk
begin

text \<open>
  Scripts that build nodes: \<open>createElement\<close>, attribute changes and \<open>appendChild\<close> as
  scripts on a document, and what a sequence of them amounts to. Nodes under construction
  are the unattached trees behind those the document had (\<open>building\<close>); attaching the
  finished tree is one insertion into the page.
\<close>

section \<open>Scripts on a document\<close>

type_synonym 'a dscript = "(document, 'a) script"

definition dcreate :: "string \<Rightarrow> nat dscript" where
  "dcreate t = (\<lambda>d. (Inr (fst (createElement t d)), snd (createElement t d)))"

definition dupd :: "nat \<Rightarrow> (node \<Rightarrow> node) \<Rightarrow> unit dscript" where
  "dupd k f = jmod (\<lambda>d. upd_node d k f)"

definition dappend :: "nat \<Rightarrow> nat \<Rightarrow> unit dscript" where
  "dappend p c = appendChild p c"

definition delem :: "jstr \<Rightarrow> nat dscript" where
  "delem i = jbind (jget (\<lambda>d. getElementById d i)) (of_option TypeError)"

definition setAttribute :: "nat \<Rightarrow> string \<Rightarrow> jstr \<Rightarrow> unit dscript" where
  "setAttribute k a v = dupd k (set_attr a v)"

text \<open>A sequence of changes to one node is one change.\<close>

lemma upd_tree_comp: "upd_tree k f (upd_tree k g t) = upd_tree k (f \<circ> g) t"
  by (induction t) simp

lemma upd_node_comp: "upd_node (upd_node d k g) k f = upd_node d k (f \<circ> g)"
  by (simp add: upd_node_def upd_tree_comp)

section \<open>Absent keys\<close>

lemma keys_sub: "t \<in> set ts \<Longrightarrow> k \<notin> set (keys ts) \<Longrightarrow> k \<notin> set (keys [t])"
  by (auto simp: keys_def forest_def)

lemma upd_tree_absent: "k \<notin> set (keys [t]) \<Longrightarrow> upd_tree k f t = t"
proof (induction t)
  case (DT k' n ts)
  then show ?case by (auto simp: keys_Cons intro!: map_idI dest: keys_sub)
qed

lemma remove_tree_absent: "k \<notin> set (keys [t]) \<Longrightarrow> remove_tree k t = t"
proof (induction t)
  case (DT k' n ts)
  have "filter (\<lambda>t. dkey t \<noteq> k) ts = ts"
    using DT.prems by (auto simp: keys_Cons keys_Cons' filter_id_conv dest!: keys_sub)
  with DT show ?case by (auto simp: keys_Cons intro!: map_idI dest: keys_sub)
qed

lemma insert_last_absent: "k \<notin> set (keys [t]) \<Longrightarrow> insert_last k u t = t"
proof (induction t)
  case (DT k' n ts)
  then show ?case by (auto simp: keys_Cons intro!: map_idI dest: keys_sub)
qed

lemma map_absent:
  assumes "k \<notin> set (keys ts)"
  shows "map (upd_tree k f) ts = ts" "map (remove_tree k) ts = ts" "map (insert_last k u) ts = ts"
    "filter (\<lambda>t. dkey t \<noteq> k) ts = ts"
  using assms keys_sub [OF _ assms]
  by (auto intro!: map_idI upd_tree_absent remove_tree_absent insert_last_absent
      simp: filter_id_conv keys_Cons')

lemma find_forest_absent: "k \<notin> set (keys ts) \<Longrightarrow> find (\<lambda>t. dkey t = k) (forest ts) = None"
  by (auto simp: find_None_iff keys_def)

section \<open>Trees under construction\<close>

definition building :: "document \<Rightarrow> dtree list \<Rightarrow> nat \<Rightarrow> document" where
  "building d xs n = d\<lparr>loose := loose d @ xs, fresh := n\<rparr>"

definition is_new :: "document \<Rightarrow> nat \<Rightarrow> bool" where
  "is_new d k \<longleftrightarrow> k \<notin> set (keys (root d # loose d))"

lemma is_new_fresh: "wf_doc d \<Longrightarrow> fresh d \<le> k \<Longrightarrow> is_new d k"
  by (auto simp: is_new_def wf_doc_def)

lemma is_new_parts:
  "is_new d k \<longleftrightarrow> k \<notin> set (keys [root d]) \<and> k \<notin> set (keys (loose d))"
  by (simp add: is_new_def keys_Cons')

lemma building_self: "building d [] (fresh d) = d"
  by (simp add: building_def)

lemma building_fields [simp]:
  "root (building d xs n) = root d" "fresh (building d xs n) = n"
  "focused (building d xs n) = focused d" "loose (building d xs n) = loose d @ xs"
  by (simp_all add: building_def)

lemma building_upd:
  "(building d xs n)\<lparr>root := root d, loose := loose d @ ys\<rparr> = building d ys n"
  "(building d xs n)\<lparr>root := r, loose := loose d\<rparr> = d\<lparr>root := r, fresh := n\<rparr>"
  by (simp_all add: building_def)

lemma createElement_building:
  "createElement t (building d xs n) = (n, building d (xs @ [DT n (new_node t) []]) (Suc n))"
  by (simp add: createElement_def building_def)

lemma upd_node_building:
  "is_new d k \<Longrightarrow> upd_node (building d xs n) k f = building d (map (upd_tree k f) xs) n"
  by (simp add: upd_node_def building_def is_new_parts upd_tree_absent map_absent)

lemma find_append: "find P (xs @ ys) = (case find P xs of None \<Rightarrow> find P ys | Some x \<Rightarrow> Some x)"
  by (induction xs) auto

lemma tree_at_building:
  "is_new d k \<Longrightarrow> tree_at (building d xs n) k = find (\<lambda>t. dkey t = k) (forest xs)"
  using find_forest_absent [of k "root d # loose d"]
  by (simp add: tree_at_def all_trees_def is_new_def forest_append find_append
      flip: append_Cons)

lemma appendChild_building:
  assumes "is_new d c" "is_new d p" "find (\<lambda>t. dkey t = c) (forest xs) = Some t"
    and "p \<notin> set (keys [t])"
  shows "appendChild p c (building d xs n) =
    (Inr (), building d (map (insert_last p t)
       (map (remove_tree c) (filter (\<lambda>u. dkey u \<noteq> c) xs))) n)"
  using assms
  by (simp add: appendChild_def tree_at_building is_new_parts remove_tree_absent
      insert_last_absent map_absent building_upd del: map_map)

text \<open>Attaching the only tree under construction to a node of the page.\<close>

lemma appendChild_attach:
  assumes "wf_doc d" "fresh d \<le> dkey t" "p \<in> set (keys [root d])"
    and "p \<notin> set (keys [t])"
  shows "appendChild p (dkey t) (building d [t] n) =
    (Inr (), d\<lparr>root := insert_last p t (root d), fresh := n\<rparr>)"
proof -
  have new: "is_new d (dkey t)" using assms(1,2) by (rule is_new_fresh)
  have "p \<notin> set (keys (loose d))"
    using assms(1,3) by (auto simp: wf_doc_def keys_Cons')
  with new assms(4) show ?thesis
    by (cases t) (simp add: appendChild_def tree_at_building is_new_parts remove_tree_absent
      map_absent building_upd forest_Cons)
qed

section \<open>Running\<close>

lemma run_dcreate [js_run]:
  "dcreate t (building d xs n) = (Inr n, building d (xs @ [DT n (new_node t) []]) (Suc n))"
  by (simp add: dcreate_def createElement_building)

lemma run_dupd [js_run]: "dupd k f d = (Inr (), upd_node d k f)"
  by (simp add: dupd_def)

lemma run_setAttribute [js_run]: "setAttribute k a v d = (Inr (), upd_node d k (set_attr a v))"
  by (simp add: setAttribute_def dupd_def)

lemma run_delem [js_run]:
  "delem i d = (case getElementById d i of None \<Rightarrow> (Inl TypeError, d) | Some k \<Rightarrow> (Inr k, d))"
  by (simp add: delem_def run_jbind split: option.split)

section \<open>The page after an insertion\<close>

text \<open>The nodes of a tree with their keys, in document order; an insertion puts the nodes
  of the new tree between two parts of the old list.\<close>

definition cells :: "dtree \<Rightarrow> (nat \<times> node) list" where
  "cells t = map (\<lambda>u. (dkey u, dnode u)) (subtrees t)"

lemma cells_DT: "cells (DT k n ts) = (k, n) # concat (map cells ts)"
  by (simp add: cells_def [abs_def] map_concat comp_def)

lemma keys_cells: "keys [t] = map fst (cells t)"
  by (simp add: keys_def cells_def forest_def)

lemma keys_concat: "keys ts = concat (map (\<lambda>t. keys [t]) ts)"
  by (simp add: keys_def forest_def map_concat comp_def)

fun insert_trees :: "nat \<Rightarrow> dtree list \<Rightarrow> dtree \<Rightarrow> dtree" where
  "insert_trees p us (DT k n ts) =
     DT k n (map (insert_trees p us) ts @ (if k = p then us else []))"

lemma insert_last_trees: "insert_last p u t = insert_trees p [u] t"
  by (induction t) auto

lemma insert_trees_absent: "p \<notin> set (keys [t]) \<Longrightarrow> insert_trees p us t = t"
proof (induction t)
  case (DT k' n ts)
  then show ?case by (auto simp: keys_Cons intro!: map_idI dest: keys_sub)
qed

lemma insert_last_insert_trees:
  "p \<notin> set (keys us) \<Longrightarrow> insert_last p v (insert_trees p us t) = insert_trees p (us @ [v]) t"
  by (induction t) (auto simp: map_absent)

lemma insert_trees_Nil [simp]: "insert_trees p [] t = t"
  by (induction t) (auto simp: map_idI)

lemma fold_insert_last:
  "p \<notin> set (keys (us @ vs)) \<Longrightarrow> fold (insert_last p) vs (insert_trees p us t) = insert_trees p (us @ vs) t"
proof (induction vs arbitrary: us)
  case (Cons v vs)
  from Cons.prems have "p \<notin> set (keys us)" "p \<notin> set (keys ((us @ [v]) @ vs))"
    by (auto simp: keys_append)
  with Cons.IH [of "us @ [v]"] show ?case by (simp add: insert_last_insert_trees)
qed simp

lemma cells_insert_trees:
  "distinct (keys [t]) \<Longrightarrow> p \<in> set (keys [t]) \<Longrightarrow>
   \<exists>a b. cells t = a @ b \<and> cells (insert_trees p us t) = a @ concat (map cells us) @ b"
proof (induction t)
  case (DT k n ts)
  show ?case
  proof (cases "k = p")
    case True
    then have "p \<notin> set (keys ts)" using DT.prems by (simp add: keys_Cons)
    then have "map (insert_trees p us) ts = ts"
      using keys_sub [of _ ts p] by (auto intro!: map_idI insert_trees_absent)
    then have "cells (insert_trees p us (DT k n ts)) = cells (DT k n ts) @ concat (map cells us) @ []"
      by (simp add: True cells_DT)
    then show ?thesis by (metis append_Nil2)
  next
    case False
    then have "p \<in> set (keys ts)" using DT.prems by (simp add: keys_Cons)
    then obtain ls v rs where ts: "ts = ls @ v # rs" and p: "p \<in> set (keys [v])"
      by (auto simp: keys_concat [of ts] dest!: split_list)
    have "distinct (keys ls @ keys [v] @ keys rs)"
      using DT.prems(1) by (simp add: ts keys_Cons keys_append keys_Cons')
    then have v: "distinct (keys [v])" "p \<notin> set (keys ls)" "p \<notin> set (keys rs)"
      using p by auto
    then have same: "map (insert_trees p us) ls = ls" "map (insert_trees p us) rs = rs"
      using keys_sub [of _ ls p] keys_sub [of _ rs p] by (auto intro!: map_idI insert_trees_absent)
    have "\<exists>a b. cells v = a @ b \<and> cells (insert_trees p us v) = a @ concat (map cells us) @ b"
      using DT.IH [of v] v(1) p by (simp add: ts)
    then obtain a b where ab: "cells v = a @ b" "cells (insert_trees p us v) = a @ concat (map cells us) @ b"
      by blast
    define a' where "a' = (k, n) # concat (map cells ls) @ a"
    define b' where "b' = b @ concat (map cells rs)"
    have "cells (DT k n ts) = a' @ b' \<and>
        cells (insert_trees p us (DT k n ts)) = a' @ concat (map cells us) @ b'"
      using False same ab by (simp add: cells_DT ts a'_def b'_def)
    then show ?thesis by blast
  qed
qed

lemma cells_insert_last:
  "distinct (keys [t]) \<Longrightarrow> p \<in> set (keys [t]) \<Longrightarrow>
   \<exists>a b. cells t = a @ b \<and> cells (insert_last p u t) = a @ cells u @ b"
  using cells_insert_trees [of t p "[u]"] by (simp add: insert_last_trees)

lemma subtrees_insert_trees:
  "p \<in> set (keys [t]) \<Longrightarrow> u \<in> set us \<Longrightarrow> set (subtrees u) \<subseteq> set (subtrees (insert_trees p us t))"
proof (induction t)
  case (DT k n ts)
  show ?case
  proof (cases "k = p")
    case True
    with DT.prems(2) show ?thesis by auto
  next
    case False
    with DT.prems(1) have "p \<in> set (keys ts)" by (simp add: keys_Cons)
    then obtain v where v: "v \<in> set ts" "p \<in> set (keys [v])" by (auto simp: keys_concat [of ts])
    with DT.IH [of v] DT.prems(2) have "set (subtrees u) \<subseteq> set (subtrees (insert_trees p us v))" by blast
    with v(1) show ?thesis by auto
  qed
qed

text \<open>Reading through the node list.\<close>

lemma getElementById_cells:
  "getElementById d i = (if i = [] then None
     else map_option fst (find (\<lambda>(k, n). idAttr n = Some i) (cells (root d))))"
  by (simp add: getElementById_def cells_def find_map comp_def option.map_comp)

lemma getElementsByTagName_cells:
  "getElementsByTagName d t = map fst (filter (\<lambda>(k, n). tag n = t) (cells (root d)))"
  by (simp add: getElementsByTagName_def cells_def filter_map comp_def)

lemma node_at_cells: "wf_doc d \<Longrightarrow> (k, n) \<in> set (cells (root d)) \<Longrightarrow> node_at d k = Some n"
proof -
  assume "wf_doc d" "(k, n) \<in> set (cells (root d))"
  then obtain t where t: "t \<in> set (subtrees (root d))" "k = dkey t" "n = dnode t"
    by (auto simp: cells_def)
  then have "t \<in> set (all_trees d)" by (simp add: all_trees_def forest_Cons)
  with \<open>wf_doc d\<close> t show ?thesis by (simp add: node_at_place)
qed

lemma wf_doc_insert:
  assumes "wf_doc d" "p \<in> set (keys [root d])" "distinct (keys [u])"
    and "\<And>k. k \<in> set (keys [u]) \<Longrightarrow> fresh d \<le> k \<and> k < n" "fresh d \<le> n"
  shows "wf_doc (d\<lparr>root := insert_last p u (root d), fresh := n\<rparr>)"
proof -
  have d: "distinct (keys [root d])" "distinct (keys (loose d))"
    "set (keys [root d]) \<inter> set (keys (loose d)) = {}"
    "\<forall>k \<in> set (keys [root d]) \<union> set (keys (loose d)). k < fresh d"
    using assms(1) by (auto simp: wf_doc_def keys_Cons' [of "root d"])
  from cells_insert_last [OF d(1) assms(2)] obtain a b
    where ab: "cells (root d) = a @ b" "cells (insert_last p u (root d)) = a @ cells u @ b" by blast
  have old: "keys [root d] = map fst a @ map fst b"
    and new: "keys [insert_last p u (root d)] = map fst a @ keys [u] @ map fst b"
    by (simp_all add: keys_cells ab)
  have part: "keys (x # xs) = keys [x] @ keys xs" for x xs
    by (simp add: keys_Cons' [of x])
  have u: "set (keys [u]) \<inter> (set (keys [root d]) \<union> set (keys (loose d))) = {}"
  proof (rule ccontr)
    assume "\<not> ?thesis"
    then obtain k where "k \<in> set (keys [u])" "k < fresh d" using d(4) by blast
    with assms(4) [of k] show False by simp
  qed
  have "distinct (keys [insert_last p u (root d)] @ keys (loose d))"
    using d(1-3) assms(3) u unfolding new old by auto
  moreover have "k < n" if "k \<in> set (keys [insert_last p u (root d)] @ keys (loose d))" for k
  proof -
    from that consider "k \<in> set (keys [u])" | "k \<in> set (keys [root d]) \<union> set (keys (loose d))"
      unfolding new old by auto
    then show ?thesis
    proof cases
      case 1
      with assms(4) show ?thesis by blast
    next
      case 2
      with d(4) have "k < fresh d" by blast
      with assms(5) show ?thesis by simp
    qed
  qed
  ultimately show ?thesis
    by (simp add: wf_doc_def part [of "insert_last p u (root d)" "loose d"] del: distinct_append)
qed

definition id_in :: "jstr \<Rightarrow> dtree list \<Rightarrow> nat option" where
  "id_in i us = map_option fst (find (\<lambda>(k, n). idAttr n = Some i) (concat (map cells us)))"

lemma getElementById_inserted:
  assumes "wf_doc d" "p \<in> set (keys [root d])" "i \<noteq> []" "root d' = insert_trees p us (root d)"
  shows "getElementById d i = None \<Longrightarrow> getElementById d' i = id_in i us"
    and "id_in i us = None \<Longrightarrow> getElementById d' i = getElementById d i"
proof -
  have "distinct (keys [root d])"
    using assms(1) by (simp add: wf_doc_def keys_Cons' [of "root d"])
  from cells_insert_trees [OF this assms(2)] obtain a b
    where ab: "cells (root d) = a @ b" "cells (insert_trees p us (root d)) = a @ concat (map cells us) @ b"
    by blast
  show "getElementById d i = None \<Longrightarrow> getElementById d' i = id_in i us"
    using assms(3,4) ab
    by (auto simp: getElementById_cells id_in_def find_append split: option.splits)
  show "id_in i us = None \<Longrightarrow> getElementById d' i = getElementById d i"
    using assms(3,4) ab
    by (auto simp: getElementById_cells id_in_def find_append split: option.splits)
qed

lemma id_in_Nil [simp]: "id_in i [] = None"
  by (simp add: id_in_def)

lemma id_in_Cons: "id_in i (DT k n ts # us) =
  (if idAttr n = Some i then Some k
   else case id_in i ts of Some r \<Rightarrow> Some r | None \<Rightarrow> id_in i us)"
  by (auto simp: id_in_def cells_DT find_append split: option.split)

lemma all_trees_inserted:
  assumes "p \<in> set (keys [root d])" "root d' = insert_trees p us (root d)" "u \<in> set us"
    "t \<in> set (subtrees u)"
  shows "t \<in> set (all_trees d')"
  using subtrees_insert_trees [OF assms(1,3)] assms(2,4) by (auto simp: all_trees_def forest_Cons)

text \<open>A node of the page keeps its place, with the new trees below it.\<close>

lemma dnode_insert_trees [simp]: "dnode (insert_trees p us t) = dnode t" "dkey (insert_trees p us t) = dkey t"
  by (cases t; simp)+

lemma kids_insert_trees:
  "kids (insert_trees p us t) = map (insert_trees p us) (kids t) @ (if dkey t = p then us else [])"
  by (cases t) simp

lemma subtrees_insert_old:
  "t \<in> set (subtrees r) \<Longrightarrow> insert_trees p us t \<in> set (subtrees (insert_trees p us r))"
proof (induction r)
  case (DT k n ts)
  then show ?case by auto
qed

lemma tree_at_inserted:
  assumes "wf_doc d'" "root d' = insert_trees p us (root d)" "t \<in> set (subtrees (root d))"
  shows "tree_at d' (dkey t) = Some (insert_trees p us t)"
  using tree_at_place [OF assms(1), of "insert_trees p us t"] subtrees_insert_old [OF assms(3), of p us]
  by (simp add: all_trees_def forest_Cons assms(2))

lemma childNodes_inserted:
  assumes "wf_doc d'" "root d' = insert_trees p us (root d)" "t \<in> set (subtrees (root d))"
  shows "childNodes d' (dkey t) = map dkey (kids t) @ (if dkey t = p then map dkey us else [])"
  by (simp add: childNodes_def tree_at_inserted [OF assms] kids_insert_trees comp_def)

lemma node_at_inserted:
  assumes "wf_doc d'" "root d' = insert_trees p us (root d)" "t \<in> set (subtrees (root d))"
  shows "node_at d' (dkey t) = Some (dnode t)"
  by (simp add: node_at_def tree_at_inserted [OF assms])

section \<open>Loops that append one tree per element\<close>

lemma wf_doc_root: "wf_doc d \<Longrightarrow> distinct (keys [root d])"
  by (simp add: wf_doc_def keys_Cons' [of "root d"])

lemma getElementById_key: "getElementById d i = Some r \<Longrightarrow> r \<in> set (keys [root d])"
  by (auto simp: getElementById_def keys_def forest_def dest!: find_Some_P split: if_splits)

text \<open>
  A script that builds one tree per element of a list and appends each to the same node.
  What it must keep: from a well-formed document it attaches exactly the tree it
  announces, whose keys are the next fresh ones.
\<close>

locale tree_builder =
  fixes step :: "nat option \<Rightarrow> nat \<Rightarrow> 'e \<Rightarrow> unit dscript"
    and tree :: "nat \<Rightarrow> nat \<Rightarrow> 'e \<Rightarrow> dtree"
    and width :: "'e \<Rightarrow> nat"
  assumes step_run: "wf_doc d \<Longrightarrow> p \<in> set (keys [root d]) \<Longrightarrow> step (Some p) i x d =
      (Inr (), d\<lparr>root := insert_last p (tree (fresh d) i x) (root d), fresh := fresh d + width x\<rparr>)"
    and tree_keys: "keys [tree k i x] = [k..<k + width x]"
begin

primrec loop :: "nat option \<Rightarrow> nat \<Rightarrow> 'e list \<Rightarrow> unit dscript" where
  "loop r i [] = jret ()"
| "loop r i (x # xs) = jbind (step r i x) (\<lambda>_. loop r (i + 1) xs)"

primrec trees :: "nat \<Rightarrow> nat \<Rightarrow> 'e list \<Rightarrow> dtree list" where
  "trees k i [] = []"
| "trees k i (x # xs) = tree k i x # trees (k + width x) (i + 1) xs"

definition total :: "'e list \<Rightarrow> nat" where
  "total xs = sum_list (map width xs)"

definition filled :: "nat \<Rightarrow> nat \<Rightarrow> 'e list \<Rightarrow> document \<Rightarrow> document" where
  "filled p i xs d =
     d\<lparr>root := insert_trees p (trees (fresh d) i xs) (root d), fresh := fresh d + total xs\<rparr>"

lemma keys_trees: "keys (trees k i xs) = [k..<k + total xs]"
proof (induction xs arbitrary: k i)
  case (Cons x xs)
  have "keys (trees k i (x # xs)) = keys [tree k i x] @ keys (trees (k + width x) (i + 1) xs)"
    by (simp add: keys_def forest_def)
  with Cons show ?case
    using upt_add_eq_append [of k "k + width x" "sum_list (map width xs)"]
    by (simp add: tree_keys total_def add.assoc)
qed (simp add: total_def)

lemma insert_last_keeps:
  "wf_doc d \<Longrightarrow> p \<in> set (keys [root d]) \<Longrightarrow> p \<in> set (keys [insert_last p u (root d)])"
  using cells_insert_last [OF wf_doc_root, of d p u] by (auto simp: keys_cells)

lemma loop_fold:
  assumes "wf_doc d" "p \<in> set (keys [root d])"
  defines "d' \<equiv> (\<lambda>i xs. d\<lparr>root := fold (insert_last p) (trees (fresh d) i xs) (root d),
    fresh := fresh d + total xs\<rparr>)"
  shows "loop (Some p) i xs d = (Inr (), d' i xs) \<and> wf_doc (d' i xs)"
  using assms(1,2) unfolding d'_def
proof (induction xs arbitrary: d i)
  case Nil
  then show ?case by (simp add: total_def)
next
  case (Cons x xs)
  let ?d = "d\<lparr>root := insert_last p (tree (fresh d) i x) (root d), fresh := fresh d + width x\<rparr>"
  have "wf_doc ?d" "p \<in> set (keys [root ?d])"
    using Cons.prems wf_doc_insert [OF Cons.prems, of "tree (fresh d) i x" "fresh d + width x"]
      insert_last_keeps [OF Cons.prems]
    by (simp_all add: tree_keys)
  from Cons.IH [OF this, of "i + 1"] Cons.prems show ?case
    by (simp add: run_jbind step_run total_def add.assoc)
qed

lemma loop_run:
  assumes "wf_doc d" "p \<in> set (keys [root d])"
  shows "loop (Some p) i xs d = (Inr (), filled p i xs d)" and "wf_doc (filled p i xs d)"
proof -
  have "p < fresh d" using assms by (auto simp: wf_doc_def keys_Cons' [of "root d"])
  then have "fold (insert_last p) (trees (fresh d) i xs) (root d) =
      insert_trees p (trees (fresh d) i xs) (root d)"
    using fold_insert_last [of p "[]" "trees (fresh d) i xs"] by (simp add: keys_trees)
  then show "loop (Some p) i xs d = (Inr (), filled p i xs d)" "wf_doc (filled p i xs d)"
    using loop_fold [OF assms, of i xs] by (simp_all add: filled_def)
qed

lemma trees_nth:
  "j < length xs \<Longrightarrow> tree (k + total (take j xs)) (i + j) (xs ! j) \<in> set (trees k i xs)"
proof (induction xs arbitrary: j k i)
  case (Cons x xs)
  show ?case
  proof (cases j)
    case 0
    then show ?thesis by (simp add: total_def)
  next
    case (Suc j')
    with Cons.IH [of j' "k + width x" "i + 1"] Cons.prems show ?thesis
      by (simp add: total_def add.assoc)
  qed
qed simp

lemma trees_at:
  assumes "wf_doc d" "p \<in> set (keys [root d])" "j < length xs"
    "t \<in> set (subtrees (tree (fresh d + total (take j xs)) (i + j) (xs ! j)))"
  shows "tree_at (filled p i xs d) (dkey t) = Some t" "t \<in> set (all_trees (filled p i xs d))"
proof -
  show all: "t \<in> set (all_trees (filled p i xs d))"
    by (rule all_trees_inserted [OF assms(2) _ trees_nth [OF assms(3), of "fresh d" i] assms(4)])
       (simp add: filled_def)
  show "tree_at (filled p i xs d) (dkey t) = Some t"
    by (rule tree_at_place [OF loop_run(2) [OF assms(1,2)] all])
qed

end

end
