(* ===== verification/Search_Results.thy ===== *)
theory Search_Results
  imports Search_Tables Id_Codes DOM_Build
begin

text \<open>
  The result pages, class \<open>SearchResults\<close> of \<open>search.js\<close>, which runs in the frame
  \<open>MSearchResults\<close>: matching the rows against the query, opening the rows with several
  results, and moving the focus between rows with the keyboard. \<open>document\<close> is the
  frame's document here and \<open>parent.document\<close> the page.
\<close>

section \<open>Scripts in the frame and in the page\<close>

definition on_frame :: "'a dscript \<Rightarrow> 'a win" where
  "on_frame m = (\<lambda>w. case m (frame w) of (r, d) \<Rightarrow> (r, w\<lparr>frame := d\<rparr>))"

definition on_page :: "'a dscript \<Rightarrow> 'a win" where
  "on_page m = (\<lambda>w. case m (page w) of (r, d) \<Rightarrow> (r, w\<lparr>page := d\<rparr>))"

definition dnodeOf :: "nat \<Rightarrow> node dscript" where
  "dnodeOf k = jbind (jget (\<lambda>d. node_at d k)) (of_option TypeError)"

definition idOf :: "node \<Rightarrow> jstr" where
  "idOf n = (case idAttr n of None \<Rightarrow> [] | Some i \<Rightarrow> i)"

section \<open>The children of a row\<close>

text \<open>
  The inner loop of \<open>FindChildElement\<close> climbs to the next ancestor with a sibling to its
  right; \<open>None\<close> is a loop that does not end, \<open>Some None\<close> the value \<open>undefined\<close>.
\<close>

partial_function (option) climb :: "document \<Rightarrow> nat \<Rightarrow> nat \<Rightarrow> nat option option" where
  "climb d parentElement element =
     (case parentNode d element of
        None \<Rightarrow> Some None
      | Some q \<Rightarrow>
          if q = parentElement \<or> nextSibling d q \<noteq> None then Some (Some q)
          else climb d parentElement q)"

definition is_div :: "document \<Rightarrow> nat \<Rightarrow> bool" where
  "is_div d k \<longleftrightarrow> (case node_at d k of None \<Rightarrow> False | Some n \<Rightarrow> tag n = ''div'')"

definition has_class :: "document \<Rightarrow> nat \<Rightarrow> string \<Rightarrow> bool" where
  "has_class d k c \<longleftrightarrow> (case node_at d k of None \<Rightarrow> False | Some n \<Rightarrow> className n = js c)"

partial_function (option) find_child :: "document \<Rightarrow> nat \<Rightarrow> nat option \<Rightarrow> nat option option" where
  "find_child d parentElement cur =
     (case cur of
        None \<Rightarrow> Some None
      | Some element \<Rightarrow>
          if element = parentElement then Some None
          else if is_div d element \<and> has_class d element ''SRChildren'' then Some (Some element)
          else if is_div d element \<and> childNodes d element \<noteq> [] then
            find_child d parentElement (firstChild d element)
          else if nextSibling d element \<noteq> None then
            find_child d parentElement (nextSibling d element)
          else (case climb d parentElement element of
                  None \<Rightarrow> None
                | Some None \<Rightarrow> find_child d parentElement None
                | Some (Some q) \<Rightarrow>
                    if q \<noteq> parentElement then find_child d parentElement (nextSibling d q)
                    else find_child d parentElement (Some q)))"

definition FindChildElement :: "jstr \<Rightarrow> nat option dscript" where
  "FindChildElement i =
     jbind (delem i) (\<lambda>parentElement.
     jbind (jget (\<lambda>d. find_child d parentElement (firstChild d parentElement)))
       (of_option NoReturn))"

definition Toggle :: "jstr \<Rightarrow> unit dscript" where
  "Toggle i =
     jbind (FindChildElement i) (\<lambda>element.
     case element of
       None \<Rightarrow> jret ()
     | Some k \<Rightarrow>
         jbind (dnodeOf k) (\<lambda>n.
         if style n ''display'' = block_str then dupd k (set_style ''display'' none_str)
         else dupd k (set_style ''display'' block_str)))"

section \<open>Matching the rows\<close>

text \<open>\<open>replace(/^sr\d*_/, '')\<close>\<close>

definition is_digit :: "cu \<Rightarrow> bool" where
  "is_digit c \<longleftrightarrow> 48 \<le> unat c \<and> unat c \<le> 57"

definition strip_sr :: "jstr \<Rightarrow> jstr" where
  "strip_sr s =
     (if prefix (js ''sr'') s
      then case dropWhile is_digit (drop 2 s) of
             c # r \<Rightarrow> if c = cu_of (CHR ''_'') then r else s
           | [] \<Rightarrow> s
      else s)"

definition row_matches :: "(jstr \<Rightarrow> jstr) \<Rightarrow> jstr \<Rightarrow> node \<Rightarrow> bool" where
  "row_matches U search row =
     (let rowMatchName = strip_sr (toLowerCase U (idOf row))
      in length search \<le> length rowMatchName \<and> substr rowMatchName 0 (length search) = search)"

fun show_rows :: "(jstr \<Rightarrow> jstr) \<Rightarrow> jstr \<Rightarrow> nat list \<Rightarrow> nat \<Rightarrow> nat dscript" where
  "show_rows U search [] matches = jret matches"
| "show_rows U search (row # resultRows) matches =
     jbind (dnodeOf row) (\<lambda>n.
     if className n = js ''SRResult'' then
       (if row_matches U search n
        then jbind (dupd row (set_style ''display'' block_str)) (\<lambda>_.
             show_rows U search resultRows (matches + 1))
        else jbind (dupd row (set_style ''display'' none_str)) (\<lambda>_.
             show_rows U search resultRows matches))
     else show_rows U search resultRows matches)"

text \<open>\<open>window.location.search\<close>: from the question mark up to a fragment.\<close>

definition location_search :: "jstr \<Rightarrow> jstr" where
  "location_search url =
     (let u = takeWhile (\<lambda>c. c \<noteq> cu_of (CHR ''#'')) url;
          q = dropWhile (\<lambda>c. c \<noteq> cu_of (CHR ''?'')) u
      in if length q \<le> 1 then [] else q)"

definition search_text :: "jstr \<Rightarrow> jstr \<Rightarrow> jstr" where
  "search_text url search =
     (if search = [] then unescape (substring1 (location_search url) 1) else search)"

definition search_key :: "(jstr \<Rightarrow> jstr) \<Rightarrow> jstr \<Rightarrow> jstr" where
  "search_key U search = convertToId (toLowerCase U (strip_trailing (strip_leading search)))"

definition hide_status :: "nat \<Rightarrow> unit dscript" where
  "hide_status matches =
     jbind (delem (js ''Searching'')) (\<lambda>s.
     jbind (dupd s (set_style ''display'' none_str)) (\<lambda>_.
     jbind (delem (js ''NoMatches'')) (\<lambda>n.
     if matches = 0 then dupd n (set_style ''display'' block_str)
     else dupd n (set_style ''display'' none_str))))"

definition upd_results :: "(search_results \<Rightarrow> search_results) \<Rightarrow> unit win" where
  "upd_results f = jmod (\<lambda>w. w\<lparr>results := f (results w)\<rparr>)"

definition SearchResults_Search :: "site \<Rightarrow> jstr \<Rightarrow> bool win" where
  "SearchResults_Search S search0 =
     jbind (jget frameLocation) (\<lambda>url.
     let search = search_key (unicode_lower S) (search_text url search0) in
     jbind (on_frame (jbind (jget (\<lambda>d. getElementsByTagName d ''div'')) (\<lambda>resultRows.
                      show_rows (unicode_lower S) search resultRows 0))) (\<lambda>matches.
     jbind (on_frame (hide_status matches)) (\<lambda>_.
     jbind (upd_results (\<lambda>r. r\<lparr>lastMatchCount := matches\<rparr>)) (\<lambda>_.
     jret True))))"

definition SearchResults :: search_results where
  "SearchResults = \<lparr>lastMatchCount = 0, lastKey = 0, repeatOn = False\<rparr>"

section \<open>Moving between rows\<close>

definition item_id :: "int \<Rightarrow> jstr" where
  "item_id index = js ''Item'' @ num_str index"

definition child_id :: "int \<Rightarrow> int \<Rightarrow> jstr" where
  "child_id index c = js ''Item'' @ num_str index @ js ''_c'' @ num_str c"

definition row_of :: "document \<Rightarrow> nat \<Rightarrow> nat option" where
  \<comment> \<open>\<open>focusItem.parentNode.parentNode\<close>\<close>
  "row_of d k = (case parentNode d k of None \<Rightarrow> None | Some p \<Rightarrow> parentNode d p)"

definition row_node :: "document \<Rightarrow> nat \<Rightarrow> node option" where
  "row_node d k = (case row_of d k of None \<Rightarrow> None | Some r \<Rightarrow> node_at d r)"

text \<open>
  The loops of \<open>NavNext\<close> (\<open>step = 1\<close>) and \<open>NavPrev\<close> (\<open>step = -1\<close>): the outer
  \<open>None\<close> is a loop that does not end, \<open>Inl\<close> an exception.
\<close>

partial_function (option) nav_loop ::
  "document \<Rightarrow> int \<Rightarrow> int \<Rightarrow> (js_error + nat option) option" where
  "nav_loop d step index =
     (case getElementById d (item_id index) of
        None \<Rightarrow> Some (Inr None)
      | Some focusItem \<Rightarrow>
          (case row_node d focusItem of
             None \<Rightarrow> Some (Inl TypeError)
           | Some n \<Rightarrow>
               if style n ''display'' = block_str then Some (Inr (Some focusItem))
               else nav_loop d step (index + step)))"

definition nav_result :: "(js_error + nat option) option \<Rightarrow> nat option dscript" where
  "nav_result r = (case r of
     None \<Rightarrow> jthrow NoReturn | Some (Inl e) \<Rightarrow> jthrow e | Some (Inr x) \<Rightarrow> jret x)"

definition NavNext :: "int \<Rightarrow> nat option dscript" where
  "NavNext index = jbind (jget (\<lambda>d. nav_loop d 1 index)) nav_result"

definition NavPrev :: "int \<Rightarrow> nat option dscript" where
  "NavPrev index = jbind (jget (\<lambda>d. nav_loop d (-1) index)) nav_result"

datatype event_type = KeyDown | KeyPress | KeyUp | OtherEvent

record nav_event =
  evType :: event_type
  evKeyCode :: int

definition ProcessKeys :: "nav_event \<Rightarrow> bool win" where
  "ProcessKeys e =
     jbind (jget results) (\<lambda>r.
     case evType e of
       KeyDown \<Rightarrow>
         jbind (upd_results (\<lambda>r. r\<lparr>repeatOn := False, lastKey := evKeyCode e\<rparr>)) (\<lambda>_.
         jbind (jget results) (\<lambda>r. jret (lastKey r \<noteq> 0)))
     | KeyPress \<Rightarrow>
         (if \<not> repeatOn r
          then jbind (jwhen (lastKey r \<noteq> 0) (upd_results (\<lambda>r. r\<lparr>repeatOn := True\<rparr>))) (\<lambda>_.
               jret False)
          else jret (lastKey r \<noteq> 0))
     | KeyUp \<Rightarrow>
         jbind (upd_results (\<lambda>r. r\<lparr>lastKey := 0, repeatOn := False\<rparr>)) (\<lambda>_.
         jbind (jget results) (\<lambda>r. jret (lastKey r \<noteq> 0)))
     | OtherEvent \<Rightarrow> jret (lastKey r \<noteq> 0))"

text \<open>
  Focusing an element of the frame takes the focus from the page: the search field loses
  it if it has it.
\<close>

definition focusFrame :: "nat \<Rightarrow> unit win" where
  "focusFrame k =
     block [blurPage, jmod (\<lambda>w. w\<lparr>frame := (frame w)\<lparr>focused := Some k\<rparr>\<rparr>)]"

definition focusSearchField :: "unit win" where
  "focusSearchField = jbind (elem MSearchField) focusNode"

text \<open>The loop that looks for the last child of a row.\<close>

partial_function (option) last_child ::
  "document \<Rightarrow> int \<Rightarrow> int \<Rightarrow> nat \<Rightarrow> nat option" where
  "last_child d newIndex n focusItem =
     (case getElementById d (child_id newIndex n) of
        None \<Rightarrow> Some focusItem
      | Some tmpElem \<Rightarrow> last_child d newIndex (n + 1) tmpElem)"

definition children_of_item :: "nat \<Rightarrow> nat option dscript" where
  \<comment> \<open>\<open>this.FindChildElement(item.parentNode.parentNode.id)\<close>\<close>
  "children_of_item item =
     jbind (jget (\<lambda>d. row_node d item)) (\<lambda>r.
     jbind (of_option TypeError r) (\<lambda>n. FindChildElement (idOf n)))"

definition is_shown :: "nat option \<Rightarrow> bool dscript" where
  "is_shown child =
     (case child of None \<Rightarrow> jret False
      | Some k \<Rightarrow> jbind (dnodeOf k) (\<lambda>n. jret (style n ''display'' = block_str)))"

definition nav_up :: "int \<Rightarrow> unit win" where
  "nav_up itemIndex =
     (let newIndex = itemIndex - 1 in
      jbind (on_frame (NavPrev newIndex)) (\<lambda>focusItem.
      case focusItem of
        None \<Rightarrow> focusSearchField
      | Some k \<Rightarrow>
          jbind (on_frame (jbind (children_of_item k) is_shown)) (\<lambda>shown.
          jbind (if shown
                 then jbind (jget frame) (\<lambda>d. of_option NoReturn (last_child d newIndex 0 k))
                 else jret k) focusFrame)))"

definition nav_down :: "int \<Rightarrow> unit win" where
  "nav_down itemIndex =
     (let newIndex = itemIndex + 1 in
      jbind (on_frame (jbind (delem (item_id itemIndex)) children_of_item)) (\<lambda>child.
      jbind (on_frame (is_shown child)) (\<lambda>shown.
      jbind (jget frame) (\<lambda>d.
      let focusItem = (if shown then getElementById d (child_id itemIndex 0) else None) in
      jbind (case focusItem of None \<Rightarrow> on_frame (NavNext newIndex) | Some k \<Rightarrow> jret (Some k))
        (\<lambda>focusItem.
      case focusItem of None \<Rightarrow> jret () | Some k \<Rightarrow> focusFrame k)))))"

definition nav_show :: "int \<Rightarrow> jstr \<Rightarrow> unit win" where
  "nav_show itemIndex v =
     on_frame (jbind (jbind (delem (item_id itemIndex)) children_of_item) (\<lambda>child.
       case child of None \<Rightarrow> jret () | Some k \<Rightarrow> dupd k (set_style ''display'' v)))"

definition Nav :: "nav_event \<Rightarrow> int \<Rightarrow> bool win" where
  "Nav e itemIndex =
     (if evKeyCode e = 13 then jret True
      else jbind (ProcessKeys e) (\<lambda>go.
      if \<not> go then jret False
      else jbind (jget (lastKey \<circ> results)) (\<lambda>key.
        if key = 38 then jbind (nav_up itemIndex) (\<lambda>_. jret False)
        else if key = 40 then jbind (nav_down itemIndex) (\<lambda>_. jret False)
        else if key = 39 then jbind (nav_show itemIndex block_str) (\<lambda>_. jret False)
        else if key = 37 then jbind (nav_show itemIndex none_str) (\<lambda>_. jret False)
        else if key = 27 then
          jbind CloseResultsWindow (\<lambda>_. jbind focusSearchField (\<lambda>_. jret False))
        else if key = 13 then jret True
        else jret False)))"

definition child_up :: "int \<Rightarrow> int \<Rightarrow> unit win" where
  "child_up itemIndex childIndex =
     (if childIndex > 0
      then jbind (on_frame (delem (child_id itemIndex (childIndex - 1)))) focusFrame
      else jbind (on_frame (delem (item_id itemIndex))) focusFrame)"

definition child_down :: "int \<Rightarrow> int \<Rightarrow> unit win" where
  "child_down itemIndex childIndex =
     jbind (jget frame) (\<lambda>d.
     jbind (case getElementById d (child_id itemIndex (childIndex + 1)) of
              None \<Rightarrow> on_frame (NavNext (itemIndex + 1)) | Some k \<Rightarrow> jret (Some k)) (\<lambda>el.
     case el of None \<Rightarrow> jret () | Some k \<Rightarrow> focusFrame k))"

definition NavChild :: "nav_event \<Rightarrow> int \<Rightarrow> int \<Rightarrow> bool win" where
  "NavChild e itemIndex childIndex =
     (if evKeyCode e = 13 then jret True
      else jbind (ProcessKeys e) (\<lambda>go.
      if \<not> go then jret False
      else jbind (jget (lastKey \<circ> results)) (\<lambda>key.
        if key = 38 then jbind (child_up itemIndex childIndex) (\<lambda>_. jret False)
        else if key = 40 then jbind (child_down itemIndex childIndex) (\<lambda>_. jret False)
        else if key = 27 then
          jbind CloseResultsWindow (\<lambda>_. jbind focusSearchField (\<lambda>_. jret False))
        else if key = 13 then jret True
        else jret False)))"

section \<open>Finding the children: the loop against a tree search\<close>

text \<open>The first \<open>SRChildren\<close> below a list of trees, descending into \<open>div\<close>s only.\<close>

fun find_in :: "dtree list \<Rightarrow> nat option" where
  "find_in [] = None"
| "find_in (DT k n ts # us) =
     (if tag n = ''div'' then
        (if className n = js ''SRChildren'' then Some k
         else case find_in ts of Some r \<Rightarrow> Some r | None \<Rightarrow> find_in us)
      else find_in us)"

text \<open>What the loop does when the subtree of a node is finished.\<close>

definition cont :: "document \<Rightarrow> nat \<Rightarrow> nat \<Rightarrow> nat option option" where
  "cont d p k =
     (if nextSibling d k \<noteq> None then find_child d p (nextSibling d k)
      else case climb d p k of
             None \<Rightarrow> None
           | Some None \<Rightarrow> Some None
           | Some (Some q) \<Rightarrow> if q \<noteq> p then find_child d p (nextSibling d q) else Some None)"

lemma find_child_None: "find_child d p None = Some None"
  by (subst find_child.simps) simp

lemma find_child_self: "find_child d p (Some p) = Some None"
  by (subst find_child.simps) simp

lemma find_child_step:
  "k \<noteq> p \<Longrightarrow> find_child d p (Some k) =
     (if is_div d k \<and> has_class d k ''SRChildren'' then Some (Some k)
      else if is_div d k \<and> childNodes d k \<noteq> [] then find_child d p (firstChild d k)
      else cont d p k)"
  by (subst find_child.simps)
     (simp add: cont_def find_child_None find_child_self split: option.split)

lemma cont_last:
  assumes "wf_doc d" "t \<in> set (all_trees d)" "kids t = us @ [u]"
  shows "cont d p (dkey u) = (if dkey t = p then Some None else cont d p (dkey t))"
proof -
  have "nextSibling d (dkey u) = None"
    using nextSibling_place [OF assms(1,2), of us u "[]"] assms(3) by simp
  moreover have "parentNode d (dkey u) = Some (dkey t)"
    using parentNode_place [OF assms(1,2)] assms(3) by simp
  ultimately show ?thesis
    by (simp add: cont_def climb.simps [of d p "dkey u"] split: option.split)
qed

definition after_kids :: "document \<Rightarrow> nat \<Rightarrow> dtree \<Rightarrow> nat option option" where
  "after_kids d p t = (if dkey t = p then Some None else cont d p (dkey t))"

lemma find_child_kids:
  assumes "wf_doc d" "tp \<in> set (all_trees d)"
  shows "t \<in> set (subtrees tp) \<Longrightarrow> kids t = ys @ us \<Longrightarrow> us \<noteq> [] \<Longrightarrow>
    find_child d (dkey tp) (Some (dkey (hd us))) =
      (case find_in us of Some r \<Rightarrow> Some (Some r) | None \<Rightarrow> after_kids d (dkey tp) t)"
proof (induction us arbitrary: t ys rule: find_in.induct)
  case 1
  then show ?case by simp
next
  case (2 k n ts us)
  let ?u = "DT k n ts"
  have t: "t \<in> set (all_trees d)" by (rule subtrees_all [OF assms(2) "2.prems"(1)])
  have u: "?u \<in> set (kids t)" using "2.prems"(2) by simp
  then have u_all: "?u \<in> set (all_trees d)" by (rule all_trees_kids [OF t])
  have u_sub: "?u \<in> set (subtrees tp)"
    using subtrees_trans [OF "2.prems"(1) kid_in_subtrees [OF u]] .
  have kp: "k \<noteq> dkey tp"
    using proper_subtree_key [OF assms "2.prems"(1) u] by simp
  have nd: "node_at d k = Some n" using node_at_place [OF assms(1) u_all] by simp
  have ch: "childNodes d k = map dkey ts" using childNodes_place [OF assms(1) u_all] by simp
  have fc: "firstChild d k = (case ts of [] \<Rightarrow> None | u # _ \<Rightarrow> Some (dkey u))"
    using firstChild_place [OF assms(1) u_all] by simp
  have rest: "cont d (dkey tp) k =
      (case find_in us of Some r \<Rightarrow> Some (Some r) | None \<Rightarrow> after_kids d (dkey tp) t)"
    if ih: "us \<noteq> [] \<Longrightarrow> find_child d (dkey tp) (Some (dkey (hd us))) =
      (case find_in us of Some r \<Rightarrow> Some (Some r) | None \<Rightarrow> after_kids d (dkey tp) t)"
  proof (cases us)
    case Nil
    then show ?thesis
      using cont_last [OF assms(1) t, of ys ?u "dkey tp"] "2.prems"(2) by (simp add: after_kids_def)
  next
    case (Cons v vs)
    have "nextSibling d k = Some (dkey v)"
      using nextSibling_place [OF assms(1) t, of ys ?u us] "2.prems"(2) by (simp add: Cons)
    then show ?thesis using ih by (simp add: cont_def Cons)
  qed
  have us: "kids t = (ys @ [?u]) @ us" using "2.prems"(2) by simp
  have div: "is_div d k \<longleftrightarrow> tag n = ''div''"
    and cls: "has_class d k ''SRChildren'' \<longleftrightarrow> className n = js ''SRChildren''"
    by (simp_all add: is_div_def has_class_def nd)
  have inner: "find_child d (dkey tp) (firstChild d k) =
      (case find_in ts of Some r \<Rightarrow> Some (Some r) | None \<Rightarrow> cont d (dkey tp) k)"
    if "tag n = ''div''" "className n \<noteq> js ''SRChildren''" "ts \<noteq> []"
    using "2.IH"(1) [OF that(1,2) u_sub, of "[]"] that(3) kp
    by (cases ts) (simp_all add: fc after_kids_def split: option.split)
  show ?case
  proof (cases "tag n = ''div'' \<and> className n \<noteq> js ''SRChildren''")
    case True
    have "find_in ts = None \<Longrightarrow> cont d (dkey tp) k =
        (case find_in us of Some r \<Rightarrow> Some (Some r) | None \<Rightarrow> after_kids d (dkey tp) t)"
      using rest [OF "2.IH"(2) [OF _ _ _ "2.prems"(1) us]] True by blast
    with True inner show ?thesis
      by (cases "ts = []") (auto simp: find_child_step kp div cls ch split: option.split)
  next
    case False
    then show ?thesis
      using rest [OF "2.IH"(3) [OF _ "2.prems"(1) us]]
      by (auto simp: find_child_step kp div cls)
  qed
qed

lemma find_child_find_in:
  assumes "wf_doc d" "t \<in> set (all_trees d)"
  shows "find_child d (dkey t) (firstChild d (dkey t)) = Some (find_in (kids t))"
proof (cases "kids t")
  case Nil
  then show ?thesis by (simp add: firstChild_place [OF assms] find_child_None)
next
  case (Cons u us)
  then show ?thesis
    using find_child_kids [OF assms subtrees_self, of "[]" "kids t"]
    by (simp add: firstChild_place [OF assms] after_kids_def split: option.split)
qed

end
