(* ===== verification/Search_Create.thy ===== *)
theory Search_Create
  imports Search_Results
begin

text \<open>
  Building the result rows from the generated data (\<open>createResults\<close>) and the filter
  menu from the section labels (\<open>init_search\<close>), and the trees they build.
\<close>

section \<open>The scripts\<close>

text \<open>An entry of \<open>searchData\<close>: row name, display text, and the places it occurs at
  (address, whether the page replaces the whole window, scope text).\<close>

type_synonym hit = "jstr \<times> bool \<times> jstr"
type_synonym search_entry = "jstr \<times> jstr \<times> hit list"

definition setKeyActions :: "nat \<Rightarrow> jstr \<Rightarrow> unit dscript" where
  "setKeyActions k action =
     block [setAttribute k ''onkeydown'' action, setAttribute k ''onkeypress'' action,
            setAttribute k ''onkeyup'' action]"

definition setClassAttr :: "nat \<Rightarrow> jstr \<Rightarrow> unit dscript" where
  "setClassAttr k attr = block [setAttribute k ''class'' attr, setAttribute k ''className'' attr]"

definition nav_call :: "nat \<Rightarrow> jstr" where
  "nav_call e = js ''return searchResults.Nav(event,'' @ nat_str e @ js '')''"

definition nav_child_call :: "nat \<Rightarrow> nat \<Rightarrow> jstr" where
  "nav_child_call e c =
     js ''return searchResults.NavChild(event,'' @ nat_str e @ js '','' @ nat_str c @ js '')''"

definition close_call :: jstr where
  "close_call = js ''parent.searchBox.CloseResultsWindow()''"

definition toggle_call :: "jstr \<Rightarrow> jstr" where
  "toggle_call i = js ''javascript:searchResults.Toggle(\"SR_'' @ i @ js ''\")''"

definition createScope :: "nat \<Rightarrow> nat \<Rightarrow> hit \<Rightarrow> unit dscript" where
  \<comment> \<open>the branch for a single result\<close>
  "createScope srEntry srLink h =
     (case h of (href, target, scope) \<Rightarrow>
     jbind (setAttribute srLink ''href'' href) (\<lambda>_.
     jbind (setAttribute srLink ''onclick'' close_call) (\<lambda>_.
     jbind (jwhen target (setAttribute srLink ''target'' (js ''_parent''))) (\<lambda>_.
     jbind (dcreate ''span'') (\<lambda>srScope.
     jbind (setClassAttr srScope (js ''SRScope'')) (\<lambda>_.
     jbind (dupd srScope (set_html scope)) (\<lambda>_.
     dappend srEntry srScope)))))))"

fun createChildren :: "nat \<Rightarrow> nat \<Rightarrow> nat \<Rightarrow> hit list \<Rightarrow> unit dscript" where
  "createChildren srChildren e c [] = jret ()"
| "createChildren srChildren e c ((href, target, scope) # hs) =
     jbind (dcreate ''a'') (\<lambda>srChild.
     jbind (setAttribute srChild ''id'' (js ''Item'' @ nat_str e @ js ''_c'' @ nat_str c)) (\<lambda>_.
     jbind (setKeyActions srChild (nav_child_call e c)) (\<lambda>_.
     jbind (setClassAttr srChild (js ''SRScope'')) (\<lambda>_.
     jbind (setAttribute srChild ''href'' href) (\<lambda>_.
     jbind (setAttribute srChild ''onclick'' close_call) (\<lambda>_.
     jbind (jwhen target (setAttribute srChild ''target'' (js ''_parent''))) (\<lambda>_.
     jbind (dupd srChild (set_html scope)) (\<lambda>_.
     jbind (dappend srChildren srChild) (\<lambda>_.
     createChildren srChildren e (c + 1) hs)))))))))"

definition createGroup :: "nat \<Rightarrow> nat \<Rightarrow> nat \<Rightarrow> jstr \<Rightarrow> hit list \<Rightarrow> unit dscript" where
  \<comment> \<open>the branch for several results\<close>
  "createGroup srEntry srLink e i hs =
     jbind (setAttribute srLink ''href'' (toggle_call i)) (\<lambda>_.
     jbind (dcreate ''div'') (\<lambda>srChildren.
     jbind (setClassAttr srChildren (js ''SRChildren'')) (\<lambda>_.
     jbind (createChildren srChildren e 0 hs) (\<lambda>_.
     dappend srEntry srChildren))))"

definition createRow :: "nat option \<Rightarrow> nat \<Rightarrow> search_entry \<Rightarrow> unit dscript" where
  "createRow resultsNode e ent =
     (case ent of (i, name, hs) \<Rightarrow>
     jbind (dcreate ''div'') (\<lambda>srResult.
     jbind (setAttribute srResult ''id'' (js ''SR_'' @ i)) (\<lambda>_.
     jbind (setClassAttr srResult (js ''SRResult'')) (\<lambda>_.
     jbind (dcreate ''div'') (\<lambda>srEntry.
     jbind (setClassAttr srEntry (js ''SREntry'')) (\<lambda>_.
     jbind (dcreate ''a'') (\<lambda>srLink.
     jbind (setAttribute srLink ''id'' (js ''Item'' @ nat_str e)) (\<lambda>_.
     jbind (setKeyActions srLink (nav_call e)) (\<lambda>_.
     jbind (setClassAttr srLink (js ''SRSymbol'')) (\<lambda>_.
     jbind (dupd srLink (set_html name)) (\<lambda>_.
     jbind (dappend srEntry srLink) (\<lambda>_.
     jbind (case hs of [h] \<Rightarrow> createScope srEntry srLink h
            | _ \<Rightarrow> createGroup srEntry srLink e i hs) (\<lambda>_.
     jbind (dappend srResult srEntry) (\<lambda>_.
     jbind (of_option TypeError resultsNode) (\<lambda>r. dappend r srResult)))))))))))))))"

fun createRows :: "nat option \<Rightarrow> nat \<Rightarrow> search_entry list \<Rightarrow> unit dscript" where
  "createRows resultsNode e [] = jret ()"
| "createRows resultsNode e (ent # searchData) =
     jbind (createRow resultsNode e ent) (\<lambda>_. createRows resultsNode (e + 1) searchData)"

definition createResults :: "search_entry list \<Rightarrow> unit dscript" where
  "createResults searchData =
     jbind (jget (\<lambda>d. getElementById d (js ''SRResults''))) (\<lambda>resultsNode.
     createRows resultsNode 0 searchData)"

text \<open>
  The entries of the filter menu. The markup assigned to \<open>innerHTML\<close> is parsed by the
  browser: the mark is the first child of the entry, as \<open>SelectItemSet\<close> expects, and the
  label the text after it.
\<close>

definition parseItemMarkup :: "nat \<Rightarrow> jstr \<Rightarrow> unit dscript" where
  "parseItemMarkup link label =
     jbind (dcreate ''span'') (\<lambda>m.
     jbind (setAttribute m ''class'' (js ''SelectionMark'')) (\<lambda>_.
     jbind (dupd m (set_html (js ''&#160;''))) (\<lambda>_.
     jbind (dappend link m) (\<lambda>_.
     jbind (dcreate ''#text'') (\<lambda>t.
     jbind (dupd t (set_html label)) (\<lambda>_.
     dappend link t))))))"

definition createMenuItem :: "nat option \<Rightarrow> nat \<Rightarrow> jstr \<Rightarrow> unit dscript" where
  "createMenuItem resultsNode key label =
     jbind (dcreate ''a'') (\<lambda>link.
     jbind (setAttribute link ''class'' (js ''SelectItem'')) (\<lambda>_.
     jbind (setAttribute link ''onclick'' (js ''searchBox.OnSelectItem('' @ nat_str key @ js '')'')) (\<lambda>_.
     jbind (setAttribute link ''href'' (js ''javascript:void(0)'')) (\<lambda>_.
     jbind (parseItemMarkup link label) (\<lambda>_.
     jbind (of_option TypeError resultsNode) (\<lambda>r. dappend r link))))))"

fun createMenuItems :: "nat option \<Rightarrow> nat \<Rightarrow> jstr list \<Rightarrow> unit dscript" where
  "createMenuItems resultsNode key [] = jret ()"
| "createMenuItems resultsNode key (label # labels) =
     jbind (createMenuItem resultsNode key label) (\<lambda>_.
     createMenuItems resultsNode (key + 1) labels)"

definition init_search :: "site \<Rightarrow> unit win" where
  "init_search S =
     jbind (on_page (jbind (jget (\<lambda>d. getElementById d MSearchSelectWindow)) (\<lambda>resultsNode.
       createMenuItems resultsNode 0 (indexSectionLabels S)))) (\<lambda>_.
     OnSelectItem S 0)"

section \<open>The trees they build\<close>

definition class_attrs :: "string \<Rightarrow> node \<Rightarrow> node" where
  "class_attrs c = set_attr ''className'' (js c) \<circ> set_attr ''class'' (js c)"

definition key_attrs :: "jstr \<Rightarrow> node \<Rightarrow> node" where
  "key_attrs a = set_attr ''onkeyup'' a \<circ> set_attr ''onkeypress'' a \<circ> set_attr ''onkeydown'' a"

definition target_attr :: "bool \<Rightarrow> node \<Rightarrow> node" where
  "target_attr b = (if b then set_attr ''target'' (js ''_parent'') else (\<lambda>n. n))"

definition child_node :: "nat \<Rightarrow> nat \<Rightarrow> hit \<Rightarrow> node" where
  "child_node e c h = (case h of (href, target, scope) \<Rightarrow>
     set_html scope (target_attr target (set_attr ''onclick'' close_call
       (set_attr ''href'' href (class_attrs ''SRScope'' (key_attrs (nav_child_call e c)
         (set_attr ''id'' (js ''Item'' @ nat_str e @ js ''_c'' @ nat_str c) (new_node ''a''))))))))"

fun child_trees :: "nat \<Rightarrow> nat \<Rightarrow> nat \<Rightarrow> hit list \<Rightarrow> dtree list" where
  "child_trees k e c [] = []"
| "child_trees k e c (h # hs) = DT k (child_node e c h) [] # child_trees (Suc k) e (c + 1) hs"

definition link_node :: "nat \<Rightarrow> jstr \<Rightarrow> node" where
  "link_node e name = set_html name (class_attrs ''SRSymbol'' (key_attrs (nav_call e)
     (set_attr ''id'' (js ''Item'' @ nat_str e) (new_node ''a''))))"

definition single_link :: "nat \<Rightarrow> jstr \<Rightarrow> hit \<Rightarrow> node" where
  "single_link e name h = (case h of (href, target, scope) \<Rightarrow>
     target_attr target (set_attr ''onclick'' close_call (set_attr ''href'' href (link_node e name))))"

definition row_tree :: "nat \<Rightarrow> nat \<Rightarrow> search_entry \<Rightarrow> dtree" where
  "row_tree k e ent = (case ent of (i, name, hs) \<Rightarrow>
     DT k (class_attrs ''SRResult'' (set_attr ''id'' (js ''SR_'' @ i) (new_node ''div'')))
       [DT (k + 1) (class_attrs ''SREntry'' (new_node ''div''))
         (case hs of
            [h] \<Rightarrow>
              [DT (k + 2) (single_link e name h) [],
               DT (k + 3) (set_html (snd (snd h)) (class_attrs ''SRScope'' (new_node ''span''))) []]
          | _ \<Rightarrow>
              [DT (k + 2) (set_attr ''href'' (toggle_call i) (link_node e name)) [],
               DT (k + 3) (class_attrs ''SRChildren'' (new_node ''div''))
                 (child_trees (k + 4) e 0 hs)])])"

definition row_size :: "search_entry \<Rightarrow> nat" where
  "row_size ent = (let c = length (snd (snd ent)) in 4 + (if c = 1 then 0 else c))"

lemma run_dappend_building [js_run]:
  "is_new d c \<Longrightarrow> is_new d p \<Longrightarrow> dappend p c (building d xs n) =
     (case find (\<lambda>t. dkey t = c) (forest xs) of
        None \<Rightarrow> (Inl TypeError, building d xs n)
      | Some t \<Rightarrow> if p \<in> set (keys [t]) then (Inl DOMException, building d xs n)
          else (Inr (), building d (map (insert_last p t)
                 (map (remove_tree c) (filter (\<lambda>u. dkey u \<noteq> c) xs))) n))"
  using appendChild_building [of d c p xs _ n]
  by (auto simp: dappend_def appendChild_def tree_at_building split: option.split)

lemma run_setClassAttr [js_run]:
  "setClassAttr k (js c) d = (Inr (), upd_node d k (class_attrs c))"
  by (simp add: setClassAttr_def js_run class_attrs_def upd_node_comp)

lemma run_setKeyActions [js_run]:
  "setKeyActions k a d = (Inr (), upd_node d k (key_attrs a))"
  by (simp add: setKeyActions_def js_run key_attrs_def upd_node_comp comp_def)

lemma upd_node_self: "upd_node d k (\<lambda>n. n) = d"
proof -
  have "upd_tree k (\<lambda>n. n) t = t" for t
    by (induction t) (simp add: map_idI)
  then show ?thesis by (simp add: upd_node_def map_idI)
qed

lemma run_target [js_run]:
  "jwhen b (setAttribute k ''target'' (js ''_parent'')) d = (Inr (), upd_node d k (target_attr b))"
  by (simp add: js_run target_attr_def upd_node_self)

lemma keys_child_trees: "keys (child_trees k e c hs) = [k..<k + length hs]"
  by (induction k e c hs rule: child_trees.induct) (simp_all add: keys_Cons upt_rec)

lemma createChildren_run:
  assumes "is_new d sc" "fresh d \<le> n" "wf_doc d" "sc \<notin> set (keys (xs @ cs))"
    and "\<forall>k \<in> set (keys (xs @ [DT sc N cs])). k < n"
  shows "createChildren sc e c hs (building d (xs @ [DT sc N cs]) n) =
    (Inr (), building d (xs @ [DT sc N (cs @ child_trees n e c hs)]) (n + length hs))"
  using assms
proof (induction sc e c hs arbitrary: n cs rule: createChildren.induct)
  case (1 sc e c)
  then show ?case by (simp add: js_run)
next
  case (2 sc e c href target scope hs)
  have new: "is_new d n" using "2.prems"(2,3) by (blast intro: is_new_fresh)
  have n: "n \<notin> set (keys xs)" "n \<noteq> sc" "n \<notin> set (keys cs)"
    using "2.prems"(5) by (fastforce simp: keys_append keys_Cons)+
  let ?h = "(href, target, scope)"
  have absent: "map (upd_tree n f) xs = xs" "map (upd_tree n f) cs = cs"
    "map (remove_tree n) xs = xs" "map (remove_tree n) cs = cs"
    "filter (\<lambda>t. dkey t \<noteq> n) xs = xs" "filter (\<lambda>t. dkey t \<noteq> n) cs = cs" 
    "map (insert_last sc t) xs = xs" "map (insert_last sc t) cs = cs"
    "find (\<lambda>t. dkey t = n) (forest xs) = None" "find (\<lambda>t. dkey t = n) (forest cs) = None" for f t
    using n "2.prems"(4) by (simp_all add: map_absent find_forest_absent keys_append)
  have step: "createChildren sc e c (?h # hs) (building d (xs @ [DT sc N cs]) n) =
      createChildren sc e (c + 1) hs
        (building d (xs @ [DT sc N (cs @ [DT n (child_node e c ?h) []])]) (Suc n))"
    using n new "2.prems"(1)
    by (simp add: js_run upd_node_building absent forest_append forest_Cons subtrees_forest
        find_append keys_Cons child_node_def target_attr_def comp_def del: subtrees.simps map_map)
  have "createChildren sc e (c + 1) hs
        (building d (xs @ [DT sc N (cs @ [DT n (child_node e c ?h) []])]) (Suc n)) =
    (Inr (), building d (xs @ [DT sc N ((cs @ [DT n (child_node e c ?h) []]) @
       child_trees (Suc n) e (c + 1) hs)]) (Suc n + length hs))"
    by (rule "2.IH") (use "2.prems" n in \<open>auto simp: keys_append keys_Cons intro: less_SucI\<close>)
  then show ?case by (simp add: step del: createChildren.simps)
qed

lemma createRow_run:
  assumes "wf_doc d" "r \<in> set (keys [root d])"
  shows "createRow (Some r) e ent d =
    (Inr (), d\<lparr>root := insert_last r (row_tree (fresh d) e ent) (root d),
               fresh := fresh d + row_size ent\<rparr>)"
proof -
  obtain i name hs where ent: "ent = (i, name, hs)" by (cases ent)
  have new: "is_new d k" if "fresh d \<le> k" for k
    using assms(1) that by (rule is_new_fresh)
  let ?n = "fresh d"
  have group: "createChildren (Suc (Suc (Suc ?n))) e 0 hs
      (building d [DT ?n A [], DT (Suc ?n) B [DT (Suc (Suc ?n)) C []],
                   DT (Suc (Suc (Suc ?n))) D []] (Suc (Suc (Suc (Suc ?n))))) =
    (Inr (), building d [DT ?n A [], DT (Suc ?n) B [DT (Suc (Suc ?n)) C []],
       DT (Suc (Suc (Suc ?n))) D (child_trees (Suc (Suc (Suc (Suc ?n)))) e 0 hs)]
       (Suc (Suc (Suc (Suc ?n))) + length hs))" for A B C D
    using createChildren_run [of d "Suc (Suc (Suc ?n))" "Suc (Suc (Suc (Suc ?n)))"
        "[DT ?n A [], DT (Suc ?n) B [DT (Suc (Suc ?n)) C []]]" "[]" D e 0 hs] assms(1) new
    by (auto simp: keys_Cons)
  have build: "createRow (Some r) e ent (building d [] ?n) =
      dappend r ?n (building d [row_tree ?n e ent] (?n + row_size ent))"
  proof (cases "\<exists>h. hs = [h]")
    case True
    then obtain href target scope where hs: "hs = [(href, target, scope)]" by auto
    show ?thesis
      by (simp add: createRow_def ent hs js_run createScope_def upd_node_building new row_tree_def
         forest_Cons keys_Cons row_size_def link_node_def single_link_def comp_def target_attr_def
         eval_nat_numeral)
  next
    case False
    then have multi: "(case hs of [h] \<Rightarrow> x h | _ \<Rightarrow> y) = y" for x :: "hit \<Rightarrow> 'b" and y
      by (auto split: list.split)
    have len: "length hs \<noteq> Suc 0" using False by (auto simp: length_Suc_conv)
    show ?thesis
      by (simp add: createRow_def ent multi js_run createGroup_def upd_node_building new row_tree_def
         forest_Cons keys_Cons row_size_def link_node_def comp_def group eval_nat_numeral
         len len [symmetric] keys_child_trees map_absent) auto
  qed
  have key: "dkey (row_tree ?n e ent) = ?n" by (simp add: row_tree_def ent)
  have "?n \<le> k" if "k \<in> set (keys [row_tree ?n e ent])" for k
    using that by (auto simp: row_tree_def ent keys_Cons keys_child_trees split: list.splits)
  moreover have "r < ?n" using assms by (auto simp: wf_doc_def keys_Cons')
  ultimately have "r \<notin> set (keys [row_tree ?n e ent])" by fastforce
  with appendChild_attach [OF assms(1) _ assms(2), of "row_tree ?n e ent"] build show ?thesis
    by (simp add: key building_self dappend_def)
qed


subsection \<open>All rows\<close>

lemma keys_row_tree: "keys [row_tree k e ent] = [k..<k + row_size ent]"
proof -
  obtain i name hs where ent: "ent = (i, name, hs)" by (cases ent)
  have four: "k # Suc k # Suc (Suc k) # (k + 3) # [k + 4..<k + (4 + m)] = [k..<k + (4 + m)]" for m
    by (simp add: upt_rec eval_nat_numeral)
  show ?thesis
  proof (cases "\<exists>h. hs = [h]")
    case True
    then show ?thesis using four [of 0] by (auto simp: ent row_tree_def row_size_def keys_Cons)
  next
    case False
    then have "length hs \<noteq> Suc 0" by (auto simp: length_Suc_conv)
    then have "row_size ent = 4 + length hs" by (simp add: row_size_def ent Let_def)
    moreover have "keys [row_tree k e ent] =
        k # Suc k # Suc (Suc k) # (k + 3) # [k + 4..<k + (4 + length hs)]"
    proof -
      have "(case hs of [h] \<Rightarrow> x h | _ \<Rightarrow> y) = y" for x :: "hit \<Rightarrow> dtree list" and y
        using False by (auto split: list.split)
      then show ?thesis by (simp add: ent row_tree_def keys_Cons keys_child_trees add.assoc)
    qed
    ultimately show ?thesis by (simp add: four)
  qed
qed

interpretation rows: tree_builder createRow row_tree row_size
  by unfold_locales (simp_all add: createRow_run keys_row_tree)

lemma createRows_loop: "createRows r e ents = rows.loop r e ents"
  by (induction ents arbitrary: e) simp_all

lemma createResults_run:
  assumes "wf_doc d" "getElementById d (js ''SRResults'') = Some r"
  shows "createResults ents d = (Inr (), rows.filled r 0 ents d)"
  using rows.loop_run(1) [OF assms(1) getElementById_key [OF assms(2)]] assms(2)
  by (simp add: createResults_def js_run createRows_loop)

subsection \<open>Identifiers of the rows\<close>

lemma nat_str_no_mark: "nat_str m \<noteq> nat_str n @ js (CHR ''_'' # s)"
proof
  assume "nat_str m = nat_str n @ js (CHR ''_'' # s)"
  then have "cu_of (CHR ''_'') \<in> set (nat_str m)" by (simp add: js_Cons)
  from nat_str_digits [OF this] show False by simp
qed

lemma digits_split:
  "u @ c # v = u' @ c # v' \<Longrightarrow> c \<notin> set u \<Longrightarrow> c \<notin> set u' \<Longrightarrow> u = u' \<and> v = v'"
proof (induction u arbitrary: u')
  case Nil
  then show ?case by (cases u') auto
next
  case (Cons x u)
  then show ?case by (cases u') auto
qed

lemma mark_not_digit: "cu_of (CHR ''_'') \<notin> set (nat_str m)"
  using nat_str_digits [of "cu_of (CHR ''_'')" m] by auto

lemma js_mark: "js ''_c'' @ x = cu_of (CHR ''_'') # cu_of (CHR ''c'') # x"
  by (simp add: js_Cons)

definition item_name :: "nat \<Rightarrow> jstr" where
  "item_name m = js ''Item'' @ nat_str m"

definition child_name :: "nat \<Rightarrow> nat \<Rightarrow> jstr" where
  "child_name m c = js ''Item'' @ nat_str m @ js ''_c'' @ nat_str c"

lemma item_name_inj [simp]: "item_name m = item_name n \<longleftrightarrow> m = n"
  by (simp add: item_name_def nat_str_inj)

lemma item_not_child [simp]: "item_name m \<noteq> child_name n c" "child_name n c \<noteq> item_name m"
proof -
  have "nat_str m \<noteq> nat_str n @ js ''_c'' @ nat_str c"
    using mark_not_digit [of m] unfolding js_mark by (metis in_set_conv_decomp)
  then show "item_name m \<noteq> child_name n c" "child_name n c \<noteq> item_name m"
    by (auto simp: item_name_def child_name_def)
qed

lemma child_name_inj [simp]: "child_name m b = child_name n c \<longleftrightarrow> m = n \<and> b = c"
proof
  assume "child_name m b = child_name n c"
  then have "nat_str m @ cu_of (CHR ''_'') # cu_of (CHR ''c'') # nat_str b =
      nat_str n @ cu_of (CHR ''_'') # cu_of (CHR ''c'') # nat_str c"
    by (simp add: child_name_def js_mark)
  from digits_split [OF this mark_not_digit mark_not_digit]
  show "m = n \<and> b = c" by (simp add: nat_str_inj)
qed simp

lemma row_name_not_item [simp]:
  "js ''SR_'' @ i \<noteq> item_name m" "js ''SR_'' @ i \<noteq> child_name m c"
  "item_name m \<noteq> js ''SR_'' @ i" "child_name m c \<noteq> js ''SR_'' @ i"
  "item_name m \<noteq> []" "child_name m c \<noteq> []"
  by (simp_all add: item_name_def child_name_def js_string)

lemma idAttr_setters [simp]:
  "idAttr (class_attrs c n) = idAttr n" "idAttr (key_attrs a n) = idAttr n"
  "idAttr (target_attr b n) = idAttr n" "idAttr (new_node t) = None"
  by (simp_all add: class_attrs_def key_attrs_def target_attr_def new_node_def)

lemma id_child_node [simp]: "idAttr (child_node e c h) = Some (child_name e c)"
  by (simp add: child_node_def child_name_def split: prod.split)

lemma id_links [simp]:
  "idAttr (link_node e name) = Some (item_name e)"
  "idAttr (single_link e name h) = Some (item_name e)"
  by (simp_all add: link_node_def single_link_def item_name_def split: prod.split)

lemma id_in_child_trees [simp]:
  "id_in (item_name m) (child_trees k e c hs) = None"
  "id_in (js ''SR_'' @ i) (child_trees k e c hs) = None"
  "id_in (child_name m j) (child_trees k e c hs) =
     (if m = e \<and> c \<le> j \<and> j < c + length hs then Some (k + (j - c)) else None)"
  by (induction k e c hs rule: child_trees.induct) (auto simp: id_in_Cons not_le less_Suc_eq)

lemma id_in_row_tree:
  fixes ent
  defines "n \<equiv> length (snd (snd ent))"
  shows "id_in (item_name m) (row_tree k e ent # us) =
      (if m = e then Some (k + 2) else id_in (item_name m) us)"
    and "id_in (child_name m j) (row_tree k e ent # us) =
      (if m = e \<and> n \<noteq> 1 \<and> j < n then Some (k + 4 + j) else id_in (child_name m j) us)"
    and "id_in (js ''SR_'' @ i) (row_tree k e ent # us) =
      (if i = fst ent then Some k else id_in (js ''SR_'' @ i) us)"
  by (auto simp: row_tree_def n_def id_in_Cons split: prod.split list.split)

lemma id_in_rows:
  "id_in (item_name m) (rows.trees k e ents) =
     (if e \<le> m \<and> m < e + length ents then Some (k + rows.total (take (m - e) ents) + 2) else None)"
proof (induction ents arbitrary: k e)
  case (Cons ent ents)
  show ?case
  proof (cases "m \<le> e")
    case True
    with Cons show ?thesis by (auto simp: id_in_row_tree rows.total_def)
  next
    case False
    then have "m - e = Suc (m - Suc e)" by simp
    with Cons False show ?thesis by (auto simp: id_in_row_tree rows.total_def)
  qed
qed simp

lemma id_in_row_children:
  "id_in (child_name m j) (rows.trees k e ents) =
     (if e \<le> m \<and> m < e + length ents \<and> length (snd (snd (ents ! (m - e)))) \<noteq> 1 \<and>
         j < length (snd (snd (ents ! (m - e))))
      then Some (k + rows.total (take (m - e) ents) + 4 + j) else None)"
proof (induction ents arbitrary: k e)
  case (Cons ent ents)
  show ?case
  proof (cases "m \<le> e")
    case True
    with Cons show ?thesis by (auto simp: id_in_row_tree rows.total_def)
  next
    case False
    then have "m - e = Suc (m - Suc e)" by simp
    with Cons False show ?thesis by (auto simp: id_in_row_tree rows.total_def)
  qed
qed simp

lemma id_in_row_names:
  assumes "distinct (map fst ents)" "j < length ents"
  shows "id_in (js ''SR_'' @ fst (ents ! j)) (rows.trees k e ents) =
    Some (k + rows.total (take j ents))"
  using assms
proof (induction ents arbitrary: j k e)
  case (Cons ent ents)
  show ?case
  proof (cases j)
    case 0
    then show ?thesis by (simp add: id_in_row_tree rows.total_def)
  next
    case (Suc i)
    with Cons.prems have "fst (ents ! i) \<noteq> fst ent"
      by simp (metis image_eqI nth_mem)
    with Cons Suc show ?thesis by (simp add: id_in_row_tree rows.total_def)
  qed
qed simp

section \<open>What the rows look like to the scripts of the page\<close>

text \<open>A results page without rows yet.\<close>

definition fresh_results :: "document \<Rightarrow> bool" where
  "fresh_results d \<longleftrightarrow> wf_doc d \<and> getElementById d (js ''SRResults'') \<noteq> None \<and>
     (\<forall>(k, n) \<in> set (cells (root d)). \<forall>i. idAttr n = Some i \<longrightarrow>
        \<not> prefix (js ''Item'') i \<and> \<not> prefix (js ''SR_'') i)"

lemma fresh_results_ids:
  assumes "fresh_results d"
  shows "getElementById d (item_name m) = None" "getElementById d (child_name m c) = None"
    "getElementById d (js ''SR_'' @ i) = None"
  using assms unfolding fresh_results_def getElementById_cells
  by (auto simp: item_name_def child_name_def find_None_iff prefix_def)

lemma rows_found:
  fixes ents :: "search_entry list"
  assumes "fresh_results d" "getElementById d (js ''SRResults'') = Some r"
  defines "d' \<equiv> rows.filled r 0 ents d"
  shows "getElementById d' (item_name m) =
      (if m < length ents then Some (fresh d + rows.total (take m ents) + 2) else None)"
    and "getElementById d' (child_name m j) =
      (if m < length ents \<and> length (snd (snd (ents ! m))) \<noteq> 1 \<and> j < length (snd (snd (ents ! m)))
       then Some (fresh d + rows.total (take m ents) + 4 + j) else None)"
    and "distinct (map fst ents) \<Longrightarrow> m < length ents \<Longrightarrow>
      getElementById d' (js ''SR_'' @ fst (ents ! m)) = Some (fresh d + rows.total (take m ents))"
proof -
  have wf: "wf_doc d" using assms(1) by (simp add: fresh_results_def)
  have d': "root d' = insert_trees r (rows.trees (fresh d) 0 ents) (root d)"
    by (simp add: d'_def rows.filled_def)
  note found = getElementById_inserted(1) [OF wf getElementById_key [OF assms(2)] _ d']
  show "getElementById d' (item_name m) =
      (if m < length ents then Some (fresh d + rows.total (take m ents) + 2) else None)"
    by (subst found) (simp_all add: fresh_results_ids [OF assms(1)] id_in_rows)
  show "getElementById d' (child_name m j) =
      (if m < length ents \<and> length (snd (snd (ents ! m))) \<noteq> 1 \<and> j < length (snd (snd (ents ! m)))
       then Some (fresh d + rows.total (take m ents) + 4 + j) else None)"
    by (subst found) (simp_all add: fresh_results_ids [OF assms(1)] id_in_row_children)
  show "getElementById d' (js ''SR_'' @ fst (ents ! m)) = Some (fresh d + rows.total (take m ents))"
    if "distinct (map fst ents)" "m < length ents"
    using that by (subst found) (simp_all add: fresh_results_ids [OF assms(1)] id_in_row_names js_string)
qed

lemma row_tree_shape:
  obtains N M C ts where "row_tree k e ent = DT k N [DT (k + 1) M (DT (k + 2) C [] # ts)]"
proof -
  obtain i name hs where ent: "ent = (i, name, hs)" by (cases ent)
  show ?thesis
  proof (cases "\<exists>h. hs = [h]")
    case True
    then show ?thesis by (auto simp: row_tree_def ent intro: that)
  next
    case False
    then have "(case hs of [h] \<Rightarrow> x h | _ \<Rightarrow> y) = y" for x :: "hit \<Rightarrow> dtree list" and y
      by (auto split: list.split)
    then show ?thesis by (auto simp: row_tree_def ent intro: that)
  qed
qed

lemma row_places:
  fixes ents :: "search_entry list"
  assumes "fresh_results d" "getElementById d (js ''SRResults'') = Some r" "m < length ents"
  defines "d' \<equiv> rows.filled r 0 ents d" and "k \<equiv> fresh d + rows.total (take m ents)"
  shows "tree_at d' k = Some (row_tree k m (ents ! m))"
    and "row_of d' (k + 2) = Some k"
    and "row_node d' (k + 2) = Some (dnode (row_tree k m (ents ! m)))"
proof -
  let ?row = "row_tree k m (ents ! m)"
  have wf0: "wf_doc d" using assms(1) by (simp add: fresh_results_def)
  note key = getElementById_key [OF assms(2)]
  have wf: "wf_doc d'" unfolding d'_def by (rule rows.loop_run(2) [OF wf0 key])
  have mem: "t \<in> set (all_trees d')" if "t \<in> set (subtrees ?row)" for t
    using rows.trees_at(2) [OF wf0 key assms(3), of t 0] that by (simp add: d'_def k_def)
  obtain N M C ts where shape: "?row = DT k N [DT (k + 1) M (DT (k + 2) C [] # ts)]"
    by (rule row_tree_shape [of k m "ents ! m"])
  have in_row: "?row \<in> set (all_trees d')" "DT (k + 1) M (DT (k + 2) C [] # ts) \<in> set (all_trees d')"
    by (rule mem; simp add: shape)+
  show at: "tree_at d' k = Some ?row"
    using tree_at_place [OF wf in_row(1)] by (simp add: shape)
  have "parentNode d' (k + 2) = Some (k + 1)" "parentNode d' (k + 1) = Some k"
    using parentNode_place [OF wf in_row(2), of "DT (k + 2) C []"]
      parentNode_place [OF wf in_row(1), of "DT (k + 1) M (DT (k + 2) C [] # ts)"]
    by (simp_all add: shape)
  then show "row_of d' (k + 2) = Some k" by (simp add: row_of_def)
  then show "row_node d' (k + 2) = Some (dnode ?row)"
    by (simp add: row_node_def node_at_def at)
qed

lemma find_in_row:
  "find_in (kids (row_tree k e ent)) =
     (if length (snd (snd ent)) = 1 then None else Some (k + 3))"
  by (auto simp: row_tree_def className_def class_attrs_def new_node_def link_node_def
      single_link_def target_attr_def key_attrs_def split: prod.split list.split)


section \<open>The filter menu\<close>

definition menu_link :: "nat \<Rightarrow> node" where
  "menu_link key = set_attr ''href'' (js ''javascript:void(0)'')
     (set_attr ''onclick'' (js ''searchBox.OnSelectItem('' @ nat_str key @ js '')'')
       (set_attr ''class'' (js ''SelectItem'') (new_node ''a'')))"

definition menu_tree :: "nat \<Rightarrow> nat \<Rightarrow> jstr \<Rightarrow> dtree" where
  "menu_tree k key label = DT k (menu_link key)
     [DT (k + 1) (set_html (js ''&#160;'') (set_attr ''class'' (js ''SelectionMark'') (new_node ''span''))) [],
      DT (k + 2) (set_html label (new_node ''#text'')) []]"

lemma dkey_menu_tree [simp]: "dkey (menu_tree k key label) = k"
  by (simp add: menu_tree_def)

lemma keys_menu_tree: "keys [menu_tree k key label] = [k..<k + 3]"
  by (simp add: menu_tree_def keys_Cons upt_rec eval_nat_numeral)

lemma createMenuItem_run:
  assumes "wf_doc d" "r \<in> set (keys [root d])"
  shows "createMenuItem (Some r) key label d =
    (Inr (), d\<lparr>root := insert_last r (menu_tree (fresh d) key label) (root d), fresh := fresh d + 3\<rparr>)"
proof -
  have new: "is_new d k" if "fresh d \<le> k" for k
    using assms(1) that by (rule is_new_fresh)
  let ?t = "menu_tree (fresh d) key label"
  have build: "createMenuItem (Some r) key label (building d [] (fresh d)) =
      dappend r (fresh d) (building d [?t] (fresh d + 3))"
    by (simp add: createMenuItem_def parseItemMarkup_def js_run upd_node_building new menu_tree_def
        menu_link_def forest_Cons keys_Cons eval_nat_numeral)
  have "r < fresh d" using assms by (auto simp: wf_doc_def keys_Cons' [of "root d"])
  then have "r \<notin> set (keys [?t])" by (simp add: keys_menu_tree)
  with appendChild_attach [OF assms(1) _ assms(2), of ?t] build show ?thesis
    by (simp add: menu_tree_def building_self dappend_def)
qed

interpretation menu: tree_builder createMenuItem menu_tree "\<lambda>_. 3"
  by unfold_locales (simp_all add: createMenuItem_run keys_menu_tree)

lemma createMenuItems_loop: "createMenuItems r key labels = menu.loop r key labels"
  by (induction labels arbitrary: key) simp_all

lemma menu_total: "menu.total labels = 3 * length labels"
  by (simp add: menu.total_def sum_list_triv)

lemma menu_keys: "map dkey (menu.trees k key labels) = map (\<lambda>j. k + 3 * j) [0..<length labels]"
proof (induction labels arbitrary: k key)
  case (Cons l ls)
  have "[0..<length (l # ls)] = 0 # map Suc [0..<length ls]"
    by (simp add: upt_conv_Cons map_Suc_upt del: upt_Suc)
  with Cons show ?case by (simp add: comp_def del: upt_Suc)
qed simp

text \<open>The page with its filter menu filled: one entry per section, each with its mark.\<close>

definition with_menu :: "nat \<Rightarrow> jstr list \<Rightarrow> document \<Rightarrow> document" where
  "with_menu win labels d = menu.filled win 0 labels d"

definition menu_entries :: "document \<Rightarrow> jstr list \<Rightarrow> nat list" where
  "menu_entries d labels = map (\<lambda>j. fresh d + 3 * j) [0..<length labels]"

lemma menu_tree_at:
  assumes "wf_doc d" "win \<in> set (keys [root d])" "j < length labels"
  shows "tree_at (with_menu win labels d) (fresh d + 3 * j) =
      Some (menu_tree (fresh d + 3 * j) j (labels ! j))"
proof -
  let ?t = "menu_tree (fresh d + 3 * j) j (labels ! j)"
  have "menu.total (take j labels) = 3 * j" using assms(3) by (simp add: menu_total)
  then have "?t \<in> set (subtrees (menu_tree (fresh d + menu.total (take j labels)) (0 + j) (labels ! j)))"
    using subtrees_self [of ?t] by simp
  from menu.trees_at(1) [OF assms this] show ?thesis
    by (simp add: with_menu_def menu_tree_def)
qed

lemma id_in_menu: "id_in i (menu.trees k key labels) = None"
proof (induction labels arbitrary: k key)
  case (Cons l ls)
  have "id_in i (menu_tree k key l # us) = id_in i us" for us
    by (simp add: id_in_Cons menu_tree_def menu_link_def new_node_def)
  with Cons show ?case by simp
qed simp

lemma with_menu_facts:
  assumes "wf_doc d" "win \<in> set (keys [root d])"
  shows "wf_doc (with_menu win labels d)"
    and "root (with_menu win labels d) = insert_trees win (menu.trees (fresh d) 0 labels) (root d)"
  using menu.loop_run(2) [OF assms] by (simp_all add: with_menu_def menu.filled_def)

lemma filled_menu:
  assumes "wf_doc d" "getElementById d MSearchSelectWindow = Some win" "select_items d win = []"
  shows "select_items (with_menu win labels d) win = menu_entries d labels"
    and "\<And>c. c \<in> set (menu_entries d labels) \<Longrightarrow>
           firstChild (with_menu win labels d) c = Some (c + 1)"
    and "\<And>i. getElementById (with_menu win labels d) i = getElementById d i"
proof -
  let ?d = "with_menu win labels d"
  note key = getElementById_key [OF assms(2)]
  note facts = with_menu_facts [OF assms(1) key, of labels]
  obtain t where t: "t \<in> set (subtrees (root d))" "dkey t = win"
    using key by (auto simp: keys_def forest_def)
  have t_all: "t \<in> set (all_trees d)" using t(1) by (simp add: all_trees_def forest_Cons)
  have ch: "childNodes ?d win = childNodes d win @ menu_entries d labels"
    using childNodes_inserted [OF facts t(1)] childNodes_place [OF assms(1) t_all]
    by (simp add: t(2) menu_keys menu_entries_def)
  have old: "node_at ?d c = node_at d c" if "c \<in> set (childNodes d win)" for c
  proof -
    obtain u where u: "u \<in> set (kids t)" "c = dkey u"
      using \<open>c \<in> set (childNodes d win)\<close> childNodes_place [OF assms(1) t_all] by (auto simp: t(2))
    then have "u \<in> set (subtrees (root d))" using subtrees_trans [OF t(1) kid_in_subtrees] by blast
    then show ?thesis
      using node_at_inserted [OF facts] node_at_place [OF assms(1) all_trees_kids [OF t_all u(1)]] u(2)
      by simp
  qed
  have new: "node_at ?d c \<noteq> None \<and> (\<forall>n. node_at ?d c = Some n \<longrightarrow> className n = js ''SelectItem'')"
    "firstChild ?d c = Some (c + 1)" if "c \<in> set (menu_entries d labels)" for c
    using that menu_tree_at [OF assms(1) key, of _ labels]
    by (auto simp: menu_entries_def node_at_def menu_tree_def menu_link_def className_def
        firstChild_def childNodes_def)
  have "filter (\<lambda>c. case node_at ?d c of Some n \<Rightarrow> className n = js ''SelectItem'' | None \<Rightarrow> False)
      (childNodes d win) = select_items d win"
    unfolding select_items_def by (rule filter_cong) (simp_all add: old)
  moreover have "filter (\<lambda>c. case node_at ?d c of Some n \<Rightarrow> className n = js ''SelectItem'' | None \<Rightarrow> False)
      (menu_entries d labels) = menu_entries d labels"
    using new(1) by (fastforce simp: filter_id_conv split: option.split)
  ultimately show "select_items ?d win = menu_entries d labels"
    using assms(3) by (simp add: select_items_def [of ?d] ch)
  show "firstChild ?d c = Some (c + 1)" if "c \<in> set (menu_entries d labels)" for c
    by (rule new(2) [OF that])
  show "getElementById ?d i = getElementById d i" for i
    using getElementById_inserted(2) [OF assms(1) key _ facts(2) id_in_menu]
    by (cases "i = []") (simp_all add: getElementById_def)
qed

end
