(* ===== verification/Search_Results_Props.thy ===== *)
theory Search_Results_Props
  imports Search_Panel_Props Search_Create
begin

text \<open>
  The result pages do what the panel asks for: the text typed in the search field
  arrives in the frame, a row is shown exactly when its name starts with it, the loops
  over the rows end, and the keys move the focus between rows and back to the field.
\<close>

section \<open>Updates that keep the tree\<close>

definition same_tree :: "document \<Rightarrow> document \<Rightarrow> bool" where
  "same_tree d d' \<longleftrightarrow> (\<forall>i. getElementById d' i = getElementById d i) \<and>
     (\<forall>k. parentNode d' k = parentNode d k) \<and> (\<forall>k. childNodes d' k = childNodes d k) \<and>
     (wf_doc d' \<longleftrightarrow> wf_doc d)"

lemma same_tree_refl [simp]: "same_tree d d"
  by (simp add: same_tree_def)

lemma same_tree_trans: "same_tree d d' \<Longrightarrow> same_tree d' d'' \<Longrightarrow> same_tree d d''"
  by (simp add: same_tree_def)

lemma same_tree_style [simp]: "same_tree d (upd_node d k (set_style p v))"
  by (simp add: same_tree_def dom_simps)

lemma same_tree_id: "same_tree d d' \<Longrightarrow> getElementById d' i = getElementById d i"
  by (simp add: same_tree_def)

lemma run_dnodeOf [js_run]:
  "dnodeOf k d = (case node_at d k of None \<Rightarrow> (Inl TypeError, d) | Some n \<Rightarrow> (Inr n, d))"
  by (simp add: dnodeOf_def run_jbind split: option.split)

lemma run_on_frame [js_run]: "on_frame m w = (case m (frame w) of (r, d) \<Rightarrow> (r, w\<lparr>frame := d\<rparr>))"
  by (simp add: on_frame_def)

lemma run_upd_results [js_run]: "upd_results f w = (Inr (), w\<lparr>results := f (results w)\<rparr>)"
  by (simp add: upd_results_def)

section \<open>Rows\<close>

definition row_mark :: "(jstr \<Rightarrow> jstr) \<Rightarrow> jstr \<Rightarrow> node \<Rightarrow> node" where
  "row_mark U search n =
     (if className n = js ''SRResult''
      then set_style ''display'' (if row_matches U search n then block_str else none_str) n
      else n)"

definition row_hit :: "(jstr \<Rightarrow> jstr) \<Rightarrow> jstr \<Rightarrow> document \<Rightarrow> nat \<Rightarrow> bool" where
  "row_hit U search d k \<longleftrightarrow> (case node_at d k of None \<Rightarrow> False
     | Some n \<Rightarrow> className n = js ''SRResult'' \<and> row_matches U search n)"

lemma row_matches_prefix:
  "row_matches U search n \<longleftrightarrow> prefix search (strip_sr (toLowerCase U (idOf n)))"
  by (auto simp: row_matches_def Let_def substr_def prefix_def)
     (metis append_take_drop_id)

lemma show_rows_run:
  assumes "distinct rows" "\<And>k. k \<in> set rows \<Longrightarrow> node_at d k \<noteq> None"
  shows "\<exists>d'. show_rows U search rows m d =
      (Inr (m + length (filter (row_hit U search d) rows)), d') \<and> same_tree d d' \<and>
      (\<forall>k. node_at d' k = (if k \<in> set rows then map_option (row_mark U search) (node_at d k)
                           else node_at d k))"
  using assms
proof (induction rows arbitrary: m d)
  case Nil
  then show ?case by simp
next
  case (Cons r rs)
  obtain n where n: "node_at d r = Some n" using Cons.prems(2) [of r] by auto
  define hit where "hit \<longleftrightarrow> row_matches U search n"
  define d1 where "d1 = (if className n = js ''SRResult''
     then upd_node d r (set_style ''display'' (if hit then block_str else none_str)) else d)"
  have d1: "same_tree d d1" "node_at d1 k = (if k = r then Some (row_mark U search n) else node_at d k)" for k
    using n by (auto simp: d1_def dom_simps row_mark_def hit_def)
  have r: "r \<notin> set rs" "distinct rs" using Cons.prems(1) by auto
  have "\<exists>d'. show_rows U search rs m' d1 =
      (Inr (m' + length (filter (row_hit U search d1) rs)), d') \<and> same_tree d1 d' \<and>
      (\<forall>k. node_at d' k = (if k \<in> set rs then map_option (row_mark U search) (node_at d1 k)
                           else node_at d1 k))" for m'
    using Cons.IH [OF r(2)] Cons.prems(2) d1(2) by auto
  then obtain d' where d':
    "show_rows U search rs (m + (if row_hit U search d r then 1 else 0)) d1 =
      (Inr (m + (if row_hit U search d r then 1 else 0) + length (filter (row_hit U search d1) rs)), d')"
    "same_tree d1 d'"
    "\<forall>k. node_at d' k = (if k \<in> set rs then map_option (row_mark U search) (node_at d1 k)
                           else node_at d1 k)" by blast
  have same: "filter (row_hit U search d1) rs = filter (row_hit U search d) rs"
    using r(1) by (intro filter_cong) (auto simp: row_hit_def d1(2))
  have "show_rows U search (r # rs) m d =
      show_rows U search rs (m + (if row_hit U search d r then 1 else 0)) d1"
    using n by (auto simp: js_run d1_def hit_def row_hit_def)
  moreover have "\<forall>k. node_at d' k = (if k \<in> set (r # rs) then map_option (row_mark U search) (node_at d k)
                           else node_at d k)"
    using d'(3) r(1) n by (auto simp: d1(2))
  ultimately show ?case
    using d'(1) same_tree_trans [OF d1(1) d'(2)] by (auto simp: same)
qed

text \<open>A frame with a result page in it: its parts are distinct from the rows.\<close>

definition results_ok :: "document \<Rightarrow> bool" where
  "results_ok d \<longleftrightarrow> wf_doc d \<and>
     (\<forall>i \<in> {js ''Searching'', js ''NoMatches''}.
        case getElementById d i of None \<Rightarrow> False
        | Some k \<Rightarrow> \<not> has_class d k ''SRResult'') \<and>
     getElementById d (js ''Searching'') \<noteq> getElementById d (js ''NoMatches'')"

lemma divs_nodes:
  assumes "wf_doc d"
  shows "distinct (getElementsByTagName d t)"
    "k \<in> set (getElementsByTagName d t) \<longleftrightarrow>
       (\<exists>n. (k, n) \<in> set (cells (root d)) \<and> tag n = t)"
    "k \<in> set (getElementsByTagName d t) \<Longrightarrow> node_at d k \<noteq> None"
proof -
  have "distinct (map fst (cells (root d)))"
    using assms by (auto simp: wf_doc_def keys_Cons' [of "root d"] simp flip: keys_cells)
  then show "distinct (getElementsByTagName d t)"
    unfolding getElementsByTagName_cells by (rule distinct_map_filter)
  show *: "k \<in> set (getElementsByTagName d t) \<longleftrightarrow>
       (\<exists>n. (k, n) \<in> set (cells (root d)) \<and> tag n = t)"
    by (auto simp: getElementsByTagName_cells image_iff)
  show "k \<in> set (getElementsByTagName d t) \<Longrightarrow> node_at d k \<noteq> None"
    using node_at_cells [OF assms] by (auto simp: *)
qed


section \<open>The query\<close>

definition plain_path :: "jstr \<Rightarrow> bool" where
  "plain_path s \<longleftrightarrow> list_all (\<lambda>c. c \<noteq> cu_of (CHR ''?'') \<and> c \<noteq> cu_of (CHR ''#'')) s"

lemma plain_append [simp]: "plain_path (s @ t) \<longleftrightarrow> plain_path s \<and> plain_path t"
  by (auto simp: plain_path_def)

lemma hex_plain:
  "n < 16 \<Longrightarrow> hexlo n \<noteq> cu_of (CHR ''?'') \<and> hexlo n \<noteq> cu_of (CHR ''#'')"
  "n < 16 \<Longrightarrow> hexup n \<noteq> cu_of (CHR ''?'') \<and> hexup n \<noteq> cu_of (CHR ''#'')"
proof -
  assume n: "n < 16"
  have "hexval (cu_of (CHR ''?'')) = None" "hexval (cu_of (CHR ''#'')) = None"
    by (simp_all add: hexval_def Let_def)
  then show "hexlo n \<noteq> cu_of (CHR ''?'') \<and> hexlo n \<noteq> cu_of (CHR ''#'')"
    "hexup n \<noteq> cu_of (CHR ''?'') \<and> hexup n \<noteq> cu_of (CHR ''#'')"
    using hexval_hexlo [OF n] hexval_hexup [OF n] by (metis option.distinct(1))+
qed

lemma plain_toString16: "plain_path (toString16 n)"
proof (induction n rule: toString16.induct)
  case (1 n)
  then show ?case
    by (subst toString16.simps) (auto simp: plain_path_def hex_plain)
qed

lemma plain_escape: "plain_path (escape s)"
proof -
  have "plain_path (escape_cu c)" for c
  proof -
    have n: "unat c < 65536" using unsigned_less [of c] by simp
    have "unat c div 4096 < 16" using n by simp
    then show ?thesis
      by (auto simp: escape_cu_def Let_def plain_path_def js_Cons hex_plain escape_safe_def)
  qed
  then show ?thesis by (induction s) (auto simp: escape_def plain_path_def)
qed

lemma takeWhile_plain: "plain_path s \<Longrightarrow> takeWhile (\<lambda>c. c \<noteq> cu_of (CHR ''#'')) s = s"
  by (auto simp: plain_path_def list_all_iff takeWhile_eq_all_conv)

lemma dropWhile_plain:
  "plain_path s \<Longrightarrow> dropWhile (\<lambda>c. c \<noteq> cu_of (CHR ''?'')) (s @ t) = dropWhile (\<lambda>c. c \<noteq> cu_of (CHR ''?'')) t"
  by (auto simp: plain_path_def list_all_iff dropWhile_append2)

lemma search_text_query:
  assumes "plain_path p"
  shows "search_text (p @ js ''?'' @ escape v) [] = v"
proof -
  let ?q = "cu_of (CHR ''?'') # escape v"
  have tw: "takeWhile (\<lambda>c. c \<noteq> cu_of (CHR ''#'')) (p @ ?q) = p @ ?q"
    using assms plain_escape [of v] by (auto simp: plain_path_def list_all_iff takeWhile_eq_all_conv)
  have loc: "location_search (p @ ?q) = (if length ?q \<le> 1 then [] else ?q)"
    unfolding location_search_def Let_def tw dropWhile_plain [OF assms] by simp
  show ?thesis
  proof (cases "escape v = []")
    case True
    then have "v = []" using unescape_escape [of v] by simp
    with loc True show ?thesis by (simp add: search_text_def js_Cons substring1_def)
  next
    case False
    then have "substring1 ?q 1 = escape v" using substring1_nat [of ?q 1] by simp
    with loc False show ?thesis by (simp add: search_text_def js_Cons)
  qed
qed


section \<open>The page of results\<close>

text \<open>The markup of a result page (\<open>search/all_0.html\<close>) and two rows of the README site.\<close>

definition results_doc :: document where
  "results_doc = \<lparr>root = DT 0 (elt ''html'' [])
     [DT 1 (elt ''body'' [(''class'', ''SRPage'')])
       [DT 2 (elt ''div'' [(''id'', ''SRIndex'')])
         [DT 3 (elt ''div'' [(''class'', ''SRStatus''), (''id'', ''Loading'')]) [],
          DT 4 (elt ''div'' [(''id'', ''SRResults'')]) [],
          DT 5 (elt ''div'' [(''class'', ''SRStatus''), (''id'', ''Searching'')]) [],
          DT 6 (elt ''div'' [(''class'', ''SRStatus''), (''id'', ''NoMatches'')]) []]]],
     loose = [], fresh = 7, focused = None\<rparr>"

definition readme_all_0 :: "search_entry list" where
  "readme_all_0 =
     [(js ''aist_5fsupported_5fapis_2emd_0'', js ''aist_supported_apis.md'',
        [(js ''../a00038.html'', True, [])]),
      (js ''api_20comparison_20with_20full_20set_20of_20gp_20api_1'',
        js ''API comparison with full set of GP API'', [(js ''../a00053.html'', True, [])])]"

lemma results_doc_facts:
  "getElementById results_doc (js ''SRResults'') = Some 4"
  "getElementById results_doc (js ''Searching'') = Some 5"
  "getElementById results_doc (js ''NoMatches'') = Some 6"
  "fresh results_doc = 7" "wf_doc results_doc"
  by (simp_all add: results_doc_def getElementById_def elt_def new_node_def wf_doc_def keys_Cons)

lemma fresh_results_doc: "fresh_results results_doc"
  unfolding fresh_results_def
  by (simp add: results_doc_facts)
     (simp add: results_doc_def cells_DT elt_def new_node_def js_string)

lemma results_ok_search:
  assumes "results_ok (frame w)"
  defines "d \<equiv> frame w"
  defines "key \<equiv> (\<lambda>S s. search_key (unicode_lower S) (search_text (frameLocation w) s))"
  defines "hits \<equiv> (\<lambda>S s. filter (row_hit (unicode_lower S) (key S s) d) (getElementsByTagName d ''div''))"
  shows "\<exists>w'. SearchResults_Search S s w = (Inr True, w') \<and> same_tree d (frame w') \<and>
     page w' = page w \<and> box w' = box w \<and>
     results w' = (results w)\<lparr>lastMatchCount := length (hits S s)\<rparr> \<and>
     displayOf (frame w') (js ''Searching'') = Some none_str \<and>
     displayOf (frame w') (js ''NoMatches'') = Some (if hits S s = [] then block_str else none_str) \<and>
     (\<forall>k. k \<in> set (getElementsByTagName d ''div'') \<and> has_class d k ''SRResult'' \<longrightarrow>
        node_at (frame w') k = map_option (row_mark (unicode_lower S) (key S s)) (node_at d k))"
proof -
  let ?U = "unicode_lower S" and ?rows = "getElementsByTagName d ''div''"
  have wf: "wf_doc d" using assms(1) by (simp add: results_ok_def d_def)
  obtain d1 where d1: "show_rows ?U (key S s) ?rows 0 d = (Inr (length (hits S s)), d1)" "same_tree d d1"
    "\<And>k. node_at d1 k = (if k \<in> set ?rows then map_option (row_mark ?U (key S s)) (node_at d k) else node_at d k)"
    using show_rows_run [OF divs_nodes(1,3) [OF wf, where t = "''div''"],
        where U = ?U and search = "key S s" and m = 0]
    unfolding hits_def by auto
  obtain a b where ab: "getElementById d (js ''Searching'') = Some a" "getElementById d (js ''NoMatches'') = Some b"
    "\<not> has_class d a ''SRResult''" "\<not> has_class d b ''SRResult''" "a \<noteq> b"
    using assms(1) by (auto simp: results_ok_def d_def split: option.splits)
  let ?d2 = "upd_node d1 a (set_style ''display'' none_str)"
  let ?d3 = "upd_node ?d2 b (set_style ''display'' (if hits S s = [] then block_str else none_str))"
  have ids1: "getElementById d1 i = getElementById d i" for i using d1(2) by (rule same_tree_id)
  have hide: "hide_status (length (hits S s)) d1 = (Inr (), ?d3)"
    using ab ids1 by (simp add: hide_status_def js_run dom_simps)
  let ?w = "w\<lparr>frame := ?d3, results := (results w)\<lparr>lastMatchCount := length (hits S s)\<rparr>\<rparr>"
  have run: "SearchResults_Search S s w = (Inr True, ?w)"
    using d1(1) hide by (simp add: SearchResults_Search_def Let_def js_run d_def key_def)
  obtain na nb where n: "node_at d1 a = Some na" "node_at d1 b = Some nb"
    using getElementById_node [of d1 "js ''Searching''" a] getElementById_node [of d1 "js ''NoMatches''" b]
      ab(1,2) unfolding ids1 by blast
  have "same_tree d ?d3"
    by (rule same_tree_trans [OF same_tree_trans [OF d1(2) same_tree_style] same_tree_style])
  moreover have "displayOf ?d3 (js ''Searching'') = Some none_str"
    "displayOf ?d3 (js ''NoMatches'') = Some (if hits S s = [] then block_str else none_str)"
    using ab(1,2,5) n by (simp_all add: displayOf_def elemNode_def dom_simps ids1)
  moreover have "node_at ?d3 k = map_option (row_mark ?U (key S s)) (node_at d k)"
    if "k \<in> set ?rows" "has_class d k ''SRResult''" for k
    using that ab(3,4) by (auto simp: dom_simps d1(3))
  ultimately show ?thesis using run by auto
qed


text \<open>
  (C16) The text typed into the search field arrives on the result page: what \<open>Search\<close> puts
  into the address of the frame, escaped, is what \<open>SearchResults.Search\<close> reads back from
  \<open>window.location.search\<close>, for every text, reserved characters included.
\<close>

theorem typed_text_reaches_frame:
  assumes "site_ok S" "page_ok (page w)"
    and "at (indexSectionsWithContent S) (searchIndex (box w)) = Some content"
    and "at (indexSectionNames S) (searchIndex (box w)) = Some sec"
    and "indexOf content (index_char S v) = int n"
    and "strip_leading (field_value (page w)) = v"
    and "plain_path (resultsPath (box w))" "plain_path sec" "plain_path (extension (box w))"
  shows "\<exists>w'. Search S w = (Inr (), w') \<and> search_text (frameLocation w') [] = v"
proof -
  let ?p = "resultsPath (box w) @ js ''/'' @ sec @ js ''_'' @ toString16 n @ extension (box w)"
  have "results_page S (box w) v = Some (?p, ?p @ js ''?'' @ escape v)"
    using assms(3-5) by (simp add: results_page_def Let_def)
  from Search_run [OF assms(1,2), of ?p "?p @ js ''?'' @ escape v"] this assms(6)
  obtain w' where w': "Search S w = (Inr (), w')" "frameLocation w' = ?p @ js ''?'' @ escape v"
    by auto
  have "plain_path ?p"
    using assms(7-9) plain_toString16 [of n] by (simp add: plain_path_def js_Cons)
  from search_text_query [OF this] w' show ?thesis by auto
qed

theorem typed_text_reaches_frame_witness:
  "\<exists>w'. Search readme_site (panel_world\<lparr>page := upd_node panel_doc 4 (set_val (js '' a+b?#%41''))\<rparr>)
       = (Inr (), w') \<and> search_text (frameLocation w') [] = js ''a+b?#%41''"
proof -
  let ?w = "panel_world\<lparr>page := upd_node panel_doc 4 (set_val (js '' a+b?#%41''))\<rparr>"
  have "page_ok (page ?w)" by (simp add: dom_simps page_ok_panel_doc)
  moreover have "at (indexSectionsWithContent readme_site) (searchIndex (box ?w)) = Some (js ''abghoprt'')"
    "at (indexSectionNames readme_site) (searchIndex (box ?w)) = Some (js ''all'')"
    by (simp_all add: at_def readme_site_def readme_indexSectionsWithContent_def
        readme_indexSectionNames_def panel_world_def SearchBox_def)
  moreover have "indexOf (js ''abghoprt'') (index_char readme_site (js ''a+b?#%41'')) = int 0"
    by (simp add: index_char_def js_string Let_def readme_site_def exceeds_one_def char_lower_def
        split: list.split)
  moreover have "strip_leading (field_value (page ?w)) = js ''a+b?#%41''"
    by (simp add: field_value_def elemNode_def dom_simps panel_doc_ids panel_doc_nodes js_string)
  moreover have "plain_path (resultsPath (box ?w))" "plain_path (js ''all'')" "plain_path (extension (box ?w))"
    by (simp_all add: plain_path_def panel_world_def SearchBox_def js_Cons)
  ultimately show ?thesis by (rule typed_text_reaches_frame [OF site_ok_readme])
qed

text \<open>
  (C11) \<open>SearchResults.Search\<close> shows exactly the rows whose name, in lower case and without
  the \<open>sr\<close> prefix, starts with the encoded query; it hides the other rows, counts the
  shown ones, and shows the message that nothing matches exactly when the count is 0.
\<close>

theorem rows_shown_exactly_on_match:
  assumes "results_ok (frame w)" and key: "key = search_key (unicode_lower S) (search_text (frameLocation w) s)"
  shows "\<exists>w'. SearchResults_Search S s w = (Inr True, w') \<and>
     (\<forall>k n. (k, n) \<in> set (cells (root (frame w))) \<and> tag n = ''div'' \<and> className n = js ''SRResult'' \<longrightarrow>
        map_option (\<lambda>n. style n ''display'') (node_at (frame w') k) =
          Some (if prefix key (strip_sr (toLowerCase (unicode_lower S) (idOf n)))
                then block_str else none_str)) \<and>
     lastMatchCount (results w') = card {k. \<exists>n. (k, n) \<in> set (cells (root (frame w))) \<and>
        tag n = ''div'' \<and> className n = js ''SRResult'' \<and>
        prefix key (strip_sr (toLowerCase (unicode_lower S) (idOf n)))} \<and>
     displayOf (frame w') (js ''NoMatches'') =
       Some (if lastMatchCount (results w') = 0 then block_str else none_str)"
proof -
  let ?U = "unicode_lower S" and ?d = "frame w"
  let ?rows = "getElementsByTagName ?d ''div''"
  have wf: "wf_doc ?d" using assms(1) by (simp add: results_ok_def)
  let ?hits = "filter (row_hit ?U key ?d) ?rows"
  obtain w' where w': "SearchResults_Search S s w = (Inr True, w')"
    "results w' = (results w)\<lparr>lastMatchCount := length ?hits\<rparr>"
    "displayOf (frame w') (js ''NoMatches'') = Some (if ?hits = [] then block_str else none_str)"
    "\<And>k. k \<in> set ?rows \<and> has_class ?d k ''SRResult'' \<longrightarrow>
        node_at (frame w') k = map_option (row_mark ?U key) (node_at ?d k)"
    using results_ok_search [OF assms(1), of S s] unfolding key [symmetric] by blast
  have "set ?hits = {k. \<exists>n. (k, n) \<in> set (cells (root ?d)) \<and> tag n = ''div'' \<and>
      className n = js ''SRResult'' \<and> prefix key (strip_sr (toLowerCase ?U (idOf n)))}" (is "_ = ?K")
    using node_at_cells [OF wf]
    by (auto simp: divs_nodes(2) [OF wf] row_hit_def row_matches_prefix split: option.splits) blast
  then have count: "length ?hits = card ?K"
    using distinct_card [OF distinct_filter [OF divs_nodes(1) [OF wf], of "row_hit ?U key ?d" "''div''"]] by simp
  have shown: "map_option (\<lambda>n. style n ''display'') (node_at (frame w') k) =
      Some (if prefix key (strip_sr (toLowerCase ?U (idOf n))) then block_str else none_str)"
    if "(k, n) \<in> set (cells (root ?d))" "tag n = ''div''" "className n = js ''SRResult''" for k n
    using that w'(4) [of k] node_at_cells [OF wf that(1)]
    by (auto simp: divs_nodes(2) [OF wf] has_class_def row_mark_def row_matches_prefix)
  show ?thesis
    using w'(1-3) shown by (intro exI [of _ w'] conjI) (auto simp: count [symmetric])
qed


lemma rows_filled_ids:
  assumes "\<not> prefix (js ''Item'') i" "\<not> prefix (js ''SR_'') i"
  shows "id_in i (rows.trees k e ents) = None"
proof (induction ents arbitrary: k e)
  case (Cons ent ents)
  have no: "i \<noteq> item_name m" "i \<noteq> child_name m c" "i \<noteq> js ''SR_'' @ x" for m c x
    using assms by (auto simp: item_name_def child_name_def)
  have "id_in i (child_trees k e c hs) = None" for k e c hs
    by (induction k e c hs rule: child_trees.induct) (simp_all add: id_in_Cons no [symmetric])
  then have "id_in i (row_tree k e ent # us) = id_in i us" for us
    by (auto simp: row_tree_def id_in_Cons no [symmetric] split: prod.split list.split)
  with Cons show ?case by simp
qed simp

lemma results_ok_filled:
  assumes "results_ok d" "getElementById d (js ''SRResults'') = Some r"
  shows "results_ok (rows.filled r 0 ents d)"
proof -
  let ?d = "rows.filled r 0 ents d"
  have wf: "wf_doc d" using assms(1) by (simp add: results_ok_def)
  note key = getElementById_key [OF assms(2)]
  have wf': "wf_doc ?d" by (rule rows.loop_run(2) [OF wf key])
  have root': "root ?d = insert_trees r (rows.trees (fresh d) 0 ents) (root d)"
    by (simp add: rows.filled_def)
  have same: "getElementById ?d i = getElementById d i"
    if "i \<in> {js ''Searching'', js ''NoMatches''}" for i
    by (rule getElementById_inserted(2) [OF wf key _ root' rows_filled_ids])
       (use that in \<open>auto simp: js_string\<close>)
  have "node_at ?d k = node_at d k" if "getElementById d i = Some k" for i k
  proof -
    from that obtain t where "t \<in> set (subtrees (root d))" "dkey t = k"
      by (auto simp: getElementById_def dest!: find_Some_P split: if_splits)
    with node_at_inserted [OF wf' root'] node_at_place [OF wf, of t] show ?thesis
      by (auto simp: all_trees_def forest_Cons)
  qed
  then show ?thesis
    using assms(1) wf' unfolding results_ok_def
    by (simp add: same has_class_def split: option.splits)
qed

lemma results_ok_doc: "results_ok results_doc"
  by (simp add: results_ok_def results_doc_facts)
     (simp add: results_doc_def has_class_def node_at_def tree_at_def all_trees_def forest_Cons
       elt_def new_node_def className_def)

definition readme_results :: document where
  "readme_results = rows.filled 4 0 readme_all_0 results_doc"

lemma results_ok_readme: "results_ok readme_results"
  unfolding readme_results_def by (rule results_ok_filled [OF results_ok_doc results_doc_facts(1)])

lemma readme_rows:
  "\<exists>n. (7, n) \<in> set (cells (root readme_results)) \<and> tag n = ''div'' \<and> className n = js ''SRResult'' \<and>
     idOf n = js ''SR_aist_5fsupported_5fapis_2emd_0''"
  "\<exists>n. (11, n) \<in> set (cells (root readme_results)) \<and> tag n = ''div'' \<and> className n = js ''SRResult'' \<and>
     idOf n = js ''SR_api_20comparison_20with_20full_20set_20of_20gp_20api_1''"
  by (simp_all add: readme_results_def rows.filled_def results_doc_def readme_all_0_def row_tree_def
      row_size_def cells_DT className_def class_attrs_def new_node_def idOf_def js_append)

lemma convertToId_js:
  "convertToId [] = []"
  "convertToId (js (c # s)) = id_cu (cu_of c) @ convertToId (js s)"
  by (simp_all add: convertToId_def convertToId_from_eq js_Cons)

theorem rows_shown_exactly_on_match_witness:
  "\<exists>w'. SearchResults_Search readme_site []
       (panel_world\<lparr>frame := readme_results, frameLocation := js ''search/all_0.html?'' @ escape (js ''API'')\<rparr>)
       = (Inr True, w') \<and>
     map_option (\<lambda>n. style n ''display'') (node_at (frame w') 7) = Some none_str \<and>
     map_option (\<lambda>n. style n ''display'') (node_at (frame w') 11) = Some block_str"
proof -
  let ?w = "panel_world\<lparr>frame := readme_results, frameLocation := js ''search/all_0.html?'' @ escape (js ''API'')\<rparr>"
  have "plain_path (js ''search/all_0.html'')" by (simp add: plain_path_def js_Cons)
  from search_text_query [OF this, of "js ''API''"]
  have qtext: "search_text (frameLocation ?w) [] = js ''API''"
    by (simp add: js_append flip: append_assoc)
  have key: "search_key (unicode_lower readme_site) (js ''API'') = js ''api''"
    by (simp add: search_key_def js_string char_lower_def convertToId_js id_cu_def id_plain_def)
       (simp add: js_Cons char_of_def bit_Suc_0_iff)
  obtain n m where n: "(7, n) \<in> set (cells (root readme_results))" "tag n = ''div''" "className n = js ''SRResult''"
      "idOf n = js ''SR_aist_5fsupported_5fapis_2emd_0''"
    and m: "(11, m) \<in> set (cells (root readme_results))" "tag m = ''div''" "className m = js ''SRResult''"
      "idOf m = js ''SR_api_20comparison_20with_20full_20set_20of_20gp_20api_1''"
    using readme_rows by blast
  have names: "\<not> prefix (js ''api'') (strip_sr (toLowerCase (unicode_lower readme_site) (idOf n)))"
    "prefix (js ''api'') (strip_sr (toLowerCase (unicode_lower readme_site) (idOf m)))"
    unfolding n(4) m(4)
    by (simp_all add: js_string char_lower_def) (simp_all add: strip_sr_def js_Cons is_digit_def char_of_def bit_Suc_0_iff)
  from rows_shown_exactly_on_match [of ?w "js ''api''" readme_site "[]"] results_ok_readme qtext key
  obtain w' where w': "SearchResults_Search readme_site [] ?w = (Inr True, w')"
    and shown: "\<forall>k n. (k, n) \<in> set (cells (root (frame ?w))) \<and> tag n = ''div'' \<and> className n = js ''SRResult'' \<longrightarrow>
        map_option (\<lambda>n. style n ''display'') (node_at (frame w') k) =
          Some (if prefix (js ''api'') (strip_sr (toLowerCase (unicode_lower readme_site) (idOf n)))
                then block_str else none_str)"
    by auto
  have "map_option (\<lambda>n. style n ''display'') (node_at (frame w') 7) = Some none_str"
    "map_option (\<lambda>n. style n ''display'') (node_at (frame w') 11) = Some block_str"
    using shown [rule_format, of 7 n] shown [rule_format, of 11 m] n(1-3) m(1-3) names by simp_all
  with w' show ?thesis by blast
qed


lemma lower_hexlo: "n < 16 \<Longrightarrow> lower_cu (hexlo n) = hexlo n"
  by (simp add: lower_cu_def unat_hexlo)

lemma lower_convertToId: "map lower_cu (convertToId s) = convertToId s"
proof -
  have "map lower_cu (id_cu c) = id_cu c" for c
  proof (cases "id_plain c")
    case True
    then show ?thesis by (auto simp: id_cu_def id_plain_def lower_cu_def)
  next
    case False
    then show ?thesis
      using unplain_small [OF False] by (simp add: id_cu_hex lower_hexlo) (simp add: lower_cu_def)
  qed
  then show ?thesis by (induction s) (simp_all add: convertToId_def convertToId_from_eq)
qed

lemma lower_nat_str: "map lower_cu (nat_str n) = nat_str n"
  using nat_str_digits by (intro map_idI) (fastforce simp: lower_cu_def)

lemma row_matches_encoded:
  assumes "idOf row = js ''SR_'' @ convertToId name @ js ''_'' @ nat_str num" "is_ascii (idOf row)"
  shows "row_matches U (search_key U typed) row \<longleftrightarrow>
    prefix (convertToId (toLowerCase U (strip_trailing (strip_leading typed))))
      (convertToId name @ js ''_'' @ nat_str num)"
proof -
  have "toLowerCase U (idOf row) = js ''sr_'' @ convertToId name @ js ''_'' @ nat_str num"
    using assms(2) by (simp add: toLowerCase_def assms(1) lower_convertToId lower_nat_str)
      (simp add: js_Cons lower_cu_of char_lower_def char_of_def bit_Suc_0_iff)
  moreover have "strip_sr (js ''sr_'' @ x) = x" for x
    by (simp add: strip_sr_def js_Cons is_digit_def)
  ultimately show ?thesis by (simp add: row_matches_prefix search_key_def)
qed

text \<open>
  (C27) Which rows a query shows. A row of the index carries its name in encoded form, a
  mark and its number in the index. For a query \<open>s\<close> the row is shown if the name starts
  with \<open>s\<close>; otherwise only if \<open>s\<close> is the whole name and more, and the encoding of the
  excess is the start of the mark and number.
\<close>

theorem row_match_iff:
  assumes "idOf row = js ''SR_'' @ convertToId name @ js ''_'' @ nat_str num"
    and "is_ascii (idOf row)"
    and "search = toLowerCase U (strip_trailing (strip_leading typed))"
  shows "row_matches U (search_key U typed) row \<longleftrightarrow>
     prefix search name \<or>
     (\<exists>excess. search = name @ excess \<and> prefix (convertToId excess) (js ''_'' @ nat_str num))"
  by (simp add: row_matches_encoded [OF assms(1,2)] convertToId_prefix_append assms(3))

theorem row_match_iff_witness:
  "row_matches (\<lambda>s. s) (search_key (\<lambda>s. s) (js ''init(''))
     ((new_node ''div'')\<lparr>attrs := [''id'' \<mapsto> js ''SR_init_28'']\<rparr>) \<and>
   \<not> prefix (js ''init('') (js ''init'')"
proof -
  let ?row = "(new_node ''div'')\<lparr>attrs := [''id'' \<mapsto> js ''SR_init_28'']\<rparr>"
  have num: "nat_str 28 = js ''28''"
    by (simp add: nat_str_step nat_str_small digit_def js_Cons cu_of_def)
  have code: "convertToId (js ''init'') = js ''init''"
    by (simp add: convertToId_js id_cu_def id_plain_def) (simp add: js_Cons)
  have "idOf ?row = js ''SR_'' @ convertToId (js ''init'') @ js ''_'' @ nat_str 28"
    by (simp add: idOf_def num code js_append)
  moreover have "is_ascii (idOf ?row)" by (simp add: idOf_def is_ascii_def js_Cons)
  moreover have "js ''init('' = toLowerCase (\<lambda>s. s) (strip_trailing (strip_leading (js ''init('')))"
    by (simp add: js_string char_lower_def)
  ultimately have "row_matches (\<lambda>s. s) (search_key (\<lambda>s. s) (js ''init('')) ?row \<longleftrightarrow>
     prefix (js ''init('') (js ''init'') \<or>
     (\<exists>excess. js ''init('' = js ''init'' @ excess \<and> prefix (convertToId excess) (js ''_'' @ nat_str 28))"
    by (rule row_match_iff)
  moreover have "\<not> id_plain (cu_of (CHR ''(''))" by (simp add: id_plain_def)
  then have "convertToId (js ''('') = js ''_28''"
    by (simp add: convertToId_js id_cu_hex) (simp add: hexlo_def js_Cons cu_of_def)
  then have "js ''init('' = js ''init'' @ js ''('' \<and> prefix (convertToId (js ''('')) (js ''_'' @ nat_str 28)"
    by (simp add: num js_append)
  ultimately have "row_matches (\<lambda>s. s) (search_key (\<lambda>s. s) (js ''init('')) ?row" by blast
  then show ?thesis by (simp add: js_string)
qed

end
