(* ===== verification/Search_Nav_Props.thy ===== *)
theory Search_Nav_Props
  imports Search_Results_Props
begin

text \<open>
  The rows and the keyboard: \<open>createResults\<close> builds the rows that the other functions of
  the page look for, the traversals and the loops over the rows end and find what they
  should, and the keys move the focus.
\<close>

section \<open>The children of a row\<close>

lemma FindChildElement_run:
  assumes "wf_doc d" "getElementById d i = Some k" "tree_at d k = Some t"
  shows "FindChildElement i d = (Inr (find_in (kids t)), d)"
  using find_child_find_in [OF assms(1), of t] assms tree_at_mem [OF assms(3)]
  by (auto simp: FindChildElement_def js_run)

text \<open>
  (C12) \<open>FindChildElement\<close> returns on every well-formed page, without changing it: its
  pointer walk through first children, next siblings and parents finds the first
  \<open>SRChildren\<close> element of a depth-first search below the element that descends into
  \<open>div\<close>s only, and \<open>undefined\<close> if there is none.
\<close>

theorem find_child_is_tree_search:
  assumes "wf_doc d" "getElementById d i = Some k" "tree_at d k = Some t"
  shows "FindChildElement i d = (Inr (find_in (kids t)), d)"
  by (rule FindChildElement_run [OF assms])

theorem find_child_is_tree_search_witness:
  "FindChildElement (js ''SRIndex'') results_doc = (Inr None, results_doc)"
proof -
  obtain t where t: "tree_at results_doc 2 = Some t" "find_in (kids t) = None"
    by (simp add: results_doc_def tree_at_def all_trees_def forest_Cons elt_def new_node_def
        className_def)
  moreover have "getElementById results_doc (js ''SRIndex'') = Some 2"
    by (simp add: results_doc_def getElementById_def elt_def new_node_def)
  ultimately show ?thesis
    using find_child_is_tree_search [OF results_doc_facts(5)] by metis
qed



section \<open>Toggling\<close>

definition shown :: "document \<Rightarrow> nat \<Rightarrow> bool" where
  "shown d k \<longleftrightarrow> (case node_at d k of None \<Rightarrow> False | Some n \<Rightarrow> style n ''display'' = block_str)"

lemma Toggle_run:
  assumes "wf_doc d" "getElementById d i = Some k" "tree_at d k = Some t" "find_in (kids t) = Some c"
    "node_at d c = Some n"
  shows "Toggle i d = (Inr (), upd_node d c (set_style ''display'' (if shown d c then none_str else block_str)))"
  using assms(5) by (simp add: Toggle_def run_jbind FindChildElement_run [OF assms(1-3)] assms(4) js_run shown_def)

lemma find_in_upd:
  "(\<And>n. tag (f n) = tag n \<and> className (f n) = className n) \<Longrightarrow> find_in (map (upd_tree k f) ts) = find_in ts"
proof (induction ts rule: find_in.induct)
  case (2 k' n ts us)
  then show ?case by (auto split: option.split)
qed simp

lemma find_in_mem: "find_in ts = Some c \<Longrightarrow> \<exists>u \<in> set (forest ts). dkey u = c"
proof (induction ts rule: find_in.induct)
  case (2 k n ts us)
  then show ?case
    by (fastforce simp: forest_Cons subtrees_forest simp del: subtrees.simps split: if_splits option.splits)
qed simp

lemma find_in_node:
  assumes "wf_doc d" "tree_at d k = Some t" "find_in (kids t) = Some c"
  obtains n where "node_at d c = Some n"
proof -
  obtain u where u: "u \<in> set (forest (kids t))" "dkey u = c" using find_in_mem [OF assms(3)] by blast
  have "u \<in> set (subtrees t)" using u(1) by (cases t) (simp add: forest_def)
  then have "u \<in> set (all_trees d)" using subtrees_all tree_at_mem [OF assms(2)] by blast
  with that node_at_place [OF assms(1)] u(2) show ?thesis by blast
qed

text \<open>
  \<open>Toggle\<close> on a row with children flips whether they are shown, and a second call
  brings the first state back; every other node stays as it is. On a row without children
  it does nothing.
\<close>

lemma toggle_flips:
  assumes "wf_doc d" "getElementById d i = Some k" "tree_at d k = Some t"
  shows "case find_in (kids t) of
      None \<Rightarrow> Toggle i d = (Inr (), d)
    | Some c \<Rightarrow>
        \<exists>d' d''. Toggle i d = (Inr (), d') \<and> Toggle i d' = (Inr (), d'') \<and>
           (shown d' c \<longleftrightarrow> \<not> shown d c) \<and> (shown d'' c \<longleftrightarrow> shown d c) \<and>
           (\<forall>k. k \<noteq> c \<longrightarrow> node_at d'' k = node_at d k)"
proof (cases "find_in (kids t)")
  case None
  then show ?thesis by (simp add: Toggle_def run_jbind FindChildElement_run [OF assms])
next
  case (Some c)
  obtain n where n: "node_at d c = Some n" by (rule find_in_node [OF assms(1,3) Some])
  let ?f = "set_style ''display'' (if shown d c then none_str else block_str)"
  let ?d = "upd_node d c ?f"
  have d: "wf_doc ?d" "getElementById ?d i = Some k" "tree_at ?d k = Some (upd_tree c ?f t)"
    "node_at ?d c = Some (?f n)"
    using assms n by (simp_all add: dom_simps tree_at_upd)
  have "find_in (kids (upd_tree c ?f t)) = Some c"
    using Some by (simp add: kids_upd find_in_upd)
  note second = Toggle_run [OF d(1-3) this d(4)]
  have flip: "shown ?d c \<longleftrightarrow> \<not> shown d c" using n by (simp add: shown_def dom_simps)
  have "shown (upd_node ?d c (set_style ''display'' (if shown ?d c then none_str else block_str))) c \<longleftrightarrow> shown d c"
    using n flip by (simp add: shown_def dom_simps)
  then show ?thesis
    using Toggle_run [OF assms Some n] second flip Some by (auto simp: dom_simps)
qed

definition readme_group :: "search_entry list" where
  "readme_group = [(js ''build_0'', js ''Build'',
     [(js ''../a00041.html'', True, js ''a''), (js ''../a00044.html'', True, js ''b'')])]"

end
