(* ===== verification/Search_Keys_Props.thy ===== *)
theory Search_Keys_Props
  imports Search_Nav_Props
begin

text \<open>
  The keyboard on the result page: the loops over the rows, the key repeat logic, and the
  handlers \<open>Nav\<close> and \<open>NavChild\<close>.
\<close>

section \<open>The loops over the rows\<close>

definition item_visible :: "document \<Rightarrow> int \<Rightarrow> bool" where
  "item_visible d j \<longleftrightarrow> (case getElementById d (item_id j) of None \<Rightarrow> False
     | Some k \<Rightarrow> (case row_node d k of None \<Rightarrow> False | Some n \<Rightarrow> style n ''display'' = block_str))"

definition items_numbered :: "document \<Rightarrow> int \<Rightarrow> bool" where
  "items_numbered d n \<longleftrightarrow>
     (\<forall>j. case getElementById d (item_id j) of None \<Rightarrow> \<not> (0 \<le> j \<and> j < n)
          | Some k \<Rightarrow> 0 \<le> j \<and> j < n \<and> row_node d k \<noteq> None)"

lemma items_numberedD:
  assumes "items_numbered d n"
  shows "0 \<le> j \<and> j < n \<Longrightarrow> \<exists>k r. getElementById d (item_id j) = Some k \<and> row_node d k = Some r"
    and "\<not> (0 \<le> j \<and> j < n) \<Longrightarrow> getElementById d (item_id j) = None"
  using assms [unfolded items_numbered_def, rule_format, of j] by (auto split: option.splits)

lemma nav_loop_up:
  assumes "items_numbered d n" "0 \<le> i"
  shows "nav_loop d 1 i = Some (Inr (case find (item_visible d) [i..n - 1] of
     None \<Rightarrow> None | Some j \<Rightarrow> getElementById d (item_id j)))"
  using assms(2)
proof (induction "nat (n - i)" arbitrary: i)
  case 0
  then have "getElementById d (item_id i) = None"
    using items_numberedD(2) [OF assms(1), of i] by simp
  with 0 show ?case by (subst nav_loop.simps) simp
next
  case (Suc m)
  then have i: "0 \<le> i \<and> i < n" by simp
  obtain k r where k: "getElementById d (item_id i) = Some k" "row_node d k = Some r"
    using items_numberedD(1) [OF assms(1) i] by blast
  have upto: "[i..n - 1] = i # [i + 1..n - 1]" using i by (simp add: upto_rec1)
  have "nav_loop d 1 (i + 1) = Some (Inr (case find (item_visible d) [i + 1..n - 1] of
     None \<Rightarrow> None | Some j \<Rightarrow> getElementById d (item_id j)))"
    using Suc i by simp
  then show ?case
    by (subst nav_loop.simps) (simp add: k upto item_visible_def)
qed

lemma nav_loop_down:
  assumes "items_numbered d n" "i < n"
  shows "nav_loop d (-1) i = Some (Inr (case find (item_visible d) (rev [0..i]) of
     None \<Rightarrow> None | Some j \<Rightarrow> getElementById d (item_id j)))"
  using assms(2)
proof (induction "nat (i + 1)" arbitrary: i)
  case 0
  then have "getElementById d (item_id i) = None"
    using items_numberedD(2) [OF assms(1), of i] by simp
  with 0 show ?case by (subst nav_loop.simps) simp
next
  case (Suc m)
  then have i: "0 \<le> i \<and> i < n" by simp
  obtain k r where k: "getElementById d (item_id i) = Some k" "row_node d k = Some r"
    using items_numberedD(1) [OF assms(1) i] by blast
  have upto: "rev [0..i] = i # rev [0..i - 1]" using i by (simp add: upto_rec2)
  have "nav_loop d (-1) (i - 1) = Some (Inr (case find (item_visible d) (rev [0..i - 1]) of
     None \<Rightarrow> None | Some j \<Rightarrow> getElementById d (item_id j)))"
    using Suc i by simp
  then show ?case
    by (subst nav_loop.simps) (simp add: k upto item_visible_def)
qed

lemma item_id_name: "0 \<le> j \<Longrightarrow> item_id j = item_name (nat j)"
  using num_str_of_nat [of "nat j"] by (simp add: item_id_def item_name_def)

lemma negative_item:
  assumes "fresh_results d" "getElementById d (js ''SRResults'') = Some r" "j < 0"
  shows "getElementById (rows.filled r 0 ents d) (item_id j) = None"
proof -
  have dash: "item_id j = js ''Item-'' @ nat_str (nat (- j))"
    using assms(3) by (simp add: item_id_def num_str_def js_append flip: append_assoc)
  have mark: "cu_of (CHR ''-'') \<notin> set (nat_str m)" for m
    using nat_str_digits [of "cu_of (CHR ''-'')" m] by auto
  have names: "item_name m \<noteq> item_id j" "child_name m c \<noteq> item_id j" "js ''SR_'' @ x \<noteq> item_id j" for m c x
  proof -
    obtain e v where "nat_str m = e # v" "e \<noteq> cu_of (CHR ''-'')"
      using mark [of m] nat_str_nonempty [of m] by (cases "nat_str m") auto
    then show "item_name m \<noteq> item_id j" "child_name m c \<noteq> item_id j" "js ''SR_'' @ x \<noteq> item_id j"
      unfolding dash item_name_def child_name_def by (simp_all add: js_Cons)
  qed
  have "id_in (item_id j) (child_trees k e c hs) = None" for k e c hs
    by (induction k e c hs rule: child_trees.induct) (simp_all add: id_in_Cons names)
  then have "id_in (item_id j) (row_tree k e ent # us) = id_in (item_id j) us" for k e ent us
    by (auto simp: row_tree_def id_in_Cons names split: prod.split list.split)
  then have none: "id_in (item_id j) (rows.trees k e ents) = None" for k e
    by (induction ents arbitrary: k e) simp_all
  have wf: "wf_doc d" using assms(1) by (simp add: fresh_results_def)
  have "getElementById d (item_id j) = None"
    using assms(1) unfolding fresh_results_def getElementById_cells
    by (auto simp: item_id_def find_None_iff prefix_def)
  moreover have "item_id j \<noteq> []" by (simp add: item_id_def)
  ultimately show ?thesis
    using getElementById_inserted(2) [OF wf getElementById_key [OF assms(2)] _ _ none]
    by (simp add: rows.filled_def)
qed

text \<open>The pages \<open>createResults\<close> builds are numbered.\<close>

lemma filled_items_numbered:
  assumes "fresh_results d" "getElementById d (js ''SRResults'') = Some r"
  shows "items_numbered (rows.filled r 0 ents d) (int (length ents))"
  unfolding items_numbered_def
proof
  fix j
  note found = rows_found(1) [OF assms, of ents "nat j"]
  show "case getElementById (rows.filled r 0 ents d) (item_id j) of
      None \<Rightarrow> \<not> (0 \<le> j \<and> j < int (length ents))
    | Some k \<Rightarrow> 0 \<le> j \<and> j < int (length ents) \<and> row_node (rows.filled r 0 ents d) k \<noteq> None"
  proof (cases "0 \<le> j")
    case True
    show ?thesis
    proof (cases "nat j < length ents")
      case in_range: True
      with found row_places(3) [OF assms in_range] True show ?thesis
        by (simp add: item_id_name nat_less_iff)
    next
      case False
      with found True show ?thesis by (simp add: item_id_name nat_less_iff)
    qed
  next
    case False
    then show ?thesis using negative_item [OF assms, of j] by simp
  qed
qed

lemma readme_item_hidden:
  assumes "m < 2"
  shows "\<not> item_visible readme_results (int m)"
proof -
  have m: "m < length readme_all_0" using assms by (simp add: readme_all_0_def)
  have "style (dnode (row_tree k m ent)) ''display'' = []" for k ent
    by (simp add: row_tree_def class_attrs_def new_node_def split: prod.split)
  then show ?thesis
    using rows_found(1) [OF fresh_results_doc results_doc_facts(1), of readme_all_0 m]
      row_places(3) [OF fresh_results_doc results_doc_facts(1) m] m
    by (simp add: item_visible_def item_id_name readme_results_def)
qed

text \<open>
  (C18) On a page whose items are numbered without gaps, \<open>NavNext(i)\<close> returns the first
  visible item at or after \<open>i\<close> and \<open>NavPrev(i)\<close> the last visible item at or before \<open>i\<close>,
  \<open>null\<close> if there is none; neither changes the page and both loops end.
\<close>

theorem nav_finds_visible_item:
  assumes "items_numbered d n"
  shows "(0 \<le> i \<longrightarrow> NavNext i d = (Inr (case find (item_visible d) [i..n - 1] of
       None \<Rightarrow> None | Some j \<Rightarrow> getElementById d (item_id j)), d)) \<and>
     (i < n \<longrightarrow> NavPrev i d = (Inr (case find (item_visible d) (rev [0..i]) of
       None \<Rightarrow> None | Some j \<Rightarrow> getElementById d (item_id j)), d))"
  using nav_loop_up [OF assms] nav_loop_down [OF assms]
  by (simp add: NavNext_def NavPrev_def js_run nav_result_def)

theorem nav_finds_visible_item_witness:
  "NavNext 0 readme_results = (Inr None, readme_results)"
proof -
  have "items_numbered readme_results 2"
    using filled_items_numbered [OF fresh_results_doc results_doc_facts(1), of readme_all_0]
    by (simp add: readme_results_def readme_all_0_def)
  note nav = nav_finds_visible_item [OF this, of 0]
  have "\<not> item_visible readme_results 0" "\<not> item_visible readme_results 1"
    using readme_item_hidden [of 0] readme_item_hidden [of 1] by simp_all
  moreover have "[0..2 - 1] = [0, 1 :: int]" by (simp add: upto_rec1)
  ultimately show ?thesis using nav by simp
qed

section \<open>Key repeat\<close>

text \<open>
  The key logic of \<open>ProcessKeys\<close>. A key press makes one \<open>keydown\<close> and then a
  sequence of \<open>keypress\<close> events: the handler acts on the \<open>keydown\<close>, ignores the first
  \<open>keypress\<close> and acts on each further one, with the same key; \<open>keyup\<close> clears the key, so
  that no \<open>keypress\<close> after it is acted on. Only the key fields change.
\<close>

lemma process_keys_repeat:
  assumes "code \<noteq> 0"
  shows "\<exists>w1 w2 w3. ProcessKeys \<lparr>evType = KeyDown, evKeyCode = code\<rparr> w = (Inr True, w1) \<and>
       ProcessKeys \<lparr>evType = KeyPress, evKeyCode = c1\<rparr> w1 = (Inr False, w2) \<and>
       ProcessKeys \<lparr>evType = KeyPress, evKeyCode = c2\<rparr> w2 = (Inr True, w2) \<and>
       lastKey (results w2) = code \<and>
       ProcessKeys \<lparr>evType = KeyUp, evKeyCode = c3\<rparr> w2 = (Inr False, w3) \<and>
       ProcessKeys \<lparr>evType = KeyPress, evKeyCode = c4\<rparr> w3 = (Inr False, w3) \<and>
       w3 = w\<lparr>results := (results w)\<lparr>lastKey := 0, repeatOn := False\<rparr>\<rparr>"
  using assms by (simp add: ProcessKeys_def js_run)

section \<open>Escape\<close>

lemma Nav_escape:
  assumes "evKeyCode e = 27" "evType e = KeyDown"
  shows "Nav e i w = jbind CloseResultsWindow (\<lambda>_. jbind focusSearchField (\<lambda>_. jret False))
      (w\<lparr>results := (results w)\<lparr>repeatOn := False, lastKey := 27\<rparr>\<rparr>)"
    "NavChild e i c w = jbind CloseResultsWindow (\<lambda>_. jbind focusSearchField (\<lambda>_. jret False))
      (w\<lparr>results := (results w)\<lparr>repeatOn := False, lastKey := 27\<rparr>\<rparr>)"
  using assms by (simp_all add: Nav_def NavChild_def ProcessKeys_def js_run)

lemmas frame_rules = keeps_jbind keeps_jret keeps_jget keeps_jwhen keeps_if keeps_of_option
  keeps_block_Nil keeps_block_Cons untimed_elem untimed_page_node keeps_jmod

lemma frame_kept_parts:
  "keeps (\<lambda>w. frame w = f) (Activate a)" "keeps (\<lambda>w. frame w = f) (set_display i v)"
  "keeps (\<lambda>w. frame w = f) blurPage"
proof -
  show act: "keeps (\<lambda>w. frame w = f) (Activate a)" for a
    unfolding Activate_def upd_box_def upd_page_def by (intro frame_rules) simp_all
  show "keeps (\<lambda>w. frame w = f) (set_display i v)"
    unfolding set_display_def upd_page_def by (intro frame_rules) simp_all
  show "keeps (\<lambda>w. frame w = f) blurPage"
    unfolding blurPage_def OnSearchFieldFocus_def by (intro frame_rules act) simp_all
qed

lemma frame_kept:
  "keeps (\<lambda>w. frame w = f) (jbind CloseResultsWindow (\<lambda>_. jbind focusSearchField (\<lambda>_. jret False)))"
  unfolding CloseResultsWindow_def focusSearchField_def focusNode_def OnSearchFieldFocus_def
  by (intro frame_rules frame_kept_parts) simp_all

lemma field_value_focus [simp]: "field_value (d\<lparr>focused := x\<rparr>) = field_value d"
  by (simp add: field_value_def elemNode_def cong: option.case_cong)

lemma Activate_True_label:
  assumes "page_ok (page w)" "field_value (page w) = searchLabel (box w)"
  shows "\<exists>w'. Activate True w = (Inr (), w') \<and> field_value (page w') = [] \<and> searchActive (box w') \<and>
     lastSearchValue (box w') = lastSearchValue (box w) \<and>
     (\<forall>i. getElementById (page w') i = getElementById (page w) i) \<and>
     (\<forall>i. displayOf (page w') i = displayOf (page w) i) \<and>
     focused (page w') = focused (page w) \<and> frame w' = frame w"
proof -
  obtain kb nb where B: "getElementById (page w) MSearchBox = Some kb" "node_at (page w) kb = Some nb"
    using assms(1) by (rule panel_found(7))
  obtain kf nf where F: "getElementById (page w) MSearchField = Some kf" "node_at (page w) kf = Some nf"
    using assms(1) by (rule panel_found(1))
  have "val nf = searchLabel (box w)" using F assms(2) by (simp add: field_value_def elemNode_def)
  then show ?thesis using B F
    by (auto simp: Activate_def js_run dom_simps field_value_def elemNode_def displayOf_def
        option.map_comp comp_def split: option.split if_splits)
qed

text \<open>
  (C29) Escape on a row or on a child: the results window is hidden, the panel is
  deactivated while it has no focus and activated again by the focus that returns to the
  search field; nothing of the frame changes.
\<close>

theorem escape_returns_to_field:
  assumes ok: "page_ok (page w)" and e: "evKeyCode e = 27" "evType e = KeyDown"
    and away: "focused (page w) \<noteq> getElementById (page w) MSearchField"
    and handler: "h \<in> {Nav e i, NavChild e i c}"
  shows "\<exists>w'. h w = (Inr False, w') \<and>
     displayOf (page w') MSearchResultsWindow = Some none_str \<and>
     displayOf (page w') MSearchClose = Some none_str \<and>
     focused (page w') = getElementById (page w') MSearchField \<and>
     field_value (page w') = [] \<and> searchActive (box w') \<and> lastSearchValue (box w') = [] \<and>
     frame w' = frame w"
proof -
  let ?w = "w\<lparr>results := (results w)\<lparr>repeatOn := False, lastKey := 27\<rparr>\<rparr>"
  have h: "h w = jbind CloseResultsWindow (\<lambda>_. jbind focusSearchField (\<lambda>_. jret False)) ?w"
    using handler Nav_escape [OF e] by auto
  have page: "page_ok (page ?w)" using ok by simp
  obtain w2 w3 where w3: "set_display MSearchResultsWindow none_str ?w = (Inr (), w2)"
    "set_display MSearchClose none_str w2 = (Inr (), w3)" "page_ok (page w3)" "box w3 = box ?w"
    "\<And>j. getElementById (page w3) j = getElementById (page ?w) j"
    "focused (page w3) = focused (page ?w)"
    "displayOf (page w3) MSearchResultsWindow = Some none_str"
    "displayOf (page w3) MSearchClose = Some none_str"
    by (rule hide_windows [OF page]) blast
  obtain w4 where w4: "Activate False w3 = (Inr (), w4)" "page_ok (page w4)"
    "\<forall>i. getElementById (page w4) i = getElementById (page w3) i"
    "\<forall>i. displayOf (page w4) i = displayOf (page w3) i" "focused (page w4) = focused (page w3)"
    "field_value (page w4) = searchLabel (box w3)"
    "box w4 = (box w3)\<lparr>searchActive := False, lastSearchValue := [], lastResultsPage := []\<rparr>"
    using Activate_False_closed [of w3] w3 by auto
  obtain kf nf where F: "getElementById (page w4) MSearchField = Some kf"
    using w4(2) by (rule panel_found(1))
  let ?w5 = "w4\<lparr>page := (page w4)\<lparr>focused := Some kf\<rparr>\<rparr>"
  have "page_ok (page ?w5)" "field_value (page ?w5) = searchLabel (box ?w5)"
    using w4 by simp_all
  from Activate_True_label [OF this] obtain w6 where w6: "Activate True ?w5 = (Inr (), w6)"
    "field_value (page w6) = []" "searchActive (box w6)" "lastSearchValue (box w6) = lastSearchValue (box ?w5)"
    "\<forall>i. getElementById (page w6) i = getElementById (page ?w5) i"
    "\<forall>i. displayOf (page w6) i = displayOf (page ?w5) i" "focused (page w6) = focused (page ?w5)"
    by blast
  have "focused (page w4) \<noteq> Some kf" using away F w4(3,5) w3(5,6) by simp
  then have "focusSearchField w4 = (Inr (), w6)"
    using F w6(1) by (simp add: focusSearchField_def focusNode_def blurPage_def OnSearchFieldFocus_def js_run)
  then have run: "h w = (Inr False, w6)"
    using h w3(1,2) w4(1) by (simp add: CloseResultsWindow_def run_jbind)
  have "frame w6 = frame w"
    using keepsD [OF frame_kept [of "frame w"], where s = ?w] run h by simp
  moreover have "displayOf (page ?w5) j = displayOf (page w4) j" for j
    by (simp add: displayOf_def elemNode_def cong: option.case_cong)
  ultimately show ?thesis using run w6 w4 w3(7,8) F by (intro exI [of _ w6]) simp
qed

theorem escape_returns_to_field_witness:
  "\<exists>w'. Nav \<lparr>evType = KeyDown, evKeyCode = 27\<rparr> 0 panel_world = (Inr False, w') \<and>
     focused (page w') = getElementById (page w') MSearchField \<and> field_value (page w') = []"
proof -
  have "page_ok (page panel_world)" by (simp add: panel_world_def page_ok_panel_doc)
  moreover have "focused (page panel_world) \<noteq> getElementById (page panel_world) MSearchField"
    by (simp add: panel_world_def panel_doc_ids)
  ultimately show ?thesis
    using escape_returns_to_field [of panel_world "\<lparr>evType = KeyDown, evKeyCode = 27\<rparr>"
        "Nav \<lparr>evType = KeyDown, evKeyCode = 27\<rparr> 0" 0 0] by auto
qed

end
