(* ===== verification/Search_Up_Props.thy ===== *)
theory Search_Up_Props
  imports Search_Keys_Props
begin

text \<open>
  The Up key when the previous rows are hidden, and the filter menu that \<open>init_search\<close>
  builds.
\<close>

section \<open>The Up key\<close>

lemma last_child_run:
  assumes "\<And>j. n \<le> j \<Longrightarrow> j < m \<Longrightarrow> getElementById d (child_id i j) = Some (f j)"
    and "getElementById d (child_id i m) = None" "n \<le> m"
  shows "last_child d i n k = Some (if n = m then k else f (m - 1))"
  using assms
proof (induction "nat (m - n)" arbitrary: n k)
  case 0
  then show ?case by (subst last_child.simps) simp
next
  case (Suc x)
  then have n: "getElementById d (child_id i n) = Some (f n)" "n < m" by simp_all
  have "last_child d i (n + 1) (f n) = Some (if n + 1 = m then f n else f (m - 1))"
    using Suc by simp
  then show ?case using n by (subst last_child.simps) auto
qed

text \<open>
  (C35) The Up key looks for the children of the wrong row when rows are hidden. With the
  row just above hidden, \<open>NavPrev\<close> finds an earlier item \<open>k\<close>; if the children of \<open>k\<close> are
  open, the handler focuses the last child of the hidden row \<open>i - 1\<close> (the number it asked
  \<open>NavPrev\<close> to start from), not one of \<open>k\<close>.
\<close>

theorem up_key_takes_children_of_hidden_row:
  assumes prev: "NavPrev (i - 1) (frame w) = (Inr (Some k), frame w)"
    and other: "getElementById (frame w) (item_id (i - 1)) \<noteq> Some k"
    and opened: "jbind (children_of_item k) is_shown (frame w) = (Inr True, frame w)"
    and kids: "0 < m" "\<And>j. 0 \<le> j \<Longrightarrow> j < m \<Longrightarrow> getElementById (frame w) (child_id (i - 1) j) = Some (f j)"
      "getElementById (frame w) (child_id (i - 1) m) = None"
    and away: "focused (page w) = None"
    and e: "evKeyCode e = 38" "evType e = KeyDown"
  shows "\<exists>w'. Nav e i w = (Inr False, w') \<and> focused (frame w') = Some (f (m - 1))"
proof -
  have "last_child (frame w) (i - 1) 0 k = Some (f (m - 1))"
    using last_child_run [of 0 m "frame w" "i - 1" f k] kids by simp
  then show ?thesis
    using prev opened e away
    by (simp add: Nav_def ProcessKeys_def nav_up_def Let_def js_run focusFrame_def blurPage_def)
qed

definition three_rows :: "search_entry list" where
  "three_rows =
     [(js ''a_0'', js ''a'', [(js ''x'', True, []), (js ''y'', True, [])]),
      (js ''b_1'', js ''b'', [(js ''x'', True, []), (js ''y'', True, [])]),
      (js ''c_2'', js ''c'', [(js ''x'', True, [])])]"

definition three_doc :: document where
  "three_doc = rows.filled 4 0 three_rows results_doc"

definition opened_doc :: document where
  "opened_doc = upd_node (upd_node three_doc 7 (set_style ''display'' block_str)) 10
     (set_style ''display'' block_str)"

lemma three_facts:
  "wf_doc three_doc" "length three_rows = 3" "distinct (map fst three_rows)"
  "rows.total (take 0 three_rows) = 0" "rows.total (take 1 three_rows) = 6"
  using rows.loop_run(2) [OF results_doc_facts(5) getElementById_key [OF results_doc_facts(1)], of 0 three_rows]
  by (simp_all add: three_doc_def three_rows_def rows.total_def row_size_def)

lemma three_ids:
  "getElementById three_doc (item_id 0) = Some 9" "getElementById three_doc (item_id 1) = Some 15"
  "getElementById three_doc (js ''SR_a_0'') = Some 7"
  "getElementById three_doc (child_id 1 0) = Some 17" "getElementById three_doc (child_id 1 1) = Some 18"
  "getElementById three_doc (child_id 1 2) = None"
proof -
  note found = rows_found [OF fresh_results_doc results_doc_facts(1), of three_rows, folded three_doc_def]
  have child: "child_id 1 (int j) = child_name 1 j" for j
    using num_str_of_nat [of 1] num_str_of_nat [of j] by (simp add: child_id_def child_name_def)
  show "getElementById three_doc (item_id 0) = Some 9" "getElementById three_doc (item_id 1) = Some 15"
    using found(1) [of 0] found(1) [of 1] three_facts by (simp_all add: item_id_name results_doc_facts)
  show "getElementById three_doc (js ''SR_a_0'') = Some 7"
    using found(3) [of 0] three_facts by (simp add: results_doc_facts three_rows_def js_append)
  show "getElementById three_doc (child_id 1 0) = Some 17" "getElementById three_doc (child_id 1 1) = Some 18"
    "getElementById three_doc (child_id 1 2) = None"
    using found(2) [of 1 0] found(2) [of 1 1] found(2) [of 1 2] three_facts child [of 0] child [of 1] child [of 2]
    by (simp_all add: results_doc_facts three_rows_def)
qed

lemma three_places:
  "tree_at three_doc 7 = Some (row_tree 7 0 (three_rows ! 0))" "row_of three_doc 9 = Some 7"
  "tree_at three_doc 13 = Some (row_tree 13 1 (three_rows ! 1))" "row_of three_doc 15 = Some 13"
  using row_places(1,2) [OF fresh_results_doc results_doc_facts(1), of 0 three_rows, folded three_doc_def]
    row_places(1,2) [OF fresh_results_doc results_doc_facts(1), of 1 three_rows, folded three_doc_def]
    three_facts
  by (simp_all add: results_doc_facts)


lemma opened_ids: "getElementById opened_doc i = getElementById three_doc i"
  by (simp add: opened_doc_def dom_simps)

lemma opened_rows: "row_of opened_doc k = row_of three_doc k" "wf_doc opened_doc"
  using three_facts by (simp_all add: opened_doc_def row_of_def dom_simps cong: option.case_cong)

lemma opened_nodes:
  "\<exists>n. row_node opened_doc 9 = Some n \<and> style n ''display'' = block_str \<and> idOf n = js ''SR_a_0''"
  "\<exists>n. row_node opened_doc 15 = Some n \<and> style n ''display'' \<noteq> block_str"
proof -
  have node: "node_at three_doc 7 = Some (dnode (row_tree 7 0 (three_rows ! 0)))"
    "node_at three_doc 13 = Some (dnode (row_tree 13 1 (three_rows ! 1)))"
    by (simp_all add: node_at_def three_places)
  then have up: "node_at opened_doc 7 = Some (set_style ''display'' block_str (dnode (row_tree 7 0 (three_rows ! 0))))"
    "node_at opened_doc 13 = Some (dnode (row_tree 13 1 (three_rows ! 1)))"
    by (simp_all add: opened_doc_def dom_simps)
  show "\<exists>n. row_node opened_doc 9 = Some n \<and> style n ''display'' = block_str \<and> idOf n = js ''SR_a_0''"
    by (simp add: row_node_def opened_rows three_places up)
       (simp add: idOf_def row_tree_def three_rows_def class_attrs_def new_node_def js_append)
  show "\<exists>n. row_node opened_doc 15 = Some n \<and> style n ''display'' \<noteq> block_str"
    by (simp add: row_node_def opened_rows three_places up)
       (simp add: row_tree_def three_rows_def class_attrs_def new_node_def)
qed

lemma opened_prev: "NavPrev 1 opened_doc = (Inr (Some 9), opened_doc)"
proof -
  have "nav_loop opened_doc (-1) 1 = nav_loop opened_doc (-1) 0"
    using opened_nodes(2) by (subst nav_loop.simps) (auto simp: opened_ids three_ids)
  also have "\<dots> = Some (Inr (Some 9))"
    using opened_nodes(1) by (subst nav_loop.simps) (auto simp: opened_ids three_ids)
  finally show ?thesis by (simp add: NavPrev_def js_run nav_result_def)
qed

lemma opened_children: "jbind (children_of_item 9) is_shown opened_doc = (Inr True, opened_doc)"
proof -
  let ?f = "set_style ''display'' block_str"
  have tree: "tree_at opened_doc 7 = Some (upd_tree 10 ?f (upd_tree 7 ?f (row_tree 7 0 (three_rows ! 0))))"
    by (simp add: opened_doc_def tree_at_upd three_places)
  have "find_in (kids (upd_tree 10 ?f (upd_tree 7 ?f (row_tree 7 0 (three_rows ! 0))))) = Some 10"
    by (simp add: kids_upd find_in_upd find_in_row del: map_map) (simp add: three_rows_def)
  then have "FindChildElement (js ''SR_a_0'') opened_doc = (Inr (Some 10), opened_doc)"
    using FindChildElement_run [OF opened_rows(2) _ tree] by (simp add: opened_ids three_ids)
  moreover obtain n where "node_at three_doc 10 = Some n"
    using find_in_node [OF three_facts(1) three_places(1), of 10]
    by (auto simp: find_in_row three_rows_def)
  ultimately show ?thesis
    using opened_nodes(1)
    by (auto simp: children_of_item_def js_run is_shown_def opened_doc_def dom_simps)
qed

theorem up_key_takes_children_of_hidden_row_witness:
  "\<exists>w'. Nav \<lparr>evType = KeyDown, evKeyCode = 38\<rparr> 2 (panel_world\<lparr>frame := opened_doc\<rparr>) = (Inr False, w') \<and>
     focused (frame w') = Some 18"
proof -
  let ?w = "panel_world\<lparr>frame := opened_doc\<rparr>"
  define f :: "int \<Rightarrow> nat" where "f j = (if j = 0 then 17 else 18)" for j
  have kids: "getElementById opened_doc (child_id (2 - 1) j) = Some (f j)" if "0 \<le> j" "j < 2" for j
  proof -
    have "j = 0 \<or> j = 1" using that by linarith
    then show ?thesis by (auto simp: opened_ids three_ids f_def)
  qed
  have "focused (page panel_world) = None" by (simp add: panel_world_def panel_doc_ids)
  with up_key_takes_children_of_hidden_row [of 2 ?w 9 2 f "\<lparr>evType = KeyDown, evKeyCode = 38\<rparr>"] kids
  show ?thesis
    using opened_prev opened_children by (simp add: opened_ids three_ids f_def)
qed

section \<open>The filter menu\<close>

lemma mark_fresh_items_run:
  assumes "distinct cs" "\<And>c. c \<in> set cs \<Longrightarrow> firstChild (page w) c = Some (g c)"
    and "\<And>c. c \<in> set cs \<Longrightarrow> node_at (page w) (g c) \<noteq> None" "inj_on g (set cs)"
  shows "\<exists>d. mark_items item j cs w = (Inr (), w\<lparr>page := d\<rparr>) \<and> same_tree (page w) d \<and>
     bodyNode d = bodyNode (page w) \<and> (\<forall>x. select_items d x = select_items (page w) x) \<and>
     (\<forall>i < length cs. map_option html (node_at d (g (cs ! i))) =
        Some (if j + int i = item then js ''&#8226;'' else js ''&#160;'')) \<and>
     (\<forall>k. k \<notin> g ` set cs \<longrightarrow> node_at d k = node_at (page w) k)"
  using assms
proof (induction cs arbitrary: j w)
  case Nil
  then show ?case by (auto intro!: exI [of _ "page w"])
next
  case (Cons c cs)
  let ?v = "if j = item then js ''&#8226;'' else js ''&#160;''"
  let ?w = "w\<lparr>page := upd_node (page w) (g c) (set_html ?v)\<rparr>"
  have step: "mark_items item j (c # cs) w = mark_items item (j + 1) cs ?w"
    using Cons.prems(2) [of c] by (simp add: js_run)
  have gc: "g c \<notin> g ` set cs" using Cons.prems(1,4) by auto
  have "\<exists>d. mark_items item (j + 1) cs ?w = (Inr (), ?w\<lparr>page := d\<rparr>) \<and> same_tree (page ?w) d \<and>
     bodyNode d = bodyNode (page ?w) \<and> (\<forall>x. select_items d x = select_items (page ?w) x) \<and>
     (\<forall>i < length cs. map_option html (node_at d (g (cs ! i))) =
        Some (if (j + 1) + int i = item then js ''&#8226;'' else js ''&#160;'')) \<and>
     (\<forall>k. k \<notin> g ` set cs \<longrightarrow> node_at d k = node_at (page ?w) k)"
    by (rule Cons.IH) (use Cons.prems in \<open>auto simp: dom_simps\<close>)
  then obtain d where d: "mark_items item (j + 1) cs ?w = (Inr (), ?w\<lparr>page := d\<rparr>)"
    "same_tree (page ?w) d" "bodyNode d = bodyNode (page ?w)"
    "\<forall>x. select_items d x = select_items (page ?w) x"
    "\<forall>i < length cs. map_option html (node_at d (g (cs ! i))) =
        Some (if (j + 1) + int i = item then js ''&#8226;'' else js ''&#160;'')"
    "\<forall>k. k \<notin> g ` set cs \<longrightarrow> node_at d k = node_at (page ?w) k" by blast
  have first: "map_option html (node_at d (g c)) = Some ?v"
    using d(6) gc Cons.prems(3) [of c] by (auto simp: dom_simps)
  have marks: "map_option html (node_at d (g ((c # cs) ! i))) =
        Some (if j + int i = item then js ''&#8226;'' else js ''&#160;'')" if "i < length (c # cs)" for i
  proof (cases i)
    case 0
    then show ?thesis using first by simp
  next
    case (Suc i')
    then show ?thesis using d(5) that by (simp add: add.assoc)
  qed
  have "same_tree (page w) (page ?w)" by (simp add: same_tree_def dom_simps)
  then have "same_tree (page w) d" using d(2) by (rule same_tree_trans)
  then show ?case
    using step d marks by (intro exI [of _ d]) (auto simp: dom_simps)
qed

lemma bodyNode_cells:
  "bodyNode d = map_option fst (find (\<lambda>(k, n). tag n = ''body'') (cells (root d)))"
  by (simp add: bodyNode_def cells_def find_map comp_def option.map_comp)

lemma bodyNode_with_menu:
  assumes "wf_doc d" "win \<in> set (keys [root d])"
  shows "bodyNode (with_menu win labels d) = bodyNode d"
proof -
  obtain a b where ab: "cells (root d) = a @ b" "cells (root (with_menu win labels d)) =
      a @ concat (map cells (menu.trees (fresh d) 0 labels)) @ b"
    using cells_insert_trees [OF wf_doc_root [OF assms(1)] assms(2)] with_menu_facts(2) [OF assms] by metis
  have tree: "find (\<lambda>(k, n). tag n = ''body'') (cells (menu_tree k key l)) = None" for k key l
    by (simp add: menu_tree_def cells_DT menu_link_def new_node_def)
  have "find (\<lambda>(k, n). tag n = ''body'') (concat (map cells (menu.trees k key ls))) = None" for k key ls
    by (induction ls arbitrary: k key) (simp_all add: find_append tree)
  then show ?thesis by (simp add: bodyNode_cells ab find_append split: option.split)
qed

definition panel_page :: "document \<Rightarrow> bool" where
  \<comment> \<open>the parts of a page the panel needs, with the filter menu still empty\<close>
  "panel_page d \<longleftrightarrow> wf_doc d \<and> list_all (\<lambda>i. getElementById d i \<noteq> None) panel_ids \<and>
     bodyNode d \<noteq> None \<and>
     (case getElementById d MSearchSelectWindow of None \<Rightarrow> False | Some win \<Rightarrow> select_items d win = [])"

text \<open>
  (C28) \<open>init_search\<close> on a page with an empty filter menu: it returns, the menu then has one
  entry per section label, in order, each with the mark \<open>SelectItemSet\<close> writes to as its
  first child, the first section is selected and marked and no other; the page is the
  well-formed page the handlers of the panel expect.
\<close>

theorem init_search_fills_menu:
  assumes page: "panel_page (page w)" and inactive: "\<not> searchActive (box w)"
    and win: "getElementById (page w) MSearchSelectWindow = Some win"
  shows "\<exists>w' items. init_search S w = (Inr (), w') \<and> page_ok (page w') \<and> searchIndex (box w') = 0 \<and>
     select_items (page w') win = items \<and> length items = length (indexSectionLabels S) \<and>
     (\<forall>i < length items. \<exists>m. firstChild (page w') (items ! i) = Some m \<and>
        map_option html (node_at (page w') m) = Some (if i = 0 then js ''&#8226;'' else js ''&#160;''))"
proof -
  let ?labels = "indexSectionLabels S"
  let ?d = "with_menu win ?labels (page w)" and ?cs = "menu_entries (page w) ?labels"
  have wf: "wf_doc (page w)" and none: "select_items (page w) win = []"
    using page win by (simp_all add: panel_page_def)
  note key = getElementById_key [OF win]
  note menu = filled_menu [OF wf win none, where labels = ?labels]
  let ?w = "w\<lparr>page := ?d, box := (box w)\<lparr>searchIndex := 0\<rparr>\<rparr>"
  have build: "createMenuItems (Some win) 0 ?labels (page w) = (Inr (), ?d)"
    using menu.loop_run(1) [OF wf key, of 0 ?labels] by (simp add: createMenuItems_loop with_menu_def)
  have mark_nodes: "node_at ?d (Suc c) \<noteq> None" if c: "c \<in> set ?cs" for c
  proof -
    from c obtain j where j: "j < length ?labels" "c = fresh (page w) + 3 * j"
      by (auto simp: menu_entries_def)
    have "DT (Suc c) (set_html (js ''&#160;'') (set_attr ''class'' (js ''SelectionMark'') (new_node ''span''))) []
        \<in> set (subtrees (menu_tree (fresh (page w) + menu.total (take j ?labels)) (0 + j) (?labels ! j)))"
      using j by (simp add: menu_tree_def menu_total)
    from menu.trees_at(1) [OF wf key j(1) this] show ?thesis by (simp add: node_at_def with_menu_def)
  qed
  have cs: "distinct ?cs" "length ?cs = length ?labels"
    by (auto simp: menu_entries_def distinct_map inj_on_def)
  have "\<exists>d. mark_items 0 0 ?cs ?w = (Inr (), ?w\<lparr>page := d\<rparr>) \<and> same_tree (page ?w) d \<and>
     bodyNode d = bodyNode (page ?w) \<and> (\<forall>x. select_items d x = select_items (page ?w) x) \<and>
     (\<forall>i < length ?cs. map_option html (node_at d (Suc (?cs ! i))) =
        Some (if 0 + int i = 0 then js ''&#8226;'' else js ''&#160;'')) \<and>
     (\<forall>k. k \<notin> Suc ` set ?cs \<longrightarrow> node_at d k = node_at (page ?w) k)"
    by (rule mark_fresh_items_run) (use cs menu mark_nodes in auto)
  then obtain d where d: "mark_items 0 0 ?cs ?w = (Inr (), ?w\<lparr>page := d\<rparr>)" "same_tree ?d d"
    "bodyNode d = bodyNode ?d" "\<And>x. select_items d x = select_items ?d x"
    "\<And>i. i < length ?cs \<Longrightarrow> map_option html (node_at d (Suc (?cs ! i))) =
        Some (if i = 0 then js ''&#8226;'' else js ''&#160;'')" by auto
  have ids: "getElementById d i = getElementById (page w) i" for i
    using d(2) menu(3) by (simp add: same_tree_def)
  have first: "firstChild d c = firstChild ?d c" for c
    using d(2) by (simp add: same_tree_def firstChild_def)
  have ok: "page_ok d"
    using page win menu(1,2) d(3,4)
    by (auto simp: page_ok_def panel_page_def ids bodyNode_with_menu [OF wf key] first list_all_iff)
  obtain kf nf where F: "getElementById d MSearchField = Some kf" "node_at d kf = Some nf"
    using ok by (rule panel_found(1))
  have "init_search S w = (Inr (), ?w\<lparr>page := d\<rparr>)"
    using win build d(1) menu(1,3) F inactive
    by (simp add: init_search_def on_page_def OnSelectItem_def SelectItemSet_def js_run)
  then show ?thesis
    using ok menu(1,2) d(4,5) cs first
    by (intro exI [of _ "?w\<lparr>page := d\<rparr>"] exI [of _ ?cs]) auto
qed


definition bare_doc :: document where
  "bare_doc = \<lparr>root = DT 0 (elt ''html'' [])
     [DT 1 (elt ''body'' [])
       [DT 2 (elt ''div'' [(''id'', ''MSearchBox''), (''class'', ''MSearchBoxInactive'')])
         [DT 3 (elt ''img'' [(''id'', ''MSearchSelect'')]) [],
          DT 4 ((elt ''input'' [(''id'', ''MSearchField'')])\<lparr>val := js ''Search''\<rparr>) [],
          DT 5 (elt ''a'' [(''id'', ''MSearchClose'')]) []],
        DT 6 (elt ''div'' [(''id'', ''MSearchSelectWindow'')]) [],
        DT 7 (elt ''div'' [(''id'', ''MSearchResultsWindow'')])
          [DT 8 (elt ''iframe'' [(''id'', ''MSearchResults'')]) []]]],
     loose = [], fresh = 9, focused = None\<rparr>"

lemma panel_page_bare: "panel_page bare_doc" "getElementById bare_doc MSearchSelectWindow = Some 6"
proof -
  have ids: "getElementById bare_doc MSearchBox = Some 2" "getElementById bare_doc MSearchSelect = Some 3"
    "getElementById bare_doc MSearchField = Some 4" "getElementById bare_doc MSearchClose = Some 5"
    "getElementById bare_doc MSearchSelectWindow = Some 6"
    "getElementById bare_doc MSearchResultsWindow = Some 7" "getElementById bare_doc MSearchResults = Some 8"
    "bodyNode bare_doc = Some 1"
    by (simp_all add: bare_doc_def getElementById_def bodyNode_def elt_def new_node_def)
  show "getElementById bare_doc MSearchSelectWindow = Some 6" by (rule ids)
  have "wf_doc bare_doc" by (simp add: bare_doc_def wf_doc_def keys_Cons)
  moreover have "select_items bare_doc 6 = []"
    by (simp add: select_items_def childNodes_def tree_at_def all_trees_def forest_def bare_doc_def)
  ultimately show "panel_page bare_doc" by (simp add: panel_page_def panel_ids_def ids)
qed

theorem init_search_fills_menu_witness:
  "\<exists>w'. init_search readme_site (panel_world\<lparr>page := bare_doc\<rparr>) = (Inr (), w') \<and> page_ok (page w') \<and>
     length (select_items (page w') 6) = 3"
proof -
  have "\<not> searchActive (box (panel_world\<lparr>page := bare_doc\<rparr>))"
    by (simp add: panel_world_def SearchBox_def)
  moreover have "length (indexSectionLabels readme_site) = 3"
    by (simp add: readme_site_def readme_indexSectionLabels_def)
  ultimately show ?thesis
    using init_search_fills_menu [of "panel_world\<lparr>page := bare_doc\<rparr>" 6 readme_site] panel_page_bare by auto
qed

end
