(* ===== verification/Search_Data.thy ===== *)
theory Search_Data
  imports Search_Create Id_Codes
begin

text \<open>
  The tables of the result pages (\<open>search/<section>_<number>.js\<close>): what the scripts expect of
  an entry, and how to check it on the tables' literals.
\<close>

section \<open>What a reader sees of a name\<close>

text \<open>
  A row shows its name through \<open>innerHTML\<close>; the only reference to a character in the names of
  the sites is \<open>&apos;\<close>.
\<close>

definition apos_text :: jstr where "apos_text = js ''&apos;''"

fun seen :: "jstr \<Rightarrow> jstr" where
  "seen [] = []"
| "seen (c # cs) =
     (if prefix apos_text (c # cs) then cu_of (CHR 0x27) # seen (drop 5 cs) else c # seen cs)"

definition entry_ok :: "cu \<Rightarrow> nat \<Rightarrow> search_entry \<Rightarrow> bool" where
  \<comment> \<open>entry number \<open>j\<close> of the table of the character \<open>c\<close>\<close>
  "entry_ok c j e = (case e of (i, name, hits) \<Rightarrow>
     is_ascii name \<and> i = convertToId (map lower_cu (seen name)) @ js ''_'' @ nat_str j \<and>
     take 1 (map lower_cu (seen name)) = [c])"

fun entries_ok :: "cu \<Rightarrow> nat \<Rightarrow> search_entry list \<Rightarrow> bool" where
  "entries_ok c j [] = True"
| "entries_ok c j (e # es) = (entry_ok c j e \<and> entries_ok c (j + 1) es)"

lemma entries_ok_nth: "entries_ok c j es \<Longrightarrow> m < length es \<Longrightarrow> entry_ok c (j + m) (es ! m)"
  by (induction es arbitrary: j m) (auto simp: nth_Cons split: nat.split, metis add_Suc_right add_Suc)

lemma entries_ok_append: "entries_ok c j (es @ fs) \<longleftrightarrow> entries_ok c j es \<and> entries_ok c (j + length es) fs"
  by (induction es arbitrary: j) (simp_all add: add.assoc)

section \<open>Literals\<close>

definition hex_char :: "nat \<Rightarrow> char" where
  "hex_char n = char_of (if n < 10 then 48 + n else 87 + n)"

definition id_char :: "char \<Rightarrow> string" where
  "id_char c = (let n = of_char (char_lower c) :: nat in
     if 97 \<le> n \<and> n \<le> 122 \<or> 48 \<le> n \<and> n \<le> 57 then [char_lower c]
     else [CHR ''_'', hex_char (n div 16), hex_char (n mod 16)])"

fun title_id :: "string \<Rightarrow> string" where
  "title_id [] = []"
| "title_id (c # cs) =
     (if prefix ''&apos;'' (c # cs) then ''_27'' @ title_id (drop 5 cs) else id_char c @ title_id cs)"

fun dec :: "nat \<Rightarrow> string" where
  "dec n = (if n < 10 then [char_of (48 + n)] else dec (n div 10) @ [char_of (48 + n mod 10)])"

declare dec.simps [simp del]

fun ascii_str :: "string \<Rightarrow> bool" where
  "ascii_str [] = True"
| "ascii_str (Char _ _ _ _ _ _ _ b # cs) = (\<not> b \<and> ascii_str cs)"

fun title_first :: "string \<Rightarrow> string" where
  "title_first [] = []"
| "title_first (c # cs) = (if prefix ''&apos;'' (c # cs) then [CHR 0x27] else [char_lower c])"

lemma cu_of_char_of: "n < 256 \<Longrightarrow> cu_of (char_of n) = word_of_nat n"
  by (simp add: cu_of_def)

lemma js_dec: "js (dec n) = nat_str n"
proof (induction n rule: dec.induct)
  case (1 n)
  then show ?case
    by (cases "n < 10") (simp_all add: dec.simps [of n] nat_str_small nat_str_step digit_def js_Cons
        cu_of_char_of flip: js_append)
qed

lemma ascii_str_iff: "ascii_str s \<longleftrightarrow> is_ascii (js s)"
proof (induction s rule: ascii_str.induct)
  case (2 b0 b1 b2 b3 b4 b5 b6 b cs)
  have "of_char (Char b0 b1 b2 b3 b4 b5 b6 b) < (128 :: nat) \<longleftrightarrow> \<not> b"
    by (cases b0; cases b1; cases b2; cases b3; cases b4; cases b5; cases b6; cases b) (simp_all add: of_char_def)
  then show ?case using 2 by (simp add: is_ascii_def js_Cons)
qed (simp add: is_ascii_def)

lemma js_id_char: "of_char c < (128 :: nat) \<Longrightarrow> js (id_char c) = id_cu (lower_cu (cu_of c))"
proof -
  assume c: "of_char c < (128 :: nat)"
  let ?n = "of_char (char_lower c) :: nat"
  have n: "?n < 128" using c by (simp add: char_lower_def)
  have "cu_of (hex_char k) = hexlo k" if "k < 16" for k
    using that by (simp add: hex_char_def hexlo_def cu_of_char_of)
  moreover have "?n div 16 < 16" "?n mod 16 < 16" using n by simp_all
  moreover have "id_plain (cu_of (char_lower c)) \<longleftrightarrow> 97 \<le> ?n \<and> ?n \<le> 122 \<or> 48 \<le> ?n \<and> ?n \<le> 57"
    using n by (auto simp: id_plain_def)
  ultimately show ?thesis
    by (cases "id_plain (cu_of (char_lower c))")
      (auto simp: id_char_def Let_def lower_cu_of id_cu_hex js_Cons, auto simp: id_cu_def js_Cons)
qed

lemma seen_js:
  "seen (js []) = []"
  "seen (js (c # cs)) = (if prefix ''&apos;'' (c # cs) then cu_of (CHR 0x27) # seen (js (drop 5 cs)) else cu_of c # seen (js cs))"
proof -
  have "prefix (js a) (js b) \<longleftrightarrow> prefix a b" for a b :: string
    by (induction a arbitrary: b) (auto simp: js_Cons prefix_Cons, (case_tac b; auto simp: js_Cons)+)
  from this [of "''&apos;''" "c # cs"]
  show "seen (js (c # cs)) = (if prefix ''&apos;'' (c # cs) then cu_of (CHR 0x27) # seen (js (drop 5 cs)) else cu_of c # seen (js cs))"
    by (simp add: apos_text_def js_Cons js_def drop_map)
qed simp

lemma js_title_id: "ascii_str s \<Longrightarrow> js (title_id s) = convertToId (map lower_cu (seen (js s)))"
proof (induction s rule: title_id.induct)
  case (2 c cs)
  have conv: "convertToId (a # b) = id_cu a @ convertToId b" for a b
    by (simp add: convertToId_def convertToId_from_eq)
  have parts: "of_char c < (128 :: nat)" "is_ascii (js cs)" "ascii_str (drop 5 cs)" "ascii_str cs"
    using 2(3) by (auto simp: ascii_str_iff is_ascii_def js_Cons js_def list_all_iff dest: in_set_dropD)
  have apos: "id_cu (lower_cu (cu_of (CHR 0x27))) = js ''_27''" using js_id_char [of "CHR 0x27"] 
    by (simp add: id_char_def Let_def char_lower_def hex_char_def char_of_def bit_Suc_0_iff)
  show ?case
    using 2(1,2) parts by (auto simp: seen_js conv apos js_id_char js_append [symmetric] simp del: seen.simps) (simp_all add: js_Cons)
qed (simp add: seen_js convertToId_def)

lemma title_first_seen: "js (title_first s) = take 1 (map lower_cu (seen (js s)))"
proof (cases s)
  case (Cons c cs)
  have "char_lower (CHR 0x27) = CHR 0x27" by (simp add: char_lower_def)
  then show ?thesis by (simp add: Cons seen_js lower_cu_of js_Cons [of _ "[]"] del: seen.simps)
qed simp

lemma entry_ok_js:
  "entry_ok (cu_of c) j (js i, js name, hs) \<longleftrightarrow>
     ascii_str name \<and> i = title_id name @ CHR ''_'' # dec j \<and> title_first name = [c]"
proof -
  have "js i = js (title_id name) @ js ''_'' @ nat_str j \<longleftrightarrow> i = title_id name @ CHR ''_'' # dec j"
    by (simp add: js_append js_dec [symmetric] js_inj)
  moreover have "js (title_first name) = [cu_of c] \<longleftrightarrow> title_first name = [c]"
    using js_inj [of "title_first name" "[c]"] by (simp add: js_Cons)
  ultimately show ?thesis
    by (auto simp: entry_ok_def ascii_str_iff [symmetric] js_title_id title_first_seen)
qed

text \<open>Rewrite rules that walk through a literal once.\<close>

lemma title_id_char:
  "title_id (CHR '' '' # cs) = CHR ''_'' # CHR ''2'' # CHR ''0'' # title_id cs"
  "title_id (CHR ''('' # cs) = CHR ''_'' # CHR ''2'' # CHR ''8'' # title_id cs"
  "title_id (CHR '')'' # cs) = CHR ''_'' # CHR ''2'' # CHR ''9'' # title_id cs"
  "title_id (CHR ''-'' # cs) = CHR ''_'' # CHR ''2'' # CHR ''d'' # title_id cs"
  "title_id (CHR ''.'' # cs) = CHR ''_'' # CHR ''2'' # CHR ''e'' # title_id cs"
  "title_id (CHR ''0'' # cs) = CHR ''0'' # title_id cs"
  "title_id (CHR ''1'' # cs) = CHR ''1'' # title_id cs"
  "title_id (CHR ''2'' # cs) = CHR ''2'' # title_id cs"
  "title_id (CHR ''3'' # cs) = CHR ''3'' # title_id cs"
  "title_id (CHR ''4'' # cs) = CHR ''4'' # title_id cs"
  "title_id (CHR ''5'' # cs) = CHR ''5'' # title_id cs"
  "title_id (CHR ''6'' # cs) = CHR ''6'' # title_id cs"
  "title_id (CHR ''7'' # cs) = CHR ''7'' # title_id cs"
  "title_id (CHR ''8'' # cs) = CHR ''8'' # title_id cs"
  "title_id (CHR ''9'' # cs) = CHR ''9'' # title_id cs"
  "title_id (CHR ''A'' # cs) = CHR ''a'' # title_id cs"
  "title_id (CHR ''B'' # cs) = CHR ''b'' # title_id cs"
  "title_id (CHR ''C'' # cs) = CHR ''c'' # title_id cs"
  "title_id (CHR ''D'' # cs) = CHR ''d'' # title_id cs"
  "title_id (CHR ''E'' # cs) = CHR ''e'' # title_id cs"
  "title_id (CHR ''F'' # cs) = CHR ''f'' # title_id cs"
  "title_id (CHR ''G'' # cs) = CHR ''g'' # title_id cs"
  "title_id (CHR ''H'' # cs) = CHR ''h'' # title_id cs"
  "title_id (CHR ''I'' # cs) = CHR ''i'' # title_id cs"
  "title_id (CHR ''K'' # cs) = CHR ''k'' # title_id cs"
  "title_id (CHR ''L'' # cs) = CHR ''l'' # title_id cs"
  "title_id (CHR ''M'' # cs) = CHR ''m'' # title_id cs"
  "title_id (CHR ''N'' # cs) = CHR ''n'' # title_id cs"
  "title_id (CHR ''O'' # cs) = CHR ''o'' # title_id cs"
  "title_id (CHR ''P'' # cs) = CHR ''p'' # title_id cs"
  "title_id (CHR ''R'' # cs) = CHR ''r'' # title_id cs"
  "title_id (CHR ''S'' # cs) = CHR ''s'' # title_id cs"
  "title_id (CHR ''T'' # cs) = CHR ''t'' # title_id cs"
  "title_id (CHR ''U'' # cs) = CHR ''u'' # title_id cs"
  "title_id (CHR ''V'' # cs) = CHR ''v'' # title_id cs"
  "title_id (CHR ''W'' # cs) = CHR ''w'' # title_id cs"
  "title_id (CHR ''Y'' # cs) = CHR ''y'' # title_id cs"
  "title_id (CHR ''Z'' # cs) = CHR ''z'' # title_id cs"
  "title_id (CHR ''_'' # cs) = CHR ''_'' # CHR ''5'' # CHR ''f'' # title_id cs"
  "title_id (CHR ''a'' # cs) = CHR ''a'' # title_id cs"
  "title_id (CHR ''b'' # cs) = CHR ''b'' # title_id cs"
  "title_id (CHR ''c'' # cs) = CHR ''c'' # title_id cs"
  "title_id (CHR ''d'' # cs) = CHR ''d'' # title_id cs"
  "title_id (CHR ''e'' # cs) = CHR ''e'' # title_id cs"
  "title_id (CHR ''f'' # cs) = CHR ''f'' # title_id cs"
  "title_id (CHR ''g'' # cs) = CHR ''g'' # title_id cs"
  "title_id (CHR ''h'' # cs) = CHR ''h'' # title_id cs"
  "title_id (CHR ''i'' # cs) = CHR ''i'' # title_id cs"
  "title_id (CHR ''j'' # cs) = CHR ''j'' # title_id cs"
  "title_id (CHR ''k'' # cs) = CHR ''k'' # title_id cs"
  "title_id (CHR ''l'' # cs) = CHR ''l'' # title_id cs"
  "title_id (CHR ''m'' # cs) = CHR ''m'' # title_id cs"
  "title_id (CHR ''n'' # cs) = CHR ''n'' # title_id cs"
  "title_id (CHR ''o'' # cs) = CHR ''o'' # title_id cs"
  "title_id (CHR ''p'' # cs) = CHR ''p'' # title_id cs"
  "title_id (CHR ''q'' # cs) = CHR ''q'' # title_id cs"
  "title_id (CHR ''r'' # cs) = CHR ''r'' # title_id cs"
  "title_id (CHR ''s'' # cs) = CHR ''s'' # title_id cs"
  "title_id (CHR ''t'' # cs) = CHR ''t'' # title_id cs"
  "title_id (CHR ''u'' # cs) = CHR ''u'' # title_id cs"
  "title_id (CHR ''v'' # cs) = CHR ''v'' # title_id cs"
  "title_id (CHR ''w'' # cs) = CHR ''w'' # title_id cs"
  "title_id (CHR ''x'' # cs) = CHR ''x'' # title_id cs"
  "title_id (CHR ''y'' # cs) = CHR ''y'' # title_id cs"
  "title_id (CHR ''z'' # cs) = CHR ''z'' # title_id cs"
  "title_id (CHR ''&'' # CHR ''a'' # CHR ''p'' # CHR ''o'' # CHR ''s'' # CHR '';'' # cs) = CHR ''_'' # CHR ''2'' # CHR ''7'' # title_id cs"
  by (simp_all add: id_char_def Let_def char_lower_def hex_char_def char_of_def bit_Suc_0_iff)

lemma title_first_char:
  "title_first (CHR ''A'' # cs) = ''a''"
  "title_first (CHR ''B'' # cs) = ''b''"
  "title_first (CHR ''C'' # cs) = ''c''"
  "title_first (CHR ''D'' # cs) = ''d''"
  "title_first (CHR ''E'' # cs) = ''e''"
  "title_first (CHR ''F'' # cs) = ''f''"
  "title_first (CHR ''G'' # cs) = ''g''"
  "title_first (CHR ''H'' # cs) = ''h''"
  "title_first (CHR ''I'' # cs) = ''i''"
  "title_first (CHR ''K'' # cs) = ''k''"
  "title_first (CHR ''L'' # cs) = ''l''"
  "title_first (CHR ''M'' # cs) = ''m''"
  "title_first (CHR ''N'' # cs) = ''n''"
  "title_first (CHR ''O'' # cs) = ''o''"
  "title_first (CHR ''P'' # cs) = ''p''"
  "title_first (CHR ''R'' # cs) = ''r''"
  "title_first (CHR ''S'' # cs) = ''s''"
  "title_first (CHR ''T'' # cs) = ''t''"
  "title_first (CHR ''U'' # cs) = ''u''"
  "title_first (CHR ''V'' # cs) = ''v''"
  "title_first (CHR ''W'' # cs) = ''w''"
  "title_first (CHR ''Y'' # cs) = ''y''"
  "title_first (CHR ''Z'' # cs) = ''z''"
  "title_first (CHR ''_'' # cs) = ''_''"
  "title_first (CHR ''a'' # cs) = ''a''"
  "title_first (CHR ''b'' # cs) = ''b''"
  "title_first (CHR ''c'' # cs) = ''c''"
  "title_first (CHR ''d'' # cs) = ''d''"
  "title_first (CHR ''e'' # cs) = ''e''"
  "title_first (CHR ''f'' # cs) = ''f''"
  "title_first (CHR ''g'' # cs) = ''g''"
  "title_first (CHR ''h'' # cs) = ''h''"
  "title_first (CHR ''i'' # cs) = ''i''"
  "title_first (CHR ''j'' # cs) = ''j''"
  "title_first (CHR ''k'' # cs) = ''k''"
  "title_first (CHR ''l'' # cs) = ''l''"
  "title_first (CHR ''m'' # cs) = ''m''"
  "title_first (CHR ''n'' # cs) = ''n''"
  "title_first (CHR ''o'' # cs) = ''o''"
  "title_first (CHR ''p'' # cs) = ''p''"
  "title_first (CHR ''q'' # cs) = ''q''"
  "title_first (CHR ''r'' # cs) = ''r''"
  "title_first (CHR ''s'' # cs) = ''s''"
  "title_first (CHR ''t'' # cs) = ''t''"
  "title_first (CHR ''u'' # cs) = ''u''"
  "title_first (CHR ''v'' # cs) = ''v''"
  "title_first (CHR ''w'' # cs) = ''w''"
  "title_first (CHR ''x'' # cs) = ''x''"
  "title_first (CHR ''y'' # cs) = ''y''"
  "title_first (CHR ''z'' # cs) = ''z''"
  by (simp_all add: char_lower_def char_of_def bit_Suc_0_iff)

lemma dec_numeral:
  "dec 0 = ''0''" "dec 1 = ''1''" "dec 2 = ''2''" "dec 3 = ''3''" "dec 4 = ''4''" "dec 5 = ''5''"
  "dec 6 = ''6''" "dec 7 = ''7''" "dec 8 = ''8''" "dec 9 = ''9''" "dec 10 = ''10''" "dec 11 = ''11''"
  "dec 12 = ''12''" "dec 13 = ''13''" "dec 14 = ''14''" "dec 15 = ''15''" "dec 16 = ''16''" "dec 17 = ''17''"
  "dec 18 = ''18''" "dec 19 = ''19''" "dec 20 = ''20''" "dec 21 = ''21''" "dec 22 = ''22''" "dec 23 = ''23''"
  "dec 24 = ''24''" "dec 25 = ''25''" "dec 26 = ''26''" "dec 27 = ''27''" "dec 28 = ''28''" "dec 29 = ''29''"
  "dec 30 = ''30''" "dec 31 = ''31''" "dec 32 = ''32''" "dec 33 = ''33''" "dec 34 = ''34''" "dec 35 = ''35''"
  "dec 36 = ''36''" "dec 37 = ''37''" "dec 38 = ''38''" "dec 39 = ''39''" "dec 40 = ''40''" "dec 41 = ''41''"
  "dec 42 = ''42''" "dec 43 = ''43''" "dec 44 = ''44''" "dec 45 = ''45''" "dec 46 = ''46''" "dec 47 = ''47''"
  "dec 48 = ''48''" "dec 49 = ''49''" "dec 50 = ''50''" "dec 51 = ''51''" "dec 52 = ''52''" "dec 53 = ''53''"
  "dec 54 = ''54''" "dec 55 = ''55''" "dec 56 = ''56''" "dec 57 = ''57''" "dec 58 = ''58''" "dec 59 = ''59''"
  "dec 60 = ''60''" "dec 61 = ''61''" "dec 62 = ''62''" "dec 63 = ''63''" "dec 64 = ''64''" "dec 65 = ''65''"
  "dec 66 = ''66''" "dec 67 = ''67''" "dec 68 = ''68''" "dec 69 = ''69''" "dec 70 = ''70''" "dec 71 = ''71''"
  "dec 72 = ''72''" "dec 73 = ''73''" "dec 74 = ''74''" "dec 75 = ''75''" "dec 76 = ''76''" "dec 77 = ''77''"
  "dec 78 = ''78''" "dec 79 = ''79''" "dec 80 = ''80''" "dec 81 = ''81''" "dec 82 = ''82''" "dec 83 = ''83''"
  "dec 84 = ''84''" "dec 85 = ''85''" "dec 86 = ''86''" "dec 87 = ''87''" "dec 88 = ''88''" "dec 89 = ''89''"
  "dec 90 = ''90''" "dec 91 = ''91''" "dec 92 = ''92''" "dec 93 = ''93''" "dec 94 = ''94''" "dec 95 = ''95''"
  "dec 96 = ''96''" "dec 97 = ''97''" "dec 98 = ''98''" "dec 99 = ''99''" "dec 100 = ''100''" "dec 101 = ''101''"
  "dec 102 = ''102''" "dec 103 = ''103''" "dec 104 = ''104''" "dec 105 = ''105''" "dec 106 = ''106''" "dec 107 = ''107''"
  "dec 108 = ''108''" "dec 109 = ''109''" "dec 110 = ''110''" "dec 111 = ''111''" "dec 112 = ''112''" "dec 113 = ''113''"
  "dec 114 = ''114''" "dec 115 = ''115''" "dec 116 = ''116''" "dec 117 = ''117''" "dec 118 = ''118''" "dec 119 = ''119''"
  "dec 120 = ''120''" "dec 121 = ''121''" "dec 122 = ''122''" "dec 123 = ''123''" "dec 124 = ''124''" "dec 125 = ''125''"
  "dec 126 = ''126''" "dec 127 = ''127''" "dec 128 = ''128''" "dec 129 = ''129''" "dec 130 = ''130''" "dec 131 = ''131''"
  "dec 132 = ''132''" "dec 133 = ''133''" "dec 134 = ''134''" "dec 135 = ''135''" "dec 136 = ''136''" "dec 137 = ''137''"
  "dec 138 = ''138''" "dec 139 = ''139''" "dec 140 = ''140''" "dec 141 = ''141''" "dec 142 = ''142''" "dec 143 = ''143''"
  "dec 144 = ''144''" "dec 145 = ''145''" "dec 146 = ''146''" "dec 147 = ''147''" "dec 148 = ''148''" "dec 149 = ''149''"
  "dec 150 = ''150''" "dec 151 = ''151''" "dec 152 = ''152''" "dec 153 = ''153''" "dec 154 = ''154''" "dec 155 = ''155''"
  "dec 156 = ''156''" "dec 157 = ''157''" "dec 158 = ''158''" "dec 159 = ''159''" "dec 160 = ''160''" "dec 161 = ''161''"
  "dec 162 = ''162''" "dec 163 = ''163''" "dec 164 = ''164''" "dec 165 = ''165''" "dec 166 = ''166''" "dec 167 = ''167''"
  "dec 168 = ''168''" "dec 169 = ''169''" "dec 170 = ''170''" "dec 171 = ''171''" "dec 172 = ''172''" "dec 173 = ''173''"
  "dec 174 = ''174''" "dec 175 = ''175''" "dec 176 = ''176''" "dec 177 = ''177''" "dec 178 = ''178''" "dec 179 = ''179''"
  "dec 180 = ''180''" "dec 181 = ''181''" "dec 182 = ''182''" "dec 183 = ''183''" "dec 184 = ''184''" "dec 185 = ''185''"
  "dec 186 = ''186''" "dec 187 = ''187''" "dec 188 = ''188''" "dec 189 = ''189''" "dec 190 = ''190''" "dec 191 = ''191''"
  "dec 192 = ''192''" "dec 193 = ''193''" "dec 194 = ''194''" "dec 195 = ''195''" "dec 196 = ''196''" "dec 197 = ''197''"
  "dec 198 = ''198''" "dec 199 = ''199''" "dec 200 = ''200''" "dec 201 = ''201''" "dec 202 = ''202''" "dec 203 = ''203''"
  "dec 204 = ''204''" "dec 205 = ''205''" "dec 206 = ''206''" "dec 207 = ''207''" "dec 208 = ''208''" "dec 209 = ''209''"
  "dec 210 = ''210''" "dec 211 = ''211''" "dec 212 = ''212''" "dec 213 = ''213''" "dec 214 = ''214''" "dec 215 = ''215''"
  "dec 216 = ''216''" "dec 217 = ''217''" "dec 218 = ''218''" "dec 219 = ''219''" "dec 220 = ''220''" "dec 221 = ''221''"
  "dec 222 = ''222''" "dec 223 = ''223''" "dec 224 = ''224''" "dec 225 = ''225''" "dec 226 = ''226''" "dec 227 = ''227''"
  "dec 228 = ''228''" "dec 229 = ''229''" "dec 230 = ''230''" "dec 231 = ''231''" "dec 232 = ''232''" "dec 233 = ''233''"
  by (simp_all add: dec.simps char_of_def bit_Suc_0_iff)

lemma frozen: "j = j' \<Longrightarrow> entries_ok c j es = entries_ok c j' es" "entry_ok c j e = entry_ok c j e" "title_id s = title_id s"
  "ascii_str s = ascii_str s" "title_first s = title_first s"
  by simp_all

lemmas check_entries = entries_ok.simps entry_ok_js title_id.simps(1) title_id_char title_first_char
  ascii_str.simps append.simps dec_numeral simp_thms arith_simps one_add_one numeral_plus_one

end
