(* ===== verification/Search_Data_All.thy ===== *)
theory Search_Data_All
  imports Search_Data
begin

text \<open>
  The tables of the specification site for the section of all names
  (\<open>ta-ref_spec_html/search/all_*.js\<close>), and that their entries are as the scripts expect.
\<close>

section \<open>Section \<open>all\<close>\<close>

definition spec_all_0 :: "search_entry list" where
  "spec_all_0 = [
     (js ''_5f_5faligned_0'', js ''__aligned'',
       [(js ''../a00080.html#a062d270abecd4e983bf02ed30febb4f0'', True, js ''tee_api_types.h'')]),
     (js ''_5f_5fattribute_5f_5f_1'', js ''__attribute__'',
       [(js ''../a00086.html#abe4e96ad3ef09baf69af6684ff52dce5'', True, js ''__attribute__((noreturn)) TEE_Panic(unsigned long code):&#160;tee-internal-api-machine.c''),
        (js ''../a00056.html#a93b9cf91f7623d6d8b100a3693d6d5e4'', True, js ''__attribute__((noreturn)):&#160;tee-internal-api-machine.c''),
        (js ''../a00288.html#af9aace1b44b73111e15aa39f06f43456'', True, js ''__attribute__((weak)):&#160;startup.c''),
        (js ''../a00294.html#a93b9cf91f7623d6d8b100a3693d6d5e4'', True, js ''__attribute__((noreturn)):&#160;tee-internal-api.c'')]),
     (js ''_5f_5finit_5farray_5fstart_2'', js ''__init_array_start'',
       [(js ''../a00264.html#a59373f42ae455344fede3a006d239318'', True, js ''__init_array_start():&#160;crt.c''),
        (js ''../a00261.html#a59373f42ae455344fede3a006d239318'', True, js ''__init_array_start():&#160;crt.c'')]),
     (js ''_5f_5ftee_5fobjecthandle_3'', js ''__TEE_ObjectHandle'',
       [(js ''../a00256.html'', True, [])]),
     (js ''_5f_5ftee_5foperationhandle_4'', js ''__TEE_OperationHandle'',
       [(js ''../a00252.html'', True, [])]),
     (js ''_5fatoi_5'', js ''_atoi'',
       [(js ''../a00330.html#a3ee89701d5bf35415505f4412ed9d8df'', True, js ''_atoi(const char **str):&#160;vsnprintf.c''),
        (js ''../a00333.html#a3ee89701d5bf35415505f4412ed9d8df'', True, js ''_atoi(const char **str):&#160;vsnprintf.c'')]),
     (js ''_5fftoa_6'', js ''_ftoa'',
       [(js ''../a00333.html#a2c0991970c9075b6e6197c313a1203fc'', True, js ''vsnprintf.c'')]),
     (js ''_5fis_5fdigit_7'', js ''_is_digit'',
       [(js ''../a00330.html#a3b3255e97ad723d1af56cc336b9ba0ff'', True, js ''_is_digit(char ch):&#160;vsnprintf.c''),
        (js ''../a00333.html#a3b3255e97ad723d1af56cc336b9ba0ff'', True, js ''_is_digit(char ch):&#160;vsnprintf.c'')]),
     (js ''_5fntoa_5fformat_8'', js ''_ntoa_format'',
       [(js ''../a00330.html#acd89d7f040822741e36375ba7bbb2d74'', True, js ''_ntoa_format(out_fct_type out, char *buffer, size_t idx, size_t maxlen, char *buf, size_t len, bool negative, unsigned int base, unsigned int prec, unsigned int width, unsigned int flags):&#160;vsnprintf.c''),
        (js ''../a00333.html#acd89d7f040822741e36375ba7bbb2d74'', True, js ''_ntoa_format(out_fct_type out, char *buffer, size_t idx, size_t maxlen, char *buf, size_t len, bool negative, unsigned int base, unsigned int prec, unsigned int width, unsigned int flags):&#160;vsnprintf.c'')]),
     (js ''_5fntoa_5flong_9'', js ''_ntoa_long'',
       [(js ''../a00330.html#aef1143febac07b5961075f4d76b6cc75'', True, js ''_ntoa_long(out_fct_type out, char *buffer, size_t idx, size_t maxlen, unsigned long value, bool negative, unsigned long base, unsigned int prec, unsigned int width, unsigned int flags):&#160;vsnprintf.c''),
        (js ''../a00333.html#aef1143febac07b5961075f4d76b6cc75'', True, js ''_ntoa_long(out_fct_type out, char *buffer, size_t idx, size_t maxlen, unsigned long value, bool negative, unsigned long base, unsigned int prec, unsigned int width, unsigned int flags):&#160;vsnprintf.c'')]),
     (js ''_5fntoa_5flong_5flong_10'', js ''_ntoa_long_long'',
       [(js ''../a00333.html#acf2e41c6171fe92b66260c643098fae2'', True, js ''vsnprintf.c'')]),
     (js ''_5fout_5fbuffer_11'', js ''_out_buffer'',
       [(js ''../a00333.html#a0c705954c7582efdee9daa215694611a'', True, js ''_out_buffer(char character, void *buffer, size_t idx, size_t maxlen):&#160;vsnprintf.c''),
        (js ''../a00330.html#a0c705954c7582efdee9daa215694611a'', True, js ''_out_buffer(char character, void *buffer, size_t idx, size_t maxlen):&#160;vsnprintf.c'')]),
     (js ''_5fout_5fchar_12'', js ''_out_char'',
       [(js ''../a00330.html#a06269ee8ee1275eb9063da1a6fb6ea0e'', True, js ''_out_char(char character, void *buffer, size_t idx, size_t maxlen):&#160;vsnprintf.c''),
        (js ''../a00333.html#a06269ee8ee1275eb9063da1a6fb6ea0e'', True, js ''_out_char(char character, void *buffer, size_t idx, size_t maxlen):&#160;vsnprintf.c'')]),
     (js ''_5fout_5ffct_13'', js ''_out_fct'',
       [(js ''../a00330.html#ad940608e967c675b53207179377308f5'', True, js ''_out_fct(char character, void *buffer, size_t idx, size_t maxlen):&#160;vsnprintf.c''),
        (js ''../a00333.html#ad940608e967c675b53207179377308f5'', True, js ''_out_fct(char character, void *buffer, size_t idx, size_t maxlen):&#160;vsnprintf.c'')]),
     (js ''_5fout_5fnull_14'', js ''_out_null'',
       [(js ''../a00330.html#ab7af60ce6079dfaea8e8589e47eeb8f0'', True, js ''_out_null(char character, void *buffer, size_t idx, size_t maxlen):&#160;vsnprintf.c''),
        (js ''../a00333.html#ab7af60ce6079dfaea8e8589e47eeb8f0'', True, js ''_out_null(char character, void *buffer, size_t idx, size_t maxlen):&#160;vsnprintf.c'')]),
     (js ''_5fputchar_15'', js ''_putchar'',
       [(js ''../a00333.html#a1aecd1c242901cf3c8844fd276c6047a'', True, js ''vsnprintf.c'')]),
     (js ''_5fsanctum_5fdev_5fpublic_5fkey_16'', js ''_sanctum_dev_public_key'',
       [(js ''../a00122.html#aac4c6e63829bd59132735f04822ab316'', True, js ''test_dev_key.h'')]),
     (js ''_5fsanctum_5fdev_5fpublic_5fkey_5flen_17'', js ''_sanctum_dev_public_key_len'',
       [(js ''../a00122.html#a1b5789e1ce77c1a87c7e76b7791b455f'', True, js ''test_dev_key.h'')]),
     (js ''_5fsanctum_5fdev_5fsecret_5fkey_18'', js ''_sanctum_dev_secret_key'',
       [(js ''../a00122.html#a414ca01e5a7ab1682647f105452f108d'', True, js ''test_dev_key.h'')]),
     (js ''_5fsanctum_5fdev_5fsecret_5fkey_5flen_19'', js ''_sanctum_dev_secret_key_len'',
       [(js ''../a00122.html#ad20f1506f9c3fb7261f560dcb9a9360f'', True, js ''test_dev_key.h'')]),
     (js ''_5fsgx_5ferrlist_5ft_20'', js ''_sgx_errlist_t'',
       [(js ''../a00248.html'', True, [])]),
     (js ''_5fstrlen_21'', js ''_strlen'',
       [(js ''../a00306.html#a67af87af758806836ba0a24934fc87b5'', True, js ''_strlen(const char *str):&#160;tools.c''),
        (js ''../a00324.html#a67af87af758806836ba0a24934fc87b5'', True, js ''_strlen(const char *str):&#160;trace2.c''),
        (js ''../a00330.html#a67af87af758806836ba0a24934fc87b5'', True, js ''_strlen(const char *str):&#160;vsnprintf.c''),
        (js ''../a00309.html#a67af87af758806836ba0a24934fc87b5'', True, js ''_strlen(const char *str):&#160;tools.c''),
        (js ''../a00321.html#a67af87af758806836ba0a24934fc87b5'', True, js ''_strlen(const char *str):&#160;trace.c''),
        (js ''../a00333.html#a67af87af758806836ba0a24934fc87b5'', True, js ''_strlen(const char *str):&#160;vsnprintf.c'')]),
     (js ''_5fvsnprintf_22'', js ''_vsnprintf'',
       [(js ''../a00330.html#a2bad5a18d0dcf3bbf70d0eb1b2797044'', True, js ''_vsnprintf(out_fct_type out, char *buffer, const size_t maxlen, const char *format, va_list va):&#160;vsnprintf.c''),
        (js ''../a00333.html#a2bad5a18d0dcf3bbf70d0eb1b2797044'', True, js ''_vsnprintf(out_fct_type out, char *buffer, const size_t maxlen, const char *format, va_list va):&#160;vsnprintf.c'')])]"

definition spec_all_1 :: "search_entry list" where
  "spec_all_1 = [
     (js ''a_0'', js ''a'',
       [(js ''../a00148.html#aeada71a90d1d2809b722d61a5c3565d1'', True, js ''TEE_Param::a()''),
        (js ''../a00172.html#ad9856740dc29f94abf5b33df1936cbc3'', True, js ''TEE_Attribute::a()''),
        (js ''../a00232.html#a9092e5e087843ebfc5d7cfa40f04a1c2'', True, js ''TEEC_Value::a()'')]),
     (js ''aectx_1'', js ''aectx'',
       [(js ''../a00252.html#a73b1d29239767dedf35599f4a525f5a0'', True, js ''__TEE_OperationHandle'')]),
     (js ''aegcm_5fstate_2'', js ''aegcm_state'',
       [(js ''../a00252.html#a2b358563c6e3266e010a546c28272aa5'', True, js ''__TEE_OperationHandle'')]),
     (js ''aegcmctx_3'', js ''aegcmctx'',
       [(js ''../a00252.html#a088a6a47110be1eca4f95d265adcc02e'', True, js ''__TEE_OperationHandle'')]),
     (js ''aeiv_4'', js ''aeiv'',
       [(js ''../a00252.html#a120191be0e7e0d4e4519a1637a335fbe'', True, js ''__TEE_OperationHandle'')]),
     (js ''aekey_5'', js ''aekey'',
       [(js ''../a00252.html#a94e3ab00a0698e2b96726d9d9047f8f1'', True, js ''__TEE_OperationHandle'')]),
     (js ''alg_6'', js ''alg'',
       [(js ''../a00252.html#ad4d817ab632c1a0476dbac5b15152a30'', True, js ''__TEE_OperationHandle'')]),
     (js ''algorithm_7'', js ''algorithm'',
       [(js ''../a00188.html#a4748020a3c4e9f29b16ba543d882738c'', True, js ''TEE_OperationInfo::algorithm()''),
        (js ''../a00196.html#a5d26142b2e77c31f629933f44e597a23'', True, js ''TEE_OperationInfoMultiple::algorithm()'')]),
     (js ''aligned_8'', js ''aligned'',
       [(js ''../a00261.html#a46fa2dbb047795a353ed2287f3b8eba8'', True, js ''aligned():&#160;crt.c''),
        (js ''../a00264.html#a46fa2dbb047795a353ed2287f3b8eba8'', True, js ''aligned():&#160;crt.c'')]),
     (js ''alloced_5fsize_9'', js ''alloced_size'',
       [(js ''../a00220.html#ae26c11738472ff9c03fa0ac5c00289c9'', True, js ''TEEC_SharedMemory'')]),
     (js ''arg_10'', js ''arg'',
       [(js ''../a00260.html#abde90c830e321b8198f04ba69e07ab50'', True, js ''out_fct_wrap_type'')]),
     (js ''attributeid_11'', js ''attributeID'',
       [(js ''../a00172.html#a4a6cd490e3ac839612e6d7915230e83c'', True, js ''TEE_Attribute'')])]"

definition spec_all_2 :: "search_entry list" where
  "spec_all_2 = [
     (js ''b_0'', js ''b'',
       [(js ''../a00148.html#ac8b2130649fda1c9b6da2250d8ee53bd'', True, js ''TEE_Param::b()''),
        (js ''../a00172.html#a2f836429d3010c82bd3c5721c3f8b7e7'', True, js ''TEE_Attribute::b()''),
        (js ''../a00232.html#ad6cef620e07a83dabbc6220020ee47b5'', True, js ''TEEC_Value::b()'')]),
     (js ''buffer_1'', js ''buffer'',
       [(js ''../a00148.html#ad4f3026630fff95706057a133acf25cb'', True, js ''TEE_Param::buffer()''),
        (js ''../a00172.html#aa7f07d775839d40c7c9aab574d2ba6ee'', True, js ''TEE_Attribute::buffer()''),
        (js ''../a00208.html#a8e012daefc967e51527f65356c7328c0'', True, js ''TEE_SEAID::buffer()''),
        (js ''../a00220.html#a7ced755c88a53bfadc0354fe1e33e0f9'', True, js ''TEEC_SharedMemory::buffer()''),
        (js ''../a00224.html#a814ab10dfaa7eca1fe81f572342ae325'', True, js ''TEEC_TempMemoryReference::buffer()'')]),
     (js ''buffer_5fallocated_2'', js ''buffer_allocated'',
       [(js ''../a00220.html#a3ba07a082c8191db60410f1178a4ba2a'', True, js ''TEEC_SharedMemory'')]),
     (js ''bufferlen_3'', js ''bufferLen'',
       [(js ''../a00208.html#a5251ab3f916984effbfe7686b26224be'', True, js ''TEE_SEAID'')])]"

definition spec_all_3 :: "search_entry list" where
  "spec_all_3 = [
     (js ''clockseqandnode_0'', js ''clockSeqAndNode'',
       [(js ''../a00216.html#af815f6d95298fe866aecb3f46029f72e'', True, js ''TEEC_UUID::clockSeqAndNode()''),
        (js ''../a00140.html#aa97da60dc4d26bde2c853b067cec3537'', True, js ''TEE_UUID::clockSeqAndNode()'')]),
     (js ''compiler_2eh_1'', js ''compiler.h'',
       [(js ''../a00077.html'', True, [])]),
     (js ''config_5fref_5fta_2eh_2'', js ''config_ref_ta.h'',
       [(js ''../a00104.html'', True, [])]),
     (js ''content_3'', js ''content'',
       [(js ''../a00172.html#a256bd9dd9b7da0532c196fbd7a669319'', True, js ''TEE_Attribute'')]),
     (js ''crt_2ec_4'', js ''crt.c'',
       [(js ''../a00264.html'', True, js ''(Global Namespace)''),
        (js ''../a00261.html'', True, js ''(Global Namespace)'')]),
     (js ''crt_2eh_5'', js ''crt.h'',
       [(js ''../a00270.html'', True, js ''(Global Namespace)''),
        (js ''../a00267.html'', True, js ''(Global Namespace)'')]),
     (js ''crt_5fbegin_6'', js ''crt_begin'',
       [(js ''../a00267.html#a2a2d1010d09d0f0280aa875f596e0741'', True, js ''crt_begin(void):&#160;crt.h''),
        (js ''../a00270.html#a2a2d1010d09d0f0280aa875f596e0741'', True, js ''crt_begin(void):&#160;crt.h'')]),
     (js ''crt_5fend_7'', js ''crt_end'',
       [(js ''../a00261.html#a4e6fb3d8b1edcc908a4603d4aa7aef03'', True, js ''crt_end(void):&#160;crt.c''),
        (js ''../a00267.html#a4e6fb3d8b1edcc908a4603d4aa7aef03'', True, js ''crt_end(void):&#160;crt.c''),
        (js ''../a00264.html#a4e6fb3d8b1edcc908a4603d4aa7aef03'', True, js ''crt_end(void):&#160;crt.c''),
        (js ''../a00270.html#a4e6fb3d8b1edcc908a4603d4aa7aef03'', True, js ''crt_end(void):&#160;crt.c'')]),
     (js ''ctx_8'', js ''ctx'',
       [(js ''../a00240.html#a2c0952177d9da1b0018e289505b94a34'', True, js ''TEEC_Session::ctx()''),
        (js ''../a00252.html#aae0709321031fe9643187ff4e83e45be'', True, js ''__TEE_OperationHandle::ctx()'')])]"

definition spec_all_4 :: "search_entry list" where
  "spec_all_4 = [
     (js ''data_0'', js ''data'',
       [(js ''../a00128.html#a54ed2bc56245d4c8137ec0dc7fdde4b5'', True, js ''enclave_report'')]),
     (js ''data_5flen_1'', js ''data_len'',
       [(js ''../a00128.html#a91bf1391adf1c705e9d1e6dbba195f32'', True, js ''enclave_report'')]),
     (js ''dataposition_2'', js ''dataPosition'',
       [(js ''../a00160.html#afaa0ef417c1fdca9f1a80f96621a20ac'', True, js ''TEE_ObjectInfo'')]),
     (js ''datasize_3'', js ''dataSize'',
       [(js ''../a00160.html#a62e86918ecc3604c78c19ec4b82db942'', True, js ''TEE_ObjectInfo'')]),
     (js ''desc_4'', js ''desc'',
       [(js ''../a00256.html#a332b861b97a0354bb79a90e4b94044fc'', True, js ''__TEE_ObjectHandle'')]),
     (js ''dev_5fpublic_5fkey_5'', js ''dev_public_key'',
       [(js ''../a00136.html#a3fb7a865631a190ad02f612fc25da4d8'', True, js ''report'')]),
     (js ''dhex_5fdump_6'', js ''dhex_dump'',
       [(js ''../a00092.html#a6ae309735ee1fed9decc4e537dcc240d'', True, js ''trace.h'')]),
     (js ''digestlength_7'', js ''digestLength'',
       [(js ''../a00188.html#a20b452df1cc34aaa0d5d000165bf5c79'', True, js ''TEE_OperationInfo::digestLength()''),
        (js ''../a00196.html#a4848f2823b0daedcb3c18872bfd43ac8'', True, js ''TEE_OperationInfoMultiple::digestLength()'')])]"

definition spec_all_5 :: "search_entry list" where
  "spec_all_5 = [
     (js ''eapp_5fentry_0'', js ''eapp_entry'',
       [(js ''../a00285.html#a004a86ca4c8797352e0e0ae7f3eeb4f0'', True, js ''startup.c'')]),
     (js ''enclave_1'', js ''enclave'',
       [(js ''../a00136.html#aa754d0cffa449e9618d0ae0554a186be'', True, js ''report'')]),
     (js ''enclave_5freport_2'', js ''enclave_report'',
       [(js ''../a00128.html'', True, [])]),
     (js ''err_3'', js ''err'',
       [(js ''../a00248.html#a35c50c64b71cf15cf96197ea8a28c3bd'', True, js ''_sgx_errlist_t'')])]"

definition spec_all_6 :: "search_entry list" where
  "spec_all_6 = [
     (js ''fct_0'', js ''fct'',
       [(js ''../a00260.html#a199f2657cebba34be43baf497cc5f3f0'', True, js ''out_fct_wrap_type'')]),
     (js ''fctprintf_1'', js ''fctprintf'',
       [(js ''../a00330.html#a16cdc6ff34afc2122ae164d4ee3a8c50'', True, js (''fctprintf(void('' @ ''*out)(char character, void *arg), void *arg, const char *format,...):&#160;vsnprintf.c'')),
        (js ''../a00333.html#a16cdc6ff34afc2122ae164d4ee3a8c50'', True, js (''fctprintf(void('' @ ''*out)(char character, void *arg), void *arg, const char *format,...):&#160;vsnprintf.c''))]),
     (js ''fd_2'', js ''fd'',
       [(js ''../a00212.html#a820f288b2e1d68de48d3fbf8964aa6a7'', True, js ''TEEC_Context'')]),
     (js ''fini_5farray_3'', js ''fini_array'',
       [(js ''../a00261.html#af2fac2d3c8acad4009c7eabbbfd9908e'', True, js ''fini_array():&#160;crt.c''),
        (js ''../a00264.html#af2fac2d3c8acad4009c7eabbbfd9908e'', True, js ''fini_array():&#160;crt.c'')]),
     (js ''flags_4'', js ''flags'',
       [(js ''../a00220.html#a952af666858535b863b162a8b9e53e0c'', True, js ''TEEC_SharedMemory::flags()''),
        (js ''../a00252.html#a1186aa17d0f7fed7f6e70e9f2c3c75d8'', True, js ''__TEE_OperationHandle::flags()''),
        (js ''../a00256.html#a9b13de9861e399b047369d9f87add9b9'', True, js ''__TEE_ObjectHandle::flags()'')]),
     (js ''flags2flags_5'', js ''flags2flags'',
       [(js ''../a00291.html#a44d268544426ce78fedfe1f53d22b028'', True, js ''flags2flags(int flags):&#160;tee-internal-api.c''),
        (js ''../a00294.html#a44d268544426ce78fedfe1f53d22b028'', True, js ''flags2flags(int flags):&#160;tee-internal-api.c'')]),
     (js ''flags_5fchar_6'', js ''FLAGS_CHAR'',
       [(js ''../a00333.html#a5584c6d116b42ffdf2c2b7b72209cb25'', True, js ''vsnprintf.c'')]),
     (js ''flags_5fhash_7'', js ''FLAGS_HASH'',
       [(js ''../a00333.html#a4e4ed2c9a700bf9cfddabb05debd4790'', True, js ''vsnprintf.c'')]),
     (js ''flags_5fleft_8'', js ''FLAGS_LEFT'',
       [(js ''../a00333.html#ac6c26878acb903cb07de2b9552fec26b'', True, js ''vsnprintf.c'')]),
     (js ''flags_5flong_9'', js ''FLAGS_LONG'',
       [(js ''../a00333.html#a15a50af941ea5ca0a9517faf2f90b524'', True, js ''vsnprintf.c'')]),
     (js ''flags_5flong_5flong_10'', js ''FLAGS_LONG_LONG'',
       [(js ''../a00333.html#a4ac2d97fe74925064a50628a469403d3'', True, js ''vsnprintf.c'')]),
     (js ''flags_5fplus_11'', js ''FLAGS_PLUS'',
       [(js ''../a00333.html#a3d8b1bd3dd657ac7856e8aa67b170fee'', True, js ''vsnprintf.c'')]),
     (js ''flags_5fprecision_12'', js ''FLAGS_PRECISION'',
       [(js ''../a00333.html#a7ffc74d008f9e494649d270668555dd1'', True, js ''vsnprintf.c'')]),
     (js ''flags_5fshort_13'', js ''FLAGS_SHORT'',
       [(js ''../a00333.html#a4e289a20e315f0a470da3f149d33c7a5'', True, js ''vsnprintf.c'')]),
     (js ''flags_5fspace_14'', js ''FLAGS_SPACE'',
       [(js ''../a00333.html#a2c249ce13d36626995f96880028b3d0a'', True, js ''vsnprintf.c'')]),
     (js ''flags_5fuppercase_15'', js ''FLAGS_UPPERCASE'',
       [(js ''../a00333.html#a738a48de177a2e385f66995685334761'', True, js ''vsnprintf.c'')]),
     (js ''flags_5fzeropad_16'', js ''FLAGS_ZEROPAD'',
       [(js ''../a00333.html#ad7b04ce70e8c9e609f02c796be254062'', True, js ''vsnprintf.c'')])]"

definition spec_all_7 :: "search_entry list" where
  "spec_all_7 = [
     (js ''get_5fwc_5frng_0'', js ''get_wc_rng'',
       [(js ''../a00291.html#aba17145211fbee9e11cbbd79a8342566'', True, js ''get_wc_rng(void):&#160;tee-internal-api.c''),
        (js ''../a00294.html#aa28943c832365ac4dc1185829a571beb'', True, js ''get_wc_rng(void):&#160;tee-internal-api.c'')]),
     (js ''getreltimeend_1'', js ''GetRelTimeEnd'',
       [(js ''../a00086.html#a12e0a5703767c19b688f1056ce87518f'', True, js ''GetRelTimeEnd(uint64_t end):&#160;tee-internal-api.c''),
        (js ''../a00291.html#a12e0a5703767c19b688f1056ce87518f'', True, js ''GetRelTimeEnd(uint64_t end):&#160;tee-internal-api.c''),
        (js ''../a00294.html#a12e0a5703767c19b688f1056ce87518f'', True, js ''GetRelTimeEnd(uint64_t end):&#160;tee-internal-api.c'')]),
     (js ''getreltimestart_2'', js ''GetRelTimeStart'',
       [(js ''../a00086.html#a365ac1202478160e1ced5899f65b15c6'', True, js ''GetRelTimeStart(uint64_t start):&#160;tee-internal-api.c''),
        (js ''../a00291.html#a365ac1202478160e1ced5899f65b15c6'', True, js ''GetRelTimeStart(uint64_t start):&#160;tee-internal-api.c''),
        (js ''../a00294.html#a365ac1202478160e1ced5899f65b15c6'', True, js ''GetRelTimeStart(uint64_t start):&#160;tee-internal-api.c'')]),
     (js ''global_5feid_3'', js ''global_eid'',
       [(js ''../a00116.html#a834fd6ca9d6a5d58fb5d5651a17c7e24'', True, js ''types.h'')]),
     (js ''gp_5fassert_4'', js ''GP_ASSERT'',
       [(js ''../a00104.html#a9424e624a5e3583781568f5bb092d2fa'', True, js ''config_ref_ta.h'')])]"

definition spec_all_8 :: "search_entry list" where
  "spec_all_8 = [
     (js ''handleflags_0'', js ''handleFlags'',
       [(js ''../a00160.html#a383259be1f2372c70d06179e323b56a9'', True, js ''TEE_ObjectInfo'')]),
     (js ''handlestate_1'', js ''handleState'',
       [(js ''../a00188.html#a1031dc53718a12ff9a3324b8f38a0990'', True, js ''TEE_OperationInfo::handleState()''),
        (js ''../a00196.html#a8e4d089d5754b8e1c5e5b9a3bb5892c6'', True, js ''TEE_OperationInfoMultiple::handleState()'')]),
     (js ''hash_2'', js ''hash'',
       [(js ''../a00128.html#a4c27dccaed93db331b221e2214259842'', True, js ''enclave_report::hash()''),
        (js ''../a00132.html#a69ec422c9a6cc8b16e9c638e185051da'', True, js ''sm_report::hash()'')])]"

definition spec_all_9 :: "search_entry list" where
  "spec_all_9 = [
     (js ''id_0'', js ''id'',
       [(js ''../a00220.html#af88e103c5cc9efdd328226163a9101c7'', True, js ''TEEC_SharedMemory'')]),
     (js ''init_5farray_1'', js ''init_array'',
       [(js ''../a00261.html#ae9907f0900630263f50fd895ed8a5919'', True, js ''init_array():&#160;crt.c''),
        (js ''../a00264.html#ae9907f0900630263f50fd895ed8a5919'', True, js ''init_array():&#160;crt.c'')])]"

definition spec_all_a :: "search_entry list" where
  "spec_all_a = [
     (js ''keyinformation_0'', js ''keyInformation'',
       [(js ''../a00196.html#ab28fa037b1b13cc686857712051828f4'', True, js ''TEE_OperationInfoMultiple'')]),
     (js ''keysize_1'', js ''keySize'',
       [(js ''../a00160.html#a5582e0846c28f661adfb13fce9341d7f'', True, js ''TEE_ObjectInfo::keySize()''),
        (js ''../a00188.html#a54a7fa7e098818aedf1c20bc275a27ab'', True, js ''TEE_OperationInfo::keySize()''),
        (js ''../a00192.html#a5e07b0861e6d7eb3bf0f500ab9f475a3'', True, js ''TEE_OperationInfoKey::keySize()'')])]"

definition spec_all_b :: "search_entry list" where
  "spec_all_b = [
     (js ''length_0'', js ''length'',
       [(js ''../a00172.html#adec3127e2ba82d0d5029f04cef7fdf8d'', True, js ''TEE_Attribute'')]),
     (js ''login_1'', js ''login'',
       [(js ''../a00144.html#a52584626d8e5a41c8fbd6fbbd9b85077'', True, js ''TEE_Identity'')])]"

definition spec_all_c :: "search_entry list" where
  "spec_all_c = [
     (js ''main_0'', js ''main'',
       [(js ''../a00267.html#a840291bc02cba5474a4cb46a9b9566fe'', True, js ''main(void):&#160;crt.h''),
        (js ''../a00270.html#a840291bc02cba5474a4cb46a9b9566fe'', True, js ''main(void):&#160;crt.h'')]),
     (js ''maxkeysize_1'', js ''maxKeySize'',
       [(js ''../a00160.html#a76d31d60fd6c6ace1c83128d7c8e1978'', True, js ''TEE_ObjectInfo::maxKeySize()''),
        (js ''../a00188.html#a3aab7d72383ddb7a2dfc8caa5da993cb'', True, js ''TEE_OperationInfo::maxKeySize()''),
        (js ''../a00196.html#a7f735dc1b77788365738af8545165950'', True, js ''TEE_OperationInfoMultiple::maxKeySize()'')]),
     (js ''maxobjectsize_2'', js ''maxObjectSize'',
       [(js ''../a00160.html#ac5691332392887315a0463512a5a37eb'', True, js ''TEE_ObjectInfo'')]),
     (js ''memref_3'', js ''memref'',
       [(js ''../a00148.html#a94753452c474e869d03a6f6b25ffaccf'', True, js ''TEE_Param::memref()''),
        (js ''../a00236.html#a341d29a495da6914bb99b0af853c4fd1'', True, js ''TEEC_Parameter::memref()'')]),
     (js ''millis_4'', js ''millis'',
       [(js ''../a00200.html#afc349d218aa40ab1f9dedc3cc57e6c69'', True, js ''TEE_Time'')]),
     (js ''mode_5'', js ''mode'',
       [(js ''../a00188.html#a0128fb74c66b52875b6a5c30a0fd0060'', True, js ''TEE_OperationInfo::mode()''),
        (js ''../a00196.html#a044bf13008704b31b78e40e8702449aa'', True, js ''TEE_OperationInfoMultiple::mode()''),
        (js ''../a00252.html#ad7f5841dcfc17fef658ad5db15ea9b89'', True, js ''__TEE_OperationHandle::mode()'')]),
     (js ''msg_6'', js ''msg'',
       [(js ''../a00248.html#ae718e729383388ca41bb7d69bf560669'', True, js ''_sgx_errlist_t'')])]"

definition spec_all_d :: "search_entry list" where
  "spec_all_d = [
     (js ''numberofkeys_0'', js ''numberOfKeys'',
       [(js ''../a00196.html#a9553d75bc6c65637e177252705509fa4'', True, js ''TEE_OperationInfoMultiple'')])]"

definition spec_all_e :: "search_entry list" where
  "spec_all_e = [
     (js ''objectsize_0'', js ''objectSize'',
       [(js ''../a00160.html#ae1030668d95126537c787c6041116141'', True, js ''TEE_ObjectInfo'')]),
     (js ''objecttype_1'', js ''objectType'',
       [(js ''../a00160.html#abdc9a52757555fcde7fd65d0a666dd86'', True, js ''TEE_ObjectInfo'')]),
     (js ''objectusage_2'', js ''objectUsage'',
       [(js ''../a00160.html#acf38e3c3b3b94d174b5cc4bcc4c05e73'', True, js ''TEE_ObjectInfo'')]),
     (js ''ocall_5fprint_5fstring_5fwrapper_3'', js ''ocall_print_string_wrapper'',
       [(js ''../a00282.html#a91eb2c1ee7fb81800ddd298ad93e4047'', True, js ''ocall_print_string_wrapper(const char *str):&#160;ocall_wrapper.c''),
        (js ''../a00273.html#a91eb2c1ee7fb81800ddd298ad93e4047'', True, js ''ocall_print_string_wrapper(const char *str):&#160;ocall_wrapper.c''),
        (js ''../a00279.html#a91eb2c1ee7fb81800ddd298ad93e4047'', True, js ''ocall_print_string_wrapper(const char *str):&#160;ocall_wrapper.c''),
        (js ''../a00276.html#a91eb2c1ee7fb81800ddd298ad93e4047'', True, js ''ocall_print_string_wrapper(const char *str):&#160;ocall_wrapper.c'')]),
     (js ''ocall_5fwrapper_2ec_4'', js ''ocall_wrapper.c'',
       [(js ''../a00273.html'', True, js ''(Global Namespace)''),
        (js ''../a00276.html'', True, js ''(Global Namespace)'')]),
     (js ''ocall_5fwrapper_2eh_5'', js ''ocall_wrapper.h'',
       [(js ''../a00279.html'', True, js ''(Global Namespace)''),
        (js ''../a00282.html'', True, js ''(Global Namespace)'')]),
     (js ''offset_6'', js ''offset'',
       [(js ''../a00228.html#a8951871c92918826408dfedc4156ee20'', True, js ''TEEC_RegisteredMemoryReference'')]),
     (js ''openpersistentobject_7'', js ''OpenPersistentObject'',
       [(js ''../a00294.html#a18b21d13c6e44a0c13509efed221f6ff'', True, js ''OpenPersistentObject(uint32_t storageID, const void *objectID, uint32_t objectIDLen, uint32_t flags, TEE_ObjectHandle *object, int ocreat):&#160;tee-internal-api.c''),
        (js ''../a00291.html#a18b21d13c6e44a0c13509efed221f6ff'', True, js ''OpenPersistentObject(uint32_t storageID, const void *objectID, uint32_t objectIDLen, uint32_t flags, TEE_ObjectHandle *object, int ocreat):&#160;tee-internal-api.c'')]),
     (js ''operationclass_8'', js ''operationClass'',
       [(js ''../a00196.html#ab8ac51e5bec956b245793718e960e56d'', True, js ''TEE_OperationInfoMultiple::operationClass()''),
        (js ''../a00188.html#a08a70cd70b8b188a7bf8e2830eab337d'', True, js ''TEE_OperationInfo::operationClass()'')]),
     (js ''operationstate_9'', js ''operationState'',
       [(js ''../a00196.html#ab01c9bff21c6a0be3a0534391f49e95d'', True, js ''TEE_OperationInfoMultiple'')]),
     (js ''out_5ffct_5ftype_10'', js ''out_fct_type'',
       [(js ''../a00330.html#ac4a1ad6d5e0eae2f65ab59703847359a'', True, js ''out_fct_type():&#160;vsnprintf.c''),
        (js ''../a00333.html#ac4a1ad6d5e0eae2f65ab59703847359a'', True, js ''out_fct_type():&#160;vsnprintf.c'')]),
     (js ''out_5ffct_5fwrap_5ftype_11'', js ''out_fct_wrap_type'',
       [(js ''../a00260.html'', True, [])])]"

definition spec_all_f :: "search_entry list" where
  "spec_all_f = [
     (js ''params_0'', js ''params'',
       [(js ''../a00244.html#a93f9e0ac48cbc3f9147e68bef96763c6'', True, js ''TEEC_Operation'')]),
     (js ''paramtypes_1'', js ''paramTypes'',
       [(js ''../a00244.html#afd2f1c406a61de0f0595824295bcb050'', True, js ''TEEC_Operation'')]),
     (js ''parent_2'', js ''parent'',
       [(js ''../a00228.html#a5246c33b96861a607d173c5b9a6cf5f8'', True, js ''TEEC_RegisteredMemoryReference'')]),
     (js ''persist_5fctx_3'', js ''persist_ctx'',
       [(js ''../a00256.html#aa63c199c890e5544362a74c0a1a54f18'', True, js ''__TEE_ObjectHandle'')]),
     (js ''persist_5fiv_4'', js ''persist_iv'',
       [(js ''../a00256.html#ac2eaf70b7b3cbecf1f6822d0abea10cf'', True, js ''__TEE_ObjectHandle'')]),
     (js ''prikey_5'', js ''prikey'',
       [(js ''../a00252.html#a47d698601ceb067d2685808c71c400bd'', True, js ''__TEE_OperationHandle'')]),
     (js ''printf_6'', js ''printf'',
       [(js ''../a00315.html#a55f3d956bb2ba20b5059e9e25484a47f'', True, js ''printf(const char *fmt,...):&#160;tools.c''),
        (js ''../a00309.html#a55f3d956bb2ba20b5059e9e25484a47f'', True, js ''printf(const char *fmt,...):&#160;tools.c''),
        (js ''../a00312.html#a55f3d956bb2ba20b5059e9e25484a47f'', True, js ''printf(const char *fmt,...):&#160;tools.c''),
        (js ''../a00306.html#a55f3d956bb2ba20b5059e9e25484a47f'', True, js ''printf(const char *fmt,...):&#160;tools.c'')]),
     (js ''printf_5fftoa_5fbuffer_5fsize_7'', js ''PRINTF_FTOA_BUFFER_SIZE'',
       [(js ''../a00333.html#af7aeb1c970d5c2bf5fada4eaca516a25'', True, js ''vsnprintf.c'')]),
     (js ''printf_5fntoa_5fbuffer_5fsize_8'', js ''PRINTF_NTOA_BUFFER_SIZE'',
       [(js ''../a00333.html#a4278b980717163a8ef983ce3fbf0b9db'', True, js ''vsnprintf.c'')]),
     (js ''printf_5fsupport_5ffloat_9'', js ''PRINTF_SUPPORT_FLOAT'',
       [(js ''../a00333.html#ac65831bb84fde6008edd159836e82eed'', True, js ''vsnprintf.c'')]),
     (js ''printf_5fsupport_5flong_5flong_10'', js ''PRINTF_SUPPORT_LONG_LONG'',
       [(js ''../a00333.html#a34aa02fd74c9f366b87312cf708dc9e1'', True, js ''vsnprintf.c'')]),
     (js ''printf_5fsupport_5fptrdiff_5ft_11'', js ''PRINTF_SUPPORT_PTRDIFF_T'',
       [(js ''../a00333.html#af341191ed47c98ec35beaa7bb8db8e75'', True, js ''vsnprintf.c'')]),
     (js ''private_5fkey_12'', js ''private_key'',
       [(js ''../a00256.html#aed783a84af756c09298ba1c1db758d24'', True, js ''__TEE_ObjectHandle'')]),
     (js ''pubkey_13'', js ''pubkey'',
       [(js ''../a00252.html#a791a8c89cbaa2a356e5fba1bb55aa67e'', True, js ''__TEE_OperationHandle'')]),
     (js ''public_5fkey_14'', js ''public_key'',
       [(js ''../a00132.html#a0a214b0c7dd1e4d5ce2e9526110c4fa3'', True, js ''sm_report::public_key()''),
        (js ''../a00256.html#afda394bd9ce7437f0d977849f174355e'', True, js ''__TEE_ObjectHandle::public_key()'')]),
     (js ''putchar_15'', js ''putchar'',
       [(js ''../a00306.html#af4de2514b7778805db3815e8dd6cf09a'', True, js ''putchar(int c):&#160;tools.c''),
        (js ''../a00333.html#af27dcab85ade0935109c58206df1eab9'', True, js ''putchar(char ch):&#160;vsnprintf.c''),
        (js ''../a00315.html#af4de2514b7778805db3815e8dd6cf09a'', True, js ''putchar(int c):&#160;tools.c''),
        (js ''../a00309.html#af4de2514b7778805db3815e8dd6cf09a'', True, js ''putchar(int c):&#160;tools.c''),
        (js ''../a00312.html#af4de2514b7778805db3815e8dd6cf09a'', True, js ''putchar(int c):&#160;tools.c'')]),
     (js ''puts_16'', js ''puts'',
       [(js ''../a00306.html#ad41876f99f190c7488e64ef39c50a23f'', True, js ''puts(const char *s):&#160;tools.c''),
        (js ''../a00312.html#ad41876f99f190c7488e64ef39c50a23f'', True, js ''puts(const char *s):&#160;tools.c''),
        (js ''../a00309.html#ad41876f99f190c7488e64ef39c50a23f'', True, js ''puts(const char *s):&#160;tools.c''),
        (js ''../a00315.html#ad41876f99f190c7488e64ef39c50a23f'', True, js ''puts(const char *s):&#160;tools.c'')])]"

definition spec_all_10 :: "search_entry list" where
  "spec_all_10 = [
     (js ''random_2eh_0'', js ''random.h'',
       [(js ''../a00029.html'', True, [])]),
     (js ''ref_1'', js ''ref'',
       [(js ''../a00172.html#aabd8bec634dd8a59a75446b51ac08d5c'', True, js ''TEE_Attribute'')]),
     (js ''reg_5fmem_2'', js ''reg_mem'',
       [(js ''../a00212.html#af6f29b1bab1ae17c00e8a0cd458390ab'', True, js ''TEEC_Context'')]),
     (js ''registered_5ffd_3'', js ''registered_fd'',
       [(js ''../a00220.html#a1ce57af1619f1ab9e9aa0cdc448f89f3'', True, js ''TEEC_SharedMemory'')]),
     (js ''report_4'', js ''report'',
       [(js ''../a00136.html'', True, [])]),
     (js ''report_2eh_5'', js ''report.h'',
       [(js ''../a00074.html'', True, [])]),
     (js ''requiredkeyusage_6'', js ''requiredKeyUsage'',
       [(js ''../a00188.html#a17a8ad6cb73ff8499e12a87e1eb93f0b'', True, js ''TEE_OperationInfo::requiredKeyUsage()''),
        (js ''../a00192.html#aa4b1b8382412db08f57e3438c711996f'', True, js ''TEE_OperationInfoKey::requiredKeyUsage()'')]),
     (js ''rngstr_7'', js ''rngstr'',
       [(js ''../a00291.html#a2b3c04c8aee4000b3fc582d3d6e73254'', True, js ''rngstr():&#160;tee-internal-api.c''),
        (js ''../a00294.html#a2b3c04c8aee4000b3fc582d3d6e73254'', True, js ''rngstr():&#160;tee-internal-api.c'')])]"

definition spec_all_11 :: "search_entry list" where
  "spec_all_11 = [
     (js ''seconds_0'', js ''seconds'',
       [(js ''../a00200.html#a39483b274f96430336fec8ff492bf194'', True, js ''TEE_Time'')]),
     (js ''selectresponseenable_1'', js ''selectResponseEnable'',
       [(js ''../a00204.html#a0e1336135b6afb1094afe02e2189f84f'', True, js ''TEE_SEReaderProperties'')]),
     (js ''sepresent_2'', js ''sePresent'',
       [(js ''../a00204.html#af59dfdfc357eca2c9923765225c9bb29'', True, js ''TEE_SEReaderProperties'')]),
     (js ''session_3'', js ''session'',
       [(js ''../a00244.html#a0130fb0963c09a80ce48a909b385aba5'', True, js ''TEEC_Operation'')]),
     (js ''session_5fid_4'', js ''session_id'',
       [(js ''../a00240.html#aa77da4c2abd0430f203daadd1ff7dee8'', True, js ''TEEC_Session'')]),
     (js ''set_5fobject_5fkey_5'', js ''set_object_key'',
       [(js ''../a00294.html#a0137626183f8415fdd7a882877ebf3fb'', True, js ''set_object_key(const void *id, unsigned int idlen, TEE_ObjectHandle object):&#160;tee-internal-api.c''),
        (js ''../a00291.html#a54b8a057aeabc35229a18d654ddd768d'', True, js ''set_object_key(void *id, unsigned int idlen, TEE_ObjectHandle object):&#160;tee-internal-api.c'')]),
     (js ''sgx_5ferrlist_6'', js ''sgx_errlist'',
       [(js ''../a00116.html#a0439b587ccbbf840ae554d112543c38b'', True, js ''types.h'')]),
     (js ''sgx_5ferrlist_5ft_7'', js ''sgx_errlist_t'',
       [(js ''../a00116.html#a61e189da16d0f6e25a99b95578e47bd2'', True, js ''types.h'')]),
     (js ''shadow_5fbuffer_8'', js ''shadow_buffer'',
       [(js ''../a00220.html#ab0ad90885135c692b3162cbf6f223cd0'', True, js ''TEEC_SharedMemory'')]),
     (js ''signature_9'', js ''signature'',
       [(js ''../a00128.html#ab2cd270427e8e6d1bb2c290f1116ed0b'', True, js ''enclave_report::signature()''),
        (js ''../a00132.html#a4f51fc6e09ab0c53a83123a4da56e959'', True, js ''sm_report::signature()'')]),
     (js ''size_10'', js ''size'',
       [(js ''../a00148.html#a94151deeec4d910ac70b95c875e82b65'', True, js ''TEE_Param::size()''),
        (js ''../a00228.html#a2d86e5093bb7930fcc70730ad73ab103'', True, js ''TEEC_RegisteredMemoryReference::size()''),
        (js ''../a00224.html#ae6076f1360d7b8bbdf79e7b22f45fc29'', True, js ''TEEC_TempMemoryReference::size()''),
        (js ''../a00220.html#ade465778b424b13ee99e044c2a221af8'', True, js ''TEEC_SharedMemory::size()'')]),
     (js ''sm_11'', js ''sm'',
       [(js ''../a00136.html#adc3027d84a05d24ff1753c0e9426e823'', True, js ''report'')]),
     (js ''sm_5freport_12'', js ''sm_report'',
       [(js ''../a00132.html'', True, [])]),
     (js ''snprintf_13'', js ''snprintf'',
       [(js ''../a00333.html#a212e2f1c2162f8a24b156191be16b6cd'', True, js ''snprintf(char *buffer, size_t count, const char *format,...):&#160;vsnprintf.c''),
        (js ''../a00330.html#a212e2f1c2162f8a24b156191be16b6cd'', True, js ''snprintf(char *buffer, size_t count, const char *format,...):&#160;vsnprintf.c'')]),
     (js ''sprintf_14'', js ''sprintf'',
       [(js ''../a00333.html#a07bb8b97d4180b8f8b67de90890bafdf'', True, js ''sprintf(char *buffer, const char *format,...):&#160;vsnprintf.c''),
        (js ''../a00330.html#a07bb8b97d4180b8f8b67de90890bafdf'', True, js ''sprintf(char *buffer, const char *format,...):&#160;vsnprintf.c'')]),
     (js ''started_15'', js ''started'',
       [(js ''../a00244.html#a7eae7fcad883d4d78c9daef00fe08e6c'', True, js ''TEEC_Operation'')]),
     (js ''startup_2ec_16'', js ''startup.c'',
       [(js ''../a00288.html'', True, js ''(Global Namespace)''),
        (js ''../a00285.html'', True, js ''(Global Namespace)'')]),
     (js ''sug_17'', js ''sug'',
       [(js ''../a00248.html#a93545de6afcf5b4531df73696b3e96ce'', True, js ''_sgx_errlist_t'')])]"

definition spec_all_12a :: "search_entry list" where
  "spec_all_12a = [
     (js ''ta_5fclosesessionentrypoint_0'', js ''TA_CloseSessionEntryPoint'',
       [(js ''../a00113.html#a7e2a0d6b80182c6589b4a53f0530b549'', True, js ''tee_ta_api.h'')]),
     (js ''ta_5fcreateentrypoint_1'', js ''TA_CreateEntryPoint'',
       [(js ''../a00113.html#a9489e4c117de7d55518be7f9983df478'', True, js ''tee_ta_api.h'')]),
     (js ''ta_5fdestroyentrypoint_2'', js ''TA_DestroyEntryPoint'',
       [(js ''../a00113.html#aa5862d7225f9472804aae4d55e87a6ab'', True, js ''tee_ta_api.h'')]),
     (js ''ta_5finvokecommandentrypoint_3'', js ''TA_InvokeCommandEntryPoint'',
       [(js ''../a00113.html#acc562b6733782c0965a37f697ebb20fc'', True, js ''TA_InvokeCommandEntryPoint(void *sessionContext, uint32_t commandID, uint32_t paramTypes, TEE_Param params[TEE_NUM_PARAMS]):&#160;tee_ta_api.h''),
        (js ''../a00285.html#ac4a79cc8f6845c2de668bd5bd68fd553'', True, js ''TA_InvokeCommandEntryPoint(void *sess_ctx, uint32_t cmd_id, uint32_t param_types, TEE_Param params[4]):&#160;startup.c'')]),
     (js ''ta_5fopensessionentrypoint_4'', js ''TA_OpenSessionEntryPoint'',
       [(js ''../a00113.html#a69014edd979110e3907a47bbf251489b'', True, js ''tee_ta_api.h'')]),
     (js ''tee_2dcommon_2eh_5'', js ''tee-common.h'',
       [(js ''../a00095.html'', True, [])]),
     (js ''tee_2dinternal_2dapi_2dcryptlib_2ec_6'', js ''tee-internal-api-cryptlib.c'',
       [(js ''../a00071.html'', True, [])]),
     (js ''tee_2dinternal_2dapi_2dmachine_2ec_7'', js ''tee-internal-api-machine.c'',
       [(js ''../a00056.html'', True, [])]),
     (js ''tee_2dinternal_2dapi_2ec_8'', js ''tee-internal-api.c'',
       [(js ''../a00294.html'', True, js ''(Global Namespace)''),
        (js ''../a00291.html'', True, js ''(Global Namespace)'')]),
     (js ''tee_2dta_2dinternal_2eh_9'', js ''tee-ta-internal.h'',
       [(js ''../a00086.html'', True, [])]),
     (js ''tee_5faedecryptfinal_10'', js ''TEE_AEDecryptFinal'',
       [(js ''../a00071.html#a3249061a4b04d968af1fe24ebdcafa94'', True, js ''TEE_AEDecryptFinal(TEE_OperationHandle operation, const void *srcData, uint32_t srcLen, void *destData, uint32_t *destLen, void *tag, uint32_t tagLen):&#160;tee-internal-api-cryptlib.c''),
        (js ''../a00086.html#a3249061a4b04d968af1fe24ebdcafa94'', True, js ''TEE_AEDecryptFinal(TEE_OperationHandle operation, const void *srcData, uint32_t srcLen, void *destData, uint32_t *destLen, void *tag, uint32_t tagLen):&#160;tee-internal-api-cryptlib.c''),
        (js ''../a00083.html#a3249061a4b04d968af1fe24ebdcafa94'', True, js ''TEE_AEDecryptFinal(TEE_OperationHandle operation, const void *srcData, uint32_t srcLen, void *destData, uint32_t *destLen, void *tag, uint32_t tagLen):&#160;tee-internal-api-cryptlib.c'')]),
     (js ''tee_5faeencryptfinal_11'', js ''TEE_AEEncryptFinal'',
       [(js ''../a00086.html#ae9b3bb3c35419a914b4c6bc5cda781ab'', True, js ''TEE_AEEncryptFinal(TEE_OperationHandle operation, const void *srcData, uint32_t srcLen, void *destData, uint32_t *destLen, void *tag, uint32_t *tagLen):&#160;tee-internal-api-cryptlib.c''),
        (js ''../a00083.html#ae9b3bb3c35419a914b4c6bc5cda781ab'', True, js ''TEE_AEEncryptFinal(TEE_OperationHandle operation, const void *srcData, uint32_t srcLen, void *destData, uint32_t *destLen, void *tag, uint32_t *tagLen):&#160;tee-internal-api-cryptlib.c''),
        (js ''../a00071.html#ae9b3bb3c35419a914b4c6bc5cda781ab'', True, js ''TEE_AEEncryptFinal(TEE_OperationHandle operation, const void *srcData, uint32_t srcLen, void *destData, uint32_t *destLen, void *tag, uint32_t *tagLen):&#160;tee-internal-api-cryptlib.c'')]),
     (js ''tee_5faeinit_12'', js ''TEE_AEInit'',
       [(js ''../a00086.html#ad4c7d46eaa62f8f8d206a1c075c94882'', True, js ''TEE_AEInit(TEE_OperationHandle operation, const void *nonce, uint32_t nonceLen, uint32_t tagLen, uint32_t AADLen, uint32_t payloadLen):&#160;tee-internal-api-cryptlib.c''),
        (js ''../a00083.html#ad4c7d46eaa62f8f8d206a1c075c94882'', True, js ''TEE_AEInit(TEE_OperationHandle operation, const void *nonce, uint32_t nonceLen, uint32_t tagLen, uint32_t AADLen, uint32_t payloadLen):&#160;tee-internal-api-cryptlib.c''),
        (js ''../a00071.html#ad4c7d46eaa62f8f8d206a1c075c94882'', True, js ''TEE_AEInit(TEE_OperationHandle operation, const void *nonce, uint32_t nonceLen, uint32_t tagLen, uint32_t AADLen, uint32_t payloadLen):&#160;tee-internal-api-cryptlib.c'')]),
     (js ''tee_5faeupdate_13'', js ''TEE_AEUpdate'',
       [(js ''../a00083.html#afa7320f99bc9f7d2f9a0af79450e7a9b'', True, js ''TEE_AEUpdate(TEE_OperationHandle operation, const void *srcData, uint32_t srcLen, void *destData, uint32_t *destLen):&#160;tee-internal-api-cryptlib.c''),
        (js ''../a00086.html#afa7320f99bc9f7d2f9a0af79450e7a9b'', True, js ''TEE_AEUpdate(TEE_OperationHandle operation, const void *srcData, uint32_t srcLen, void *destData, uint32_t *destLen):&#160;tee-internal-api-cryptlib.c''),
        (js ''../a00071.html#afa7320f99bc9f7d2f9a0af79450e7a9b'', True, js ''TEE_AEUpdate(TEE_OperationHandle operation, const void *srcData, uint32_t srcLen, void *destData, uint32_t *destLen):&#160;tee-internal-api-cryptlib.c'')]),
     (js ''tee_5faeupdateaad_14'', js ''TEE_AEUpdateAAD'',
       [(js ''../a00071.html#a7898745b154d57c77fbb3413eecabed3'', True, js ''TEE_AEUpdateAAD(TEE_OperationHandle operation, const void *AADdata, uint32_t AADdataLen):&#160;tee-internal-api-cryptlib.c''),
        (js ''../a00083.html#a7898745b154d57c77fbb3413eecabed3'', True, js ''TEE_AEUpdateAAD(TEE_OperationHandle operation, const void *AADdata, uint32_t AADdataLen):&#160;tee-internal-api-cryptlib.c''),
        (js ''../a00086.html#a7898745b154d57c77fbb3413eecabed3'', True, js ''TEE_AEUpdateAAD(TEE_OperationHandle operation, const void *AADdata, uint32_t AADdataLen):&#160;tee-internal-api-cryptlib.c'')]),
     (js ''tee_5fallocateoperation_15'', js ''TEE_AllocateOperation'',
       [(js ''../a00071.html#a92d483e9bef62ca0755c188f12d95746'', True, js ''TEE_AllocateOperation(TEE_OperationHandle *operation, uint32_t algorithm, uint32_t mode, uint32_t maxKeySize):&#160;tee-internal-api-cryptlib.c''),
        (js ''../a00083.html#a92d483e9bef62ca0755c188f12d95746'', True, js ''TEE_AllocateOperation(TEE_OperationHandle *operation, uint32_t algorithm, uint32_t mode, uint32_t maxKeySize):&#160;tee-internal-api-cryptlib.c''),
        (js ''../a00086.html#a92d483e9bef62ca0755c188f12d95746'', True, js ''TEE_AllocateOperation(TEE_OperationHandle *operation, uint32_t algorithm, uint32_t mode, uint32_t maxKeySize):&#160;tee-internal-api-cryptlib.c'')]),
     (js ''tee_5fallocatepersistentobjectenumerator_16'', js ''TEE_AllocatePersistentObjectEnumerator'',
       [(js ''../a00083.html#ac2e60d4f84c265ab3c275b562a20c2dc'', True, js ''tee_api.h'')]),
     (js ''tee_5fallocatepropertyenumerator_17'', js ''TEE_AllocatePropertyEnumerator'',
       [(js ''../a00083.html#ae3599ef72278f8e54e237bbb2f4d3c78'', True, js ''tee_api.h'')]),
     (js ''tee_5fallocatetransientobject_18'', js ''TEE_AllocateTransientObject'',
       [(js ''../a00086.html#a87e501d7abee6d50b5c2c68fde57a1b2'', True, js ''TEE_AllocateTransientObject(TEE_ObjectType objectType, uint32_t maxKeySize, TEE_ObjectHandle *object):&#160;tee-internal-api-cryptlib.c''),
        (js ''../a00083.html#a87e501d7abee6d50b5c2c68fde57a1b2'', True, js ''TEE_AllocateTransientObject(TEE_ObjectType objectType, uint32_t maxKeySize, TEE_ObjectHandle *object):&#160;tee-internal-api-cryptlib.c''),
        (js ''../a00071.html#a87e501d7abee6d50b5c2c68fde57a1b2'', True, js ''TEE_AllocateTransientObject(TEE_ObjectType objectType, uint32_t maxKeySize, TEE_ObjectHandle *object):&#160;tee-internal-api-cryptlib.c'')]),
     (js ''tee_5fapi_2eh_19'', js ''tee_api.h'',
       [(js ''../a00083.html'', True, [])]),
     (js ''tee_5fapi_5fdefines_2eh_20'', js ''tee_api_defines.h'',
       [(js ''../a00098.html'', True, [])]),
     (js ''tee_5fapi_5fdefines_5fextensions_2eh_21'', js ''tee_api_defines_extensions.h'',
       [(js ''../a00119.html'', True, [])]),
     (js ''tee_5fapi_5ftee_5ftypes_2eh_22'', js ''tee_api_tee_types.h'',
       [(js ''../a00297.html'', True, js ''(Global Namespace)''),
        (js ''../a00300.html'', True, js ''(Global Namespace)''),
        (js ''../a00303.html'', True, js ''(Global Namespace)'')]),
     (js ''tee_5fapi_5ftypes_2eh_23'', js ''tee_api_types.h'',
       [(js ''../a00080.html'', True, [])]),
     (js ''tee_5fasymmetricdecrypt_24'', js ''TEE_AsymmetricDecrypt'',
       [(js ''../a00083.html#ac1377b23820680cb9b5017a08ee72b80'', True, js ''tee_api.h'')]),
     (js ''tee_5fasymmetricencrypt_25'', js ''TEE_AsymmetricEncrypt'',
       [(js ''../a00083.html#a5709bc399bf8daf153001544897469ce'', True, js ''tee_api.h'')]),
     (js ''tee_5fasymmetricsigndigest_26'', js ''TEE_AsymmetricSignDigest'',
       [(js ''../a00086.html#a5accdbcb639e2cd1a55f21fe5544a686'', True, js ''TEE_AsymmetricSignDigest(TEE_OperationHandle operation, const TEE_Attribute *params, uint32_t paramCount, const void *digest, uint32_t digestLen, void *signature, uint32_t *signatureLen):&#160;tee-internal-api-cryptlib.c''),
        (js ''../a00083.html#a5accdbcb639e2cd1a55f21fe5544a686'', True, js ''TEE_AsymmetricSignDigest(TEE_OperationHandle operation, const TEE_Attribute *params, uint32_t paramCount, const void *digest, uint32_t digestLen, void *signature, uint32_t *signatureLen):&#160;tee-internal-api-cryptlib.c''),
        (js ''../a00071.html#a5accdbcb639e2cd1a55f21fe5544a686'', True, js ''TEE_AsymmetricSignDigest(TEE_OperationHandle operation, const TEE_Attribute *params, uint32_t paramCount, const void *digest, uint32_t digestLen, void *signature, uint32_t *signatureLen):&#160;tee-internal-api-cryptlib.c'')]),
     (js ''tee_5fasymmetricverifydigest_27'', js ''TEE_AsymmetricVerifyDigest'',
       [(js ''../a00086.html#aadd6434bca67535e4832209e5a449ffa'', True, js ''TEE_AsymmetricVerifyDigest(TEE_OperationHandle operation, const TEE_Attribute *params, uint32_t paramCount, const void *digest, uint32_t digestLen, const void *signature, uint32_t signatureLen):&#160;tee-internal-api-cryptlib.c''),
        (js ''../a00083.html#aadd6434bca67535e4832209e5a449ffa'', True, js ''TEE_AsymmetricVerifyDigest(TEE_OperationHandle operation, const TEE_Attribute *params, uint32_t paramCount, const void *digest, uint32_t digestLen, const void *signature, uint32_t signatureLen):&#160;tee-internal-api-cryptlib.c''),
        (js ''../a00071.html#aadd6434bca67535e4832209e5a449ffa'', True, js ''TEE_AsymmetricVerifyDigest(TEE_OperationHandle operation, const TEE_Attribute *params, uint32_t paramCount, const void *digest, uint32_t digestLen, const void *signature, uint32_t signatureLen):&#160;tee-internal-api-cryptlib.c'')]),
     (js ''tee_5fattribute_28'', js ''TEE_Attribute'',
       [(js ''../a00172.html'', True, [])]),
     (js ''tee_5fbigint_29'', js ''TEE_BigInt'',
       [(js ''../a00080.html#a310c41a3ea70bacf3fc0fb67ca94405e'', True, js ''tee_api_types.h'')]),
     (js ''tee_5fbigintadd_30'', js ''TEE_BigIntAdd'',
       [(js ''../a00083.html#aa982dd6c482aa1cdec532a13fe1ceda5'', True, js ''tee_api.h'')]),
     (js ''tee_5fbigintaddmod_31'', js ''TEE_BigIntAddMod'',
       [(js ''../a00083.html#af972189100f5cdd3de5e0f0a419fca98'', True, js ''tee_api.h'')]),
     (js ''tee_5fbigintcmp_32'', js ''TEE_BigIntCmp'',
       [(js ''../a00083.html#a6b6b071e283439bea92d55b1d082ee70'', True, js ''tee_api.h'')]),
     (js ''tee_5fbigintcmps32_33'', js ''TEE_BigIntCmpS32'',
       [(js ''../a00083.html#ab08e067dcd07c475a6f13110a5997503'', True, js ''tee_api.h'')]),
     (js ''tee_5fbigintcomputeextendedgcd_34'', js ''TEE_BigIntComputeExtendedGcd'',
       [(js ''../a00083.html#a4b9cdec35240a19d6f784f0159cea109'', True, js ''tee_api.h'')]),
     (js ''tee_5fbigintcomputefmm_35'', js ''TEE_BigIntComputeFMM'',
       [(js ''../a00083.html#ab2c8616f8e4a126ce8c91ae7c64b69a2'', True, js ''tee_api.h'')]),
     (js ''tee_5fbigintconvertfromfmm_36'', js ''TEE_BigIntConvertFromFMM'',
       [(js ''../a00083.html#adf60218e9693cae6d3576c0f2f940473'', True, js ''tee_api.h'')]),
     (js ''tee_5fbigintconvertfromoctetstring_37'', js ''TEE_BigIntConvertFromOctetString'',
       [(js ''../a00083.html#a6812750a279fe080b2b46f685156aabe'', True, js ''tee_api.h'')]),
     (js ''tee_5fbigintconvertfroms32_38'', js ''TEE_BigIntConvertFromS32'',
       [(js ''../a00083.html#a714fe46ada09b8de202ef8107de91f1c'', True, js ''tee_api.h'')]),
     (js ''tee_5fbigintconverttofmm_39'', js ''TEE_BigIntConvertToFMM'',
       [(js ''../a00083.html#a758eb10a8544eafce2675416ead1d1ea'', True, js ''tee_api.h'')]),
     (js ''tee_5fbigintconverttooctetstring_40'', js ''TEE_BigIntConvertToOctetString'',
       [(js ''../a00083.html#a3414eec972e33b501c9fbee1e976f78c'', True, js ''tee_api.h'')]),
     (js ''tee_5fbigintconverttos32_41'', js ''TEE_BigIntConvertToS32'',
       [(js ''../a00083.html#a21c7a5c802b4176599556bf502e80183'', True, js ''tee_api.h'')]),
     (js ''tee_5fbigintdiv_42'', js ''TEE_BigIntDiv'',
       [(js ''../a00083.html#adf77c5c0d620b8c8c5d29e5d5768ebd3'', True, js ''tee_api.h'')]),
     (js ''tee_5fbigintfmm_43'', js ''TEE_BigIntFMM'',
       [(js ''../a00080.html#a40cf2de4383adf822f198c07ab8d5f3a'', True, js ''tee_api_types.h'')]),
     (js ''tee_5fbigintfmmcontextsizeinu32_44'', js ''TEE_BigIntFMMContextSizeInU32'',
       [(js ''../a00083.html#a589e1930eccaae908db12412864fa728'', True, js ''tee_api.h'')]),
     (js ''tee_5fbigintfmmconverttobigint_45'', js ''TEE_BigIntFMMConvertToBigInt'',
       [(js ''../a00083.html#a5abc943bbe72008f816f7e78f3af9845'', True, js ''tee_api.h'')]),
     (js ''tee_5fbigintfmmsizeinu32_46'', js ''TEE_BigIntFMMSizeInU32'',
       [(js ''../a00083.html#ad299348685d99cb01cd82f87e788f71b'', True, js ''tee_api.h'')]),
     (js ''tee_5fbigintgetbit_47'', js ''TEE_BigIntGetBit'',
       [(js ''../a00083.html#a9b1f756b684839a6f06126ea0872d35a'', True, js ''tee_api.h'')]),
     (js ''tee_5fbigintgetbitcount_48'', js ''TEE_BigIntGetBitCount'',
       [(js ''../a00083.html#a1d4ba0211029b43fa330069cd9181e05'', True, js ''tee_api.h'')]),
     (js ''tee_5fbigintinit_49'', js ''TEE_BigIntInit'',
       [(js ''../a00083.html#ac254872f1baa5d86f335da7c43dcbef0'', True, js ''tee_api.h'')]),
     (js ''tee_5fbigintinitfmm_50'', js ''TEE_BigIntInitFMM'',
       [(js ''../a00083.html#aefe870eef19172c6e25f3507c3a93875'', True, js ''tee_api.h'')]),
     (js ''tee_5fbigintinitfmmcontext_51'', js ''TEE_BigIntInitFMMContext'',
       [(js ''../a00083.html#a181c0351e8794c86166e79e3a311da4a'', True, js ''tee_api.h'')]),
     (js ''tee_5fbigintinvmod_52'', js ''TEE_BigIntInvMod'',
       [(js ''../a00083.html#a21e0fb1f73395811783259cea4924ac3'', True, js ''tee_api.h'')]),
     (js ''tee_5fbigintisprobableprime_53'', js ''TEE_BigIntIsProbablePrime'',
       [(js ''../a00083.html#a434ef50d7567a0112dd0b5471fabc5d2'', True, js ''tee_api.h'')]),
     (js ''tee_5fbigintmod_54'', js ''TEE_BigIntMod'',
       [(js ''../a00083.html#ad0eff5697536a558a84e732c59634597'', True, js ''tee_api.h'')]),
     (js ''tee_5fbigintmul_55'', js ''TEE_BigIntMul'',
       [(js ''../a00083.html#a0bf013e7bf7332d8c48dda266323800e'', True, js ''tee_api.h'')]),
     (js ''tee_5fbigintmulmod_56'', js ''TEE_BigIntMulMod'',
       [(js ''../a00083.html#a15e21ada58f629957e7d217a239db2c0'', True, js ''tee_api.h'')]),
     (js ''tee_5fbigintneg_57'', js ''TEE_BigIntNeg'',
       [(js ''../a00083.html#a23ddd8d63265670f1d2d3308053cdfc1'', True, js ''tee_api.h'')]),
     (js ''tee_5fbigintrelativeprime_58'', js ''TEE_BigIntRelativePrime'',
       [(js ''../a00083.html#a1c206c72da5222ee6453ab0d95f7dc19'', True, js ''tee_api.h'')]),
     (js ''tee_5fbigintshiftright_59'', js ''TEE_BigIntShiftRight'',
       [(js ''../a00083.html#ae810ba39222d8913978ddd9c5939f8a9'', True, js ''tee_api.h'')]),
     (js ''tee_5fbigintsquare_60'', js ''TEE_BigIntSquare'',
       [(js ''../a00083.html#a8ee5d399881165b9fe31c3f5bb0c72a1'', True, js ''tee_api.h'')]),
     (js ''tee_5fbigintsquaremod_61'', js ''TEE_BigIntSquareMod'',
       [(js ''../a00083.html#a181b8f6aab855d7fc82c20bb88924ad2'', True, js ''tee_api.h'')]),
     (js ''tee_5fbigintsub_62'', js ''TEE_BigIntSub'',
       [(js ''../a00083.html#a2a107b479fba64302465a1f67da531d0'', True, js ''tee_api.h'')]),
     (js ''tee_5fbigintsubmod_63'', js ''TEE_BigIntSubMod'',
       [(js ''../a00083.html#a277768e26e3f63bc630af53d094dda24'', True, js ''tee_api.h'')]),
     (js ''tee_5fcacheclean_64'', js ''TEE_CacheClean'',
       [(js ''../a00101.html#ad3d0c07600b6ef481bb33eb79a4303ff'', True, js ''tee_internal_api_extensions.h'')]),
     (js ''tee_5fcacheflush_65'', js ''TEE_CacheFlush'',
       [(js ''../a00101.html#a24ca7e88f5a30fec143f97a1327359ef'', True, js ''tee_internal_api_extensions.h'')]),
     (js ''tee_5fcacheinvalidate_66'', js ''TEE_CacheInvalidate'',
       [(js ''../a00101.html#a90aa98d624809145c52042b6d74a70e6'', True, js ''tee_internal_api_extensions.h'')]),
     (js ''tee_5fcheckmemoryaccessrights_67'', js ''TEE_CheckMemoryAccessRights'',
       [(js ''../a00083.html#af7ada151b876daff93593868bc57eab9'', True, js ''tee_api.h'')]),
     (js ''tee_5fcipherdofinal_68'', js ''TEE_CipherDoFinal'',
       [(js ''../a00083.html#ae03ad904c4536ad2d194eb54a092e384'', True, js ''TEE_CipherDoFinal(TEE_OperationHandle operation, const void *srcData, uint32_t srcLen, void *destData, uint32_t *destLen):&#160;tee-internal-api-cryptlib.c''),
        (js ''../a00071.html#ae03ad904c4536ad2d194eb54a092e384'', True, js ''TEE_CipherDoFinal(TEE_OperationHandle operation, const void *srcData, uint32_t srcLen, void *destData, uint32_t *destLen):&#160;tee-internal-api-cryptlib.c'')]),
     (js ''tee_5fcipherinit_69'', js ''TEE_CipherInit'',
       [(js ''../a00086.html#a994af593ff8186af8b6c2ed8edd8c389'', True, js ''TEE_CipherInit(TEE_OperationHandle operation, const void *nonce, uint32_t nonceLen):&#160;tee-internal-api-cryptlib.c''),
        (js ''../a00083.html#a974908e3a136d6da3891367a0863fcbb'', True, js ''TEE_CipherInit(TEE_OperationHandle operation, const void *IV, uint32_t IVLen):&#160;tee-internal-api-cryptlib.c''),
        (js ''../a00071.html#a994af593ff8186af8b6c2ed8edd8c389'', True, js ''TEE_CipherInit(TEE_OperationHandle operation, const void *nonce, uint32_t nonceLen):&#160;tee-internal-api-cryptlib.c'')]),
     (js ''tee_5fcipherupdate_70'', js ''TEE_CipherUpdate'',
       [(js ''../a00071.html#a071525e4f644911d7d4468f7a8f193cd'', True, js ''TEE_CipherUpdate(TEE_OperationHandle operation, const void *srcData, uint32_t srcLen, void *destData, uint32_t *destLen):&#160;tee-internal-api-cryptlib.c''),
        (js ''../a00083.html#a071525e4f644911d7d4468f7a8f193cd'', True, js ''TEE_CipherUpdate(TEE_OperationHandle operation, const void *srcData, uint32_t srcLen, void *destData, uint32_t *destLen):&#160;tee-internal-api-cryptlib.c''),
        (js ''../a00086.html#a071525e4f644911d7d4468f7a8f193cd'', True, js ''TEE_CipherUpdate(TEE_OperationHandle operation, const void *srcData, uint32_t srcLen, void *destData, uint32_t *destLen):&#160;tee-internal-api-cryptlib.c'')]),
     (js ''tee_5fclient_5fapi_2eh_71'', js ''tee_client_api.h'',
       [(js ''../a00089.html'', True, [])]),
     (js ''tee_5fcloseanddeletepersistentobject_72'', js ''TEE_CloseAndDeletePersistentObject'',
       [(js ''../a00083.html#a8257d78b7bec1c90e9bd42b1a2857aa9'', True, js ''tee_api.h'')]),
     (js ''tee_5fcloseanddeletepersistentobject1_73'', js ''TEE_CloseAndDeletePersistentObject1'',
       [(js ''../a00083.html#a67a4c65ab5e520ac34dec75a30b6b05f'', True, js ''tee_api.h'')]),
     (js ''tee_5fcloseobject_74'', js ''TEE_CloseObject'',
       [(js ''../a00086.html#a333824d79fa9e46b6969bfff7e3a1158'', True, js ''TEE_CloseObject(TEE_ObjectHandle object):&#160;tee-internal-api.c''),
        (js ''../a00083.html#a333824d79fa9e46b6969bfff7e3a1158'', True, js ''TEE_CloseObject(TEE_ObjectHandle object):&#160;tee-internal-api.c''),
        (js ''../a00291.html#a333824d79fa9e46b6969bfff7e3a1158'', True, js ''TEE_CloseObject(TEE_ObjectHandle object):&#160;tee-internal-api.c''),
        (js ''../a00294.html#a333824d79fa9e46b6969bfff7e3a1158'', True, js ''TEE_CloseObject(TEE_ObjectHandle object):&#160;tee-internal-api.c'')]),
     (js ''tee_5fclosetasession_75'', js ''TEE_CloseTASession'',
       [(js ''../a00083.html#af9d51bf94690a65f43005937ed65635b'', True, js ''tee_api.h'')]),
     (js ''tee_5fcopyobjectattributes_76'', js ''TEE_CopyObjectAttributes'',
       [(js ''../a00083.html#a55e5a34db840cfdf1f8f01b1f55451c8'', True, js ''tee_api.h'')]),
     (js ''tee_5fcopyobjectattributes1_77'', js ''TEE_CopyObjectAttributes1'',
       [(js ''../a00083.html#ac1c7c9380a331e2a4bf3c69d5eb539ff'', True, js ''tee_api.h'')]),
     (js ''tee_5fcopyoperation_78'', js ''TEE_CopyOperation'',
       [(js ''../a00083.html#a4eca2209820659cc95756fc85e1a4837'', True, js ''tee_api.h'')]),
     (js ''tee_5fcreatepersistentobject_79'', js ''TEE_CreatePersistentObject'',
       [(js ''../a00086.html#af73ce780a255e5232dc7196acafebf11'', True, js ''TEE_CreatePersistentObject(uint32_t storageID, const void *objectID, uint32_t objectIDLen, uint32_t flags, TEE_ObjectHandle attributes, const void *initialData, uint32_t initialDataLen, TEE_ObjectHandle *object):&#160;tee-internal-api.c''),
        (js ''../a00083.html#af73ce780a255e5232dc7196acafebf11'', True, js ''TEE_CreatePersistentObject(uint32_t storageID, const void *objectID, uint32_t objectIDLen, uint32_t flags, TEE_ObjectHandle attributes, const void *initialData, uint32_t initialDataLen, TEE_ObjectHandle *object):&#160;tee-internal-api.c''),
        (js ''../a00291.html#af73ce780a255e5232dc7196acafebf11'', True, js ''TEE_CreatePersistentObject(uint32_t storageID, const void *objectID, uint32_t objectIDLen, uint32_t flags, TEE_ObjectHandle attributes, const void *initialData, uint32_t initialDataLen, TEE_ObjectHandle *object):&#160;tee-internal-api.c''),
        (js ''../a00294.html#af73ce780a255e5232dc7196acafebf11'', True, js ''TEE_CreatePersistentObject(uint32_t storageID, const void *objectID, uint32_t objectIDLen, uint32_t flags, TEE_ObjectHandle attributes, const void *initialData, uint32_t initialDataLen, TEE_ObjectHandle *object):&#160;tee-internal-api.c'')]),
     (js ''tee_5fdata_5fseek_5fcur_80'', js ''TEE_DATA_SEEK_CUR'',
       [(js ''../a00080.html#a1c088b4398b0d8b6df9c871deaa81ab8a58d66a0d10ad95ec3b1e2bd8ec76c71c'', True, js ''tee_api_types.h'')]),
     (js ''tee_5fdata_5fseek_5fend_81'', js ''TEE_DATA_SEEK_END'',
       [(js ''../a00080.html#a1c088b4398b0d8b6df9c871deaa81ab8a3a546e4bb166976552cf4173a9780fe7'', True, js ''tee_api_types.h'')]),
     (js ''tee_5fdata_5fseek_5fset_82'', js ''TEE_DATA_SEEK_SET'',
       [(js ''../a00080.html#a1c088b4398b0d8b6df9c871deaa81ab8a283bec96896cd01f08089e9217ab0071'', True, js ''tee_api_types.h'')]),
     (js ''tee_5fderivekey_83'', js ''TEE_DeriveKey'',
       [(js ''../a00083.html#a349e457b1b5e9de722d43af1bae18c5f'', True, js ''tee_api.h'')]),
     (js ''tee_5fdigestdofinal_84'', js ''TEE_DigestDoFinal'',
       [(js ''../a00086.html#a843b65f4564569843860b4bce5a144b9'', True, js ''TEE_DigestDoFinal(TEE_OperationHandle operation, const void *chunk, uint32_t chunkLen, void *hash, uint32_t *hashLen):&#160;tee-internal-api-cryptlib.c''),
        (js ''../a00083.html#a843b65f4564569843860b4bce5a144b9'', True, js ''TEE_DigestDoFinal(TEE_OperationHandle operation, const void *chunk, uint32_t chunkLen, void *hash, uint32_t *hashLen):&#160;tee-internal-api-cryptlib.c''),
        (js ''../a00071.html#a843b65f4564569843860b4bce5a144b9'', True, js ''TEE_DigestDoFinal(TEE_OperationHandle operation, const void *chunk, uint32_t chunkLen, void *hash, uint32_t *hashLen):&#160;tee-internal-api-cryptlib.c'')]),
     (js ''tee_5fdigestupdate_85'', js ''TEE_DigestUpdate'',
       [(js ''../a00086.html#a6e9ece9dbe0483464277902be82486ef'', True, js ''TEE_DigestUpdate(TEE_OperationHandle operation, const void *chunk, uint32_t chunkSize):&#160;tee-internal-api-cryptlib.c''),
        (js ''../a00083.html#a6e9ece9dbe0483464277902be82486ef'', True, js ''TEE_DigestUpdate(TEE_OperationHandle operation, const void *chunk, uint32_t chunkSize):&#160;tee-internal-api-cryptlib.c''),
        (js ''../a00071.html#a6e9ece9dbe0483464277902be82486ef'', True, js ''TEE_DigestUpdate(TEE_OperationHandle operation, const void *chunk, uint32_t chunkSize):&#160;tee-internal-api-cryptlib.c'')]),
     (js ''tee_5ferrororigin_86'', js ''TEE_ErrorOrigin'',
       [(js ''../a00080.html#af1b39f1a856c03c4f17a5d77ff7a1f0f'', True, js ''tee_api_types.h'')]),
     (js ''tee_5ffree_87'', js ''TEE_Free'',
       [(js ''../a00083.html#a0cd97604693fc9a12baddc0d7039abc9'', True, js ''TEE_Free(void *buffer):&#160;tee-internal-api.c''),
        (js ''../a00291.html#a0cd97604693fc9a12baddc0d7039abc9'', True, js ''TEE_Free(void *buffer):&#160;tee-internal-api.c'')]),
     (js ''tee_5ffreeoperation_88'', js ''TEE_FreeOperation'',
       [(js ''../a00086.html#af5f3a12e4fbaa2ae82d4dadf122ad4cd'', True, js ''TEE_FreeOperation(TEE_OperationHandle operation):&#160;tee-internal-api-cryptlib.c''),
        (js ''../a00071.html#af5f3a12e4fbaa2ae82d4dadf122ad4cd'', True, js ''TEE_FreeOperation(TEE_OperationHandle operation):&#160;tee-internal-api-cryptlib.c''),
        (js ''../a00083.html#af5f3a12e4fbaa2ae82d4dadf122ad4cd'', True, js ''TEE_FreeOperation(TEE_OperationHandle operation):&#160;tee-internal-api-cryptlib.c'')]),
     (js ''tee_5ffreepersistentobjectenumerator_89'', js ''TEE_FreePersistentObjectEnumerator'',
       [(js ''../a00083.html#aa30d1ee97956d8eab8be1b905620604e'', True, js ''tee_api.h'')]),
     (js ''tee_5ffreepropertyenumerator_90'', js ''TEE_FreePropertyEnumerator'',
       [(js ''../a00083.html#a74dfba6b2a11201f47ce7ca8915ee96a'', True, js ''tee_api.h'')]),
     (js ''tee_5ffreetransientobject_91'', js ''TEE_FreeTransientObject'',
       [(js ''../a00071.html#a825dca146722195fe490bd12bbe8a27f'', True, js ''TEE_FreeTransientObject(TEE_ObjectHandle object):&#160;tee-internal-api-cryptlib.c''),
        (js ''../a00083.html#a825dca146722195fe490bd12bbe8a27f'', True, js ''TEE_FreeTransientObject(TEE_ObjectHandle object):&#160;tee-internal-api-cryptlib.c''),
        (js ''../a00086.html#a825dca146722195fe490bd12bbe8a27f'', True, js ''TEE_FreeTransientObject(TEE_ObjectHandle object):&#160;tee-internal-api-cryptlib.c'')]),
     (js ''tee_5fgeneratekey_92'', js ''TEE_GenerateKey'',
       [(js ''../a00086.html#ad2065447661a6ccaaba9957bf0c392b0'', True, js ''TEE_GenerateKey(TEE_ObjectHandle object, uint32_t keySize, const TEE_Attribute *params, uint32_t paramCount):&#160;tee-internal-api-cryptlib.c''),
        (js ''../a00083.html#ad2065447661a6ccaaba9957bf0c392b0'', True, js ''TEE_GenerateKey(TEE_ObjectHandle object, uint32_t keySize, const TEE_Attribute *params, uint32_t paramCount):&#160;tee-internal-api-cryptlib.c''),
        (js ''../a00071.html#ad2065447661a6ccaaba9957bf0c392b0'', True, js ''TEE_GenerateKey(TEE_ObjectHandle object, uint32_t keySize, const TEE_Attribute *params, uint32_t paramCount):&#160;tee-internal-api-cryptlib.c'')]),
     (js ''tee_5fgeneraterandom_93'', js ''TEE_GenerateRandom'',
       [(js ''../a00086.html#aae70ddc633ba20e9e523d23e69df69f0'', True, js ''TEE_GenerateRandom(void *randomBuffer, uint32_t randomBufferLen):&#160;tee-internal-api.c''),
        (js ''../a00294.html#aae70ddc633ba20e9e523d23e69df69f0'', True, js ''TEE_GenerateRandom(void *randomBuffer, uint32_t randomBufferLen):&#160;tee-internal-api.c''),
        (js ''../a00291.html#aae70ddc633ba20e9e523d23e69df69f0'', True, js ''TEE_GenerateRandom(void *randomBuffer, uint32_t randomBufferLen):&#160;tee-internal-api.c''),
        (js ''../a00083.html#aae70ddc633ba20e9e523d23e69df69f0'', True, js ''TEE_GenerateRandom(void *randomBuffer, uint32_t randomBufferLen):&#160;tee-internal-api.c'')]),
     (js ''tee_5fgetcancellationflag_94'', js ''TEE_GetCancellationFlag'',
       [(js ''../a00083.html#a77190cd7b1199a6d9a7b3399e52a2608'', True, js ''tee_api.h'')]),
     (js ''tee_5fgetinstancedata_95'', js ''TEE_GetInstanceData'',
       [(js ''../a00083.html#aaa50b70b6eff2f1539a1e1b45b01daf6'', True, js ''tee_api.h'')]),
     (js ''tee_5fgetnextpersistentobject_96'', js ''TEE_GetNextPersistentObject'',
       [(js ''../a00083.html#adc0dc44aea3ce4994446bc107a54c0a4'', True, js ''tee_api.h'')]),
     (js ''tee_5fgetnextproperty_97'', js ''TEE_GetNextProperty'',
       [(js ''../a00083.html#a44ce7881aa25b6d28bac1f8ecaf65793'', True, js ''tee_api.h'')]),
     (js ''tee_5fgetobjectbufferattribute_98'', js ''TEE_GetObjectBufferAttribute'',
       [(js ''../a00083.html#a23d701214a4c53bc0963622b2909724e'', True, js ''tee_api.h'')]),
     (js ''tee_5fgetobjectinfo_99'', js ''TEE_GetObjectInfo'',
       [(js ''../a00083.html#abe433c1557e4290ea7b7b4ee623321c0'', True, js ''tee_api.h'')]),
     (js ''tee_5fgetobjectinfo1_100'', js ''TEE_GetObjectInfo1'',
       [(js ''../a00083.html#aaa89fe8cb6b6e1e7bdfbafe0bd817094'', True, js ''TEE_GetObjectInfo1(TEE_ObjectHandle object, TEE_ObjectInfo *objectInfo):&#160;tee-internal-api.c''),
        (js ''../a00086.html#aaa89fe8cb6b6e1e7bdfbafe0bd817094'', True, js ''TEE_GetObjectInfo1(TEE_ObjectHandle object, TEE_ObjectInfo *objectInfo):&#160;tee-internal-api.c''),
        (js ''../a00291.html#aaa89fe8cb6b6e1e7bdfbafe0bd817094'', True, js ''TEE_GetObjectInfo1(TEE_ObjectHandle object, TEE_ObjectInfo *objectInfo):&#160;tee-internal-api.c''),
        (js ''../a00294.html#aaa89fe8cb6b6e1e7bdfbafe0bd817094'', True, js ''TEE_GetObjectInfo1(TEE_ObjectHandle object, TEE_ObjectInfo *objectInfo):&#160;tee-internal-api.c'')]),
     (js ''tee_5fgetobjectvalueattribute_101'', js ''TEE_GetObjectValueAttribute'',
       [(js ''../a00083.html#aed82ff6f713f23948020900109aad5f6'', True, js ''tee_api.h'')]),
     (js ''tee_5fgetoperationinfo_102'', js ''TEE_GetOperationInfo'',
       [(js ''../a00083.html#ab0c4a76983dc97122bf9c540458225d0'', True, js ''tee_api.h'')]),
     (js ''tee_5fgetoperationinfomultiple_103'', js ''TEE_GetOperationInfoMultiple'',
       [(js ''../a00083.html#a2fc70a7f4072b8fe6abd77721c5ccc1f'', True, js ''tee_api.h'')]),
     (js ''tee_5fgetpropertyasbinaryblock_104'', js ''TEE_GetPropertyAsBinaryBlock'',
       [(js ''../a00083.html#ac42274885ae227734bf66eafe866a4a0'', True, js ''tee_api.h'')]),
     (js ''tee_5fgetpropertyasbool_105'', js ''TEE_GetPropertyAsBool'',
       [(js ''../a00083.html#abd5c626b74396a70475b42b74ce0271c'', True, js ''tee_api.h'')]),
     (js ''tee_5fgetpropertyasidentity_106'', js ''TEE_GetPropertyAsIdentity'',
       [(js ''../a00083.html#ad38d03ed88e3b4cde1d1e54d9bbfd1fd'', True, js ''tee_api.h'')]),
     (js ''tee_5fgetpropertyasstring_107'', js ''TEE_GetPropertyAsString'',
       [(js ''../a00083.html#a5e2f9729390de1c4143489e4e92cf80c'', True, js ''tee_api.h'')]),
     (js ''tee_5fgetpropertyasu32_108'', js ''TEE_GetPropertyAsU32'',
       [(js ''../a00083.html#aa926e6fc7ebdd6eeccdcf689b77ad236'', True, js ''tee_api.h'')]),
     (js ''tee_5fgetpropertyasuuid_109'', js ''TEE_GetPropertyAsUUID'',
       [(js ''../a00083.html#a57fcb978078e1f9cd86cb49dc93f0643'', True, js ''tee_api.h'')]),
     (js ''tee_5fgetpropertyname_110'', js ''TEE_GetPropertyName'',
       [(js ''../a00083.html#a9ba4528c754b003d1d5091e8fc6c2812'', True, js ''tee_api.h'')]),
     (js ''tee_5fgetreetime_111'', js ''TEE_GetREETime'',
       [(js ''../a00086.html#ac2cfc934106a5bc629f0b354b08a30f5'', True, js ''TEE_GetREETime(TEE_Time *time):&#160;tee-internal-api.c''),
        (js ''../a00083.html#ac2cfc934106a5bc629f0b354b08a30f5'', True, js ''TEE_GetREETime(TEE_Time *time):&#160;tee-internal-api.c''),
        (js ''../a00291.html#ac2cfc934106a5bc629f0b354b08a30f5'', True, js ''TEE_GetREETime(TEE_Time *time):&#160;tee-internal-api.c''),
        (js ''../a00294.html#ac2cfc934106a5bc629f0b354b08a30f5'', True, js ''TEE_GetREETime(TEE_Time *time):&#160;tee-internal-api.c'')]),
     (js ''tee_5fgetsystemtime_112'', js ''TEE_GetSystemTime'',
       [(js ''../a00086.html#a2ce6c25dca4d916c6b1ca40ae3a431e3'', True, js ''TEE_GetSystemTime(TEE_Time *time):&#160;tee-internal-api.c''),
        (js ''../a00083.html#a2ce6c25dca4d916c6b1ca40ae3a431e3'', True, js ''TEE_GetSystemTime(TEE_Time *time):&#160;tee-internal-api.c''),
        (js ''../a00291.html#a2ce6c25dca4d916c6b1ca40ae3a431e3'', True, js ''TEE_GetSystemTime(TEE_Time *time):&#160;tee-internal-api.c''),
        (js ''../a00294.html#a2ce6c25dca4d916c6b1ca40ae3a431e3'', True, js ''TEE_GetSystemTime(TEE_Time *time):&#160;tee-internal-api.c'')]),
     (js ''tee_5fgettapersistenttime_113'', js ''TEE_GetTAPersistentTime'',
       [(js ''../a00083.html#a7dd6370f087bf7051f15931dbf0fa25a'', True, js ''tee_api.h'')]),
     (js ''tee_5fidentity_114'', js ''TEE_Identity'',
       [(js ''../a00144.html'', True, [])]),
     (js ''tee_5finitrefattribute_115'', js ''TEE_InitRefAttribute'',
       [(js ''../a00086.html#afe152a85c5f39fd64655526b174d579f'', True, js ''TEE_InitRefAttribute(TEE_Attribute *attr, uint32_t attributeID, const void *buffer, uint32_t length):&#160;tee-internal-api-cryptlib.c''),
        (js ''../a00083.html#afe152a85c5f39fd64655526b174d579f'', True, js ''TEE_InitRefAttribute(TEE_Attribute *attr, uint32_t attributeID, const void *buffer, uint32_t length):&#160;tee-internal-api-cryptlib.c''),
        (js ''../a00071.html#afe152a85c5f39fd64655526b174d579f'', True, js ''TEE_InitRefAttribute(TEE_Attribute *attr, uint32_t attributeID, const void *buffer, uint32_t length):&#160;tee-internal-api-cryptlib.c'')]),
     (js ''tee_5finitvalueattribute_116'', js ''TEE_InitValueAttribute'',
       [(js ''../a00086.html#a18cecb2f284d0cf5e657a070137cd581'', True, js ''TEE_InitValueAttribute(TEE_Attribute *attr, uint32_t attributeID, uint32_t a, uint32_t b):&#160;tee-internal-api-cryptlib.c''),
        (js ''../a00083.html#a18cecb2f284d0cf5e657a070137cd581'', True, js ''TEE_InitValueAttribute(TEE_Attribute *attr, uint32_t attributeID, uint32_t a, uint32_t b):&#160;tee-internal-api-cryptlib.c''),
        (js ''../a00071.html#a18cecb2f284d0cf5e657a070137cd581'', True, js ''TEE_InitValueAttribute(TEE_Attribute *attr, uint32_t attributeID, uint32_t a, uint32_t b):&#160;tee-internal-api-cryptlib.c'')])]"

definition spec_all_12b :: "search_entry list" where
  "spec_all_12b = [
     (js ''tee_5finternal_5fapi_2eh_117'', js ''tee_internal_api.h'',
       [(js ''../a00110.html'', True, [])]),
     (js ''tee_5finternal_5fapi_5fextensions_2eh_118'', js ''tee_internal_api_extensions.h'',
       [(js ''../a00101.html'', True, [])]),
     (js ''tee_5finvoketacommand_119'', js ''TEE_InvokeTACommand'',
       [(js ''../a00083.html#a5c4679789d99b8be60d3bb8996c91119'', True, js ''tee_api.h'')]),
     (js ''tee_5fisalgorithmsupported_120'', js ''TEE_IsAlgorithmSupported'',
       [(js ''../a00083.html#aea24dd104bb245719ec09f6df2acaf75'', True, js ''tee_api.h'')]),
     (js ''tee_5fmaccomparefinal_121'', js ''TEE_MACCompareFinal'',
       [(js ''../a00083.html#abb64d1041b0f996d909f10c1fafd0ccd'', True, js ''tee_api.h'')]),
     (js ''tee_5fmaccomputefinal_122'', js ''TEE_MACComputeFinal'',
       [(js ''../a00083.html#a001308a1a5198c1f3d6bbd3f43c68a1e'', True, js ''tee_api.h'')]),
     (js ''tee_5fmacinit_123'', js ''TEE_MACInit'',
       [(js ''../a00083.html#aaca2790ab1df187f3535a55db1336c8f'', True, js ''tee_api.h'')]),
     (js ''tee_5fmacupdate_124'', js ''TEE_MACUpdate'',
       [(js ''../a00083.html#abcc46184566df4b45b4a167fe54e5de3'', True, js ''tee_api.h'')]),
     (js ''tee_5fmalloc_125'', js ''TEE_Malloc'',
       [(js ''../a00291.html#a087393fc9dd24ac208f100c386dd02e0'', True, js ''TEE_Malloc(uint32_t size, uint32_t hint):&#160;tee-internal-api.c''),
        (js ''../a00083.html#a087393fc9dd24ac208f100c386dd02e0'', True, js ''TEE_Malloc(uint32_t size, uint32_t hint):&#160;tee-internal-api.c'')]),
     (js ''tee_5fmap_5fzi_126'', js ''tee_map_zi'',
       [(js ''../a00101.html#ac20b2f63bf136471c73bdf079a0b9d99'', True, js ''tee_internal_api_extensions.h'')]),
     (js ''tee_5fmaskcancellation_127'', js ''TEE_MaskCancellation'',
       [(js ''../a00083.html#a4c1bbb858954ee8e4fc595c478bcc4ac'', True, js ''tee_api.h'')]),
     (js ''tee_5fmemcompare_128'', js ''TEE_MemCompare'',
       [(js ''../a00083.html#af8e1c1fb75f05ddd9b94b82e47e663b7'', True, js ''tee_api.h'')]),
     (js ''tee_5fmemfill_129'', js ''TEE_MemFill'',
       [(js ''../a00083.html#a5e2e29c99dee20bf7728b583a49bea0c'', True, js ''tee_api.h'')]),
     (js ''tee_5fmemmove_130'', js ''TEE_MemMove'',
       [(js ''../a00083.html#a6713318482a440babef0b480bd4dc5c6'', True, js ''tee_api.h'')]),
     (js ''tee_5fmode_5fdecrypt_131'', js ''TEE_MODE_DECRYPT'',
       [(js ''../a00080.html#a6b7a829a612f7bfb5714a6a550bac592aa20104f46a28d0fe8596fec000b93fb0'', True, js ''tee_api_types.h'')]),
     (js ''tee_5fmode_5fderive_132'', js ''TEE_MODE_DERIVE'',
       [(js ''../a00080.html#a6b7a829a612f7bfb5714a6a550bac592a7f379c000fe1ffe48160acae8cdab73a'', True, js ''tee_api_types.h'')]),
     (js ''tee_5fmode_5fdigest_133'', js ''TEE_MODE_DIGEST'',
       [(js ''../a00080.html#a6b7a829a612f7bfb5714a6a550bac592a14fd1dd01b612be722995b8753a9ced3'', True, js ''tee_api_types.h'')]),
     (js ''tee_5fmode_5fencrypt_134'', js ''TEE_MODE_ENCRYPT'',
       [(js ''../a00080.html#a6b7a829a612f7bfb5714a6a550bac592ae986e0ac521db4f424b1c1fae66778c9'', True, js ''tee_api_types.h'')]),
     (js ''tee_5fmode_5fmac_135'', js ''TEE_MODE_MAC'',
       [(js ''../a00080.html#a6b7a829a612f7bfb5714a6a550bac592a2f3dbf0c7c0373015cf75946564c26f4'', True, js ''tee_api_types.h'')]),
     (js ''tee_5fmode_5fsign_136'', js ''TEE_MODE_SIGN'',
       [(js ''../a00080.html#a6b7a829a612f7bfb5714a6a550bac592a96f810c660ff068a087065c6769c0655'', True, js ''tee_api_types.h'')]),
     (js ''tee_5fmode_5fverify_137'', js ''TEE_MODE_VERIFY'',
       [(js ''../a00080.html#a6b7a829a612f7bfb5714a6a550bac592af254d3515d5c4075989a785a568612e3'', True, js ''tee_api_types.h'')]),
     (js ''tee_5fobjectenumhandle_138'', js ''TEE_ObjectEnumHandle'',
       [(js ''../a00080.html#a93a3db41b30eea0eefe104eea3e81c4d'', True, js ''tee_api_types.h'')]),
     (js ''tee_5fobjecthandle_139'', js ''TEE_ObjectHandle'',
       [(js ''../a00080.html#a9f9bb8e582acc2c79335158932f0b954'', True, js ''tee_api_types.h'')]),
     (js ''tee_5fobjectinfo_140'', js ''TEE_ObjectInfo'',
       [(js ''../a00160.html'', True, [])]),
     (js ''tee_5fobjecttype_141'', js ''TEE_ObjectType'',
       [(js ''../a00080.html#a0f5a82f41c1aeb996d5d0b3169047f06'', True, js ''tee_api_types.h'')]),
     (js ''tee_5fopenpersistentobject_142'', js ''TEE_OpenPersistentObject'',
       [(js ''../a00086.html#aee5c5b6cfe2cc9ee4a8f84f7d690ccbc'', True, js ''TEE_OpenPersistentObject(uint32_t storageID, const void *objectID, uint32_t objectIDLen, uint32_t flags, TEE_ObjectHandle *object):&#160;tee-internal-api.c''),
        (js ''../a00291.html#aee5c5b6cfe2cc9ee4a8f84f7d690ccbc'', True, js ''TEE_OpenPersistentObject(uint32_t storageID, const void *objectID, uint32_t objectIDLen, uint32_t flags, TEE_ObjectHandle *object):&#160;tee-internal-api.c''),
        (js ''../a00294.html#aee5c5b6cfe2cc9ee4a8f84f7d690ccbc'', True, js ''TEE_OpenPersistentObject(uint32_t storageID, const void *objectID, uint32_t objectIDLen, uint32_t flags, TEE_ObjectHandle *object):&#160;tee-internal-api.c''),
        (js ''../a00083.html#aee5c5b6cfe2cc9ee4a8f84f7d690ccbc'', True, js ''TEE_OpenPersistentObject(uint32_t storageID, const void *objectID, uint32_t objectIDLen, uint32_t flags, TEE_ObjectHandle *object):&#160;tee-internal-api.c'')]),
     (js ''tee_5fopentasession_143'', js ''TEE_OpenTASession'',
       [(js ''../a00083.html#ae08bd2a664e700fa3c5db0d172e38a1b'', True, js ''tee_api.h'')]),
     (js ''tee_5foperationhandle_144'', js ''TEE_OperationHandle'',
       [(js ''../a00080.html#a003ccda0ce6a2d7889b2933a201e2bd1'', True, js ''tee_api_types.h'')]),
     (js ''tee_5foperationinfo_145'', js ''TEE_OperationInfo'',
       [(js ''../a00188.html'', True, [])]),
     (js ''tee_5foperationinfokey_146'', js ''TEE_OperationInfoKey'',
       [(js ''../a00192.html'', True, [])]),
     (js ''tee_5foperationinfomultiple_147'', js ''TEE_OperationInfoMultiple'',
       [(js ''../a00196.html'', True, [])]),
     (js ''tee_5foperationmode_148'', js ''TEE_OperationMode'',
       [(js ''../a00080.html#a6b7a829a612f7bfb5714a6a550bac592'', True, js ''tee_api_types.h'')]),
     (js ''tee_5fpanic_149'', js ''TEE_Panic'',
       [(js ''../a00083.html#a25a6ed042b2e933aeae3c26727987811'', True, js ''tee_api.h'')]),
     (js ''tee_5fparam_150'', js ''TEE_Param'',
       [(js ''../a00148.html'', True, [])]),
     (js ''tee_5fpopulatetransientobject_151'', js ''TEE_PopulateTransientObject'',
       [(js ''../a00083.html#ac0465fb736d92a3fde3a04ea1529d1cc'', True, js ''tee_api.h'')]),
     (js ''tee_5fprintf_152'', js ''tee_printf'',
       [(js ''../a00324.html#a119db5620d3a2523cdb35399dd218dfc'', True, js ''tee_printf(const char *fmt,...):&#160;trace2.c''),
        (js ''../a00321.html#a119db5620d3a2523cdb35399dd218dfc'', True, js ''tee_printf(const char *fmt,...):&#160;trace.c''),
        (js ''../a00104.html#a119db5620d3a2523cdb35399dd218dfc'', True, js ''tee_printf(const char *fmt,...):&#160;trace2.c'')]),
     (js ''tee_5fpropsethandle_153'', js ''TEE_PropSetHandle'',
       [(js ''../a00080.html#a773a0ae16cd350bb65e0acd3c2e6a4d6'', True, js ''tee_api_types.h'')]),
     (js ''tee_5freadobjectdata_154'', js ''TEE_ReadObjectData'',
       [(js ''../a00086.html#a70d944aa12cea2bad255b9bdd30225eb'', True, js ''TEE_ReadObjectData(TEE_ObjectHandle object, void *buffer, uint32_t size, uint32_t *count):&#160;tee-internal-api.c''),
        (js ''../a00083.html#a70d944aa12cea2bad255b9bdd30225eb'', True, js ''TEE_ReadObjectData(TEE_ObjectHandle object, void *buffer, uint32_t size, uint32_t *count):&#160;tee-internal-api.c''),
        (js ''../a00291.html#a70d944aa12cea2bad255b9bdd30225eb'', True, js ''TEE_ReadObjectData(TEE_ObjectHandle object, void *buffer, uint32_t size, uint32_t *count):&#160;tee-internal-api.c''),
        (js ''../a00294.html#a70d944aa12cea2bad255b9bdd30225eb'', True, js ''TEE_ReadObjectData(TEE_ObjectHandle object, void *buffer, uint32_t size, uint32_t *count):&#160;tee-internal-api.c'')]),
     (js ''tee_5frealloc_155'', js ''TEE_Realloc'',
       [(js ''../a00083.html#a93fbbf8c538edd677ff2e013e4b024c4'', True, js ''TEE_Realloc(void *buffer, uint32_t newSize):&#160;tee-internal-api.c''),
        (js ''../a00291.html#a93fbbf8c538edd677ff2e013e4b024c4'', True, js ''TEE_Realloc(void *buffer, uint32_t newSize):&#160;tee-internal-api.c'')]),
     (js ''tee_5frenamepersistentobject_156'', js ''TEE_RenamePersistentObject'',
       [(js ''../a00083.html#a8d40b18030f274b984eb05424128418b'', True, js ''tee_api.h'')]),
     (js ''tee_5fresetoperation_157'', js ''TEE_ResetOperation'',
       [(js ''../a00083.html#a2d36adb59a76af1f73090475e98aa4c9'', True, js ''tee_api.h'')]),
     (js ''tee_5fresetpersistentobjectenumerator_158'', js ''TEE_ResetPersistentObjectEnumerator'',
       [(js ''../a00083.html#a201b782eb0b7af3e5d67538672be1431'', True, js ''tee_api.h'')]),
     (js ''tee_5fresetpropertyenumerator_159'', js ''TEE_ResetPropertyEnumerator'',
       [(js ''../a00083.html#a7f362a278388b46830511af110ec4517'', True, js ''tee_api.h'')]),
     (js ''tee_5fresettransientobject_160'', js ''TEE_ResetTransientObject'',
       [(js ''../a00083.html#ab974376ca95bb0c3e316ad789f33b3c6'', True, js ''tee_api.h'')]),
     (js ''tee_5frestrictobjectusage_161'', js ''TEE_RestrictObjectUsage'',
       [(js ''../a00083.html#a2238f36691bb906b642a6ded67af28f4'', True, js ''tee_api.h'')]),
     (js ''tee_5frestrictobjectusage1_162'', js ''TEE_RestrictObjectUsage1'',
       [(js ''../a00083.html#a6cca6b984c36ed19ce54ff133f99f7f1'', True, js ''tee_api.h'')]),
     (js ''tee_5fresult_163'', js ''TEE_Result'',
       [(js ''../a00080.html#aa1b64b7b46cd8040d03cb32c6504796a'', True, js ''tee_api_types.h'')]),
     (js ''tee_5fseaid_164'', js ''TEE_SEAID'',
       [(js ''../a00208.html'', True, [])]),
     (js ''tee_5fsechannelhandle_165'', js ''TEE_SEChannelHandle'',
       [(js ''../a00080.html#a48342fd010d3c8ad882d5dfd05cecffa'', True, js ''tee_api_types.h'')]),
     (js ''tee_5fseekobjectdata_166'', js ''TEE_SeekObjectData'',
       [(js ''../a00083.html#a84ed96bd63ffbf14179212410b15eab3'', True, js ''tee_api.h'')]),
     (js ''tee_5fsereaderhandle_167'', js ''TEE_SEReaderHandle'',
       [(js ''../a00080.html#a34e9460c6f4baa569ee42e9ff18179ee'', True, js ''tee_api_types.h'')]),
     (js ''tee_5fsereaderproperties_168'', js ''TEE_SEReaderProperties'',
       [(js ''../a00204.html'', True, [])]),
     (js ''tee_5fseservicehandle_169'', js ''TEE_SEServiceHandle'',
       [(js ''../a00080.html#a1a5d27fdaf557d27b33bbe38aa5129fd'', True, js ''tee_api_types.h'')]),
     (js ''tee_5fsesessionhandle_170'', js ''TEE_SESessionHandle'',
       [(js ''../a00080.html#a04635613d9083443cbbbc5877eb72741'', True, js ''tee_api_types.h'')]),
     (js ''tee_5fsession_171'', js ''TEE_Session'',
       [(js ''../a00080.html#a1e12baaa5300148f63b001b1fd4f50dd'', True, js ''tee_api_types.h'')]),
     (js ''tee_5fsetinstancedata_172'', js ''TEE_SetInstanceData'',
       [(js ''../a00083.html#aeb3c350f87318ea07d282af02767ef23'', True, js ''tee_api.h'')]),
     (js ''tee_5fsetoperationkey_173'', js ''TEE_SetOperationKey'',
       [(js ''../a00086.html#a24d0a83df10ad59bd3e4c98aa70c7a0a'', True, js ''TEE_SetOperationKey(TEE_OperationHandle operation, TEE_ObjectHandle key):&#160;tee-internal-api-cryptlib.c''),
        (js ''../a00083.html#a24d0a83df10ad59bd3e4c98aa70c7a0a'', True, js ''TEE_SetOperationKey(TEE_OperationHandle operation, TEE_ObjectHandle key):&#160;tee-internal-api-cryptlib.c''),
        (js ''../a00071.html#a24d0a83df10ad59bd3e4c98aa70c7a0a'', True, js ''TEE_SetOperationKey(TEE_OperationHandle operation, TEE_ObjectHandle key):&#160;tee-internal-api-cryptlib.c'')]),
     (js ''tee_5fsetoperationkey2_174'', js ''TEE_SetOperationKey2'',
       [(js ''../a00083.html#ac7e864db33a3f54b0889b99917cbc794'', True, js ''tee_api.h'')]),
     (js ''tee_5fsettapersistenttime_175'', js ''TEE_SetTAPersistentTime'',
       [(js ''../a00083.html#a66d8c7796cd56616e089a248ffce283f'', True, js ''tee_api.h'')]),
     (js ''tee_5fstartpersistentobjectenumerator_176'', js ''TEE_StartPersistentObjectEnumerator'',
       [(js ''../a00083.html#adb6e7616c695e420616c44c76e2ba118'', True, js ''tee_api.h'')]),
     (js ''tee_5fstartpropertyenumerator_177'', js ''TEE_StartPropertyEnumerator'',
       [(js ''../a00083.html#a32323472448048b47c17d7aa0c644361'', True, js ''tee_api.h'')]),
     (js ''tee_5fta_5fapi_2eh_178'', js ''tee_ta_api.h'',
       [(js ''../a00113.html'', True, [])]),
     (js ''tee_5ftasessionhandle_179'', js ''TEE_TASessionHandle'',
       [(js ''../a00080.html#a0b888a3053880d3fb5c9ba7fdffcd68e'', True, js ''tee_api_types.h'')]),
     (js ''tee_5ftime_180'', js ''TEE_Time'',
       [(js ''../a00200.html'', True, [])]),
     (js ''tee_5ftruncateobjectdata_181'', js ''TEE_TruncateObjectData'',
       [(js ''../a00083.html#a0770243df596f28bbffdbe2a09dc1223'', True, js ''tee_api.h'')]),
     (js ''tee_5funmap_182'', js ''tee_unmap'',
       [(js ''../a00101.html#a47b84a3c3095eda1a3fddf9e7837bb20'', True, js ''tee_internal_api_extensions.h'')]),
     (js ''tee_5funmaskcancellation_183'', js ''TEE_UnmaskCancellation'',
       [(js ''../a00083.html#a2f8d4f043c7930b75deb1499270a813f'', True, js ''tee_api.h'')]),
     (js ''tee_5fuser_5fmem_5fcheck_5fheap_184'', js ''tee_user_mem_check_heap'',
       [(js ''../a00101.html#a27d93f6be16b56ff551b713827fa631b'', True, js ''tee_internal_api_extensions.h'')]),
     (js ''tee_5fuser_5fmem_5fmark_5fheap_185'', js ''tee_user_mem_mark_heap'',
       [(js ''../a00101.html#afa03f3b310aa10326ee979379b6705c8'', True, js ''tee_internal_api_extensions.h'')]),
     (js ''tee_5fuuid_186'', js ''TEE_UUID'',
       [(js ''../a00140.html'', True, [])]),
     (js ''tee_5fuuid_5ffrom_5fstr_187'', js ''tee_uuid_from_str'',
       [(js ''../a00101.html#ac923f71f15df56d5828fd94055091c5b'', True, js ''tee_internal_api_extensions.h'')]),
     (js ''tee_5fwait_188'', js ''TEE_Wait'',
       [(js ''../a00083.html#a39565a83c197a918d214798a4b5e551a'', True, js ''tee_api.h'')]),
     (js ''tee_5fwhence_189'', js ''TEE_Whence'',
       [(js ''../a00080.html#a1c088b4398b0d8b6df9c871deaa81ab8'', True, js ''tee_api_types.h'')]),
     (js ''tee_5fwriteobjectdata_190'', js ''TEE_WriteObjectData'',
       [(js ''../a00086.html#a5a67752d33bbe35cd1442c3fffa4ea25'', True, js ''TEE_WriteObjectData(TEE_ObjectHandle object, const void *buffer, uint32_t size):&#160;tee-internal-api.c''),
        (js ''../a00294.html#a5a67752d33bbe35cd1442c3fffa4ea25'', True, js ''TEE_WriteObjectData(TEE_ObjectHandle object, const void *buffer, uint32_t size):&#160;tee-internal-api.c''),
        (js ''../a00291.html#a5a67752d33bbe35cd1442c3fffa4ea25'', True, js ''TEE_WriteObjectData(TEE_ObjectHandle object, const void *buffer, uint32_t size):&#160;tee-internal-api.c''),
        (js ''../a00083.html#a5a67752d33bbe35cd1442c3fffa4ea25'', True, js ''TEE_WriteObjectData(TEE_ObjectHandle object, const void *buffer, uint32_t size):&#160;tee-internal-api.c'')]),
     (js ''teec_5fallocatesharedmemory_191'', js ''TEEC_AllocateSharedMemory'',
       [(js ''../a00089.html#a8358037528cb0d29d57f1da4fdb12d23'', True, js ''TEEC_AllocateSharedMemory(TEEC_Context *context, TEEC_SharedMemory *sharedMem):&#160;teec_stub.c''),
        (js ''../a00050.html#a8358037528cb0d29d57f1da4fdb12d23'', True, js ''TEEC_AllocateSharedMemory(TEEC_Context *context, TEEC_SharedMemory *sharedMem):&#160;teec_stub.c'')]),
     (js ''teec_5fclosesession_192'', js ''TEEC_CloseSession'',
       [(js ''../a00089.html#abbd4e86c7d7a2830b66dd1c455e57708'', True, js ''TEEC_CloseSession(TEEC_Session *session):&#160;teec_stub.c''),
        (js ''../a00050.html#abbd4e86c7d7a2830b66dd1c455e57708'', True, js ''TEEC_CloseSession(TEEC_Session *session):&#160;teec_stub.c'')]),
     (js ''teec_5fcontext_193'', js ''TEEC_Context'',
       [(js ''../a00212.html'', True, [])]),
     (js ''teec_5ffinalizecontext_194'', js ''TEEC_FinalizeContext'',
       [(js ''../a00089.html#a8ff39851efe335623922e6f800f3113b'', True, js ''TEEC_FinalizeContext(TEEC_Context *context):&#160;teec_stub.c''),
        (js ''../a00050.html#a8ff39851efe335623922e6f800f3113b'', True, js ''TEEC_FinalizeContext(TEEC_Context *context):&#160;teec_stub.c'')]),
     (js ''teec_5finitializecontext_195'', js ''TEEC_InitializeContext'',
       [(js ''../a00050.html#a3e9d47511b2b76ec947655708cca039f'', True, js ''TEEC_InitializeContext(const char *name, TEEC_Context *context):&#160;teec_stub.c''),
        (js ''../a00089.html#a3e9d47511b2b76ec947655708cca039f'', True, js ''TEEC_InitializeContext(const char *name, TEEC_Context *context):&#160;teec_stub.c'')]),
     (js ''teec_5finvokecommand_196'', js ''TEEC_InvokeCommand'',
       [(js ''../a00089.html#a33d421ce57c64600db759fe55bd0541e'', True, js ''tee_client_api.h'')]),
     (js ''teec_5fopensession_197'', js ''TEEC_OpenSession'',
       [(js ''../a00050.html#a2e057c67c5ec43b8052ad89809929e61'', True, js ''TEEC_OpenSession(TEEC_Context *context, TEEC_Session *session, const TEEC_UUID *destination, uint32_t connectionMethod, const void *connectionData, TEEC_Operation *operation, uint32_t *returnOrigin):&#160;teec_stub.c''),
        (js ''../a00089.html#a2e057c67c5ec43b8052ad89809929e61'', True, js ''TEEC_OpenSession(TEEC_Context *context, TEEC_Session *session, const TEEC_UUID *destination, uint32_t connectionMethod, const void *connectionData, TEEC_Operation *operation, uint32_t *returnOrigin):&#160;teec_stub.c'')]),
     (js ''teec_5foperation_198'', js ''TEEC_Operation'',
       [(js ''../a00244.html'', True, [])]),
     (js ''teec_5fparameter_199'', js ''TEEC_Parameter'',
       [(js ''../a00236.html'', True, [])]),
     (js ''teec_5fregisteredmemoryreference_200'', js ''TEEC_RegisteredMemoryReference'',
       [(js ''../a00228.html'', True, [])]),
     (js ''teec_5fregistersharedmemory_201'', js ''TEEC_RegisterSharedMemory'',
       [(js ''../a00089.html#ae95c1a0a68654f50a280d94581859d76'', True, js ''TEEC_RegisterSharedMemory(TEEC_Context *context, TEEC_SharedMemory *sharedMem):&#160;teec_stub.c''),
        (js ''../a00050.html#ae95c1a0a68654f50a280d94581859d76'', True, js ''TEEC_RegisterSharedMemory(TEEC_Context *context, TEEC_SharedMemory *sharedMem):&#160;teec_stub.c'')]),
     (js ''teec_5freleasesharedmemory_202'', js ''TEEC_ReleaseSharedMemory'',
       [(js ''../a00089.html#af2ef3c0fbde59e7249cf8eb43a36abce'', True, js ''TEEC_ReleaseSharedMemory(TEEC_SharedMemory *sharedMemory):&#160;teec_stub.c''),
        (js ''../a00050.html#af2ef3c0fbde59e7249cf8eb43a36abce'', True, js ''TEEC_ReleaseSharedMemory(TEEC_SharedMemory *sharedMemory):&#160;teec_stub.c'')]),
     (js ''teec_5frequestcancellation_203'', js ''TEEC_RequestCancellation'',
       [(js ''../a00089.html#ab0f689a7da4d607e46fe9f8d7dba277c'', True, js ''TEEC_RequestCancellation(TEEC_Operation *operation):&#160;teec_stub.c''),
        (js ''../a00050.html#ab0f689a7da4d607e46fe9f8d7dba277c'', True, js ''TEEC_RequestCancellation(TEEC_Operation *operation):&#160;teec_stub.c'')]),
     (js ''teec_5fresult_204'', js ''TEEC_Result'',
       [(js ''../a00089.html#a95ece7e03b3154198e554f847b4b0211'', True, js ''tee_client_api.h'')]),
     (js ''teec_5fsession_205'', js ''TEEC_Session'',
       [(js ''../a00240.html'', True, [])]),
     (js ''teec_5fsharedmemory_206'', js ''TEEC_SharedMemory'',
       [(js ''../a00220.html'', True, [])]),
     (js ''teec_5fstub_2ec_207'', js ''teec_stub.c'',
       [(js ''../a00050.html'', True, [])]),
     (js ''teec_5ftempmemoryreference_208'', js ''TEEC_TempMemoryReference'',
       [(js ''../a00224.html'', True, [])]),
     (js ''teec_5fuuid_209'', js ''TEEC_UUID'',
       [(js ''../a00216.html'', True, [])]),
     (js ''teec_5fvalue_210'', js ''TEEC_Value'',
       [(js ''../a00232.html'', True, [])]),
     (js ''teeonly_211'', js ''teeOnly'',
       [(js ''../a00204.html#a4034ed6b80c1ca8e844889f957ae14a9'', True, js ''TEE_SEReaderProperties'')]),
     (js ''test_5fdev_5fkey_2eh_212'', js ''test_dev_key.h'',
       [(js ''../a00122.html'', True, [])]),
     (js ''timehiandversion_213'', js ''timeHiAndVersion'',
       [(js ''../a00140.html#afc9e9d0c299f7e81fbed34b2dc26633d'', True, js ''TEE_UUID::timeHiAndVersion()''),
        (js ''../a00216.html#a01c5625e34a36789266075dca8f35419'', True, js ''TEEC_UUID::timeHiAndVersion()'')]),
     (js ''timelow_214'', js ''timeLow'',
       [(js ''../a00140.html#a4e18d5f060fc4b0858b401c5ba140439'', True, js ''TEE_UUID::timeLow()''),
        (js ''../a00216.html#a3061340e1db616d20bfbc299a6baf221'', True, js ''TEEC_UUID::timeLow()'')]),
     (js ''timemid_215'', js ''timeMid'',
       [(js ''../a00140.html#a3f3bc50e0403f69548ec717086518c0c'', True, js ''TEE_UUID::timeMid()''),
        (js ''../a00216.html#a006ff61341e697d883a3e7c250e675f3'', True, js ''TEEC_UUID::timeMid()'')]),
     (js ''tmpref_216'', js ''tmpref'',
       [(js ''../a00236.html#abb1df8a9d3c54299a3de780e49f2fe92'', True, js ''TEEC_Parameter'')]),
     (js ''tools_2ec_217'', js ''tools.c'',
       [(js ''../a00306.html'', True, js ''(Global Namespace)''),
        (js ''../a00309.html'', True, js ''(Global Namespace)'')]),
     (js ''tools_2eh_218'', js ''tools.h'',
       [(js ''../a00312.html'', True, js ''(Global Namespace)''),
        (js ''../a00315.html'', True, js ''(Global Namespace)'')]),
     (js ''trace_2ec_219'', js ''trace.c'',
       [(js ''../a00318.html'', True, js ''(Global Namespace)''),
        (js ''../a00321.html'', True, js ''(Global Namespace)'')]),
     (js ''trace_2eh_220'', js ''trace.h'',
       [(js ''../a00092.html'', True, [])]),
     (js ''trace2_2ec_221'', js ''trace2.c'',
       [(js ''../a00324.html'', True, js ''(Global Namespace)''),
        (js ''../a00327.html'', True, js ''(Global Namespace)'')]),
     (js ''trace_5fext_5fget_5fthread_5fid_222'', js ''trace_ext_get_thread_id'',
       [(js ''../a00092.html#a8675158a59c5041a3bd82a3e916d8e17'', True, js ''trace.h'')]),
     (js ''trace_5fext_5fprefix_223'', js ''trace_ext_prefix'',
       [(js ''../a00092.html#a5af2a639fea54768ed5428cb4f8bbb8c'', True, js ''trace.h'')]),
     (js ''trace_5fext_5fputs_224'', js ''trace_ext_puts'',
       [(js ''../a00092.html#aadb9bac764034588d3f2279f1453f8c0'', True, js ''trace.h'')]),
     (js ''trace_5fget_5flevel_225'', js ''trace_get_level'',
       [(js ''../a00092.html#a4fc6b18371df36a1ece74f1b0465a1ed'', True, js ''trace.h'')]),
     (js ''trace_5flevel_226'', js ''trace_level'',
       [(js ''../a00092.html#a5a9bb49b93f61cb0227d351713cfe8ea'', True, js ''trace.h'')]),
     (js ''trace_5flevels_2eh_227'', js ''trace_levels.h'',
       [(js ''../a00107.html'', True, [])]),
     (js ''trace_5fprintf_228'', js ''trace_printf'',
       [(js ''../a00092.html#a94cceab502088c7e86af3599dd7de87b'', True, js ''trace_printf(const char *func, int line, int level, bool level_ok, const char *fmt,...) __printf(5:&#160;trace.h''),
        (js ''../a00318.html#a7810930509846d7e6ceb76cd78907fec'', True, js ''trace_printf(const char *func, int line, int level, bool level_ok, const char *fmt,...):&#160;trace.c''),
        (js ''../a00327.html#a7810930509846d7e6ceb76cd78907fec'', True, js ''trace_printf(const char *func, int line, int level, bool level_ok, const char *fmt,...):&#160;trace2.c'')]),
     (js ''trace_5fset_5flevel_229'', js ''trace_set_level'',
       [(js ''../a00092.html#a35b9c5a80a47eb5089240614f75d35ca'', True, js ''trace.h'')]),
     (js ''trace_5fvprintf_230'', js ''trace_vprintf'',
       [(js ''../a00318.html#a7d792e1f5dbf87f5b0daea6eaafc370b'', True, js ''trace_vprintf(const char *func, int line, int level, bool level_ok, const char *fmt, va_list ap):&#160;trace.c''),
        (js ''../a00327.html#a7d792e1f5dbf87f5b0daea6eaafc370b'', True, js ''trace_vprintf(const char *func, int line, int level, bool level_ok, const char *fmt, va_list ap):&#160;trace2.c'')]),
     (js ''type_231'', js ''type'',
       [(js ''../a00256.html#a8365fd20396e3067525bf1de1699ad1c'', True, js ''__TEE_ObjectHandle'')]),
     (js ''types_2eh_232'', js ''types.h'',
       [(js ''../a00116.html'', True, [])])]"

definition spec_all_12 :: "search_entry list" where
  "spec_all_12 = spec_all_12a @ spec_all_12b"

definition spec_all_13 :: "search_entry list" where
  "spec_all_13 = [
     (js ''uuid_0'', js ''uuid'',
       [(js ''../a00144.html#a108f022f766173cff3f954cc6272e9b2'', True, js ''TEE_Identity'')])]"

definition spec_all_14 :: "search_entry list" where
  "spec_all_14 = [
     (js ''value_0'', js ''value'',
       [(js ''../a00148.html#a4ba9b3f1c014273ec00e5cd0afcb2d9d'', True, js ''TEE_Param::value()''),
        (js ''../a00172.html#a09884c9e507fcea246221c936d1f31e8'', True, js ''TEE_Attribute::value()''),
        (js ''../a00236.html#a819a08a56fe8d2cbbeb4a4409d60c975'', True, js ''TEEC_Parameter::value()'')]),
     (js ''vsnprintf_1'', js ''vsnprintf'',
       [(js ''../a00330.html#a61bd4f47896225e10fc347c3896c323f'', True, js ''vsnprintf(char *buffer, size_t count, const char *format, va_list va):&#160;vsnprintf.c''),
        (js ''../a00333.html#a61bd4f47896225e10fc347c3896c323f'', True, js ''vsnprintf(char *buffer, size_t count, const char *format, va_list va):&#160;vsnprintf.c'')]),
     (js ''vsnprintf_2ec_2'', js ''vsnprintf.c'',
       [(js ''../a00330.html'', True, js ''(Global Namespace)''),
        (js ''../a00333.html'', True, js ''(Global Namespace)'')])]"

definition spec_all_15 :: "search_entry list" where
  "spec_all_15 = [
     (js ''wc_5focall_5fgenseed_0'', js ''wc_ocall_genseed'',
       [(js ''../a00291.html#a50ee30b06c127961e73a9333fbf47172'', True, js ''tee-internal-api.c'')]),
     (js ''wc_5frng_5finit_1'', js ''wc_rng_init'',
       [(js ''../a00291.html#acc67feac22b919c3b27c87fc5b66af78'', True, js ''wc_rng_init():&#160;tee-internal-api.c''),
        (js ''../a00294.html#acc67feac22b919c3b27c87fc5b66af78'', True, js ''wc_rng_init():&#160;tee-internal-api.c'')]),
     (js ''wolfssl_5ffree_2'', js ''wolfSSL_Free'',
       [(js ''../a00071.html#ae89193ba8d16c41b615dda216f13384c'', True, js ''tee-internal-api-cryptlib.c'')]),
     (js ''wolfssl_5fmalloc_3'', js ''wolfSSL_Malloc'',
       [(js ''../a00071.html#a28a4fd049acb6bf502be5a6195baf86f'', True, js ''tee-internal-api-cryptlib.c'')])]"

section \<open>The entries fit the scripts\<close>

lemma spec_all_0_ok: "entries_ok (cu_of CHR ''_'') 0 spec_all_0"
  unfolding spec_all_0_def by (simp only: check_entries cong: frozen)

lemma spec_all_1_ok: "entries_ok (cu_of CHR ''a'') 0 spec_all_1"
  unfolding spec_all_1_def by (simp only: check_entries cong: frozen)

lemma spec_all_2_ok: "entries_ok (cu_of CHR ''b'') 0 spec_all_2"
  unfolding spec_all_2_def by (simp only: check_entries cong: frozen)

lemma spec_all_3_ok: "entries_ok (cu_of CHR ''c'') 0 spec_all_3"
  unfolding spec_all_3_def by (simp only: check_entries cong: frozen)

lemma spec_all_4_ok: "entries_ok (cu_of CHR ''d'') 0 spec_all_4"
  unfolding spec_all_4_def by (simp only: check_entries cong: frozen)

lemma spec_all_5_ok: "entries_ok (cu_of CHR ''e'') 0 spec_all_5"
  unfolding spec_all_5_def by (simp only: check_entries cong: frozen)

lemma spec_all_6_ok: "entries_ok (cu_of CHR ''f'') 0 spec_all_6"
  unfolding spec_all_6_def by (simp only: check_entries cong: frozen)

lemma spec_all_7_ok: "entries_ok (cu_of CHR ''g'') 0 spec_all_7"
  unfolding spec_all_7_def by (simp only: check_entries cong: frozen)

lemma spec_all_8_ok: "entries_ok (cu_of CHR ''h'') 0 spec_all_8"
  unfolding spec_all_8_def by (simp only: check_entries cong: frozen)

lemma spec_all_9_ok: "entries_ok (cu_of CHR ''i'') 0 spec_all_9"
  unfolding spec_all_9_def by (simp only: check_entries cong: frozen)

lemma spec_all_a_ok: "entries_ok (cu_of CHR ''k'') 0 spec_all_a"
  unfolding spec_all_a_def by (simp only: check_entries cong: frozen)

lemma spec_all_b_ok: "entries_ok (cu_of CHR ''l'') 0 spec_all_b"
  unfolding spec_all_b_def by (simp only: check_entries cong: frozen)

lemma spec_all_c_ok: "entries_ok (cu_of CHR ''m'') 0 spec_all_c"
  unfolding spec_all_c_def by (simp only: check_entries cong: frozen)

lemma spec_all_d_ok: "entries_ok (cu_of CHR ''n'') 0 spec_all_d"
  unfolding spec_all_d_def by (simp only: check_entries cong: frozen)

lemma spec_all_e_ok: "entries_ok (cu_of CHR ''o'') 0 spec_all_e"
  unfolding spec_all_e_def by (simp only: check_entries cong: frozen)

lemma spec_all_f_ok: "entries_ok (cu_of CHR ''p'') 0 spec_all_f"
  unfolding spec_all_f_def by (simp only: check_entries cong: frozen)

lemma spec_all_10_ok: "entries_ok (cu_of CHR ''r'') 0 spec_all_10"
  unfolding spec_all_10_def by (simp only: check_entries cong: frozen)

lemma spec_all_11_ok: "entries_ok (cu_of CHR ''s'') 0 spec_all_11"
  unfolding spec_all_11_def by (simp only: check_entries cong: frozen)

lemma spec_all_12a_ok: "entries_ok (cu_of CHR ''t'') 0 spec_all_12a"
  unfolding spec_all_12a_def by (simp only: check_entries cong: frozen)

lemma spec_all_12b_ok: "entries_ok (cu_of CHR ''t'') 117 spec_all_12b"
  unfolding spec_all_12b_def by (simp only: check_entries cong: frozen)

lemma spec_all_12_ok: "entries_ok (cu_of CHR ''t'') 0 spec_all_12"
proof -
  have "length spec_all_12a = 117" by (simp add: spec_all_12a_def)
  then show ?thesis using spec_all_12a_ok spec_all_12b_ok by (simp only: spec_all_12_def entries_ok_append add_0 simp_thms)
qed

lemma spec_all_13_ok: "entries_ok (cu_of CHR ''u'') 0 spec_all_13"
  unfolding spec_all_13_def by (simp only: check_entries cong: frozen)

lemma spec_all_14_ok: "entries_ok (cu_of CHR ''v'') 0 spec_all_14"
  unfolding spec_all_14_def by (simp only: check_entries cong: frozen)

lemma spec_all_15_ok: "entries_ok (cu_of CHR ''w'') 0 spec_all_15"
  unfolding spec_all_15_def by (simp only: check_entries cong: frozen)

end
