(* ===== verification/Search_Data_Readme.thy ===== *)
theory Search_Data_Readme
  imports Search_Data Search_Results_Props
begin

text \<open>
  The tables of the readme site (\<open>ta-ref_readme_html/search/*.js\<close>); the first of them is
  in \<open>Search_Results_Props\<close>.
\<close>

section \<open>Section \<open>all\<close>\<close>

definition readme_all_1 :: "search_entry list" where
  "readme_all_1 = [
     (js ''building_20ta_2dref_20without_20docker_0'', js ''Building TA-Ref without Docker'',
       [(js ''../a00059.html'', True, [])]),
     (js ''building_2emd_1'', js ''building.md'',
       [(js ''../a00047.html'', True, [])]),
     (js ''building_5fwith_5fdocker_2emd_2'', js ''building_with_docker.md'',
       [(js ''../a00041.html'', True, [])])]"

definition readme_all_2 :: "search_entry list" where
  "readme_all_2 = [
     (js ''gp_5fapi_2emd_0'', js ''gp_api.md'',
       [(js ''../a00029.html'', True, [])])]"

definition readme_all_3 :: "search_entry list" where
  "readme_all_3 = [
     (js ''how_20to_20run_20sample_20ta_20programs_20on_20ta_2dref_0'', js ''How to run sample TA programs on TA-Ref'',
       [(js ''../a00054.html'', True, [])]),
     (js ''how_20to_20write_20your_20first_20_27hello_20world_27_20ta_20program_1'', js ''How to write your first &apos;Hello World&apos; TA Program'',
       [(js ''../a00055.html'', True, [])]),
     (js ''how_5fto_5fprogram_5fon_5fta_2dref_2emd_2'', js ''how_to_program_on_ta-ref.md'',
       [(js ''../a00035.html'', True, [])])]"

definition readme_all_4 :: "search_entry list" where
  "readme_all_4 = [
     (js ''overview_20of_20trusted_20application_20reference_20_28ta_2dref_29_0'', js ''Overview of Trusted Application Reference (TA-Ref)'',
       [(js ''../index.html'', True, [])]),
     (js ''overview_5fof_5fta_2dref_2emd_1'', js ''overview_of_ta-ref.md'',
       [(js ''../a00026.html'', True, [])])]"

definition readme_all_5 :: "search_entry list" where
  "readme_all_5 = [
     (js ''preparation_20and_20building_20ta_2dref_20with_20docker_0'', js ''Preparation and building TA-Ref with docker'',
       [(js ''../a00057.html'', True, [])]),
     (js ''preparation_20before_20building_20ta_2dref_20without_20docker_1'', js ''Preparation before building TA-Ref without Docker'',
       [(js ''../a00058.html'', True, [])]),
     (js ''preparation_2emd_2'', js ''preparation.md'',
       [(js ''../a00044.html'', True, [])])]"

definition readme_all_6 :: "search_entry list" where
  "readme_all_6 = [
     (js ''run_5fsample_5fprogram_2emd_0'', js ''run_sample_program.md'',
       [(js ''../a00032.html'', True, [])]),
     (js ''running_20on_20development_20boards_1'', js ''Running on Development Boards'',
       [(js ''../a00060.html'', True, [])]),
     (js ''running_5fon_5fdev_5fboards_2emd_2'', js ''running_on_dev_boards.md'',
       [(js ''../a00050.html'', True, [])])]"

definition readme_all_7 :: "search_entry list" where
  "readme_all_7 = [
     (js ''tutorials_20of_20using_20gp_20api_27s_20in_20tee_0'', js ''Tutorials of using GP API&apos;s in TEE'',
       [(js ''../a00056.html'', True, [])])]"

section \<open>Section \<open>files\<close>\<close>

definition readme_files_0 :: "search_entry list" where
  "readme_files_0 = [
     (js ''aist_5fsupported_5fapis_2emd_0'', js ''aist_supported_apis.md'',
       [(js ''../a00038.html'', True, [])])]"

definition readme_files_1 :: "search_entry list" where
  "readme_files_1 = [
     (js ''building_2emd_0'', js ''building.md'',
       [(js ''../a00047.html'', True, [])]),
     (js ''building_5fwith_5fdocker_2emd_1'', js ''building_with_docker.md'',
       [(js ''../a00041.html'', True, [])])]"

definition readme_files_2 :: "search_entry list" where
  "readme_files_2 = [
     (js ''gp_5fapi_2emd_0'', js ''gp_api.md'',
       [(js ''../a00029.html'', True, [])])]"

definition readme_files_3 :: "search_entry list" where
  "readme_files_3 = [
     (js ''how_5fto_5fprogram_5fon_5fta_2dref_2emd_0'', js ''how_to_program_on_ta-ref.md'',
       [(js ''../a00035.html'', True, [])])]"

definition readme_files_4 :: "search_entry list" where
  "readme_files_4 = [
     (js ''overview_5fof_5fta_2dref_2emd_0'', js ''overview_of_ta-ref.md'',
       [(js ''../a00026.html'', True, [])])]"

definition readme_files_5 :: "search_entry list" where
  "readme_files_5 = [
     (js ''preparation_2emd_0'', js ''preparation.md'',
       [(js ''../a00044.html'', True, [])])]"

definition readme_files_6 :: "search_entry list" where
  "readme_files_6 = [
     (js ''run_5fsample_5fprogram_2emd_0'', js ''run_sample_program.md'',
       [(js ''../a00032.html'', True, [])]),
     (js ''running_5fon_5fdev_5fboards_2emd_1'', js ''running_on_dev_boards.md'',
       [(js ''../a00050.html'', True, [])])]"

section \<open>Section \<open>pages\<close>\<close>

definition readme_pages_0 :: "search_entry list" where
  "readme_pages_0 = [
     (js ''api_20comparison_20with_20full_20set_20of_20gp_20api_0'', js ''API comparison with full set of GP API'',
       [(js ''../a00053.html'', True, [])])]"

definition readme_pages_1 :: "search_entry list" where
  "readme_pages_1 = [
     (js ''building_20ta_2dref_20without_20docker_0'', js ''Building TA-Ref without Docker'',
       [(js ''../a00059.html'', True, [])])]"

definition readme_pages_2 :: "search_entry list" where
  "readme_pages_2 = [
     (js ''how_20to_20run_20sample_20ta_20programs_20on_20ta_2dref_0'', js ''How to run sample TA programs on TA-Ref'',
       [(js ''../a00054.html'', True, [])]),
     (js ''how_20to_20write_20your_20first_20_27hello_20world_27_20ta_20program_1'', js ''How to write your first &apos;Hello World&apos; TA Program'',
       [(js ''../a00055.html'', True, [])])]"

definition readme_pages_3 :: "search_entry list" where
  "readme_pages_3 = [
     (js ''overview_20of_20trusted_20application_20reference_20_28ta_2dref_29_0'', js ''Overview of Trusted Application Reference (TA-Ref)'',
       [(js ''../index.html'', True, [])])]"

definition readme_pages_4 :: "search_entry list" where
  "readme_pages_4 = [
     (js ''preparation_20and_20building_20ta_2dref_20with_20docker_0'', js ''Preparation and building TA-Ref with docker'',
       [(js ''../a00057.html'', True, [])]),
     (js ''preparation_20before_20building_20ta_2dref_20without_20docker_1'', js ''Preparation before building TA-Ref without Docker'',
       [(js ''../a00058.html'', True, [])])]"

definition readme_pages_5 :: "search_entry list" where
  "readme_pages_5 = [
     (js ''running_20on_20development_20boards_0'', js ''Running on Development Boards'',
       [(js ''../a00060.html'', True, [])])]"

definition readme_pages_6 :: "search_entry list" where
  "readme_pages_6 = [
     (js ''tutorials_20of_20using_20gp_20api_27s_20in_20tee_0'', js ''Tutorials of using GP API&apos;s in TEE'',
       [(js ''../a00056.html'', True, [])])]"

section \<open>The entries fit the scripts\<close>

lemma readme_all_0_ok: "entries_ok (cu_of CHR ''a'') 0 readme_all_0"
  unfolding readme_all_0_def by (simp only: check_entries cong: frozen)

lemma readme_all_1_ok: "entries_ok (cu_of CHR ''b'') 0 readme_all_1"
  unfolding readme_all_1_def by (simp only: check_entries cong: frozen)

lemma readme_all_2_ok: "entries_ok (cu_of CHR ''g'') 0 readme_all_2"
  unfolding readme_all_2_def by (simp only: check_entries cong: frozen)

lemma readme_all_3_ok: "entries_ok (cu_of CHR ''h'') 0 readme_all_3"
  unfolding readme_all_3_def by (simp only: check_entries cong: frozen)

lemma readme_all_4_ok: "entries_ok (cu_of CHR ''o'') 0 readme_all_4"
  unfolding readme_all_4_def by (simp only: check_entries cong: frozen)

lemma readme_all_5_ok: "entries_ok (cu_of CHR ''p'') 0 readme_all_5"
  unfolding readme_all_5_def by (simp only: check_entries cong: frozen)

lemma readme_all_6_ok: "entries_ok (cu_of CHR ''r'') 0 readme_all_6"
  unfolding readme_all_6_def by (simp only: check_entries cong: frozen)

lemma readme_all_7_ok: "entries_ok (cu_of CHR ''t'') 0 readme_all_7"
  unfolding readme_all_7_def by (simp only: check_entries cong: frozen)

lemma readme_files_0_ok: "entries_ok (cu_of CHR ''a'') 0 readme_files_0"
  unfolding readme_files_0_def by (simp only: check_entries cong: frozen)

lemma readme_files_1_ok: "entries_ok (cu_of CHR ''b'') 0 readme_files_1"
  unfolding readme_files_1_def by (simp only: check_entries cong: frozen)

lemma readme_files_2_ok: "entries_ok (cu_of CHR ''g'') 0 readme_files_2"
  unfolding readme_files_2_def by (simp only: check_entries cong: frozen)

lemma readme_files_3_ok: "entries_ok (cu_of CHR ''h'') 0 readme_files_3"
  unfolding readme_files_3_def by (simp only: check_entries cong: frozen)

lemma readme_files_4_ok: "entries_ok (cu_of CHR ''o'') 0 readme_files_4"
  unfolding readme_files_4_def by (simp only: check_entries cong: frozen)

lemma readme_files_5_ok: "entries_ok (cu_of CHR ''p'') 0 readme_files_5"
  unfolding readme_files_5_def by (simp only: check_entries cong: frozen)

lemma readme_files_6_ok: "entries_ok (cu_of CHR ''r'') 0 readme_files_6"
  unfolding readme_files_6_def by (simp only: check_entries cong: frozen)

lemma readme_pages_0_ok: "entries_ok (cu_of CHR ''a'') 0 readme_pages_0"
  unfolding readme_pages_0_def by (simp only: check_entries cong: frozen)

lemma readme_pages_1_ok: "entries_ok (cu_of CHR ''b'') 0 readme_pages_1"
  unfolding readme_pages_1_def by (simp only: check_entries cong: frozen)

lemma readme_pages_2_ok: "entries_ok (cu_of CHR ''h'') 0 readme_pages_2"
  unfolding readme_pages_2_def by (simp only: check_entries cong: frozen)

lemma readme_pages_3_ok: "entries_ok (cu_of CHR ''o'') 0 readme_pages_3"
  unfolding readme_pages_3_def by (simp only: check_entries cong: frozen)

lemma readme_pages_4_ok: "entries_ok (cu_of CHR ''p'') 0 readme_pages_4"
  unfolding readme_pages_4_def by (simp only: check_entries cong: frozen)

lemma readme_pages_5_ok: "entries_ok (cu_of CHR ''r'') 0 readme_pages_5"
  unfolding readme_pages_5_def by (simp only: check_entries cong: frozen)

lemma readme_pages_6_ok: "entries_ok (cu_of CHR ''t'') 0 readme_pages_6"
  unfolding readme_pages_6_def by (simp only: check_entries cong: frozen)

end
