(* ===== verification/Site_Search.thy ===== *)
theory Site_Search
  imports Search_Nav_Props Search_Data_All Search_Data_Kinds Search_Data_Readme
begin

text \<open>
  The search of a site from end to end: the panel, the index tables and the tables of the
  result pages fit together, so that every name of the site is found under every way a
  reader begins to type it.
\<close>

section \<open>Strings\<close>

lemma indexOf_from_char: "distinct s \<Longrightarrow> n < length s \<Longrightarrow> indexOf_from k s [s ! n] = int (k + n)"
  by (induction s arbitrary: k n) (auto simp: nth_Cons split: nat.split)

lemma indexOf_char: "distinct s \<Longrightarrow> n < length s \<Longrightarrow> indexOf s [s ! n] = int n"
  by (simp add: indexOf_def indexOf_from_char)

lemma cut_at_last:
  assumes "c \<notin> set a" "c \<notin> set b" "u @ c # a = u' @ c # b"
  shows "a = b"
proof -
  have "rev a @ c # rev u = rev b @ c # rev u'"
    using arg_cong [OF assms(3), of rev] by simp
  then show ?thesis using cut_at [of c "rev a" "rev b"] assms(1,2) by simp
qed

lemma strip_trailing_prefix: "prefix (strip_trailing s) s"
  unfolding strip_trailing_def by (metis suffix_dropWhile suffix_to_prefix rev_rev_ident)

lemma lower_prefix: "prefix a b \<Longrightarrow> prefix (map lower_cu a) (map lower_cu b)"
  by (rule map_mono_prefix)

section \<open>Tables that fit\<close>

lemma entries_distinct:
  assumes "entries_ok c j es"
  shows "distinct (map fst es)"
proof -
  have no_mark: "cu_of (CHR ''_'') \<notin> set (nat_str n)" for n
    using nat_str_digits [of "cu_of (CHR ''_'')" n] by auto
  have "fst (es ! a) \<noteq> fst (es ! b)" if ab: "a < length es" "b < length es" "a \<noteq> b" for a b
  proof
    assume same: "fst (es ! a) = fst (es ! b)"
    obtain x y where "fst (es ! a) = x @ cu_of (CHR ''_'') # nat_str (j + a)"
      "fst (es ! b) = y @ cu_of (CHR ''_'') # nat_str (j + b)"
      using entries_ok_nth [OF assms ab(1)] entries_ok_nth [OF assms ab(2)]
      by (auto simp: entry_ok_def js_Cons split: prod.splits)
    then have "nat_str (j + a) = nat_str (j + b)" using same cut_at_last [OF no_mark no_mark] by metis
    then show False using ab(3) by (simp add: nat_str_inj)
  qed
  then show ?thesis by (simp add: distinct_conv_nth)
qed

lemma seen_chars: "set (seen s) \<subseteq> insert (cu_of (CHR 0x27)) (set s)"
  by (induction s rule: seen.induct) (auto dest: in_set_dropD)

lemma seen_ascii: "is_ascii s \<Longrightarrow> is_ascii (seen s)"
  using seen_chars [of s] by (auto simp: is_ascii_def list_all_iff)

lemma id_cu_ascii: "unat c < 128 \<Longrightarrow> d \<in> set (id_cu c) \<Longrightarrow> unat d < 128"
  by (cases "id_plain c") (auto simp: id_cu_hex unat_hexlo, auto simp: id_cu_def)

lemma entry_id_ascii:
  assumes "entry_ok c j (i, name, hits)"
  shows "is_ascii i"
proof -
  have name: "is_ascii name" and i: "i = convertToId (map lower_cu (seen name)) @ js ''_'' @ nat_str j"
    using assms by (simp_all add: entry_ok_def)
  have low: "unat (lower_cu c) < 128" if "c \<in> set (seen name)" for c
    using seen_ascii [OF name] that by (simp add: is_ascii_def list_all_iff unat_lower_cu)
  have "unat d < 128" if d: "d \<in> set (convertToId (map lower_cu (seen name)))" for d
    using d low id_cu_ascii by (auto simp: convertToId_def convertToId_from_eq)
  moreover have "unat d < 128" if "d \<in> set (nat_str j)" for d using nat_str_digits [OF that] by simp
  ultimately show ?thesis by (auto simp: i is_ascii_def list_all_iff js_Cons)
qed

lemma row_of_entry:
  assumes "fresh_results d" "results_ok d" "entries_ok c 0 T" "j < length T" "T ! j = (i, name, hits)"
  shows "\<exists>d' k n. createResults T d = (Inr (), d') \<and> results_ok d' \<and>
    getElementById d' (js ''SR_'' @ i) = Some k \<and> node_at d' k = Some n \<and> k \<in> set (getElementsByTagName d' ''div'') \<and>
    className n = js ''SRResult'' \<and> idOf n = js ''SR_'' @ i"
proof -
  obtain r where r: "getElementById d (js ''SRResults'') = Some r" and wf: "wf_doc d"
    using assms(1) by (auto simp: fresh_results_def)
  let ?d = "rows.filled r 0 T d" and ?k = "fresh d + rows.total (take j T)"
  have id: "getElementById ?d (js ''SR_'' @ i) = Some ?k"
    using rows_found(3) [OF assms(1) r entries_distinct [OF assms(3)] assms(4)] by (simp add: assms(5))
  note place = row_places(1) [OF assms(1) r assms(4)]
  have node: "node_at ?d ?k = Some (dnode (row_tree ?k j (T ! j)))"
    using place by (simp add: node_at_def)
  have ok: "results_ok ?d" by (rule results_ok_filled [OF assms(2) r])
  obtain n where n: "(?k, n) \<in> set (cells (root ?d))"
    using id by (auto simp: getElementById_cells dest: find_Some_P)
  then have "n = dnode (row_tree ?k j (T ! j))"
    using node_at_cells [OF _ n] node ok by (simp add: results_ok_def)
  then have "?k \<in> set (getElementsByTagName ?d ''div'')"
    using ok n by (auto simp: divs_nodes(2) results_ok_def row_tree_def assms(5) class_attrs_def new_node_def)
  then show ?thesis
    using createResults_run [OF wf r, of T] ok id node
    by (intro exI [of _ ?d] exI [of _ ?k] exI [of _ "dnode (row_tree ?k j (T ! j))"])
      (simp add: row_tree_def assms(5) class_attrs_def className_def idOf_def)
qed

section \<open>The search\<close>

lemma index_char_ascii: "is_ascii v \<Longrightarrow> index_char S v = take 1 (map lower_cu v)"
  by (cases v) (auto simp: index_char_def Let_def toLowerCase_def is_ascii_def substr_def high_surrogate_def unat_lower_cu)

lemma row_matches_start:
  assumes "idOf row = js ''SR_'' @ i" "entry_ok c j (i, name, hits)" "is_ascii v" "strip_leading v = v"
    "prefix (map lower_cu v) (map lower_cu (seen name))"
  shows "row_matches U (search_key U v) row"
proof -
  have i: "i = convertToId (map lower_cu (seen name)) @ js ''_'' @ nat_str j"
    using assms(2) by (simp add: entry_ok_def)
  have "is_ascii (idOf row)" using entry_id_ascii [OF assms(2)] by (simp add: assms(1) is_ascii_def js_Cons)
  note enc = row_matches_encoded [OF assms(1) [unfolded i] this]
  have tr: "prefix (strip_trailing v) v" by (rule strip_trailing_prefix)
  have "is_ascii (strip_trailing v)" using assms(3) set_mono_prefix [OF tr] by (auto simp: is_ascii_def list_all_iff)
  then have "prefix (toLowerCase U (strip_trailing v)) (map lower_cu (seen name))"
    using prefix_order.trans [OF lower_prefix [OF tr] assms(5)] by (simp add: toLowerCase_def)
  then show ?thesis by (simp add: enc assms(4) convertToId_prefix_append)
qed

locale search_site =
  fixes contents :: "jstr list" and names :: "jstr list" and tables :: "search_entry list list list"
  assumes tables_fit: "list_all2 (\<lambda>content ts. distinct content \<and> list_all2 (\<lambda>c T. entries_ok c 0 T) content ts) contents tables"
    and names_fit: "length names = length contents" "list_all plain_path names"
begin

lemma table_fits:
  assumes "i < length tables" "n < length (tables ! i)"
  shows "i < length contents" "distinct (contents ! i)" "n < length (contents ! i)" "entries_ok (contents ! i ! n) 0 (tables ! i ! n)"
    "i < length names" "plain_path (names ! i)"
  using tables_fit names_fit assms by (auto simp: list_all2_conv_all_nth list_all_length)

lemma name_found:
  assumes S: "site_ok S" "indexSectionsWithContent S = contents" "indexSectionNames S = names"
    and w: "page_ok (page w)" "searchIndex (box w) = int i" "plain_path (resultsPath (box w))" "plain_path (extension (box w))"
    and e: "i < length tables" "n < length (tables ! i)" "j < length (tables ! i ! n)" "tables ! i ! n ! j = (rid, name, hits)"
    and typed: "strip_leading (field_value (page w)) = v" "v \<noteq> []" "prefix (map lower_cu v) (map lower_cu (seen name))"
    and d: "fresh_results d" "results_ok d"
  shows "\<exists>w' d' w''. Search S w = (Inr (), w') \<and>
    frameLocation w' = resultsPath (box w) @ js ''/'' @ names ! i @ js ''_'' @ toString16 n @ extension (box w) @ js ''?'' @ escape v \<and>
    createResults (tables ! i ! n) d = (Inr (), d') \<and>
    SearchResults_Search S [] (w'\<lparr>frame := d'\<rparr>) = (Inr True, w'') \<and> displayOf (frame w'') (js ''SR_'' @ rid) = Some block_str"
proof -
  note fits = table_fits [OF e(1,2)]
  have ok: "entry_ok (contents ! i ! n) j (rid, name, hits)" using entries_ok_nth [OF fits(4) e(3)] by (simp add: e(4))
  have "is_ascii (map lower_cu (seen name))" using ok seen_ascii by (simp add: entry_ok_def)
  then have v: "is_ascii v"
    using typed(3) unfolding is_ascii_lower [symmetric, of v] by (auto simp: is_ascii_def prefix_def)
  have "take 1 (map lower_cu v) = take 1 (map lower_cu (seen name))"
    using typed(2,3) by (cases v) (auto simp: prefix_def)
  then have "index_char S v = [contents ! i ! n]"
    using ok index_char_ascii [OF v] by (simp add: entry_ok_def take_map)
  then have page: "results_page S (box w) v = Some (resultsPath (box w) @ js ''/'' @ names ! i @ js ''_'' @ toString16 n @ extension (box w),
      (resultsPath (box w) @ js ''/'' @ names ! i @ js ''_'' @ toString16 n @ extension (box w)) @ js ''?'' @ escape v)"
    using fits by (simp add: results_page_def S w(2) at_def Let_def indexOf_char)
  obtain w' where w': "Search S w = (Inr (), w')" "frameLocation w' = (resultsPath (box w) @ js ''/'' @ names ! i @ js ''_'' @ toString16 n @ extension (box w)) @ js ''?'' @ escape v"
    using Search_run [OF S(1) w(1)] page typed(1) by blast
  have "plain_path (resultsPath (box w) @ js ''/'' @ names ! i @ js ''_'' @ toString16 n @ extension (box w))"
    using fits(6) w(3,4) plain_toString16 [of n] by (simp add: plain_path_def js_Cons)
  then have query: "search_text (frameLocation w') [] = v" unfolding w'(2) by (rule search_text_query)
  obtain d' k m where d': "createResults (tables ! i ! n) d = (Inr (), d')" "results_ok d'"
    "getElementById d' (js ''SR_'' @ rid) = Some k" "node_at d' k = Some m" "k \<in> set (getElementsByTagName d' ''div'')"
    "className m = js ''SRResult''" "idOf m = js ''SR_'' @ rid"
    using row_of_entry [OF d fits(4) e(3,4)] by blast
  have match: "row_matches (unicode_lower S) (search_key (unicode_lower S) v) m"
    using row_matches_start [OF d'(7) ok v _ typed(3)] typed(1) by (auto simp: strip_leading_def)
  obtain w'' where w'': "SearchResults_Search S [] (w'\<lparr>frame := d'\<rparr>) = (Inr True, w'')" "same_tree d' (frame w'')"
    "node_at (frame w'') k = map_option (row_mark (unicode_lower S) (search_key (unicode_lower S) v)) (node_at d' k)"
    using results_ok_search [of "w'\<lparr>frame := d'\<rparr>" S "[]"] d' query by (auto simp: has_class_def)
  have "displayOf (frame w'') (js ''SR_'' @ rid) = Some block_str"
    using w''(2,3) d'(3,4,6) match by (simp add: displayOf_def elemNode_def same_tree_def row_mark_def)
  then show ?thesis using w' d'(1) w''(1) by auto
qed

end

section \<open>The sites\<close>

definition spec_tables :: "search_entry list list list" where
  "spec_tables = [
     [spec_all_0, spec_all_1, spec_all_2, spec_all_3, spec_all_4, spec_all_5, spec_all_6,
      spec_all_7, spec_all_8, spec_all_9, spec_all_a, spec_all_b, spec_all_c, spec_all_d,
      spec_all_e, spec_all_f, spec_all_10, spec_all_11, spec_all_12, spec_all_13, spec_all_14,
      spec_all_15],
     [spec_classes_0, spec_classes_1, spec_classes_2, spec_classes_3, spec_classes_4,
      spec_classes_5],
     [spec_files_0, spec_files_1, spec_files_2, spec_files_3, spec_files_4, spec_files_5],
     [spec_functions_0, spec_functions_1, spec_functions_2, spec_functions_3, spec_functions_4,
      spec_functions_5, spec_functions_6, spec_functions_7, spec_functions_8, spec_functions_9,
      spec_functions_a, spec_functions_b, spec_functions_c],
     [spec_variables_0, spec_variables_1, spec_variables_2, spec_variables_3, spec_variables_4,
      spec_variables_5, spec_variables_6, spec_variables_7, spec_variables_8, spec_variables_9,
      spec_variables_a, spec_variables_b, spec_variables_c, spec_variables_d, spec_variables_e,
      spec_variables_f, spec_variables_10, spec_variables_11, spec_variables_12, spec_variables_13,
      spec_variables_14, spec_variables_15],
     [spec_typedefs_0, spec_typedefs_1, spec_typedefs_2, spec_typedefs_3],
     [spec_enums_0],
     [spec_enumvalues_0],
     [spec_defines_0, spec_defines_1, spec_defines_2, spec_defines_3]]"

definition readme_tables :: "search_entry list list list" where
  "readme_tables = [
     [readme_all_0, readme_all_1, readme_all_2, readme_all_3, readme_all_4, readme_all_5,
      readme_all_6, readme_all_7],
     [readme_files_0, readme_files_1, readme_files_2, readme_files_3, readme_files_4,
      readme_files_5, readme_files_6],
     [readme_pages_0, readme_pages_1, readme_pages_2, readme_pages_3, readme_pages_4,
      readme_pages_5, readme_pages_6]]"

lemmas spec_tables_ok =
  spec_all_0_ok spec_all_1_ok spec_all_2_ok spec_all_3_ok spec_all_4_ok spec_all_5_ok
  spec_all_6_ok spec_all_7_ok spec_all_8_ok spec_all_9_ok spec_all_a_ok spec_all_b_ok
  spec_all_c_ok spec_all_d_ok spec_all_e_ok spec_all_f_ok spec_all_10_ok spec_all_11_ok
  spec_all_12_ok spec_all_13_ok spec_all_14_ok spec_all_15_ok spec_classes_0_ok
  spec_classes_1_ok spec_classes_2_ok spec_classes_3_ok spec_classes_4_ok spec_classes_5_ok
  spec_files_0_ok spec_files_1_ok spec_files_2_ok spec_files_3_ok spec_files_4_ok
  spec_files_5_ok spec_functions_0_ok spec_functions_1_ok spec_functions_2_ok
  spec_functions_3_ok spec_functions_4_ok spec_functions_5_ok spec_functions_6_ok
  spec_functions_7_ok spec_functions_8_ok spec_functions_9_ok spec_functions_a_ok
  spec_functions_b_ok spec_functions_c_ok spec_variables_0_ok spec_variables_1_ok
  spec_variables_2_ok spec_variables_3_ok spec_variables_4_ok spec_variables_5_ok
  spec_variables_6_ok spec_variables_7_ok spec_variables_8_ok spec_variables_9_ok
  spec_variables_a_ok spec_variables_b_ok spec_variables_c_ok spec_variables_d_ok
  spec_variables_e_ok spec_variables_f_ok spec_variables_10_ok spec_variables_11_ok
  spec_variables_12_ok spec_variables_13_ok spec_variables_14_ok spec_variables_15_ok
  spec_typedefs_0_ok spec_typedefs_1_ok spec_typedefs_2_ok spec_typedefs_3_ok spec_enums_0_ok
  spec_enumvalues_0_ok spec_defines_0_ok spec_defines_1_ok spec_defines_2_ok spec_defines_3_ok

lemmas readme_tables_ok =
  readme_all_0_ok readme_all_1_ok readme_all_2_ok readme_all_3_ok readme_all_4_ok
  readme_all_5_ok readme_all_6_ok readme_all_7_ok readme_files_0_ok readme_files_1_ok
  readme_files_2_ok readme_files_3_ok readme_files_4_ok readme_files_5_ok readme_files_6_ok
  readme_pages_0_ok readme_pages_1_ok readme_pages_2_ok readme_pages_3_ok readme_pages_4_ok
  readme_pages_5_ok readme_pages_6_ok

interpretation spec_search: search_site spec_indexSectionsWithContent spec_indexSectionNames spec_tables
proof
  show "list_all2 (\<lambda>content ts. distinct content \<and> list_all2 (\<lambda>c T. entries_ok c 0 T) content ts)
      spec_indexSectionsWithContent spec_tables"
    by (simp add: spec_indexSectionsWithContent_def spec_tables_def js_Cons spec_tables_ok)
  show "length spec_indexSectionNames = length spec_indexSectionsWithContent"
    by (simp add: spec_indexSectionNames_def spec_indexSectionsWithContent_def)
  show "list_all plain_path spec_indexSectionNames"
    by (simp add: spec_indexSectionNames_def plain_path_def js_Cons)
qed

interpretation readme_search: search_site readme_indexSectionsWithContent readme_indexSectionNames readme_tables
proof
  show "list_all2 (\<lambda>content ts. distinct content \<and> list_all2 (\<lambda>c T. entries_ok c 0 T) content ts)
      readme_indexSectionsWithContent readme_tables"
    by (simp add: readme_indexSectionsWithContent_def readme_tables_def js_Cons readme_tables_ok)
  show "length readme_indexSectionNames = length readme_indexSectionsWithContent"
    by (simp add: readme_indexSectionNames_def readme_indexSectionsWithContent_def)
  show "list_all plain_path readme_indexSectionNames"
    by (simp add: readme_indexSectionNames_def plain_path_def js_Cons)
qed

definition sample_world :: "int \<Rightarrow> jstr \<Rightarrow> world" where
  "sample_world i v = panel_world\<lparr>page := upd_node panel_doc 4 (set_val v), box := (box panel_world)\<lparr>searchIndex := i\<rparr>\<rparr>"

lemma sample_world:
  "page_ok (page (sample_world i v))" "searchIndex (box (sample_world i v)) = i"
  "resultsPath (box (sample_world i v)) = js ''search''" "extension (box (sample_world i v)) = js ''.html''"
  "field_value (page (sample_world i v)) = v"
  by (simp_all add: sample_world_def dom_simps page_ok_panel_doc field_value_def elemNode_def panel_doc_ids panel_doc_nodes
      panel_world_def SearchBox_def)

lemma sample_paths: "plain_path (js ''search'')" "plain_path (js ''.html'')"
  by (simp_all add: plain_path_def js_Cons)

lemma site_ok_spec: "site_ok spec_site"
  by (simp add: site_ok_def spec_site_def flat_offsets_ok)

text \<open>
  (C1) Every name of the specification site is found: whatever section is
  selected and however a reader begins to type a name of that section's tables, in any case,
  \<open>Search\<close> loads the page whose table has the name, \<open>createResults\<close> builds the row there, and
  \<open>SearchResults.Search\<close> shows it.
\<close>

theorem spec_name_found:
  assumes "site_ok S" "indexSectionsWithContent S = spec_indexSectionsWithContent" "indexSectionNames S = spec_indexSectionNames"
    and "page_ok (page w)" "searchIndex (box w) = int i" "plain_path (resultsPath (box w))" "plain_path (extension (box w))"
    and "i < length spec_tables" "n < length (spec_tables ! i)" "j < length (spec_tables ! i ! n)"
    and "spec_tables ! i ! n ! j = (rid, name, hits)"
    and "strip_leading (field_value (page w)) = v" "v \<noteq> []" "prefix (map lower_cu v) (map lower_cu (seen name))"
    and "fresh_results d" "results_ok d"
  shows "\<exists>w' d' w''. Search S w = (Inr (), w') \<and>
    frameLocation w' = resultsPath (box w) @ js ''/'' @ spec_indexSectionNames ! i @ js ''_'' @ toString16 n @
      extension (box w) @ js ''?'' @ escape v \<and>
    createResults (spec_tables ! i ! n) d = (Inr (), d') \<and>
    SearchResults_Search S [] (w'\<lparr>frame := d'\<rparr>) = (Inr True, w'') \<and>
    displayOf (frame w'') (js ''SR_'' @ rid) = Some block_str"
  by (rule spec_search.name_found [OF assms])

theorem spec_name_found_witness:
  "\<exists>w' d' w''. Search spec_site (sample_world 6 (js '' Tee_W'')) = (Inr (), w') \<and>
    frameLocation w' = js ''search'' @ js ''/'' @ js ''enums'' @ js ''_'' @ toString16 0 @ js ''.html'' @ js ''?'' @ escape (js ''Tee_W'') \<and>
    createResults spec_enums_0 results_doc = (Inr (), d') \<and>
    SearchResults_Search spec_site [] (w'\<lparr>frame := d'\<rparr>) = (Inr True, w'') \<and>
    displayOf (frame w'') (js ''SR_'' @ js ''tee_5fwhence_1'') = Some block_str"
proof -
  let ?name = "js ''TEE_Whence''"
  have table: "spec_tables ! 6 ! 0 = spec_enums_0" "length spec_tables = 9" "length (spec_tables ! 6) = 1"
    "spec_indexSectionNames ! 6 = js ''enums''"
    by (simp_all add: spec_tables_def spec_indexSectionNames_def)
  obtain hits where entry: "spec_enums_0 ! 1 = (js ''tee_5fwhence_1'', ?name, hits)" and len: "length spec_enums_0 = 2"
    by (simp add: spec_enums_0_def)
  have seen: "prefix (map lower_cu (js ''Tee_W'')) (map lower_cu (seen ?name))"
    by (simp add: seen_js lower_cu_of char_lower_def del: seen.simps) (simp add: js_Cons lower_cu_of char_lower_def char_of_def bit_Suc_0_iff)
  have "strip_leading (js '' Tee_W'') = js ''Tee_W''" by (simp add: js_string)
  then show ?thesis
    using spec_name_found [where S = spec_site and w = "sample_world 6 (js '' Tee_W'')" and i = 6 and n = 0 and j = 1
        and rid = "js ''tee_5fwhence_1''" and name = ?name and hits = hits and v = "js ''Tee_W''" and d = results_doc]
      entry len seen fresh_results_doc results_ok_doc site_ok_spec
    by (simp add: table sample_world sample_paths spec_site_def)
qed

text \<open>
  (C25) Every name of the readme site is found: whatever section is
  selected and however a reader begins to type a name of that section's tables, in any case,
  \<open>Search\<close> loads the page whose table has the name, \<open>createResults\<close> builds the row there, and
  \<open>SearchResults.Search\<close> shows it.
\<close>

theorem readme_name_found:
  assumes "site_ok S" "indexSectionsWithContent S = readme_indexSectionsWithContent" "indexSectionNames S = readme_indexSectionNames"
    and "page_ok (page w)" "searchIndex (box w) = int i" "plain_path (resultsPath (box w))" "plain_path (extension (box w))"
    and "i < length readme_tables" "n < length (readme_tables ! i)" "j < length (readme_tables ! i ! n)"
    and "readme_tables ! i ! n ! j = (rid, name, hits)"
    and "strip_leading (field_value (page w)) = v" "v \<noteq> []" "prefix (map lower_cu v) (map lower_cu (seen name))"
    and "fresh_results d" "results_ok d"
  shows "\<exists>w' d' w''. Search S w = (Inr (), w') \<and>
    frameLocation w' = resultsPath (box w) @ js ''/'' @ readme_indexSectionNames ! i @ js ''_'' @ toString16 n @
      extension (box w) @ js ''?'' @ escape v \<and>
    createResults (readme_tables ! i ! n) d = (Inr (), d') \<and>
    SearchResults_Search S [] (w'\<lparr>frame := d'\<rparr>) = (Inr True, w'') \<and>
    displayOf (frame w'') (js ''SR_'' @ rid) = Some block_str"
  by (rule readme_search.name_found [OF assms])

theorem readme_name_found_witness:
  "\<exists>w' d' w''. Search readme_site (sample_world 2 (js ''TUTORIALS'')) = (Inr (), w') \<and>
    frameLocation w' = js ''search'' @ js ''/'' @ js ''pages'' @ js ''_'' @ toString16 6 @ js ''.html'' @ js ''?'' @ escape (js ''TUTORIALS'') \<and>
    createResults readme_pages_6 results_doc = (Inr (), d') \<and>
    SearchResults_Search readme_site [] (w'\<lparr>frame := d'\<rparr>) = (Inr True, w'') \<and>
    displayOf (frame w'') (js ''SR_'' @ js ''tutorials_20of_20using_20gp_20api_27s_20in_20tee_0'') = Some block_str"
proof -
  let ?name = "js ''Tutorials of using GP API&apos;s in TEE''"
  have table: "readme_tables ! 2 ! 6 = readme_pages_6" "length readme_tables = 3" "length (readme_tables ! 2) = 7"
    "readme_indexSectionNames ! 2 = js ''pages''"
    by (simp_all add: readme_tables_def readme_indexSectionNames_def)
  obtain hits where entry: "readme_pages_6 ! 0 = (js ''tutorials_20of_20using_20gp_20api_27s_20in_20tee_0'', ?name, hits)"
    and len: "length readme_pages_6 = 1"
    by (simp add: readme_pages_6_def)
  have seen: "prefix (map lower_cu (js ''TUTORIALS'')) (map lower_cu (seen ?name))"
    by (simp add: seen_js lower_cu_of char_lower_def del: seen.simps) (simp add: js_Cons lower_cu_of char_lower_def char_of_def bit_Suc_0_iff)
  have "strip_leading (js ''TUTORIALS'') = js ''TUTORIALS''" by (simp add: js_string)
  then show ?thesis
    using readme_name_found [where S = readme_site and w = "sample_world 2 (js ''TUTORIALS'')" and i = 2 and n = 6 and j = 0
        and rid = "js ''tutorials_20of_20using_20gp_20api_27s_20in_20tee_0''" and name = ?name and hits = hits and v = "js ''TUTORIALS''" and d = results_doc]
      entry len seen fresh_results_doc results_ok_doc site_ok_readme
    by (simp add: table sample_world sample_paths readme_site_def)
qed

end
