(* ===== verification/Nav_Paths.thy ===== *)
theory Nav_Paths
  imports JS_Strings
begin

text \<open>
  The addresses of the navigation tree (\<open>navtree.js\<close>): file names of links, the cleaned
  fragment and path of the page's address, names of the data variables, and the choice
  of the index file for an address.
\<close>

section \<open>Operations\<close>

abbreviation slash :: cu where "slash \<equiv> cu_of (CHR ''/'')"

definition stripPath :: "jstr \<Rightarrow> jstr" where
  "stripPath uri = substring1 uri (lastIndexOf uri slash + 1)"

definition dataName :: "jstr \<Rightarrow> jstr" where
  \<comment> \<open>the variable that \<open>getData(varName)\<close> evaluates\<close>
  "dataName varName =
     (let i = lastIndexOf varName slash;
          n = (if i \<ge> 0 then substring1 varName (i + 1) else varName)
      in map (\<lambda>c. if c = cu_of (CHR ''-'') then cu_of (CHR ''_'') else c) n)"

definition is_word :: "cu \<Rightarrow> bool" where
  \<comment> \<open>\<open>\w\<close>\<close>
  "is_word c \<longleftrightarrow> (let n = unat c in
     (65 \<le> n \<and> n \<le> 90) \<or> (97 \<le> n \<and> n \<le> 122) \<or> (48 \<le> n \<and> n \<le> 57) \<or> n = 95)"

definition is_split_dir :: "jstr \<Rightarrow> bool" where
  \<comment> \<open>\<open>match(/\/d\w\/d\w\w\/$/)\<close>\<close>
  "is_split_dir s \<longleftrightarrow> (case drop (length s - 8) s of
     [a, b, c, d, e, f, g, h] \<Rightarrow> a = slash \<and> b = cu_of (CHR ''d'') \<and> is_word c \<and> d = slash \<and>
       e = cu_of (CHR ''d'') \<and> is_word f \<and> is_word g \<and> h = slash
   | _ \<Rightarrow> False)"

definition stripPath2 :: "jstr \<Rightarrow> jstr" where
  "stripPath2 uri =
     (let i = lastIndexOf uri slash;
          s = substring1 uri (i + 1);
          m = is_split_dir (substring2 uri 0 (i + 1))
      in if m then substring1 uri (i - 6) else s)"

definition clean_hash :: "jstr \<Rightarrow> jstr" where
  \<comment> \<open>\<open>replace(/[^\w\-]/g,'')\<close>\<close>
  "clean_hash s = filter (\<lambda>c. is_word c \<or> c = cu_of (CHR ''-'')) s"

definition hashValue :: "jstr \<Rightarrow> jstr" where
  "hashValue hash = clean_hash (substring1 hash 1)"

definition hashUrl :: "jstr \<Rightarrow> jstr" where
  "hashUrl hash = js ''#'' @ hashValue hash"

definition path_char :: "cu \<Rightarrow> bool" where
  "path_char c \<longleftrightarrow> (let n = unat c in
     (65 \<le> n \<and> n \<le> 90) \<or> (97 \<le> n \<and> n \<le> 122) \<or> (48 \<le> n \<and> n \<le> 57)) \<or>
     c \<in> set (js ''-+&@#/%?=~_|!:,.;()'')"

definition pathName :: "jstr \<Rightarrow> jstr" where
  "pathName pathname = filter path_char pathname"

definition line_anchor :: "jstr \<Rightarrow> bool" where
  \<comment> \<open>\<open>hash.match(/^#l\d+$/)\<close>\<close>
  "line_anchor hash \<longleftrightarrow> prefix (js ''#l'') hash \<and> drop 2 hash \<noteq> [] \<and>
     list_all (\<lambda>c. 48 \<le> unat c \<and> unat c \<le> 57) (drop 2 hash)"

text \<open>
  \<open>while (NAVTREEINDEX[i+1]<=url) i++\<close>: past the end of the table the comparison with
  \<open>undefined\<close> is false.
\<close>

fun index_loop :: "jstr \<Rightarrow> int \<Rightarrow> jstr list \<Rightarrow> int" where
  "index_loop url i [] = i"
| "index_loop url i (x # rest) = (if str_le x url then index_loop url (i + 1) rest else i)"

definition index_of_url :: "jstr list \<Rightarrow> jstr \<Rightarrow> int" where
  "index_of_url NAVTREEINDEX url = index_loop url (-1) NAVTREEINDEX"

section \<open>Paths\<close>

lemma lastIndexOf_acc_split:
  "c \<notin> set v \<Longrightarrow> lastIndexOf_acc r k (u @ c # v) c = int (k + length u)"
proof (induction u arbitrary: r k)
  case Nil
  have "c \<notin> set v \<Longrightarrow> lastIndexOf_acc r' k' v c = r'" for r' k'
    by (induction v arbitrary: k') auto
  with Nil show ?case by simp
qed simp

lemma lastIndexOf_absent: "c \<notin> set s \<Longrightarrow> lastIndexOf s c = -1"
proof -
  have "c \<notin> set s \<Longrightarrow> lastIndexOf_acc r k s c = r" for r k
    by (induction s arbitrary: k) auto
  then show "c \<notin> set s \<Longrightarrow> lastIndexOf s c = -1" by (simp add: lastIndexOf_def)
qed

lemma lastIndexOf_split: "c \<notin> set v \<Longrightarrow> lastIndexOf (u @ c # v) c = int (length u)"
  by (simp add: lastIndexOf_def lastIndexOf_acc_split)

lemma stripPath_dir: "slash \<notin> set v \<Longrightarrow> stripPath (u @ slash # v) = v"
proof -
  assume "slash \<notin> set v"
  then have "stripPath (u @ slash # v) = substring1 (u @ slash # v) (int (Suc (length u)))"
    by (simp add: stripPath_def lastIndexOf_split add.commute)
  then show ?thesis by (simp only: substring1_nat) simp
qed

lemma stripPath_plain: "slash \<notin> set v \<Longrightarrow> stripPath v = v"
  using substring1_nat [of v 0] by (simp add: stripPath_def lastIndexOf_absent)

lemma path_cases:
  obtains v where "slash \<notin> set v" "s = v" | u v where "slash \<notin> set v" "s = u @ slash # v"
  by (metis split_list_last)

lemma stripPath_no_slash: "slash \<notin> set (stripPath s)"
  by (cases s rule: path_cases) (simp_all add: stripPath_dir stripPath_plain)

lemma stripPath_suffix: "suffix (stripPath s) s"
  by (cases s rule: path_cases) (simp_all add: stripPath_dir stripPath_plain suffix_def)

lemma stripPath2_dir:
  assumes "slash \<notin> set v" "is_word a" "is_word b" "is_word c"
    and "s = u @ slash # cu_of (CHR ''d'') # a # slash # cu_of (CHR ''d'') # b # c # slash # v"
  shows "stripPath2 s = cu_of (CHR ''d'') # a # slash # cu_of (CHR ''d'') # b # c # slash # v"
proof -
  let ?dir = "u @ [slash, cu_of (CHR ''d''), a, slash, cu_of (CHR ''d''), b, c]"
  have s: "s = ?dir @ slash # v" by (simp add: assms(5))
  have i: "lastIndexOf s slash = int (length u + 7)"
    unfolding s using lastIndexOf_split [OF assms(1), of ?dir] by simp
  have "substring2 s 0 (int (length u + 8)) = take (length u + 8) s"
    by (subst substring2_prefix) (simp_all only: nat_int of_nat_0_le_iff)
  then have dir: "substring2 s 0 (lastIndexOf s slash + 1) = ?dir @ [slash]"
    unfolding i by (simp add: s add.commute)
  have m: "is_split_dir (?dir @ [slash])"
    using assms(2-4) by (simp add: is_split_dir_def)
  have "stripPath2 s = substring1 s (lastIndexOf s slash - 6)"
    unfolding stripPath2_def Let_def dir using m by simp
  also have "\<dots> = drop (length u + 1) s"
    unfolding i using substring1_nat [of s "length u + 1"] by simp
  finally show ?thesis by (simp add: assms(5))
qed

section \<open>The choice of the index file\<close>

lemma index_loop_takeWhile:
  "index_loop url i xs = i + int (length (takeWhile (\<lambda>x. str_le x url) xs))"
  by (induction url i xs rule: index_loop.induct) simp_all

definition in_bucket :: "jstr list \<Rightarrow> nat \<Rightarrow> jstr \<Rightarrow> bool" where
  "in_bucket idx i url \<longleftrightarrow> i < length idx \<and> str_le (idx ! i) url \<and>
     (Suc i < length idx \<longrightarrow> \<not> str_le (idx ! Suc i) url)"

lemma index_of_url_bucket:
  assumes "sorted_wrt str_le idx" "in_bucket idx i url"
  shows "index_of_url idx url = int i"
proof -
  have i: "i < length idx" "str_le (idx ! i) url" using assms(2) by (simp_all add: in_bucket_def)
  have "str_le (idx ! j) url" if "j \<le> i" for j
    using that i assms(1) str_le_trans [of "idx ! j" "idx ! i" url]
    by (cases "j = i") (auto simp: sorted_wrt_iff_nth_less)
  then have take: "\<forall>x \<in> set (take (Suc i) idx). str_le x url"
    by (auto simp: in_set_conv_nth less_Suc_eq_le)
  have rest: "takeWhile (\<lambda>x. str_le x url) (drop (Suc i) idx) = []"
  proof (cases "Suc i < length idx")
    case True
    then have "\<not> str_le (idx ! Suc i) url" using assms(2) by (simp add: in_bucket_def)
    then show ?thesis using True by (simp add: Cons_nth_drop_Suc [symmetric])
  qed simp
  have "takeWhile (\<lambda>x. str_le x url) (take (Suc i) idx @ drop (Suc i) idx) =
      take (Suc i) idx @ takeWhile (\<lambda>x. str_le x url) (drop (Suc i) idx)"
    by (rule takeWhile_append2) (use take in auto)
  then have "length (takeWhile (\<lambda>x. str_le x url) idx) = Suc i"
    using rest i(1) by simp
  then show ?thesis by (simp add: index_of_url_def index_loop_takeWhile)
qed

lemma index_of_url_range: "-1 \<le> index_of_url idx url" "index_of_url idx url < int (length idx)"
proof -
  have "length (takeWhile (\<lambda>x. str_le x url) idx) \<le> length idx" by (rule length_takeWhile_le)
  then show "-1 \<le> index_of_url idx url" "index_of_url idx url < int (length idx)"
    by (simp_all add: index_of_url_def index_loop_takeWhile)
qed

section \<open>Tables of literals\<close>

text \<open>Comparing literals.\<close>

fun lit_le :: "string \<Rightarrow> string \<Rightarrow> bool" where
  "lit_le [] t = True"
| "lit_le (c # s) [] = False"
| "lit_le (c # s) (d # t) = (if c = d then lit_le s t else (of_char c :: nat) < of_char d)"

lemma str_le_lit: "str_le (js s) (js t) = lit_le s t"
proof (induction s t rule: lit_le.induct)
  case (3 c s d t)
  have "cu_of c < cu_of d \<longleftrightarrow> (of_char c :: nat) < of_char d" by (simp add: word_less_nat_alt)
  with 3 show ?case by (auto simp: js_Cons)
qed (simp_all add: js_Cons)

definition str_less :: "jstr \<Rightarrow> jstr \<Rightarrow> bool" where
  "str_less s t \<longleftrightarrow> str_le s t \<and> s \<noteq> t"

lemma distinct_of_ascending:
  assumes "successively str_less ss"
  shows "distinct ss"
proof -
  have tr: "transp str_less"
    unfolding transp_def str_less_def using str_le_trans str_le_antisym by metis
  have "sorted_wrt str_less ss"
    using assms by (simp only: successively_conv_sorted_wrt [OF tr])
  then show ?thesis by (induction ss) (auto simp: str_less_def)
qed

end
