(* ===== verification/Nav_Tree.thy ===== *)
theory Nav_Tree
  imports Nav_Paths
begin

text \<open>
  The navigation tree of a page (\<open>navtree.js\<close>): the tree of node objects that is filled
  as nodes are opened, the data files loaded on demand with the functions that continue
  when they arrive, the search for the node of an address, the selection, and the
  synchronisation button with its stored link.
\<close>

section \<open>Data and state\<close>

text \<open>
  \<open>childrenData\<close> is \<open>null\<close>, the name of the variable a data file defines, or the entries
  themselves: text, link (or \<open>null\<close>) and the data of their children.
\<close>

datatype nav_data = NoData | VarName jstr | NavItems "(jstr \<times> jstr option \<times> nav_data) list"

type_synonym nav_item = "jstr \<times> jstr option \<times> nav_data"

datatype nav_click = NoClick | StoreLink jstr | AnchorLink jstr jstr | ToggleNode

text \<open>
  A node object with the elements it owns: the arrow, the link \<open>a\<close>, the \<open>item\<close> box and the
  list \<open>childrenUL\<close>, whose entries are the list items of the child nodes.
\<close>

record nav_node =
  nParent :: "nat option"
  nChildren :: "nat list"
  childrenData :: nav_data
  childrenVisited :: bool
  depth :: int
  relpath :: jstr
  isLast :: bool
  expanded :: bool
  label :: jstr
  hasToggle :: bool
  arrowHtml :: jstr
  arrowIndent :: jstr
  aClass :: jstr
  aHref :: jstr
  aClick :: nav_click
  childrenUL :: "nat list option"
  ulDisplay :: jstr
  itemSelected :: bool
  itemId :: "jstr option"

text \<open>
  The elements that glow for a while: rows of a member table by the end of their class, the
  row or header around an anchor, the element after it, and the line of a listing.
\<close>

datatype glow =
    MemberRows jstr int
  | ParentOfParent jstr int
  | ParentOf jstr int
  | NextOf jstr int
  | ListingLine jstr int

text \<open>What runs when a script file has been loaded.\<close>

datatype callback =
    ExpandLoaded nat jstr
  | ShowLoaded nat jstr nat jstr
  | ChildLoaded nat jstr nat nat jstr
  | IndexLoaded nat jstr jstr jstr

record nav_state =
  nodes :: "nat \<Rightarrow> nav_node option"
  nextNode :: nat
  rootNode :: nat
  toroot :: jstr
  contents :: "nat list"
  breadcrumbs :: "nat list"
  subIndices :: "nat \<Rightarrow> (jstr \<Rightarrow> nat list option) option"
  pending :: "(jstr \<times> callback) list"
  storage :: "jstr \<Rightarrow> jstr option"
  pathname :: jstr
  hash :: jstr
  syncOn :: bool
  syncHtml :: jstr
  syncTop :: jstr
  glows :: "glow list"
  scrolls :: "int list"
  retries :: "int list"
  animations :: "(int \<times> int \<times> jstr option) list"
  animationInProgress :: bool
  loadTriggered :: bool
  readyTriggered :: bool
  loadArgs :: "jstr \<times> jstr \<times> jstr"

text \<open>The positions \<open>gotoAnchor\<close> reads, computed by the browser.\<close>

record anchor_view =
  parentMatches :: bool
  parentTop :: int
  ownTop :: "int option"
  contentTop :: int
  scrollHeight :: int
  contentHeight :: int
  scrollTop :: int

text \<open>What \<open>window.localStorage\<close> is.\<close>

datatype window_storage =
    MissingStorage \<comment> \<open>\<open>window\<close> has no \<open>localStorage\<close>\<close>
  | NullStorage
  | BlockedStorage \<comment> \<open>reading \<open>window.localStorage\<close> throws\<close>
  | Storage bool \<comment> \<open>an object, and whether it has \<open>getItem\<close>\<close>

text \<open>
  The variables of the generated files and what the browser and its libraries provide:
  \<open>scrollTo\<close> says whether the plugin of that name can scroll to \<open>#selected\<close> or throws,
  \<open>anchorClass\<close> and \<open>anchorHeader\<close> what the parent of the element of a selector is.
\<close>

record nav_site =
  NAVTREE :: "nav_item list"
  NAVTREEINDEX :: "jstr list"
  navVar :: "jstr \<Rightarrow> nav_data option"
  navIndexVar :: "nat \<Rightarrow> (jstr \<Rightarrow> nat list option) option"
  windowStorage :: window_storage
  SYNCONMSG :: jstr
  SYNCOFFMSG :: jstr
  pageLayout :: "int option"
  topOuterHeight :: int
  topHeight :: int
  navPathHeight :: int
  windowHeight :: int
  scrollTo :: "nav_state \<Rightarrow> bool"
  anchorClass :: "jstr \<Rightarrow> jstr option"
  anchorHeader :: "jstr \<Rightarrow> bool"
  anchorView :: "jstr \<Rightarrow> anchor_view"

type_synonym 'a nav = "(nav_state, 'a) script"

definition arrowDown :: jstr where "arrowDown = js ''&#9660;''"
definition arrowRight :: jstr where "arrowRight = js ''&#9658;''"
abbreviation void_href :: jstr where "void_href \<equiv> js ''javascript:void(0)''"

definition new_nav_node :: nav_node where
  "new_nav_node = \<lparr>nParent = None, nChildren = [], childrenData = NoData, childrenVisited = False,
     depth = 0, relpath = [], isLast = False, expanded = False, label = [], hasToggle = False,
     arrowHtml = [], arrowIndent = [], aClass = [], aHref = [], aClick = NoClick,
     childrenUL = None, ulDisplay = [], itemSelected = False, itemId = None\<rparr>"

definition has_data :: "nav_data \<Rightarrow> bool" where
  \<comment> \<open>\<open>childrenData\<close> as a condition\<close>
  "has_data d \<longleftrightarrow> (case d of NoData \<Rightarrow> False | VarName s \<Rightarrow> s \<noteq> [] | NavItems _ \<Rightarrow> True)"

definition nodeOf :: "nat \<Rightarrow> nav_node nav" where
  "nodeOf k = jbind (jget (\<lambda>s. nodes s k)) (of_option TypeError)"

definition updNode :: "nat \<Rightarrow> (nav_node \<Rightarrow> nav_node) \<Rightarrow> unit nav" where
  "updNode k f = jmod (\<lambda>s. s\<lparr>nodes := (nodes s)(k := map_option f (nodes s k))\<rparr>)"

definition px :: "int \<Rightarrow> jstr" where
  "px n = num_str n @ js ''px''"

section \<open>Stored link\<close>

abbreviation navpath :: jstr where "navpath \<equiv> js ''navpath''"

definition localStorageSupported :: "nav_site \<Rightarrow> bool" where
  \<comment> \<open>an exception of the access is caught\<close>
  "localStorageSupported S = (case windowStorage S of
       MissingStorage \<Rightarrow> False | NullStorage \<Rightarrow> False | BlockedStorage \<Rightarrow> False | Storage getItem \<Rightarrow> getItem)"

definition storeLink :: "nav_site \<Rightarrow> jstr \<Rightarrow> unit nav" where
  "storeLink S link =
     jbind (jget syncOn) (\<lambda>on.
     jwhen (\<not> on \<and> localStorageSupported S) (jmod (\<lambda>s. s\<lparr>storage := (storage s)(navpath \<mapsto> link)\<rparr>)))"

definition deleteLink :: "nav_site \<Rightarrow> unit nav" where
  "deleteLink S =
     jwhen (localStorageSupported S) (jmod (\<lambda>s. s\<lparr>storage := (storage s)(navpath \<mapsto> [])\<rparr>))"

definition cachedLink :: "nav_site \<Rightarrow> nav_state \<Rightarrow> jstr option" where
  "cachedLink S s = (if localStorageSupported S then storage s navpath else Some [])"

definition has_link :: "jstr option \<Rightarrow> bool" where
  \<comment> \<open>\<open>null\<close> and the empty string are false\<close>
  "has_link l \<longleftrightarrow> (case l of None \<Rightarrow> False | Some t \<Rightarrow> t \<noteq> [])"

section \<open>Loading scripts\<close>

definition getScript :: "jstr \<Rightarrow> callback \<Rightarrow> unit nav" where
  "getScript scriptName func = jmod (\<lambda>s. s\<lparr>pending := pending s @ [(scriptName @ js ''.js'', func)]\<rparr>)"

definition getData :: "nav_site \<Rightarrow> jstr \<Rightarrow> nav_data nav" where
  "getData S varName = of_option ReferenceError (navVar S (dataName varName))"

section \<open>Building nodes\<close>

text \<open>The loop of \<open>createIndent\<close> that counts the ancestors.\<close>

partial_function (option) levelLoop ::
  "(nat \<Rightarrow> nav_node option) \<Rightarrow> nat \<Rightarrow> int \<Rightarrow> int option" where
  "levelLoop ns n level =
     (case ns n of None \<Rightarrow> Some level
      | Some nd \<Rightarrow> (case nParent nd of None \<Rightarrow> Some level
                    | Some p \<Rightarrow> levelLoop ns p (level + 1)))"

definition createIndent :: "nat \<Rightarrow> unit nav" where
  "createIndent k =
     jbind (nodeOf k) (\<lambda>node.
     jbind (jget (\<lambda>s. levelLoop (nodes s) k (-1))) (\<lambda>l.
     jbind (of_option NoReturn l) (\<lambda>level.
     if has_data (childrenData node)
     then updNode k (\<lambda>n. n\<lparr>hasToggle := True, arrowHtml := arrowRight, arrowIndent := px (16 * level)\<rparr>)
     else updNode k (\<lambda>n. n\<lparr>arrowHtml := js ''&#160;'', arrowIndent := px (16 * (level + 1))\<rparr>))))"

definition getChildrenUL :: "nat \<Rightarrow> unit nav" where
  "getChildrenUL k =
     jbind (nodeOf k) (\<lambda>node.
     jwhen (childrenUL node = None)
       (updNode k (\<lambda>n. n\<lparr>childrenUL := Some [], ulDisplay := js ''none''\<rparr>)))"

definition appendToUL :: "nat \<Rightarrow> nat \<Rightarrow> unit nav" where
  "appendToUL po k = updNode po (\<lambda>n. n\<lparr>childrenUL := map_option (\<lambda>us. us @ [k]) (childrenUL n)\<rparr>)"

text \<open>\<open>replace('#',':')\<close> changes the first occurrence; \<open>split('#')\<close> cuts at each.\<close>

abbreviation sharp :: cu where "sharp \<equiv> cu_of (CHR ''#'')"

definition colon_link :: "jstr \<Rightarrow> jstr" where
  "colon_link link =
     takeWhile (\<lambda>c. c \<noteq> sharp) link @
     (case dropWhile (\<lambda>c. c \<noteq> sharp) link of [] \<Rightarrow> [] | _ # r \<Rightarrow> cu_of (CHR '':'') # r)"

definition noLink :: "nat \<Rightarrow> nav_data \<Rightarrow> unit nav" where
  "noLink k data =
     jwhen (data \<noteq> NoData)
       (jbind (updNode k (\<lambda>n. n\<lparr>aClass := js ''nolink'', aHref := void_href\<rparr>)) (\<lambda>_.
        jbind (nodeOf k) (\<lambda>node.
        if hasToggle node then updNode k (\<lambda>n. n\<lparr>aClick := ToggleNode\<rparr>) else jthrow TypeError)))"

definition fillLink :: "jstr \<Rightarrow> jstr \<Rightarrow> nav_node \<Rightarrow> nav_node" where
  "fillLink path link1 n =
     (let external = prefix (js ''^'') link1;
          link = (if external then substring1 link1 1 else link1);
          url = (if external then link else relpath n @ link);
          cls = stripPath (colon_link link)
      in if sharp \<in> set link then
           (let aname = js ''#'' @ (split_at sharp link ! 1);
                srcPage = stripPath (pathName path);
                targetPage = stripPath (split_at sharp link ! 0)
            in n\<lparr>aClass := cls, aHref := (if srcPage \<noteq> targetPage then url else void_href),
                 aClick := AnchorLink link aname\<rparr>)
         else n\<lparr>aClass := cls, aHref := url, aClick := StoreLink link\<rparr>)"

definition setLink :: "nat \<Rightarrow> jstr option \<Rightarrow> nav_data \<Rightarrow> unit nav" where
  \<comment> \<open>the part of \<open>newNode\<close> that fills the link element\<close>
  "setLink k link data =
     jbind (jget pathname) (\<lambda>path.
     if has_link link then updNode k (fillLink path (the link)) else noLink k data)"

definition newNode :: "nat \<Rightarrow> nav_item \<Rightarrow> bool \<Rightarrow> nat nav" where
  "newNode po item lastNode =
     (case item of (text, link, data) \<Rightarrow>
     jbind (nodeOf po) (\<lambda>parent.
     jbind (jget nextNode) (\<lambda>k.
     jbind (jmod (\<lambda>s. s\<lparr>nextNode := Suc k,
        nodes := (nodes s)(k \<mapsto> new_nav_node\<lparr>childrenData := data, depth := depth parent + 1,
           relpath := relpath parent, isLast := lastNode\<rparr>)\<rparr>)) (\<lambda>_.
     jbind (getChildrenUL po) (\<lambda>_.
     jbind (appendToUL po k) (\<lambda>_.
     jbind (updNode k (\<lambda>n. n\<lparr>nParent := Some po\<rparr>)) (\<lambda>_.
     jbind (createIndent k) (\<lambda>_.
     jbind (updNode k (\<lambda>n. n\<lparr>label := text, expanded := False\<rparr>)) (\<lambda>_.
     jbind (setLink k link data) (\<lambda>_.
     jret k))))))))))"

text \<open>
  \<open>removeToInsertLater\<close> takes the list item of a node out of its list while the children
  are built and puts it back before the sibling that followed it.
\<close>

definition siblingsOf :: "nat \<Rightarrow> nav_state \<Rightarrow> nat list" where
  "siblingsOf k s = (case nodes s k of
     Some n \<Rightarrow> (case nParent n of
        None \<Rightarrow> contents s
      | Some p \<Rightarrow> (case nodes s p of Some pn \<Rightarrow> (case childrenUL pn of Some us \<Rightarrow> us | None \<Rightarrow> []) | None \<Rightarrow> []))
   | None \<Rightarrow> [])"

definition setSiblings :: "nat \<Rightarrow> nat list \<Rightarrow> unit nav" where
  "setSiblings k us =
     jbind (nodeOf k) (\<lambda>n.
     case nParent n of
       None \<Rightarrow> jmod (\<lambda>s. s\<lparr>contents := us\<rparr>)
     | Some p \<Rightarrow> updNode p (\<lambda>n. n\<lparr>childrenUL := Some us\<rparr>))"

fun insertBefore :: "nat \<Rightarrow> nat \<Rightarrow> nat list \<Rightarrow> nat list" where
  "insertBefore k x [] = [k]"
| "insertBefore k x (y # ys) = (if y = x then k # y # ys else y # insertBefore k x ys)"

fun nextOf :: "nat \<Rightarrow> nat list \<Rightarrow> nat option" where
  "nextOf k [] = None"
| "nextOf k (x # xs) = (if x = k then (case xs of [] \<Rightarrow> None | y # _ \<Rightarrow> Some y) else nextOf k xs)"

definition removeToInsertLater :: "nat \<Rightarrow> (nat option) nav" where
  "removeToInsertLater k =
     jbind (jget (siblingsOf k)) (\<lambda>us.
     if k \<notin> set us then jthrow TypeError
     else jbind (setSiblings k (remove1 k us)) (\<lambda>_. jret (nextOf k us)))"

definition insertFunction :: "nat \<Rightarrow> nat option \<Rightarrow> unit nav" where
  "insertFunction k nxt =
     jbind (jget (siblingsOf k)) (\<lambda>us.
     setSiblings k (case nxt of Some x \<Rightarrow> insertBefore k x us | None \<Rightarrow> us @ [k]))"

fun newNodes :: "nat \<Rightarrow> nav_item list \<Rightarrow> unit nav" where
  "newNodes po [] = jret ()"
| "newNodes po (item # rest) =
     jbind (newNode po item (rest = [])) (\<lambda>k.
     jbind (updNode po (\<lambda>n. n\<lparr>nChildren := nChildren n @ [k]\<rparr>)) (\<lambda>_.
     newNodes po rest))"

definition getNode :: "nat \<Rightarrow> nav_item list \<Rightarrow> unit nav" where
  "getNode po items =
     jbind (removeToInsertLater po) (\<lambda>nxt.
     jbind (updNode po (\<lambda>n. n\<lparr>childrenVisited := True\<rparr>)) (\<lambda>_.
     jbind (newNodes po items) (\<lambda>_.
     insertFunction po nxt)))"

section \<open>Opening nodes\<close>

definition openNode :: "nat \<Rightarrow> nav_item list \<Rightarrow> unit nav" where
  \<comment> \<open>what \<open>expandNode\<close> and \<open>showNode\<close> do once the data is there\<close>
  "openNode k items =
     jbind (nodeOf k) (\<lambda>node.
     jbind (jwhen (\<not> childrenVisited node) (getNode k items)) (\<lambda>_.
     jbind (getChildrenUL k) (\<lambda>_.
     jbind (updNode k (\<lambda>n. n\<lparr>ulDisplay := js ''block''\<rparr>)) (\<lambda>_.
     if \<not> hasToggle node then jthrow TypeError
     else updNode k (\<lambda>n. n\<lparr>arrowHtml := arrowDown, expanded := True\<rparr>)))))"

definition expandNode :: "nat \<Rightarrow> unit nav" where
  "expandNode k =
     jbind (nodeOf k) (\<lambda>node.
     jwhen (has_data (childrenData node) \<and> \<not> expanded node)
       (case childrenData node of
          VarName varName \<Rightarrow> getScript (relpath node @ varName) (ExpandLoaded k varName)
        | NavItems items \<Rightarrow> openNode k items
        | NoData \<Rightarrow> jret ()))"

definition clickToggle :: "nat \<Rightarrow> unit nav" where
  \<comment> \<open>\<open>expandToggle.onclick\<close>\<close>
  "clickToggle k =
     jbind (nodeOf k) (\<lambda>node.
     if expanded node then
       jbind (getChildrenUL k) (\<lambda>_.
       updNode k (\<lambda>n. n\<lparr>ulDisplay := js ''none'', arrowHtml := arrowRight, expanded := False\<rparr>))
     else expandNode k)"

section \<open>Selection\<close>

definition clearSelection :: "unit nav" where
  \<comment> \<open>\<open>$('.item').removeClass('selected'); $('.item').removeAttr('id')\<close>\<close>
  "clearSelection =
     jmod (\<lambda>s. s\<lparr>nodes := (\<lambda>k. map_option (\<lambda>n. n\<lparr>itemSelected := False, itemId := None\<rparr>) (nodes s k))\<rparr>)"

definition selectNode :: "nat \<Rightarrow> unit nav" where
  "selectNode k = updNode k (\<lambda>n. n\<lparr>itemSelected := True, itemId := Some (js ''selected'')\<rparr>)"

definition linksEnding :: "jstr \<Rightarrow> nav_state \<Rightarrow> nat list" where
  \<comment> \<open>\<open>$('.item a[class$="link"]')\<close>\<close>
  "linksEnding link s =
     filter (\<lambda>k. case nodes s k of None \<Rightarrow> False
                 | Some n \<Rightarrow> nParent n \<noteq> None \<and> aClass n \<noteq> [] \<and> suffix link (aClass n))
       [0..<nextNode s]"

definition anchorGlow :: "nav_site \<Rightarrow> jstr \<Rightarrow> jstr \<Rightarrow> glow" where
  "anchorGlow S aname v =
     (if anchorClass S aname = Some (js ''memItemLeft'') then MemberRows v 300
      else if anchorClass S aname = Some (js ''fieldname'') then ParentOfParent aname 1000
      else if anchorClass S aname = Some (js ''fieldtype'') then ParentOfParent aname 1000
      else if anchorHeader S aname then ParentOf aname 1000
      else NextOf aname 1000)"

definition glowEffect :: "glow \<Rightarrow> unit nav" where
  "glowEffect g = jmod (\<lambda>s. s\<lparr>glows := glows s @ [g]\<rparr>)"

definition endGlow :: "glow \<Rightarrow> unit nav" where
  \<comment> \<open>the function queued behind the delay: the glow ends\<close>
  "endGlow g = jmod (\<lambda>s. s\<lparr>glows := remove1 g (glows s)\<rparr>)"

definition highlightAnchor :: "nav_site \<Rightarrow> unit nav" where
  "highlightAnchor S =
     jbind (jget hash) (\<lambda>h. glowEffect (anchorGlow S (hashUrl h) (hashValue h)))"

text \<open>
  \<open>showRoot\<close> scrolls the tree until \<open>#selected\<close> is in the middle of the window; while the
  plugin throws it tries again from a timer. The numbers are twice the offset.
\<close>

definition tryScroll :: "nav_site \<Rightarrow> int \<Rightarrow> unit nav" where
  "tryScroll S height =
     jbind (jget (scrollTo S)) (\<lambda>works.
     if works then jmod (\<lambda>s. s\<lparr>scrolls := scrolls s @ [- height]\<rparr>)
     else jmod (\<lambda>s. s\<lparr>retries := retries s @ [height]\<rparr>))"

definition showRoot :: "nav_site \<Rightarrow> unit nav" where
  "showRoot S = tryScroll S (windowHeight S - topHeight S - navPathHeight S)"

definition retryScroll :: "nav_site \<Rightarrow> unit nav" where
  \<comment> \<open>the timer of \<open>setTimeout(arguments.callee, 0)\<close>\<close>
  "retryScroll S =
     jbind (jget retries) (\<lambda>rs.
     case rs of [] \<Rightarrow> jret ()
     | height # rest \<Rightarrow>
         jbind (jmod (\<lambda>s. s\<lparr>retries := rest\<rparr>)) (\<lambda>_. tryScroll S height))"

definition firstSelected :: "nav_state \<Rightarrow> bool" where
  \<comment> \<open>\<open>$('#nav-tree-contents .item:first').hasClass('selected')\<close>\<close>
  "firstSelected s = (case nodes s (rootNode s) of None \<Rightarrow> False
     | Some r \<Rightarrow> (case childrenUL r of Some (k # _) \<Rightarrow>
         (case nodes s k of Some n \<Rightarrow> itemSelected n | None \<Rightarrow> False) | _ \<Rightarrow> False))"

definition selectAndHighlight :: "nav_site \<Rightarrow> jstr \<Rightarrow> nat option \<Rightarrow> unit nav" where
  "selectAndHighlight S h n =
     jbind (jget (\<lambda>s. if h = [] then []
        else linksEnding (stripPath (pathName (pathname s)) @ js '':'' @ substring1 h 1) s)) (\<lambda>a.
     jbind (if a \<noteq> [] then jbind (for_each selectNode a) (\<lambda>_. highlightAnchor S)
            else case n of None \<Rightarrow> jret () | Some k \<Rightarrow> selectNode k) (\<lambda>_.
     jbind (jmod (\<lambda>s. s\<lparr>syncTop := px (5 + (if pageLayout S = Some 1 then topOuterHeight S else 0) +
        (if firstSelected s then 25 else 0))\<rparr>)) (\<lambda>_.
     showRoot S)))"

section \<open>Finding the node of an address\<close>

text \<open>
  \<open>showNode\<close> follows the breadcrumbs from position \<open>index\<close>; the list argument is the rest
  of the breadcrumbs from there. Past their end, \<open>children[undefined]\<close> is \<open>undefined\<close>.
\<close>

definition rootBase :: "jstr \<Rightarrow> jstr" where
  \<comment> \<open>\<open>stripPath(o.toroot.replace(/\..+$/, ''))\<close>\<close>
  "rootBase r = stripPath
     (let stem = takeWhile (\<lambda>c. c \<noteq> cu_of (CHR ''.'')) r;
          rest = dropWhile (\<lambda>c. c \<noteq> cu_of (CHR ''.'')) r
      in if length rest \<ge> 2 then stem else r)"

definition is_start_page :: "jstr \<Rightarrow> bool" where
  "is_start_page r \<longleftrightarrow> rootBase r \<in> {js ''index'', js ''pages'', js ''search''}"

fun show_path :: "nav_site \<Rightarrow> nat option \<Rightarrow> nat \<Rightarrow> jstr \<Rightarrow> nat list \<Rightarrow> unit nav" where
  "show_path S None index h bs = selectAndHighlight S h None"
| "show_path S (Some k) index h bs =
     jbind (nodeOf k) (\<lambda>node.
     if \<not> has_data (childrenData node) then selectAndHighlight S h None
     else case childrenData node of
       NoData \<Rightarrow> jret ()
     | VarName varName \<Rightarrow> getScript (relpath node @ varName) (ShowLoaded k varName index h)
     | NavItems items \<Rightarrow>
         jbind (openNode k items) (\<lambda>_.
         jbind (nodeOf k) (\<lambda>node.
         case bs of
           [] \<Rightarrow> jthrow TypeError
         | b # rest \<Rightarrow>
             (let n = (if b < length (nChildren node) then Some (nChildren node ! b) else None)
              in if rest \<noteq> [] then show_path S n (index + 1) h rest
                 else case n of
                   None \<Rightarrow> jthrow TypeError
                 | Some c \<Rightarrow>
                     jbind (nodeOf c) (\<lambda>child.
                     case childrenData child of
                       VarName varName \<Rightarrow>
                         getScript (relpath child @ varName) (ChildLoaded c varName k index h)
                     | _ \<Rightarrow>
                         jbind (jget toroot) (\<lambda>r.
                         jbind (jwhen (is_start_page r) (expandNode c)) (\<lambda>_.
                         selectAndHighlight S h (Some c))))))))"

definition showNode :: "nav_site \<Rightarrow> nat option \<Rightarrow> nat \<Rightarrow> jstr \<Rightarrow> unit nav" where
  "showNode S node index h = jbind (jget (drop index \<circ> breadcrumbs)) (show_path S node index h)"

text \<open>
  \<open>$.extend(true, [], x)\<close> of an entry that is missing is the empty array. An array is
  never false, so the condition \<open>!o.breadcrumbs\<close> of the fallback never holds and the
  condition \<open>o.breadcrumbs\<close> always does.
\<close>

definition gotoNode :: "nav_site \<Rightarrow> nat \<Rightarrow> jstr \<Rightarrow> jstr \<Rightarrow> unit nav" where
  "gotoNode S subIndex root h =
     jbind (jget (\<lambda>s. subIndices s subIndex)) (\<lambda>sub0.
     jbind (of_option TypeError sub0) (\<lambda>sub.
     let found = (case sub (root @ h) of Some b \<Rightarrow> b
                  | None \<Rightarrow> (case sub root of Some b \<Rightarrow> b | None \<Rightarrow> []))
     in jbind (jmod (\<lambda>s. s\<lparr>breadcrumbs := 0 # found\<rparr>)) (\<lambda>_.
        jbind (jget rootNode) (\<lambda>r. showNode S (Some r) 0 h))))"

definition indexPage :: "nav_site \<Rightarrow> jstr" where
  \<comment> \<open>\<open>NAVTREE[0][1]\<close>\<close>
  "indexPage S = (case NAVTREE S of (_, Some l, _) # _ \<Rightarrow> l | _ \<Rightarrow> [])"

definition navTo :: "nav_site \<Rightarrow> jstr \<Rightarrow> jstr \<Rightarrow> jstr \<Rightarrow> unit nav" where
  "navTo S root0 hash0 rel =
     jbind (jget (cachedLink S)) (\<lambda>cached.
     let (root1, hash1) =
           (case cached of
              Some link \<Rightarrow> if link \<noteq> [] then
                (case split_at sharp link of
                   p # q # _ \<Rightarrow> (p, js ''#'' @ clean_hash q)
                 | [p] \<Rightarrow> (p, []) | [] \<Rightarrow> ([], []))
              else (root0, hash0)
            | None \<Rightarrow> (root0, hash0));
         hash2 = (if line_anchor hash1 then [] else hash1);
         i = index_of_url (NAVTREEINDEX S) (root1 @ hash2);
         root2 = (if i = -1 then indexPage S else root1);
         i2 = (if i = -1 then 0 else nat i)
     in jbind (jwhen (line_anchor hash1)
          (glowEffect (ListingLine (substring1 hash1 1) 1000))) (\<lambda>_.
        jbind (jget (\<lambda>s. subIndices s i2)) (\<lambda>sub.
        if sub \<noteq> None then gotoNode S i2 root2 hash2
        else getScript (rel @ js ''navtreeindex'' @ nat_str i2) (IndexLoaded i2 root2 hash2 rel))))"

section \<open>Callbacks\<close>

definition runCallback :: "nav_site \<Rightarrow> callback \<Rightarrow> unit nav" where
  "runCallback S cb =
     (case cb of
        ExpandLoaded k varName \<Rightarrow>
          jbind (getData S varName) (\<lambda>d.
          jbind (updNode k (\<lambda>n. n\<lparr>childrenData := d\<rparr>)) (\<lambda>_. expandNode k))
      | ShowLoaded k varName index h \<Rightarrow>
          jbind (getData S varName) (\<lambda>d.
          jbind (updNode k (\<lambda>n. n\<lparr>childrenData := d\<rparr>)) (\<lambda>_. showNode S (Some k) index h))
      | ChildLoaded c varName k index h \<Rightarrow>
          jbind (getData S varName) (\<lambda>d.
          jbind (updNode c (\<lambda>n. n\<lparr>childrenData := d\<rparr>)) (\<lambda>_.
          jbind (updNode k (\<lambda>n. n\<lparr>expanded := False\<rparr>)) (\<lambda>_. showNode S (Some k) index h)))
      | IndexLoaded i root h rel \<Rightarrow>
          jbind (of_option ReferenceError (navIndexVar S i)) (\<lambda>sub.
          jbind (jmod (\<lambda>s. s\<lparr>subIndices := (subIndices s)(i \<mapsto> sub)\<rparr>)) (\<lambda>_.
          gotoNode S i root h)))"

definition scriptLoaded :: "nav_site \<Rightarrow> nat \<Rightarrow> unit nav" where
  \<comment> \<open>the \<open>load\<close> event of the \<open>j\<close>-th script under way\<close>
  "scriptLoaded S j =
     jbind (jget pending) (\<lambda>ps.
     if j < length ps then
       jbind (jmod (\<lambda>s. s\<lparr>pending := take j ps @ drop (Suc j) ps\<rparr>)) (\<lambda>_.
       runCallback S (snd (ps ! j)))
     else jret ())"

section \<open>The synchronisation button\<close>

definition syncImage :: "jstr \<Rightarrow> string \<Rightarrow> jstr \<Rightarrow> jstr" where
  "syncImage rel img msg =
     js ''<img src=\"'' @ rel @ js img @ js ''\" title=\"'' @ msg @ js ''\"/>''"

definition showSyncOff :: "nav_site \<Rightarrow> jstr \<Rightarrow> unit nav" where
  "showSyncOff S rel = jmod (\<lambda>s. s\<lparr>syncHtml := syncImage rel ''sync_off.png'' (SYNCOFFMSG S)\<rparr>)"

definition showSyncOn :: "nav_site \<Rightarrow> jstr \<Rightarrow> unit nav" where
  "showSyncOn S rel = jmod (\<lambda>s. s\<lparr>syncHtml := syncImage rel ''sync_on.png'' (SYNCONMSG S)\<rparr>)"

definition toggleSyncButton :: "nav_site \<Rightarrow> jstr \<Rightarrow> unit nav" where
  "toggleSyncButton S rel =
     jbind (jget syncOn) (\<lambda>on.
     if on then
       block [jmod (\<lambda>s. s\<lparr>syncOn := False\<rparr>), showSyncOff S rel,
              jbind (jget (\<lambda>s. stripPath2 (pathName (pathname s)) @ hashUrl (hash s))) (storeLink S)]
     else
       block [jmod (\<lambda>s. s\<lparr>syncOn := True\<rparr>), showSyncOn S rel, deleteLink S])"

section \<open>Events of the page\<close>

definition initNavTree :: "nav_site \<Rightarrow> jstr \<Rightarrow> jstr \<Rightarrow> unit nav" where
  "initNavTree S root rel =
     jbind (jget nextNode) (\<lambda>r.
     jbind (jmod (\<lambda>s. s\<lparr>nextNode := Suc r, rootNode := r, toroot := root, contents := contents s @ [r],
        nodes := (nodes s)(r \<mapsto> new_nav_node\<lparr>childrenData := NavItems (NAVTREE S),
          childrenUL := Some [], depth := 0, relpath := rel, expanded := False, isLast := True,
          hasToggle := True, arrowHtml := arrowRight\<rparr>)\<rparr>)) (\<lambda>_.
     jbind (jget (cachedLink S)) (\<lambda>cached.
     jbind (jwhen (localStorageSupported S)
        (if has_link cached then block [showSyncOff S rel, jmod (\<lambda>s. s\<lparr>syncOn := False\<rparr>)]
         else showSyncOn S rel)) (\<lambda>_.
     jbind (jget (\<lambda>s. hashUrl (hash s))) (\<lambda>url.
     jbind (jget loadTriggered) (\<lambda>loaded.
     if loaded then jbind (navTo S root url rel) (\<lambda>_. showRoot S)
     else jmod (\<lambda>s. s\<lparr>loadArgs := (root, url, rel), readyTriggered := True\<rparr>)))))))"

definition windowLoad :: "nav_site \<Rightarrow> unit nav" where
  "windowLoad S =
     jbind (jget readyTriggered) (\<lambda>ready.
     jbind (jget loadArgs) (\<lambda>(root, url, rel).
     jbind (jwhen ready (jbind (navTo S root url rel) (\<lambda>_. showRoot S))) (\<lambda>_.
     jmod (\<lambda>s. s\<lparr>loadTriggered := True\<rparr>))))"

definition hashChange :: "nav_site \<Rightarrow> jstr \<Rightarrow> unit nav" where
  "hashChange S rel =
     jbind (jget hash) (\<lambda>h.
     if length h > 1 then
       jbind (jget (\<lambda>s. linksEnding (stripPath (pathName (pathname s)) @ js '':'' @ hashValue h) s)) (\<lambda>a.
       jbind (jget nodes) (\<lambda>ns.
       jbind (jwhen (\<not> list_ex (\<lambda>k. case ns k of Some n \<Rightarrow> itemSelected n | None \<Rightarrow> False) a) clearSelection) (\<lambda>_.
       jbind (jget (\<lambda>s. stripPath2 (pathName (pathname s)))) (\<lambda>link.
       navTo S link (hashUrl h) rel))))
     else
       jbind (jget animationInProgress) (\<lambda>busy.
       jwhen (\<not> busy)
         (jbind clearSelection (\<lambda>_.
          jbind (jget toroot) (\<lambda>root. navTo S root (hashUrl h) rel)))))"

text \<open>
  \<open>gotoAnchor\<close>: the scroll position and duration of the animation, and the function that
  runs at its end.
\<close>

definition anchor_pos :: "anchor_view \<Rightarrow> int option" where
  "anchor_pos v = (if parentMatches v then Some (parentTop v) else ownTop v)"

definition scroll_duration :: "anchor_view \<Rightarrow> int \<Rightarrow> int" where
  "scroll_duration v pos =
     (let dist = abs (min (pos - contentTop v) (scrollHeight v - contentHeight v - scrollTop v))
      in max 50 (min 500 dist))"

definition gotoAnchor :: "nav_site \<Rightarrow> jstr \<Rightarrow> bool \<Rightarrow> unit nav" where
  "gotoAnchor S aname updateLocation =
     (let v = anchorView S aname in
      case anchor_pos v of
        None \<Rightarrow> jret ()
      | Some pos \<Rightarrow> jwhen (pos \<noteq> 0)
          (jmod (\<lambda>s. s\<lparr>animationInProgress := True, animations := animations s @
             [(pos + scrollTop v - contentTop v, scroll_duration v pos,
               if updateLocation then Some aname else None)]\<rparr>)))"

definition animationDone :: "unit nav" where
  "animationDone =
     jbind (jget animations) (\<lambda>as.
     case as of
       [] \<Rightarrow> jret ()
     | (_, _, target) # rest \<Rightarrow>
         jmod (\<lambda>s. s\<lparr>animations := rest, animationInProgress := False,
           hash := (case target of Some aname \<Rightarrow> aname | None \<Rightarrow> hash s)\<rparr>))"

definition clickLink :: "nav_site \<Rightarrow> nat \<Rightarrow> unit nav" where
  "clickLink S k =
     jbind (nodeOf k) (\<lambda>node.
     case aClick node of
       NoClick \<Rightarrow> jret ()
     | ToggleNode \<Rightarrow> clickToggle k
     | StoreLink link \<Rightarrow> storeLink S link
     | AnchorLink link aname \<Rightarrow>
         jbind (storeLink S link) (\<lambda>_.
         jbind (jwhen (\<not> itemSelected node) (block [clearSelection, selectNode k])) (\<lambda>_.
         gotoAnchor S aname True)))"

end
