(* ===== verification/Nav_Build.thy ===== *)
theory Nav_Build
  imports Nav_Tree
begin

text \<open>
  What building and opening nodes does to a well-formed tree: the indentation loop, the
  new nodes of \<open>getNode\<close>, and the invariant that the visible tree follows the data.
\<close>

section \<open>Execution rules\<close>

lemma run_nodeOf [js_run]:
  "nodeOf k s = (case nodes s k of None \<Rightarrow> (Inl TypeError, s) | Some n \<Rightarrow> (Inr n, s))"
  by (simp add: nodeOf_def run_jbind split: option.split)

lemma run_updNode [js_run]:
  "updNode k f s = (Inr (), s\<lparr>nodes := (nodes s)(k := map_option f (nodes s k))\<rparr>)"
  by (simp add: updNode_def)

lemma run_getScript [js_run]:
  "getScript nm f s = (Inr (), s\<lparr>pending := pending s @ [(nm @ js ''.js'', f)]\<rparr>)"
  by (simp add: getScript_def)

lemma run_getChildrenUL [js_run]:
  "nodes s k = Some n \<Longrightarrow> getChildrenUL k s =
     (Inr (), if childrenUL n = None
       then s\<lparr>nodes := (nodes s)(k \<mapsto> n\<lparr>childrenUL := Some [], ulDisplay := js ''none''\<rparr>)\<rparr> else s)"
  by (simp add: getChildrenUL_def js_run)

text \<open>One step of a block at a time.\<close>

lemma step_jget: "jbind (jget f) m s = m (f s) s"
  by (simp add: run_jbind)

lemma step_jmod: "jbind (jmod f) m s = m () (f s)"
  by (simp add: run_jbind)

lemma step_nodeOf: "nodes s k = Some n \<Longrightarrow> jbind (nodeOf k) m s = m n s"
  by (simp add: run_jbind run_nodeOf)

lemma step_updNode:
  "nodes s k = Some n \<Longrightarrow> jbind (updNode k f) m s = m () (s\<lparr>nodes := (nodes s)(k \<mapsto> f n)\<rparr>)"
  by (simp add: run_jbind run_updNode)

lemmas nav_steps = step_jget step_jmod step_nodeOf step_updNode

lemma nodes_same [simp]: "nodes s k = Some n \<Longrightarrow> s\<lparr>nodes := (nodes s)(k \<mapsto> n)\<rparr> = s"
  by (simp add: map_upd_triv)

section \<open>Depth and indentation\<close>

definition depth_ok :: "(nat \<Rightarrow> nav_node option) \<Rightarrow> bool" where
  "depth_ok ns \<longleftrightarrow> (\<forall>k n. ns k = Some n \<longrightarrow>
     (case nParent n of None \<Rightarrow> depth n = 0
      | Some p \<Rightarrow> p < k \<and> (\<exists>pn. ns p = Some pn \<and> depth n = depth pn + 1)))"

lemma levelLoop_depth:
  assumes "depth_ok ns"
  shows "ns k = Some n \<Longrightarrow> levelLoop ns k l = Some (l + depth n)"
proof (induction k arbitrary: n l rule: less_induct)
  case (less k)
  show ?case
  proof (cases "nParent n")
    case None
    then have "depth n = 0" using assms less.prems by (fastforce simp: depth_ok_def)
    with None less.prems show ?thesis by (subst levelLoop.simps) simp
  next
    case (Some p)
    then obtain pn where p: "p < k" "ns p = Some pn" "depth n = depth pn + 1"
      using assms less.prems unfolding depth_ok_def by fastforce
    have "levelLoop ns p (l + 1) = Some (l + 1 + depth pn)" by (rule less.IH [OF p(1,2)])
    then show ?thesis using Some less.prems p(3) by (subst levelLoop.simps) simp
  qed
qed

section \<open>New nodes\<close>

text \<open>The link of a node as \<open>setLink\<close> leaves it, for data that is not the empty name.\<close>

definition linked :: "jstr \<Rightarrow> jstr option \<Rightarrow> nav_data \<Rightarrow> nav_node \<Rightarrow> nav_node" where
  "linked path link data n =
     (if has_link link then fillLink path (the link) n
      else if data \<noteq> NoData then n\<lparr>aClass := js ''nolink'', aHref := void_href, aClick := ToggleNode\<rparr>
      else n)"

lemma setLink_run:
  assumes "nodes s k = Some n" "data \<noteq> NoData \<Longrightarrow> hasToggle n"
  shows "setLink k link data s = (Inr (), s\<lparr>nodes := (nodes s)(k \<mapsto> linked (pathname s) link data n)\<rparr>)"
  using assms by (cases "has_link link") (auto simp: setLink_def linked_def noLink_def js_run)

lemma linked_fields [simp]:
  "nParent (linked path link data n) = nParent n" "depth (linked path link data n) = depth n"
  "label (linked path link data n) = label n" "childrenData (linked path link data n) = childrenData n"
  "hasToggle (linked path link data n) = hasToggle n" "childrenUL (linked path link data n) = childrenUL n"
  "nChildren (linked path link data n) = nChildren n" "expanded (linked path link data n) = expanded n"
  "childrenVisited (linked path link data n) = childrenVisited n"
  "relpath (linked path link data n) = relpath n" "itemSelected (linked path link data n) = itemSelected n"
  by (simp_all add: linked_def fillLink_def Let_def)

definition node_of_item :: "jstr \<Rightarrow> nat \<Rightarrow> nav_node \<Rightarrow> nav_item \<Rightarrow> bool \<Rightarrow> nav_node" where
  "node_of_item path po pn item lastNode =
     (case item of (text, link, data) \<Rightarrow>
      linked path link data
        (new_nav_node\<lparr>nParent := Some po, childrenData := data, depth := depth pn + 1,
           relpath := relpath pn, isLast := lastNode, label := text,
           hasToggle := has_data data,
           arrowHtml := (if has_data data then arrowRight else js ''&#160;''),
           arrowIndent := px (16 * (if has_data data then depth pn else depth pn + 1))\<rparr>))"

definition ul_of :: "nav_node \<Rightarrow> nat list" where
  "ul_of n = (case childrenUL n of None \<Rightarrow> [] | Some us \<Rightarrow> us)"

definition with_ul :: "nat list \<Rightarrow> nav_node \<Rightarrow> nav_node" where
  "with_ul us n = n\<lparr>childrenUL := Some us,
     ulDisplay := (if childrenUL n = None then js ''none'' else ulDisplay n)\<rparr>"

lemma with_ul_fields [simp]:
  "nChildren (with_ul us n) = nChildren n" "depth (with_ul us n) = depth n"
  "nParent (with_ul us n) = nParent n" "relpath (with_ul us n) = relpath n"
  "childrenUL (with_ul us n) = Some us"
  by (simp_all add: with_ul_def)

lemma addToUL_run:
  assumes "nodes s po = Some pn"
  shows "jbind (getChildrenUL po) (\<lambda>_. jbind (appendToUL po k) m) s =
    m () (s\<lparr>nodes := (nodes s)(po \<mapsto> with_ul (ul_of pn @ [k]) pn)\<rparr>)"
  using assms
  by (cases pn; cases "childrenUL pn") (simp_all add: js_run appendToUL_def with_ul_def ul_of_def)

lemma createIndent_run:
  assumes "depth_ok (nodes s)" "nodes s k = Some n"
  shows "createIndent k s = (Inr (), s\<lparr>nodes := (nodes s)(k \<mapsto>
    (if has_data (childrenData n)
     then n\<lparr>hasToggle := True, arrowHtml := arrowRight, arrowIndent := px (16 * (depth n - 1))\<rparr>
     else n\<lparr>arrowHtml := js ''&#160;'', arrowIndent := px (16 * depth n)\<rparr>))\<rparr>)"
  using assms(2) levelLoop_depth [OF assms, of "-1"]
  by (simp add: createIndent_def js_run)

lemma depth_ok_add:
  assumes ok: "depth_ok ns" and po: "ns po = Some pn" and fresh: "ns k = None" and lt: "po < k"
    and n: "nParent n = Some po" "depth n = depth pn + 1"
    and pn': "nParent pn' = nParent pn" "depth pn' = depth pn"
  shows "depth_ok (ns(po \<mapsto> pn', k \<mapsto> n))"
proof -
  let ?ns = "ns(po \<mapsto> pn', k \<mapsto> n)"
  have keep: "\<exists>m'. ?ns i = Some m' \<and> depth m' = depth m" if "ns i = Some m" for i m
    using that fresh po pn' by auto
  show ?thesis
    unfolding depth_ok_def
  proof (intro allI impI)
    fix i m assume m: "?ns i = Some m"
    show "case nParent m of None \<Rightarrow> depth m = 0
      | Some p \<Rightarrow> p < i \<and> (\<exists>pn. ?ns p = Some pn \<and> depth m = depth pn + 1)"
    proof (cases "i = k")
      case True
      with m lt n pn' show ?thesis by auto
    next
      case False
      then obtain m0 where m0: "ns i = Some m0" "nParent m = nParent m0" "depth m = depth m0"
        using m po pn' by (auto split: if_splits)
      show ?thesis
      proof (cases "nParent m0")
        case None
        then show ?thesis using m0 ok unfolding depth_ok_def by fastforce
      next
        case (Some p)
        then obtain q where "p < i" "ns p = Some q" "depth m0 = depth q + 1"
          using m0(1) ok unfolding depth_ok_def by fastforce
        with keep [of p q] Some m0(2,3) show ?thesis by auto
      qed
    qed
  qed
qed

lemma depth_ok_upd:
  assumes ok: "depth_ok ns" and po: "ns po = Some pn"
    and n: "nParent pn' = nParent pn" "depth pn' = depth pn"
  shows "depth_ok (ns(po \<mapsto> pn'))"
proof -
  have keep: "\<exists>m'. (ns(po \<mapsto> pn')) i = Some m' \<and> depth m' = depth m" if "ns i = Some m" for i m
    using that po n by auto
  show ?thesis
    unfolding depth_ok_def
  proof (intro allI impI)
    fix i m assume m: "(ns(po \<mapsto> pn')) i = Some m"
    then obtain m0 where m0: "ns i = Some m0" "nParent m = nParent m0" "depth m = depth m0"
      using po n by (auto split: if_splits)
    show "case nParent m of None \<Rightarrow> depth m = 0
      | Some p \<Rightarrow> p < i \<and> (\<exists>pn. (ns(po \<mapsto> pn')) p = Some pn \<and> depth m = depth pn + 1)"
    proof (cases "nParent m0")
      case None
      then show ?thesis using m0 ok unfolding depth_ok_def by fastforce
    next
      case (Some p)
      then obtain q where "p < i" "ns p = Some q" "depth m0 = depth q + 1"
        using m0(1) ok unfolding depth_ok_def by fastforce
      with keep [of p q] Some m0(2,3) show ?thesis by auto
    qed
  qed
qed

lemma newNode_run:
  assumes ok: "depth_ok (nodes s)" and po: "nodes s po = Some pn" and fresh: "nodes s k = None"
    and item: "item = (text, link, data)" "data \<noteq> VarName []" and lt: "po < k"
    and k: "nextNode s = k"
  shows "newNode po item lastNode s = (Inr k, s\<lparr>nextNode := Suc k,
     nodes := (nodes s)(po \<mapsto> with_ul (ul_of pn @ [k]) pn,
                        k \<mapsto> node_of_item (pathname s) po pn item lastNode)\<rparr>)"
proof -
  have ne: "po \<noteq> k" "k \<noteq> po" using lt by auto
  let ?n1 = "new_nav_node\<lparr>childrenData := data, depth := depth pn + 1, relpath := relpath pn,
     isLast := lastNode\<rparr>"
  let ?n2 = "?n1\<lparr>nParent := Some po\<rparr>"
  let ?n3 = "if has_data data
     then ?n2\<lparr>hasToggle := True, arrowHtml := arrowRight, arrowIndent := px (16 * depth pn)\<rparr>
     else ?n2\<lparr>arrowHtml := js ''&#160;'', arrowIndent := px (16 * (depth pn + 1))\<rparr>"
  let ?n4 = "?n3\<lparr>label := text, expanded := False\<rparr>"
  let ?s = "\<lambda>n. s\<lparr>nextNode := Suc k, nodes := (nodes s)(po \<mapsto> with_ul (ul_of pn @ [k]) pn, k \<mapsto> n)\<rparr>"
  have start: "newNode po item lastNode s =
      jbind (updNode k (\<lambda>n. n\<lparr>nParent := Some po\<rparr>)) (\<lambda>_.
      jbind (createIndent k) (\<lambda>_.
      jbind (updNode k (\<lambda>n. n\<lparr>label := text, expanded := False\<rparr>)) (\<lambda>_.
      jbind (setLink k link data) (\<lambda>_. jret k)))) (?s ?n1)"
    using ne po k item(1)
    by (simp add: newNode_def nav_steps addToUL_run fun_upd_twist)
  have d: "depth_ok (nodes (?s ?n2))"
    using depth_ok_add [OF ok po fresh lt, of ?n2 "with_ul (ul_of pn @ [k]) pn"]
    by (simp add: with_ul_def new_nav_node_def)
  have ind: "createIndent k (?s ?n2) = (Inr (), ?s ?n3)"
    using createIndent_run [OF d, of k ?n2] by simp
  have "data \<noteq> NoData \<Longrightarrow> hasToggle ?n4"
    using item(2) by (cases data) (auto simp: has_data_def)
  then have link: "setLink k link data (?s ?n4) = (Inr (), ?s (linked (pathname s) link data ?n4))"
    using setLink_run [of "?s ?n4" k ?n4 data link] by simp
  have "linked (pathname s) link data ?n4 = node_of_item (pathname s) po pn item lastNode"
    by (simp add: node_of_item_def item(1) new_nav_node_def)
  then show ?thesis
    using start ind link by (simp add: run_jbind run_updNode)
qed


subsection \<open>All children of a node\<close>

definition add_items :: "jstr \<Rightarrow> nat \<Rightarrow> nav_node \<Rightarrow> nat \<Rightarrow> nav_item list \<Rightarrow>
    (nat \<Rightarrow> nav_node option) \<Rightarrow> nat \<Rightarrow> nav_node option" where
  "add_items path po pn k items ns = (\<lambda>j.
     if k \<le> j \<and> j < k + length items
     then Some (node_of_item path po pn (items ! (j - k)) (Suc (j - k) = length items)) else ns j)"

definition with_children :: "nat list \<Rightarrow> nav_node \<Rightarrow> nav_node" where
  "with_children ks n = (if ks = [] then n
     else (with_ul (ul_of n @ ks) n)\<lparr>nChildren := nChildren n @ ks\<rparr>)"

definition clean_item :: "nav_item \<Rightarrow> bool" where
  "clean_item item \<longleftrightarrow> snd (snd item) \<noteq> VarName []"

lemma node_of_item_cong:
  "depth pn' = depth pn \<Longrightarrow> relpath pn' = relpath pn \<Longrightarrow>
   node_of_item path po pn' item l = node_of_item path po pn item l"
  by (simp add: node_of_item_def split: prod.split)

lemma add_items_cong:
  "depth pn' = depth pn \<Longrightarrow> relpath pn' = relpath pn \<Longrightarrow>
   add_items path po pn' k items ns = add_items path po pn k items ns"
  using node_of_item_cong [of pn' pn path po] by (simp only: add_items_def)

lemma add_items_upd:
  "q < k \<Longrightarrow> (add_items path po pn k items ns)(q := x) = add_items path po pn k items (ns(q := x))"
  by (auto simp: add_items_def)

lemma add_items_Nil: "add_items path po pn k [] ns = ns"
  by (rule ext) (auto simp: add_items_def)

lemma add_items_Cons:
  "add_items path po pn k (item # rest) ns =
     add_items path po pn (Suc k) rest (ns(k \<mapsto> node_of_item path po pn item (rest = [])))"
proof
  fix j
  show "add_items path po pn k (item # rest) ns j =
     add_items path po pn (Suc k) rest (ns(k \<mapsto> node_of_item path po pn item (rest = []))) j"
  proof (cases "j \<le> k")
    case True
    then show ?thesis by (cases "j = k") (auto simp: add_items_def)
  next
    case False
    then have "j - k = Suc (j - Suc k)" by simp
    with False show ?thesis by (auto simp: add_items_def)
  qed
qed

lemma with_children_fields [simp]:
  "depth (with_children ks n) = depth n" "relpath (with_children ks n) = relpath n"
  "nParent (with_children ks n) = nParent n" "childrenData (with_children ks n) = childrenData n"
  "hasToggle (with_children ks n) = hasToggle n" "label (with_children ks n) = label n"
  "childrenVisited (with_children ks n) = childrenVisited n"
  "nChildren (with_children ks n) = nChildren n @ ks"
  by (simp_all add: with_children_def with_ul_def)

lemma node_of_item_fields [simp]:
  "nParent (node_of_item path po pn item l) = Some po"
  "depth (node_of_item path po pn item l) = depth pn + 1"
  "label (node_of_item path po pn item l) = fst item"
  "childrenData (node_of_item path po pn item l) = snd (snd item)"
  "hasToggle (node_of_item path po pn item l) \<longleftrightarrow> has_data (snd (snd item))"
  "nChildren (node_of_item path po pn item l) = []" "childrenUL (node_of_item path po pn item l) = None"
  "childrenVisited (node_of_item path po pn item l) = False"
  "expanded (node_of_item path po pn item l) = False"
  "itemSelected (node_of_item path po pn item l) = False"
  "relpath (node_of_item path po pn item l) = relpath pn"
  by (simp_all add: node_of_item_def new_nav_node_def split: prod.split)

lemma newNodes_run:
  assumes "depth_ok (nodes s)" "nodes s po = Some pn" "po < k" "nextNode s = k"
    and "\<And>j. k \<le> j \<Longrightarrow> nodes s j = None" "list_all clean_item items"
  shows "newNodes po items s = (Inr (), s\<lparr>nextNode := k + length items,
     nodes := add_items (pathname s) po pn k items
       ((nodes s)(po \<mapsto> with_children [k..<k + length items] pn))\<rparr>)"
  using assms
proof (induction items arbitrary: s pn k)
  case Nil
  then have "s\<lparr>nextNode := k, nodes := (nodes s)(po \<mapsto> pn)\<rparr> = s" by (simp add: map_upd_triv)
  moreover have "with_children [k..<k + length ([] :: nav_item list)] pn = pn"
    by (simp add: with_children_def)
  ultimately show ?case
    by (simp only: add_items_Nil newNodes.simps run_jret list.size add_0_right)
next
  case (Cons item rest)
  obtain tx link data where item: "item = (tx, link, data)" by (cases item)
  have data: "data \<noteq> VarName []" using Cons.prems(6) by (simp add: clean_item_def item)
  let ?pn = "with_children [k] pn" and ?n = "node_of_item (pathname s) po pn item (rest = [])"
  let ?s = "s\<lparr>nextNode := Suc k, nodes := (nodes s)(po \<mapsto> ?pn, k \<mapsto> ?n)\<rparr>"
  have ne: "po \<noteq> k" "k \<noteq> po" using Cons.prems(3) by auto
  have step: "newNodes po (item # rest) s = newNodes po rest ?s"
    using newNode_run [OF Cons.prems(1,2) _ item data Cons.prems(3,4), of "rest = []"] Cons.prems(5) ne
    by (simp add: run_jbind js_run with_children_def fun_upd_twist)
  have new: "nodes ?s j = None" if "Suc k \<le> j" for j
    using Cons.prems(3,5) that by auto
  have ok: "depth_ok (nodes ?s)"
    using depth_ok_add [OF Cons.prems(1,2) _ Cons.prems(3), of ?n ?pn] Cons.prems(5) by simp
  have "newNodes po rest ?s = (Inr (), ?s\<lparr>nextNode := Suc k + length rest,
     nodes := add_items (pathname ?s) po ?pn (Suc k) rest
       ((nodes ?s)(po \<mapsto> with_children [Suc k..<Suc k + length rest] ?pn))\<rparr>)"
    by (rule Cons.IH [OF ok _ _ _ new]) (use Cons.prems ne in auto)
  moreover have "with_children [Suc k..<Suc k + length rest] ?pn = with_children [k..<k + length (item # rest)] pn"
  proof -
    have "[k..<k + length (item # rest)] = k # [Suc k..<Suc k + length rest]"
      by (simp add: upt_conv_Cons del: upt_Suc)
    then show ?thesis by (auto simp: with_children_def with_ul_def ul_of_def)
  qed
  ultimately show ?case
    using fun_upd_twist [OF ne(2), of "nodes s" "Some ?n" "Some (with_children [k..<k + length (item # rest)] pn)"]
    by (simp add: step add_items_cong [of ?pn pn] add_items_Cons del: upt_Suc newNodes.simps fun_upd_apply)
qed

text \<open>Taking a list item out and putting it back where it was.\<close>

lemma insertBefore_mid: "x \<notin> set a \<Longrightarrow> insertBefore k x (a @ x # b) = a @ k # x # b"
  by (induction a) auto

lemma reinsert:
  assumes "distinct us" "k \<in> set us"
  shows "(case nextOf k us of Some x \<Rightarrow> insertBefore k x (remove1 k us) | None \<Rightarrow> remove1 k us @ [k]) = us"
proof -
  obtain a b where us: "us = a @ k # b" using assms(2) by (auto dest: split_list)
  have a: "k \<notin> set a" using assms(1) us by auto
  have "nextOf k us = (case b of [] \<Rightarrow> None | y # _ \<Rightarrow> Some y)"
    unfolding us using a by (induction a) auto
  moreover have "remove1 k us = a @ b" using a by (simp add: us remove1_append)
  ultimately show ?thesis
    using assms(1) us by (cases b) (auto intro: insertBefore_mid)
qed


section \<open>Well-formed trees\<close>

text \<open>
  The invariant: keys below \<open>nextNode\<close> are the nodes; depths follow the parents; only the
  root has no parent; every node hangs once in the list of its parent (the root in
  \<open>contents\<close>); nodes with data have an arrow; the children of a visited node show its
  entries, and a node that is not visited has no children.
\<close>

definition hangs :: "nav_state \<Rightarrow> nat \<Rightarrow> bool" where
  "hangs s k \<longleftrightarrow> k \<in> set (siblingsOf k s) \<and> distinct (siblingsOf k s)"

text \<open>
  The data of an entry may be the name of a variable that a script of its own defines; a node
  holds the data of its entry, or what such a script has brought.
\<close>

type_synonym loader = "jstr \<Rightarrow> nav_data option"

definition holds :: "loader \<Rightarrow> nav_data \<Rightarrow> nav_data \<Rightarrow> bool" where
  "holds L d d' \<longleftrightarrow> d' = d \<or> (\<exists>v. d = VarName v \<and> L v = Some d')"

lemma holds_refl [simp]: "holds L d d"
  by (simp add: holds_def)

lemma holds_eq: "holds L d d' \<Longrightarrow> (\<And>v. d \<noteq> VarName v) \<Longrightarrow> d' = d"
  by (auto simp: holds_def)

definition shows_item :: "loader \<Rightarrow> nav_state \<Rightarrow> nat \<Rightarrow> nav_item \<Rightarrow> nat \<Rightarrow> bool" where
  "shows_item L s po item k \<longleftrightarrow> (case nodes s k of None \<Rightarrow> False
     | Some n \<Rightarrow> nParent n = Some po \<and> label n = fst item \<and> holds L (snd (snd item)) (childrenData n))"

definition node_ok :: "loader \<Rightarrow> nav_state \<Rightarrow> nat \<Rightarrow> nav_node \<Rightarrow> bool" where
  "node_ok L s k n \<longleftrightarrow> hangs s k \<and> (has_data (childrenData n) \<longrightarrow> hasToggle n) \<and>
     (childrenVisited n \<longrightarrow> (\<exists>items. childrenData n = NavItems items \<and>
        list_all2 (shows_item L s k) items (nChildren n))) \<and>
     (\<not> childrenVisited n \<longrightarrow> nChildren n = [] \<and> ul_of n = [])"

definition nav_ok :: "loader \<Rightarrow> nav_state \<Rightarrow> bool" where
  "nav_ok L s \<longleftrightarrow> (\<forall>k. nodes s k \<noteq> None \<longleftrightarrow> k < nextNode s) \<and> rootNode s < nextNode s \<and> depth_ok (nodes s) \<and>
     (\<forall>k n. nodes s k = Some n \<longrightarrow> (nParent n = None \<longleftrightarrow> k = rootNode s) \<and> node_ok L s k n)"

lemma siblingsOf_child:
  "nodes t k = Some n \<Longrightarrow> nParent n = Some p \<Longrightarrow> nodes t p = Some pn \<Longrightarrow> childrenUL pn = Some us \<Longrightarrow>
   siblingsOf k t = us"
  by (simp add: siblingsOf_def)

lemma getNode_run:
  assumes depth: "depth_ok (nodes s)" and po: "nodes s po = Some pn" and lt: "po < k"
    and nxt: "nextNode s = k" and fresh: "\<And>j. k \<le> j \<Longrightarrow> nodes s j = None"
    and clean: "list_all clean_item items" and hangs: "hangs s po"
  shows "getNode po items s = (Inr (), s\<lparr>nextNode := k + length items,
     nodes := add_items (pathname s) po pn k items
       ((nodes s)(po \<mapsto> with_children [k..<k + length items] (pn\<lparr>childrenVisited := True\<rparr>)))\<rparr>)"
proof -
  let ?us = "siblingsOf po s"
  have us: "po \<in> set ?us" "distinct ?us" using hangs by (simp_all add: hangs_def)
  let ?pv = "pn\<lparr>childrenVisited := True\<rparr>"
  show ?thesis
  proof (cases "nParent pn")
    case None
    let ?s1 = "s\<lparr>contents := remove1 po ?us, nodes := (nodes s)(po \<mapsto> ?pv)\<rparr>"
    have sib: "?us = contents s" using po None by (simp add: siblingsOf_def)
    have start: "getNode po items s = jbind (newNodes po items) (\<lambda>_. insertFunction po (nextOf po ?us)) ?s1"
      using us po None by (simp add: getNode_def removeToInsertLater_def setSiblings_def js_run)
    have d1: "depth_ok (nodes ?s1)"
      using depth_ok_upd [OF depth po, of ?pv] by simp
    have new1: "nodes ?s1 j = None" if "k \<le> j" for j
      using fresh [OF that] lt that by auto
    let ?s2 = "?s1\<lparr>nextNode := k + length items, nodes := add_items (pathname s) po pn k items
       ((nodes s)(po \<mapsto> with_children [k..<k + length items] ?pv))\<rparr>"
    have build: "newNodes po items ?s1 = (Inr (), ?s2)"
      using newNodes_run [OF d1 _ lt _ new1 clean, of ?pv] nxt add_items_cong [of ?pv pn]
      by (simp del: fun_upd_apply) simp
    have sib2: "siblingsOf po ?s2 = remove1 po ?us"
      using lt None by (simp add: siblingsOf_def add_items_def)
    have "insertFunction po (nextOf po ?us) ?s2 =
        setSiblings po (case nextOf po ?us of Some x \<Rightarrow> insertBefore po x (remove1 po ?us)
          | None \<Rightarrow> remove1 po ?us @ [po]) ?s2"
      unfolding insertFunction_def step_jget sib2 ..
    also have "\<dots> = setSiblings po ?us ?s2" by (simp only: reinsert [OF us(2,1)])
    also have "\<dots> = (Inr (), ?s2\<lparr>contents := ?us\<rparr>)"
      using lt None by (simp add: setSiblings_def js_run add_items_def)
    finally show ?thesis using start build sib by (simp add: run_jbind del: fun_upd_apply)
  next
    case (Some q)
    then obtain qn where q: "q < po" "nodes s q = Some qn"
      using depth po unfolding depth_ok_def by fastforce
    have ul: "childrenUL qn = Some ?us"
      using us(1) po Some q by (cases "childrenUL qn") (simp_all add: siblingsOf_def)
    have ne: "q \<noteq> po" "po \<noteq> q" using q(1) by auto
    let ?q1 = "qn\<lparr>childrenUL := Some (remove1 po ?us)\<rparr>"
    let ?s1 = "s\<lparr>nodes := (nodes s)(q \<mapsto> ?q1, po \<mapsto> ?pv)\<rparr>"
    have start: "getNode po items s = jbind (newNodes po items) (\<lambda>_. insertFunction po (nextOf po ?us)) ?s1"
    proof -
      have "setSiblings po xs s = (Inr (), s\<lparr>nodes := (nodes s)(q \<mapsto> qn\<lparr>childrenUL := Some xs\<rparr>)\<rparr>)" for xs
        unfolding setSiblings_def step_nodeOf [OF po] using Some q by (simp add: run_updNode)
      then have "removeToInsertLater po s = (Inr (nextOf po ?us), s\<lparr>nodes := (nodes s)(q \<mapsto> ?q1)\<rparr>)"
        unfolding removeToInsertLater_def step_jget using us(1) by (simp add: run_jbind)
      then have "getNode po items s = jbind (updNode po (\<lambda>n. n\<lparr>childrenVisited := True\<rparr>)) (\<lambda>_.
          jbind (newNodes po items) (\<lambda>_. insertFunction po (nextOf po ?us))) (s\<lparr>nodes := (nodes s)(q \<mapsto> ?q1)\<rparr>)"
        unfolding getNode_def by (rule run_jbind_Inr)
      then show ?thesis
        using po ne by (subst (asm) step_updNode [of _ po pn]) simp_all
    qed
    have d1: "depth_ok (nodes ?s1)"
      using depth_ok_upd [OF depth_ok_upd [OF depth q(2), of ?q1], of po pn ?pv] po ne by simp
    have new1: "nodes ?s1 j = None" if "k \<le> j" for j
      using fresh [OF that] lt that q by auto
    let ?N = "\<lambda>x. add_items (pathname s) po pn k items
       ((nodes s)(q \<mapsto> x, po \<mapsto> with_children [k..<k + length items] ?pv))"
    let ?s2 = "\<lambda>x. s\<lparr>nextNode := k + length items, nodes := ?N x\<rparr>"
    have build: "newNodes po items ?s1 = (Inr (), ?s2 ?q1)"
      using newNodes_run [OF d1 _ lt _ new1 clean, of ?pv] nxt add_items_cong [of ?pv pn]
      by (simp del: fun_upd_apply) simp
    have nodes2: "nodes (?s2 ?q1) po = Some (with_children [k..<k + length items] ?pv)"
      "nodes (?s2 ?q1) q = Some ?q1"
      using lt q ne by (auto simp: add_items_def)
    have sib2: "siblingsOf po (?s2 ?q1) = remove1 po ?us"
      by (rule siblingsOf_child [OF nodes2(1) _ nodes2(2)]) (simp_all add: Some)
    have "insertFunction po (nextOf po ?us) (?s2 ?q1) =
        setSiblings po (case nextOf po ?us of Some x \<Rightarrow> insertBefore po x (remove1 po ?us)
          | None \<Rightarrow> remove1 po ?us @ [po]) (?s2 ?q1)"
      unfolding insertFunction_def step_jget sib2 ..
    also have "\<dots> = setSiblings po ?us (?s2 ?q1)" by (simp only: reinsert [OF us(2,1)])
    also have "\<dots> = (Inr (), s\<lparr>nextNode := k + length items,
        nodes := (?N ?q1)(q \<mapsto> ?q1\<lparr>childrenUL := Some ?us\<rparr>)\<rparr>)"
      unfolding setSiblings_def step_nodeOf [OF nodes2(1)] using nodes2(2) Some
      by (simp add: run_updNode del: fun_upd_apply)
    also have "(?N ?q1)(q \<mapsto> ?q1\<lparr>childrenUL := Some ?us\<rparr>) = add_items (pathname s) po pn k items
       ((nodes s)(po \<mapsto> with_children [k..<k + length items] ?pv))"
    proof -
      have "?q1\<lparr>childrenUL := Some ?us\<rparr> = qn" using ul by simp
      moreover have "q < k" using q(1) lt by simp
      moreover have "((nodes s)(q \<mapsto> ?q1, po \<mapsto> x))(q \<mapsto> qn) = (nodes s)(po \<mapsto> x)" for x
        using ne q(2) by (auto simp: fun_eq_iff)
      ultimately show ?thesis by (simp only: add_items_upd)
    qed
    finally show ?thesis using start build by (simp add: run_jbind del: fun_upd_apply)
  qed
qed

end
