(* ===== verification/Nav_Open.thy ===== *)
theory Nav_Open
  imports Nav_Build
begin

text \<open>
  Opening nodes keeps the tree well formed, and following the breadcrumbs of an address
  opens the nodes on the way and selects the node the data has at that place.
\<close>

section \<open>Changes that keep the tree well formed\<close>

definition extends :: "nav_state \<Rightarrow> nav_state \<Rightarrow> bool" where
  "extends s s' \<longleftrightarrow> (\<forall>k n. nodes s k = Some n \<longrightarrow> (\<exists>n'. nodes s' k = Some n' \<and>
     nParent n' = nParent n \<and> label n' = label n \<and> childrenData n' = childrenData n \<and>
     aClass n' = aClass n \<and> (childrenVisited n \<longrightarrow> childrenVisited n' \<and> nChildren n' = nChildren n) \<and>
     (expanded n \<longrightarrow> expanded n'))) \<and>
   rootNode s' = rootNode s \<and> toroot s' = toroot s \<and> pathname s' = pathname s \<and>
   breadcrumbs s' = breadcrumbs s \<and> pending s' = pending s \<and> subIndices s' = subIndices s \<and>
   storage s' = storage s"

lemma extends_refl [simp]: "extends s s"
  by (simp add: extends_def)

lemma extends_trans: "extends s s' \<Longrightarrow> extends s' s'' \<Longrightarrow> extends s s''"
  unfolding extends_def by (intro conjI allI impI; fastforce)

lemma extends_shows: "extends s s' \<Longrightarrow> shows_item L s po item c \<Longrightarrow> shows_item L s' po item c"
  by (fastforce simp: extends_def shows_item_def split: option.splits)

lemma extends_shows_all:
  "extends s s' \<Longrightarrow> list_all2 (shows_item L s po) items cs \<Longrightarrow> list_all2 (shows_item L s' po) items cs"
  by (erule list_all2_mono) (rule extends_shows)

lemma nav_okD:
  assumes "nav_ok L s"
  shows "nodes s k \<noteq> None \<longleftrightarrow> k < nextNode s" "depth_ok (nodes s)"
    "nodes s k = Some n \<Longrightarrow> node_ok L s k n" "nodes s k = Some n \<Longrightarrow> nParent n = None \<longleftrightarrow> k = rootNode s"
    "rootNode s < nextNode s"
  using assms by (simp_all add: nav_ok_def)

lemma siblingsOf_cong:
  assumes "nodes s k = Some n" "nodes s' k = Some n'" "nParent n' = nParent n" "contents s' = contents s"
    and "\<And>p pn. nParent n = Some p \<Longrightarrow> nodes s p = Some pn \<Longrightarrow>
      \<exists>pn'. nodes s' p = Some pn' \<and> ul_of pn' = ul_of pn"
    and "\<And>p. nParent n = Some p \<Longrightarrow> nodes s p \<noteq> None"
  shows "siblingsOf k s' = siblingsOf k s"
proof (cases "nParent n")
  case None
  then show ?thesis using assms(1-4) by (simp add: siblingsOf_def)
next
  case (Some p)
  obtain pn where pn: "nodes s p = Some pn" using assms(6) [OF Some] by blast
  obtain pn' where "nodes s' p = Some pn'" "ul_of pn' = ul_of pn" using assms(5) [OF Some pn] by blast
  then show ?thesis using assms(1-3) Some pn by (simp add: siblingsOf_def ul_of_def)
qed

lemma depth_ok_parent: "depth_ok ns \<Longrightarrow> ns k = Some n \<Longrightarrow> nParent n = Some p \<Longrightarrow> p < k \<and> ns p \<noteq> None"
  unfolding depth_ok_def by fastforce

text \<open>Changing what the tree shows of one node.\<close>

definition same_core :: "nav_node \<Rightarrow> nav_node \<Rightarrow> bool" where
  "same_core n n' \<longleftrightarrow> nParent n' = nParent n \<and> label n' = label n \<and> depth n' = depth n \<and>
     childrenData n' = childrenData n \<and> hasToggle n' = hasToggle n \<and> aClass n' = aClass n \<and>
     childrenVisited n' = childrenVisited n \<and> nChildren n' = nChildren n \<and> ul_of n' = ul_of n"

lemma extends_upd:
  "nodes s k = Some n \<Longrightarrow> same_core n n' \<Longrightarrow> (expanded n \<Longrightarrow> expanded n') \<Longrightarrow> extends s (s\<lparr>nodes := (nodes s)(k \<mapsto> n')\<rparr>)"
  by (auto simp: extends_def same_core_def)

lemma nav_ok_same:
  assumes ok: "nav_ok L s" and same: "\<And>k. rel_option same_core (nodes s k) (nodes s' k)"
    and fields: "nextNode s' = nextNode s" "contents s' = contents s" "rootNode s' = rootNode s"
  shows "nav_ok L s'"
proof -
  have new: "\<exists>m'. nodes s' j = Some m' \<and> same_core m m'" if "nodes s j = Some m" for j m
    using same [of j] that by (auto simp: option_rel_Some1)
  have old: "\<exists>m0. nodes s j = Some m0 \<and> same_core m0 m" if "nodes s' j = Some m" for j m
    using same [of j] that by (auto simp: option_rel_Some2)
  have entries: "list_all2 (shows_item L s' j) items cs" if "list_all2 (shows_item L s j) items cs" for j items cs
    using that by (rule list_all2_mono)
      (use new in \<open>fastforce simp: shows_item_def same_core_def split: option.splits\<close>)
  have depth: "depth_ok (nodes s')"
    unfolding depth_ok_def
  proof (intro allI impI)
    fix j m assume "nodes s' j = Some m"
    then obtain m0 where m0: "nodes s j = Some m0" "same_core m0 m" using old by blast
    show "case nParent m of None \<Rightarrow> depth m = 0
      | Some p \<Rightarrow> p < j \<and> (\<exists>pn. nodes s' p = Some pn \<and> depth m = depth pn + 1)"
      using nav_okD(2) [OF ok] m0 new unfolding depth_ok_def same_core_def
      by (cases "nParent m0") fastforce+
  qed
  have "(nParent m = None \<longleftrightarrow> j = rootNode s') \<and> node_ok L s' j m" if m: "nodes s' j = Some m" for j m
  proof -
    obtain m0 where m0: "nodes s j = Some m0" "same_core m0 m" using old [OF m] by blast
    have core: "nParent m = nParent m0" "childrenData m = childrenData m0" "hasToggle m = hasToggle m0"
      "childrenVisited m = childrenVisited m0" "nChildren m = nChildren m0" "ul_of m = ul_of m0"
      using m0(2) by (simp_all add: same_core_def)
    have "siblingsOf j s' = siblingsOf j s"
      by (rule siblingsOf_cong [OF m0(1) m core(1) fields(2)])
        (use new depth_ok_parent [OF nav_okD(2) [OF ok] m0(1)] in \<open>fastforce simp: same_core_def\<close>)+
    then have "hangs s' j \<longleftrightarrow> hangs s j" by (simp add: hangs_def)
    then show ?thesis
      using nav_okD(3,4) [OF ok m0(1)] core entries [of j] fields(3)
      unfolding node_ok_def by metis
  qed
  moreover have "nodes s' j \<noteq> None \<longleftrightarrow> j < nextNode s'" for j
    using nav_okD(1) [OF ok, of j] same [of j] fields(1) by (auto simp: option_rel_Some1 option_rel_Some2)
  ultimately show ?thesis using depth nav_okD(5) [OF ok] fields by (simp add: nav_ok_def)
qed

lemma same_core_refl [simp]: "same_core n n"
  by (simp add: same_core_def)

lemma nav_ok_upd:
  assumes "nav_ok L s" "nodes s k = Some n" "same_core n n'"
  shows "nav_ok L (s\<lparr>nodes := (nodes s)(k \<mapsto> n')\<rparr>)"
  by (rule nav_ok_same [OF assms(1)]) (use assms(2,3) in \<open>auto simp: option.rel_refl\<close>)

lemma nav_ok_cong:
  assumes "nodes s' = nodes s" "nextNode s' = nextNode s" "contents s' = contents s" "rootNode s' = rootNode s"
  shows "nav_ok L s' = nav_ok L s"
proof -
  have "siblingsOf k s' = siblingsOf k s" for k using assms by (simp add: siblingsOf_def cong: option.case_cong)
  then show ?thesis using assms by (simp add: nav_ok_def node_ok_def hangs_def shows_item_def [abs_def])
qed

lemma nav_ok_fields [simp]:
  "nav_ok L (s\<lparr>syncTop := x\<rparr>) = nav_ok L s" "nav_ok L (s\<lparr>glows := y\<rparr>) = nav_ok L s"
  "nav_ok L (s\<lparr>breadcrumbs := b\<rparr>) = nav_ok L s" "nav_ok L (s\<lparr>subIndices := i\<rparr>) = nav_ok L s"
  "nav_ok L (s\<lparr>pending := p\<rparr>) = nav_ok L s" "nav_ok L (s\<lparr>scrolls := sc\<rparr>) = nav_ok L s"
  "nav_ok L (s\<lparr>retries := rt\<rparr>) = nav_ok L s"
  by (rule nav_ok_cong; simp)+

definition selected :: "nav_state \<Rightarrow> nat set" where
  "selected s = {k. \<exists>n. nodes s k = Some n \<and> itemSelected n}"

section \<open>Building the children of a node\<close>

text \<open>The new nodes and the changed parent, as far as the invariant depends on them.\<close>

definition grown :: "nav_state \<Rightarrow> nat \<Rightarrow> nav_item list \<Rightarrow> nav_state \<Rightarrow> bool" where
  "grown s po items s' \<longleftrightarrow>
     (\<forall>j n. nodes s j = Some n \<longrightarrow> j \<noteq> po \<longrightarrow> nodes s' j = Some n) \<and>
     (\<forall>pn. nodes s po = Some pn \<longrightarrow> (\<exists>pv. nodes s' po = Some pv \<and>
        nParent pv = nParent pn \<and> label pv = label pn \<and> depth pv = depth pn \<and> aClass pv = aClass pn \<and>
        childrenData pv = childrenData pn \<and> hasToggle pv = hasToggle pn \<and> expanded pv = expanded pn \<and>
        itemSelected pv = itemSelected pn \<and> childrenVisited pv \<and> nChildren pv = [nextNode s..<nextNode s + length items] \<and>
        ul_of pv = [nextNode s..<nextNode s + length items])) \<and>
     (\<forall>i < length items. \<exists>n. nodes s' (nextNode s + i) = Some n \<and> nParent n = Some po \<and>
        (\<forall>pn. nodes s po = Some pn \<longrightarrow> depth n = depth pn + 1) \<and>
        label n = fst (items ! i) \<and> childrenData n = snd (snd (items ! i)) \<and>
        hasToggle n = has_data (snd (snd (items ! i))) \<and>
        \<not> childrenVisited n \<and> nChildren n = [] \<and> ul_of n = [] \<and> \<not> itemSelected n) \<and>
     (\<forall>j \<ge> nextNode s + length items. nodes s' j = None) \<and>
     nextNode s' = nextNode s + length items \<and> contents s' = contents s \<and> rootNode s' = rootNode s \<and>
     toroot s' = toroot s \<and> pathname s' = pathname s \<and> breadcrumbs s' = breadcrumbs s \<and> pending s' = pending s \<and>
     subIndices s' = subIndices s \<and> storage s' = storage s"

lemma grown_same:
  assumes "grown s po items s'"
  shows "nextNode s' = nextNode s + length items" "contents s' = contents s" "rootNode s' = rootNode s"
    "toroot s' = toroot s" "pathname s' = pathname s" "breadcrumbs s' = breadcrumbs s" "pending s' = pending s"
    "subIndices s' = subIndices s" "storage s' = storage s"
  using assms by (simp_all add: grown_def)

lemma grown_new:
  assumes "grown s po items s'" "i < length items"
  shows "\<exists>n. nodes s' (nextNode s + i) = Some n \<and> nParent n = Some po \<and>
        (\<forall>pn. nodes s po = Some pn \<longrightarrow> depth n = depth pn + 1) \<and>
        label n = fst (items ! i) \<and> childrenData n = snd (snd (items ! i)) \<and>
        hasToggle n = has_data (snd (snd (items ! i))) \<and>
        \<not> childrenVisited n \<and> nChildren n = [] \<and> ul_of n = [] \<and> \<not> itemSelected n"
  using assms by (simp only: grown_def)

lemma grown_end: "grown s po items s' \<Longrightarrow> nodes s' j = Some n \<Longrightarrow> j < nextNode s + length items"
  unfolding grown_def by (metis not_le option.distinct(1))

lemma grown_parent:
  assumes "grown s po items s'" "nodes s po = Some pn"
  shows "\<exists>pv. nodes s' po = Some pv \<and>
        nParent pv = nParent pn \<and> label pv = label pn \<and> depth pv = depth pn \<and> aClass pv = aClass pn \<and>
        childrenData pv = childrenData pn \<and> hasToggle pv = hasToggle pn \<and> expanded pv = expanded pn \<and>
        itemSelected pv = itemSelected pn \<and> childrenVisited pv \<and> nChildren pv = [nextNode s..<nextNode s + length items] \<and>
        ul_of pv = [nextNode s..<nextNode s + length items]"
  using assms by (simp only: grown_def)

lemma grown_cases:
  assumes ok: "nav_ok L s" and g: "grown s po items s'" and n: "nodes s' j = Some n"
  obtains n0 where "nodes s j = Some n0" | i where "i < length items" "j = nextNode s + i"
proof (cases "nodes s j")
  case None
  then have "nextNode s \<le> j" using nav_okD(1) [OF ok, of j] by auto
  moreover have "j < nextNode s + length items" by (rule grown_end [OF g n])
  ultimately have "j - nextNode s < length items" "j = nextNode s + (j - nextNode s)" by simp_all
  then show ?thesis using that by blast
qed (use that in blast)

lemma grown_old:
  assumes "grown s po items s'" "nodes s j = Some n"
  shows "\<exists>n'. nodes s' j = Some n' \<and> nParent n' = nParent n \<and> label n' = label n \<and> depth n' = depth n \<and>
    childrenData n' = childrenData n \<and> hasToggle n' = hasToggle n \<and> aClass n' = aClass n \<and>
    expanded n' = expanded n \<and> itemSelected n' = itemSelected n \<and> (j \<noteq> po \<longrightarrow> n' = n)"
proof (cases "j = po")
  case True
  then show ?thesis using grown_parent [OF assms(1), of n] assms(2) by auto
next
  case False
  then show ?thesis using assms unfolding grown_def by auto
qed

lemma grown_extends:
  assumes g: "grown s po items s'" and pn: "nodes s po = Some pn" "\<not> childrenVisited pn"
  shows "extends s s'"
proof -
  have "toroot s' = toroot s" "pathname s' = pathname s" "rootNode s' = rootNode s"
    "breadcrumbs s' = breadcrumbs s" "pending s' = pending s" "subIndices s' = subIndices s" "storage s' = storage s"
    using g by (simp_all add: grown_def)
  moreover have "\<exists>n'. nodes s' k = Some n' \<and> nParent n' = nParent n \<and> label n' = label n \<and>
     childrenData n' = childrenData n \<and> aClass n' = aClass n \<and>
     (childrenVisited n \<longrightarrow> childrenVisited n' \<and> nChildren n' = nChildren n) \<and> (expanded n \<longrightarrow> expanded n')"
    if "nodes s k = Some n" for k n
    using grown_old [OF g that] that pn by (cases "k = po") auto
  ultimately show ?thesis by (simp add: extends_def)
qed

lemma grown_depth:
  assumes ok: "nav_ok L s" and g: "grown s po items s'" and pn: "nodes s po = Some pn"
  shows "depth_ok (nodes s')"
  unfolding depth_ok_def
proof (intro allI impI)
  fix j m assume m: "nodes s' j = Some m"
  have lt: "po < nextNode s" using nav_okD(1) [OF ok, of po] pn by simp
  from m show "case nParent m of None \<Rightarrow> depth m = 0
    | Some p \<Rightarrow> p < j \<and> (\<exists>q. nodes s' p = Some q \<and> depth m = depth q + 1)"
  proof (rule grown_cases [OF ok g])
    fix n assume n: "nodes s j = Some n"
    have eq: "nParent m = nParent n" "depth m = depth n" using grown_old [OF g n] m by auto
    show ?thesis
    proof (cases "nParent n")
      case None
      then show ?thesis using nav_okD(2) [OF ok] n eq unfolding depth_ok_def by fastforce
    next
      case (Some p)
      then obtain q where q: "p < j" "nodes s p = Some q" "depth n = depth q + 1"
        using nav_okD(2) [OF ok] n unfolding depth_ok_def by fastforce
      with grown_old [OF g q(2)] eq Some show ?thesis by auto
    qed
  next
    fix i assume i: "i < length items" "j = nextNode s + i"
    then have "nParent m = Some po" "depth m = depth pn + 1"
      using grown_new [OF g i(1)] m pn by auto
    then show ?thesis using grown_old [OF g pn] lt i by auto
  qed
qed

lemma grown_hangs:
  assumes ok: "nav_ok L s" and g: "grown s po items s'" and pn: "nodes s po = Some pn" "ul_of pn = []"
    and m: "nodes s' j = Some m"
  shows "hangs s' j"
  using m
proof (rule grown_cases [OF ok g])
  fix n assume n: "nodes s j = Some n"
  have h: "hangs s j" using nav_okD(3) [OF ok n] by (simp add: node_ok_def)
  have "nParent n \<noteq> Some po"
  proof
    assume "nParent n = Some po"
    then have "siblingsOf j s = ul_of pn" using n pn by (simp add: siblingsOf_def ul_of_def)
    then show False using h pn by (simp add: hangs_def)
  qed
  then have up: "p \<noteq> po" if "nParent n = Some p" for p using that by auto
  have "nParent m = nParent n" using grown_old [OF g n] m by auto
  moreover have "nodes s' p = Some q" if "nParent n = Some p" "nodes s p = Some q" for p q
    using grown_old [OF g that(2)] up [OF that(1)] by auto
  ultimately have "siblingsOf j s' = siblingsOf j s"
    using siblingsOf_cong [OF n m] grown_same(2) [OF g] depth_ok_parent [OF nav_okD(2) [OF ok] n] by auto
  then show ?thesis using h by (simp add: hangs_def)
next
  fix i assume i: "i < length items" "j = nextNode s + i"
  then have "nParent m = Some po" using grown_new [OF g i(1)] m by auto
  moreover obtain pv where "nodes s' po = Some pv" "ul_of pv = [nextNode s..<nextNode s + length items]"
    using grown_parent [OF g pn(1)] by blast
  ultimately have "siblingsOf j s' = [nextNode s..<nextNode s + length items]"
    using m by (simp add: siblingsOf_def ul_of_def)
  then show ?thesis using i by (simp add: hangs_def)
qed

lemma grown_ok:
  assumes ok: "nav_ok L s" and g: "grown s po items s'" and pn: "nodes s po = Some pn"
    and data: "childrenData pn = NavItems items" and unvisited: "\<not> childrenVisited pn"
  shows "nav_ok L s'"
proof -
  have ul: "ul_of pn = []" using nav_okD(3) [OF ok pn] unvisited by (simp add: node_ok_def)
  note ext = grown_extends [OF g pn unvisited]
  have dom: "nodes s' j \<noteq> None \<longleftrightarrow> j < nextNode s'" for j
  proof
    assume "nodes s' j \<noteq> None"
    then show "j < nextNode s'" using grown_end [OF g, of j] grown_same(1) [OF g] by auto
  next
    assume lt: "j < nextNode s'"
    show "nodes s' j \<noteq> None"
    proof (cases "j < nextNode s")
      case True
      then obtain n where "nodes s j = Some n" using nav_okD(1) [OF ok, of j] by auto
      then show ?thesis using grown_old [OF g] by fastforce
    next
      case False
      then have "j - nextNode s < length items" "j = nextNode s + (j - nextNode s)"
        using lt grown_same(1) [OF g] by auto
      then show ?thesis using grown_new [OF g] by (metis option.distinct(1))
    qed
  qed
  have "(nParent m = None \<longleftrightarrow> j = rootNode s') \<and> node_ok L s' j m" if m: "nodes s' j = Some m" for j m
    using m
  proof (rule grown_cases [OF ok g])
    fix n assume n: "nodes s j = Some n"
    have root: "nParent m = None \<longleftrightarrow> j = rootNode s'"
      using grown_old [OF g n] m nav_okD(4) [OF ok n] grown_same(3) [OF g] by auto
    have hang: "hangs s' j" by (rule grown_hangs [OF ok g pn ul m])
    note nok = nav_okD(3) [OF ok n]
    show ?thesis
    proof (cases "j = po")
      case False
      then have "m = n" using grown_old [OF g n] m by auto
      with root hang nok extends_shows_all [OF ext] show ?thesis unfolding node_ok_def by metis
    next
      case True
      with n pn m have v: "childrenVisited m" "nChildren m = [nextNode s..<nextNode s + length items]"
        "childrenData m = NavItems items" "hasToggle m = hasToggle n"
        using data grown_parent [OF g pn] by auto
      have "list_all2 (shows_item L s' j) items (nChildren m)"
        unfolding v(2) list_all2_conv_all_nth using grown_new [OF g] True by (fastforce simp: shows_item_def)
      then show ?thesis using root hang nok v True pn n data by (simp add: node_ok_def)
    qed
  next
    fix i assume i: "i < length items" "j = nextNode s + i"
    then have "nParent m = Some po" "\<not> childrenVisited m" "nChildren m = []" "ul_of m = []"
      "has_data (childrenData m) \<longrightarrow> hasToggle m"
      using grown_new [OF g i(1)] m by auto
    moreover have "j \<noteq> rootNode s'"
      using i nav_okD(5) [OF ok] grown_same(3) [OF g] by simp
    ultimately show ?thesis using grown_hangs [OF ok g pn ul m] by (simp add: node_ok_def)
  qed
  then show ?thesis using dom grown_depth [OF ok g pn] nav_okD(5) [OF ok] grown_same [OF g] by (simp add: nav_ok_def)
qed

lemma getNode_grows:
  assumes ok: "nav_ok L s" and po: "nodes s po = Some pn" and clean: "list_all clean_item items"
    and unvisited: "\<not> childrenVisited pn"
  shows "\<exists>s'. getNode po items s = (Inr (), s') \<and> grown s po items s'"
proof -
  let ?k = "nextNode s"
  let ?ks = "[?k..<?k + length items]"
  let ?pv = "with_children ?ks (pn\<lparr>childrenVisited := True\<rparr>)"
  define ns where "ns = add_items (pathname s) po pn ?k items ((nodes s)(po \<mapsto> ?pv))"
  let ?s = "s\<lparr>nextNode := ?k + length items, nodes := ns\<rparr>"
  have lt: "po < ?k" using nav_okD(1) [OF ok, of po] po by simp
  have fresh: "nodes s j = None" if "?k \<le> j" for j using nav_okD(1) [OF ok, of j] that by auto
  note pok = nav_okD(3) [OF ok po]
  have empty: "nChildren pn = []" "ul_of pn = []" using pok unvisited by (simp_all add: node_ok_def)
  have run: "getNode po items s = (Inr (), ?s)"
    unfolding ns_def
    by (rule getNode_run [OF nav_okD(2) [OF ok] po lt refl fresh clean])
       (use pok in \<open>auto simp: node_ok_def\<close>)
  have parent: "ns po = Some ?pv" using lt by (simp add: ns_def add_items_def)
  have ul: "ul_of ?pv = ?ks" "nChildren ?pv = ?ks"
    using empty by (auto simp: with_children_def with_ul_def ul_of_def)
  have more: "aClass ?pv = aClass pn" "expanded ?pv = expanded pn" "itemSelected ?pv = itemSelected pn"
    by (simp_all add: with_children_def with_ul_def)
  have old: "ns j = Some n" if "nodes s j = Some n" "j \<noteq> po" for j n
    using that fresh [of j] by (cases "?k \<le> j") (auto simp: ns_def add_items_def)
  have new: "ns (?k + i) = Some (node_of_item (pathname s) po pn (items ! i) (Suc i = length items))"
    if "i < length items" for i
    using that by (simp add: ns_def add_items_def)
  have none: "ns j = None" if "?k + length items \<le> j" for j
    using that fresh [of j] lt by (simp add: ns_def add_items_def)
  have "grown s po items ?s"
    unfolding grown_def using parent ul more old new none po by (simp add: ul_of_def)
  then show ?thesis using run by blast
qed

lemma grown_selected:
  assumes ok: "nav_ok L s" and g: "grown s po items s'"
  shows "selected s' = selected s"
proof -
  have "itemSelected m \<longleftrightarrow> k \<in> selected s" if m: "nodes s' k = Some m" for k m
    using m
  proof (rule grown_cases [OF ok g])
    fix n assume n: "nodes s k = Some n"
    show ?thesis using grown_old [OF g n] m n by (auto simp: selected_def)
  next
    fix i assume i: "i < length items" "k = nextNode s + i"
    then have "nodes s k = None" using nav_okD(1) [OF ok, of k] by auto
    then show ?thesis using grown_new [OF g i(1)] m i(2) by (auto simp: selected_def)
  qed
  moreover have "nodes s' k \<noteq> None" if "k \<in> selected s" for k
    using that grown_old [OF g] by (fastforce simp: selected_def)
  ultimately show ?thesis by (fastforce simp: selected_def)
qed

section \<open>Opening a node\<close>

text \<open>A node of the state that shows its children.\<close>

definition is_open :: "nav_state \<Rightarrow> nat \<Rightarrow> nav_item list \<Rightarrow> bool" where
  "is_open s k items \<longleftrightarrow> (\<exists>n. nodes s k = Some n \<and> expanded n \<and> childrenVisited n \<and>
     childrenData n = NavItems items \<and> ulDisplay n = js ''block'' \<and> arrowHtml n = arrowDown)"

lemma show_children_run:
  assumes n: "nodes s k = Some n" and toggle: "hasToggle n0"
  shows "\<exists>n'. jbind (getChildrenUL k) (\<lambda>_. jbind (updNode k (\<lambda>n. n\<lparr>ulDisplay := js ''block''\<rparr>)) (\<lambda>_.
      if \<not> hasToggle n0 then jthrow TypeError
      else updNode k (\<lambda>n. n\<lparr>arrowHtml := arrowDown, expanded := True\<rparr>))) s =
      (Inr (), s\<lparr>nodes := (nodes s)(k \<mapsto> n')\<rparr>) \<and> same_core n n' \<and>
      expanded n' \<and> ulDisplay n' = js ''block'' \<and> arrowHtml n' = arrowDown \<and>
      itemSelected n' = itemSelected n"
  using assms
  by (cases "childrenUL n") (auto simp: getChildrenUL_def js_run same_core_def ul_of_def)

lemma openNode_ok:
  assumes ok: "nav_ok L s" and n: "nodes s k = Some n" and data: "childrenData n = NavItems items"
    and clean: "list_all clean_item items"
  shows "\<exists>s'. openNode k items s = (Inr (), s') \<and> nav_ok L s' \<and> extends s s' \<and> is_open s' k items \<and>
    selected s' = selected s"
proof -
  have toggle: "hasToggle n" using nav_okD(3) [OF ok n] data by (simp add: node_ok_def has_data_def)
  obtain s1 n1 where s1: "jwhen (\<not> childrenVisited n) (getNode k items) s = (Inr (), s1)" "nav_ok L s1"
    "extends s s1" "nodes s1 k = Some n1" "childrenVisited n1" "childrenData n1 = NavItems items"
    "selected s1 = selected s"
  proof (cases "childrenVisited n")
    case True
    then show thesis using that [of s n] ok n data by (simp add: jwhen_def)
  next
    case False
    obtain s1 where g: "getNode k items s = (Inr (), s1)" "grown s k items s1"
      using getNode_grows [OF ok n clean False] by blast
    then obtain pv where "nodes s1 k = Some pv" "childrenVisited pv" "childrenData pv = NavItems items"
      using grown_parent [OF g(2) n] data by auto
    with g show thesis
      using that [of s1 pv] False grown_ok [OF ok g(2) n data] grown_extends [OF g(2) n] grown_selected [OF ok g(2)] by (simp add: jwhen_def)
  qed
  have run: "openNode k items s = jbind (getChildrenUL k) (\<lambda>_.
      jbind (updNode k (\<lambda>n. n\<lparr>ulDisplay := js ''block''\<rparr>)) (\<lambda>_.
      if \<not> hasToggle n then jthrow TypeError
      else updNode k (\<lambda>n. n\<lparr>arrowHtml := arrowDown, expanded := True\<rparr>))) s1"
    unfolding openNode_def step_nodeOf [OF n] by (rule run_jbind_Inr) (rule s1(1))
  obtain n2 where n2: "openNode k items s = (Inr (), s1\<lparr>nodes := (nodes s1)(k \<mapsto> n2)\<rparr>)" "same_core n1 n2"
    "expanded n2" "ulDisplay n2 = js ''block''" "arrowHtml n2 = arrowDown" "itemSelected n2 = itemSelected n1"
    using show_children_run [OF s1(4) toggle] unfolding run by blast
  let ?s = "s1\<lparr>nodes := (nodes s1)(k \<mapsto> n2)\<rparr>"
  have "is_open ?s k items" using n2 s1(5,6) by (simp add: is_open_def same_core_def)
  moreover have "selected ?s = selected s1" using n2(6) s1(4) by (auto simp: selected_def)
  then have "selected ?s = selected s" using s1(7) by simp
  ultimately show ?thesis
    using n2(1) nav_ok_upd [OF s1(2,4) n2(2)] extends_trans [OF s1(3) extends_upd [OF s1(4) n2(2)]] n2(3) by blast
qed

section \<open>Following the breadcrumbs\<close>

text \<open>The entry of the data at a path, and the node of the tree at a path.\<close>

fun nav_at :: "nav_item list \<Rightarrow> nat list \<Rightarrow> nav_item option" where
  "nav_at items [] = None"
| "nav_at items (b # bs) =
     (if b < length items then
        (if bs = [] then Some (items ! b)
         else case snd (snd (items ! b)) of NavItems sub \<Rightarrow> nav_at sub bs | _ \<Rightarrow> None)
      else None)"

fun node_path :: "nav_state \<Rightarrow> nat \<Rightarrow> nat list \<Rightarrow> nat option" where
  "node_path s k [] = Some k"
| "node_path s k (b # bs) = (case nodes s k of None \<Rightarrow> None
     | Some n \<Rightarrow> if b < length (nChildren n) then node_path s (nChildren n ! b) bs else None)"

text \<open>The nodes on the way, without the last one.\<close>

fun path_open :: "nav_state \<Rightarrow> nat \<Rightarrow> nat list \<Rightarrow> bool" where
  "path_open s k [] = True"
| "path_open s k (b # bs) = (case nodes s k of None \<Rightarrow> False
     | Some n \<Rightarrow> expanded n \<and> childrenVisited n \<and>
         (b < length (nChildren n) \<longrightarrow> path_open s (nChildren n ! b) bs))"

function clean_data :: "nav_data \<Rightarrow> bool" where
  "clean_data NoData = True"
| "clean_data (VarName v) = (v \<noteq> [])"
| "clean_data (NavItems items) = list_all (\<lambda>item. clean_data (snd (snd item))) items"
  by pat_completeness auto

lemma item_data_size: "item \<in> set items \<Longrightarrow> size (snd (snd item)) < size (NavItems items)"
proof (induction items)
  case (Cons x xs)
  obtain t l d where x: "x = (t, l, d)" by (cases x)
  show ?case
  proof (cases "item = x")
    case True
    then show ?thesis by (simp add: x)
  next
    case False
    then show ?thesis using Cons by (simp add: x)
  qed
qed simp

termination clean_data
  by (relation "measure size") (auto dest: item_data_size)

lemma clean_items: "clean_data (NavItems items) \<Longrightarrow> list_all clean_item items"
proof -
  have "clean_data d \<Longrightarrow> d \<noteq> VarName []" for d by (cases d) auto
  then show "clean_data (NavItems items) \<Longrightarrow> list_all clean_item items"
    by (auto simp: list_all_iff clean_item_def)
qed

lemma extends_node_path:
  "extends s s' \<Longrightarrow> path_open s k bs \<Longrightarrow> node_path s k bs = Some c \<Longrightarrow>
   node_path s' k bs = Some c \<and> path_open s' k bs"
proof (induction bs arbitrary: k)
  case (Cons b bs)
  obtain n where n: "nodes s k = Some n" "expanded n" "childrenVisited n" "b < length (nChildren n)"
    "node_path s (nChildren n ! b) bs = Some c" "path_open s (nChildren n ! b) bs"
    using Cons.prems(2,3) by (auto split: option.splits if_splits)
  then obtain n' where n': "nodes s' k = Some n'" "nChildren n' = nChildren n" "expanded n'" "childrenVisited n'"
    using Cons.prems(1) unfolding extends_def by blast
  have "node_path s' (nChildren n ! b) bs = Some c \<and> path_open s' (nChildren n ! b) bs"
    by (rule Cons.IH [OF Cons.prems(1) n(6,5)])
  then show ?case using n n' by simp
qed simp

lemma child_of_open:
  assumes ok: "nav_ok L s" and op: "is_open s k items" and b: "b < length items"
  obtains n cn where "nodes s k = Some n" "expanded n" "childrenVisited n"
    "length (nChildren n) = length items" "nodes s (nChildren n ! b) = Some cn"
    "label cn = fst (items ! b)" "holds L (snd (snd (items ! b))) (childrenData cn)"
proof -
  obtain n where n: "nodes s k = Some n" "expanded n" "childrenVisited n" "childrenData n = NavItems items"
    using op unfolding is_open_def by blast
  then have all: "list_all2 (shows_item L s k) items (nChildren n)"
    using nav_okD(3) [OF ok n(1)] by (simp add: node_ok_def)
  then have "shows_item L s k (items ! b) (nChildren n ! b)" using b by (simp add: list_all2_conv_all_nth)
  then obtain cn where "nodes s (nChildren n ! b) = Some cn" "label cn = fst (items ! b)"
    "holds L (snd (snd (items ! b))) (childrenData cn)"
    by (auto simp: shows_item_def split: option.splits)
  then show thesis using that [OF n(1-3)] list_all2_lengthD [OF all] by auto
qed

text \<open>The last step of \<open>showNode\<close>: the node is selected, on the start pages after opening it.\<close>

definition arrive :: "nav_site \<Rightarrow> jstr \<Rightarrow> nat \<Rightarrow> unit nav" where
  "arrive S h c =
     jbind (jget toroot) (\<lambda>r.
     jbind (jwhen (is_start_page r) (expandNode c)) (\<lambda>_.
     selectAndHighlight S h (Some c)))"

text \<open>One step of \<open>showNode\<close> at a node whose data is there.\<close>

lemma show_path_step:
  assumes ok: "nav_ok L s" and n: "nodes s k = Some n" and data: "childrenData n = NavItems items"
    and clean: "clean_data (NavItems items)" and b: "b < length items"
  shows "\<exists>s1 n1 cn. nav_ok L s1 \<and> extends s s1 \<and> selected s1 = selected s \<and> is_open s1 k items \<and>
     nodes s1 k = Some n1 \<and> expanded n1 \<and> childrenVisited n1 \<and> b < length (nChildren n1) \<and>
     nodes s1 (nChildren n1 ! b) = Some cn \<and> label cn = fst (items ! b) \<and>
     holds L (snd (snd (items ! b))) (childrenData cn) \<and>
     show_path S (Some k) i h (b # bs) s =
       (if bs \<noteq> [] then show_path S (Some (nChildren n1 ! b)) (i + 1) h bs s1
        else case childrenData cn of
           VarName varName \<Rightarrow> getScript (relpath cn @ varName) (ChildLoaded (nChildren n1 ! b) varName k i h) s1
         | _ \<Rightarrow> arrive S h (nChildren n1 ! b) s1)"
proof -
  obtain s1 where s1: "openNode k items s = (Inr (), s1)" "nav_ok L s1" "extends s s1" "is_open s1 k items"
    "selected s1 = selected s"
    using openNode_ok [OF ok n data clean_items [OF clean]] by blast
  obtain n1 cn where n1: "nodes s1 k = Some n1" "expanded n1" "childrenVisited n1"
    "length (nChildren n1) = length items" "nodes s1 (nChildren n1 ! b) = Some cn"
    "label cn = fst (items ! b)" "holds L (snd (snd (items ! b))) (childrenData cn)"
    by (rule child_of_open [OF s1(2,4) b])
  have "show_path S (Some k) i h (b # bs) s =
     (if bs \<noteq> [] then show_path S (Some (nChildren n1 ! b)) (i + 1) h bs s1
      else case childrenData cn of
         VarName varName \<Rightarrow> getScript (relpath cn @ varName) (ChildLoaded (nChildren n1 ! b) varName k i h) s1
       | _ \<Rightarrow> arrive S h (nChildren n1 ! b) s1)"
    using data b n1
    by (simp add: step_nodeOf [OF n] has_data_def run_jbind_Inr [where m = "openNode k items", OF s1(1)]
      nav_steps arrive_def Let_def split: nav_data.split)
  then show ?thesis using s1 n1 b by (intro exI [of _ s1] exI [of _ n1] exI [of _ cn]) (simp del: show_path.simps)
qed

lemma show_path_arrives:
  assumes "nav_ok L s" "nodes s k = Some n" "childrenData n = NavItems items"
    and "clean_data (NavItems items)" "nav_at items bs = Some (tx, l, d)" "\<And>v. d \<noteq> VarName v"
  shows "\<exists>s1 c cn. show_path S (Some k) i h bs s = arrive S h c s1 \<and> nav_ok L s1 \<and> extends s s1 \<and>
     selected s1 = selected s \<and> node_path s1 k bs = Some c \<and> path_open s1 k bs \<and>
     nodes s1 c = Some cn \<and> label cn = tx \<and> childrenData cn = d"
  using assms
proof (induction bs arbitrary: s k n i items)
  case (Cons b bs)
  let ?item = "items ! b"
  have b: "b < length items" using Cons.prems(5) by (simp split: if_splits)
  obtain s1 n1 cn where s1: "nav_ok L s1" "extends s s1" "selected s1 = selected s"
    and n1: "nodes s1 k = Some n1" "expanded n1" "childrenVisited n1" "b < length (nChildren n1)"
      "nodes s1 (nChildren n1 ! b) = Some cn" "label cn = fst ?item" "holds L (snd (snd ?item)) (childrenData cn)"
    and here: "show_path S (Some k) i h (b # bs) s =
       (if bs \<noteq> [] then show_path S (Some (nChildren n1 ! b)) (i + 1) h bs s1
        else case childrenData cn of
           VarName varName \<Rightarrow> getScript (relpath cn @ varName) (ChildLoaded (nChildren n1 ! b) varName k i h) s1
         | _ \<Rightarrow> arrive S h (nChildren n1 ! b) s1)"
    using show_path_step [OF Cons.prems(1-4) b, of S i h bs] by blast
  let ?c = "nChildren n1 ! b"
  show ?case
  proof (cases "bs = []")
    case True
    then have item: "?item = (tx, l, d)" using Cons.prems(5) b by simp
    then have data: "childrenData cn = d" using n1(7) Cons.prems(6) holds_eq by simp
    then have "show_path S (Some k) i h (b # bs) s = arrive S h ?c s1"
      using here True Cons.prems(6) by (simp split: nav_data.split)
    then show ?thesis
      using s1 n1 data True item by (intro exI [of _ s1] exI [of _ ?c] exI [of _ cn]) (simp del: show_path.simps)
  next
    case False
    then obtain sub where sub: "snd (snd ?item) = NavItems sub" "nav_at sub bs = Some (tx, l, d)"
      using Cons.prems(5) b by (simp split: nav_data.splits)
    have "?item \<in> set items" using b by simp
    then have clean: "clean_data (NavItems sub)"
      using Cons.prems(4) sub(1) by (fastforce simp: list_all_iff)
    have data: "childrenData cn = NavItems sub" using n1(7) sub(1) by (simp add: holds_def)
    obtain s2 c m where s2: "show_path S (Some ?c) (i + 1) h bs s1 = arrive S h c s2" "nav_ok L s2"
      "extends s1 s2" "node_path s2 ?c bs = Some c" "path_open s2 ?c bs" "nodes s2 c = Some m"
      "label m = tx" "childrenData m = d" "selected s2 = selected s1"
      using Cons.IH [OF s1(1) n1(5) data clean sub(2) Cons.prems(6)] by blast
    obtain n2 where "nodes s2 k = Some n2" "nChildren n2 = nChildren n1" "expanded n2" "childrenVisited n2"
      using s2(3) n1(1-3) unfolding extends_def by blast
    then show ?thesis
      using here False s2 s1(3) extends_trans [OF s1(2) s2(3)] n1(4)
      by (intro exI [of _ s2] exI [of _ c] exI [of _ m]) (simp del: show_path.simps)
  qed
qed simp

section \<open>Selecting the node\<close>

definition marked :: "jstr \<Rightarrow> nat \<Rightarrow> nav_state \<Rightarrow> nat list" where
  \<comment> \<open>the links of the anchor, or else the node itself\<close>
  "marked h c s =
     (let a = (if h = [] then []
               else linksEnding (stripPath (pathName (pathname s)) @ js '':'' @ substring1 h 1) s)
      in if a = [] then [c] else a)"

definition same_nodes :: "loader \<Rightarrow> nav_state \<Rightarrow> nav_state \<Rightarrow> bool" where
  "same_nodes L s s' \<longleftrightarrow> nav_ok L s' \<and> extends s s' \<and> nextNode s' = nextNode s"

lemma same_nodes_trans: "same_nodes L s s' \<Longrightarrow> same_nodes L s' s'' \<Longrightarrow> same_nodes L s s''"
  unfolding same_nodes_def by (metis extends_trans)

lemma same_nodes_fields:
  assumes "nav_ok L s"
  shows "same_nodes L s s" "same_nodes L s (s\<lparr>syncTop := x\<rparr>)" "same_nodes L s (s\<lparr>glows := y\<rparr>)"
    "same_nodes L s (s\<lparr>scrolls := v\<rparr>)" "same_nodes L s (s\<lparr>retries := w\<rparr>)"
  using assms by (simp_all add: same_nodes_def extends_def)

lemma linksEnding_same:
  assumes ok: "nav_ok L s" and same: "same_nodes L s s'"
  shows "linksEnding l s' = linksEnding l s"
proof -
  have "(case nodes s' k of None \<Rightarrow> False | Some n \<Rightarrow> nParent n \<noteq> None \<and> aClass n \<noteq> [] \<and> suffix l (aClass n)) =
    (case nodes s k of None \<Rightarrow> False | Some n \<Rightarrow> nParent n \<noteq> None \<and> aClass n \<noteq> [] \<and> suffix l (aClass n))"
    if lt: "k < nextNode s" for k
  proof -
    obtain n where n: "nodes s k = Some n" using nav_okD(1) [OF ok, of k] lt by auto
    then obtain n' where "nodes s' k = Some n'" "nParent n' = nParent n" "aClass n' = aClass n"
      using same unfolding same_nodes_def extends_def by blast
    with n show ?thesis by simp
  qed
  then show ?thesis using same by (auto simp: linksEnding_def same_nodes_def intro: filter_cong)
qed

lemma marked_same: "nav_ok L s \<Longrightarrow> same_nodes L s s' \<Longrightarrow> marked h c s' = marked h c s"
  using linksEnding_same [of L s s'] by (simp add: marked_def same_nodes_def extends_def)

lemma links_exist: "k \<in> set (linksEnding l s) \<Longrightarrow> nodes s k \<noteq> None"
  by (auto simp: linksEnding_def split: option.splits)

lemma selectNode_ok:
  assumes ok: "nav_ok L s" and k: "nodes s k \<noteq> None"
  shows "\<exists>s'. selectNode k s = (Inr (), s') \<and> same_nodes L s s' \<and> selected s' = insert k (selected s)"
proof -
  obtain n where n: "nodes s k = Some n" using k by blast
  let ?n = "n\<lparr>itemSelected := True, itemId := Some (js ''selected'')\<rparr>"
  let ?s = "s\<lparr>nodes := (nodes s)(k \<mapsto> ?n)\<rparr>"
  have core: "same_core n ?n" by (simp add: same_core_def ul_of_def)
  have "selectNode k s = (Inr (), ?s)" by (simp add: selectNode_def run_updNode n)
  moreover have "same_nodes L s ?s"
    using nav_ok_upd [OF ok n core] extends_upd [OF n core] by (simp add: same_nodes_def)
  moreover have "selected ?s = insert k (selected s)" by (auto simp: selected_def)
  ultimately show ?thesis by blast
qed

lemma select_all_ok:
  "nav_ok L s \<Longrightarrow> \<forall>k \<in> set ks. nodes s k \<noteq> None \<Longrightarrow>
   \<exists>s'. for_each selectNode ks s = (Inr (), s') \<and> same_nodes L s s' \<and> selected s' = set ks \<union> selected s"
proof (induction ks arbitrary: s)
  case Nil
  then show ?case by (simp add: same_nodes_fields)
next
  case (Cons k ks)
  obtain s1 where s1: "selectNode k s = (Inr (), s1)" "same_nodes L s s1" "selected s1 = insert k (selected s)"
    using selectNode_ok [OF Cons.prems(1), of k] Cons.prems(2) by auto
  have "\<forall>j \<in> set ks. nodes s1 j \<noteq> None"
    using Cons.prems(2) s1(2) unfolding same_nodes_def extends_def by (metis list.set_intros(2) not_Some_eq)
  then obtain s2 where s2: "for_each selectNode ks s1 = (Inr (), s2)" "same_nodes L s1 s2"
    "selected s2 = set ks \<union> selected s1"
    using Cons.IH [of s1] s1(2) unfolding same_nodes_def by blast
  have "for_each selectNode (k # ks) s = (Inr (), s2)" using s1(1) s2(1) by (simp add: run_jbind)
  then show ?case using same_nodes_trans [OF s1(2) s2(2)] s2(3) s1(3) by auto
qed

lemma showRoot_ok:
  "nav_ok L s \<Longrightarrow> \<exists>s'. showRoot S s = (Inr (), s') \<and> same_nodes L s s' \<and> selected s' = selected s"
  using same_nodes_fields [of L s]
  by (simp add: showRoot_def tryScroll_def step_jget run_jmod selected_def)

lemma highlightAnchor_ok:
  "nav_ok L s \<Longrightarrow> \<exists>s'. highlightAnchor S s = (Inr (), s') \<and> same_nodes L s s' \<and> selected s' = selected s"
  using same_nodes_fields [of L s]
  by (simp add: highlightAnchor_def glowEffect_def step_jget run_jmod selected_def)

lemma jbind_same:
  assumes "\<exists>s1. m s = (Inr (), s1) \<and> same_nodes L s s1 \<and> selected s1 = A"
    and "\<And>s1. nav_ok L s1 \<Longrightarrow> selected s1 = A \<Longrightarrow> \<exists>s2. f () s1 = (Inr (), s2) \<and> same_nodes L s1 s2 \<and> selected s2 = B"
  shows "\<exists>s2. jbind m f s = (Inr (), s2) \<and> same_nodes L s s2 \<and> selected s2 = B"
proof -
  obtain s1 where s1: "m s = (Inr (), s1)" "same_nodes L s s1" "selected s1 = A" using assms(1) by blast
  then obtain s2 where "f () s1 = (Inr (), s2)" "same_nodes L s1 s2" "selected s2 = B"
    using assms(2) [of s1] by (auto simp: same_nodes_def)
  with s1 same_nodes_trans [of L s s1 s2] show ?thesis by (simp add: run_jbind)
qed

lemma selectAndHighlight_ok:
  assumes ok: "nav_ok L s" and c: "nodes s c \<noteq> None"
  shows "\<exists>s'. selectAndHighlight S h (Some c) s = (Inr (), s') \<and> same_nodes L s s' \<and>
    selected s' = set (marked h c s) \<union> selected s"
proof -
  let ?a = "if h = [] then [] else linksEnding (stripPath (pathName (pathname s)) @ js '':'' @ substring1 h 1) s"
  have mark: "\<exists>s1. (if ?a \<noteq> [] then jbind (for_each selectNode ?a) (\<lambda>_. highlightAnchor S)
       else case Some c of None \<Rightarrow> jret () | Some k \<Rightarrow> selectNode k) s = (Inr (), s1) \<and> same_nodes L s s1 \<and>
       selected s1 = set (marked h c s) \<union> selected s"
  proof (cases "?a = []")
    case True
    then show ?thesis using selectNode_ok [OF ok c] unfolding marked_def Let_def by (simp only: True) simp
  next
    case False
    have "\<forall>k \<in> set ?a. nodes s k \<noteq> None" using links_exist by (auto split: if_splits)
    then have "\<exists>s1. for_each selectNode ?a s = (Inr (), s1) \<and> same_nodes L s s1 \<and>
        selected s1 = set (marked h c s) \<union> selected s"
      using select_all_ok [OF ok, of ?a] False unfolding marked_def Let_def by simp
    then have "\<exists>s2. jbind (for_each selectNode ?a) (\<lambda>_. highlightAnchor S) s = (Inr (), s2) \<and>
        same_nodes L s s2 \<and> selected s2 = set (marked h c s) \<union> selected s"
      by (rule jbind_same) (metis highlightAnchor_ok)
    then show ?thesis using False by simp
  qed
  have pos: "\<exists>s2. jbind (jmod (\<lambda>s. s\<lparr>syncTop := f s\<rparr>)) (\<lambda>_. showRoot S) s1 = (Inr (), s2) \<and>
      same_nodes L s1 s2 \<and> selected s2 = selected s1" if "nav_ok L s1" for f s1
  proof (rule jbind_same)
    show "\<exists>s2. jmod (\<lambda>s. s\<lparr>syncTop := f s\<rparr>) s1 = (Inr (), s2) \<and> same_nodes L s1 s2 \<and> selected s2 = selected s1"
      using same_nodes_fields [OF that] by (simp add: selected_def)
  qed (metis showRoot_ok)
  show ?thesis
    unfolding selectAndHighlight_def step_jget
    by (rule jbind_same, rule mark) (erule subst, rule pos)
qed

section \<open>Arriving at the node\<close>

lemma nav_at_clean: "clean_data (NavItems items) \<Longrightarrow> nav_at items bs = Some (tx, l, d) \<Longrightarrow> clean_data d"
proof (induction bs arbitrary: items)
  case (Cons b bs)
  have b: "b < length items" using Cons.prems(2) by (simp split: if_splits)
  then have c: "clean_data (snd (snd (items ! b)))" using Cons.prems(1) by (simp add: list_all_iff)
  show ?case
  proof (cases "bs = []")
    case True
    then show ?thesis using Cons.prems(2) b c by simp
  next
    case False
    then obtain sub where "snd (snd (items ! b)) = NavItems sub" "nav_at sub bs = Some (tx, l, d)"
      using Cons.prems(2) b by (simp split: nav_data.splits)
    then show ?thesis using Cons.IH [of sub] c by simp
  qed
qed simp

lemma expandNode_ok:
  assumes ok: "nav_ok L s" and n: "nodes s c = Some n" and d: "clean_data (childrenData n)"
    "\<And>v. childrenData n \<noteq> VarName v"
  shows "\<exists>s'. expandNode c s = (Inr (), s') \<and> nav_ok L s' \<and> extends s s' \<and> selected s' = selected s"
proof (cases "has_data (childrenData n) \<and> \<not> expanded n")
  case True
  then obtain items where items: "childrenData n = NavItems items"
    using d(2) by (cases "childrenData n") (auto simp: has_data_def)
  then show ?thesis
    using openNode_ok [OF ok n items clean_items] d(1) True
    unfolding expandNode_def step_nodeOf [OF n] by auto
next
  case False
  then show ?thesis unfolding expandNode_def step_nodeOf [OF n] using ok by auto
qed

lemma arrive_ok:
  assumes ok: "nav_ok L s" and n: "nodes s c = Some n" and d: "clean_data (childrenData n)"
    "\<And>v. childrenData n \<noteq> VarName v"
  shows "\<exists>s'. arrive S h c s = (Inr (), s') \<and> nav_ok L s' \<and> extends s s' \<and>
    selected s' = set (marked h c s') \<union> selected s"
proof -
  obtain s1 where s1: "jwhen (is_start_page (toroot s)) (expandNode c) s = (Inr (), s1)" "nav_ok L s1"
    "extends s s1" "selected s1 = selected s"
    using expandNode_ok [OF ok n d] ok by (cases "is_start_page (toroot s)") auto
  have c: "nodes s1 c \<noteq> None" using s1(3) n unfolding extends_def by fastforce
  obtain s2 where s2: "selectAndHighlight S h (Some c) s1 = (Inr (), s2)" "same_nodes L s1 s2"
    "selected s2 = set (marked h c s1) \<union> selected s1"
    using selectAndHighlight_ok [OF s1(2) c] by blast
  have "arrive S h c s = jbind (jwhen (is_start_page (toroot s)) (expandNode c))
      (\<lambda>_. selectAndHighlight S h (Some c)) s"
    by (simp add: arrive_def step_jget)
  also have "\<dots> = (Inr (), s2)" using s1(1) s2(1) by (simp add: run_jbind del: run_jwhen)
  finally show ?thesis
    using s2 s1(4) extends_trans [OF s1(3)] marked_same [OF s1(2) s2(2)] unfolding same_nodes_def by auto
qed

text \<open>
  Following a path through data that is there: the script returns, the tree stays well
  formed and keeps its nodes, and the node at the path shows the entry of the data.
\<close>

definition shown_at :: "loader \<Rightarrow> nav_state \<Rightarrow> nat \<Rightarrow> nat list \<Rightarrow> nav_item \<Rightarrow> jstr \<Rightarrow> nat set \<Rightarrow> bool" where
  "shown_at L s k bs item h old \<longleftrightarrow> nav_ok L s \<and> path_open s k bs \<and>
     (\<exists>c n. node_path s k bs = Some c \<and> nodes s c = Some n \<and> label n = fst item \<and>
        childrenData n = snd (snd item) \<and> selected s = set (marked h c s) \<union> old)"

lemma show_path_shows:
  assumes "nav_ok L s" "nodes s k = Some n" "childrenData n = NavItems items"
    and clean: "clean_data (NavItems items)" and at: "nav_at items bs = Some (tx, l, d)"
    and d: "\<And>v. d \<noteq> VarName v"
  shows "\<exists>s'. show_path S (Some k) i h bs s = (Inr (), s') \<and> extends s s' \<and>
     shown_at L s' k bs (tx, l, d) h (selected s)"
proof -
  obtain s1 c cn where s1: "show_path S (Some k) i h bs s = arrive S h c s1" "nav_ok L s1" "extends s s1"
    "selected s1 = selected s" "node_path s1 k bs = Some c" "path_open s1 k bs"
    "nodes s1 c = Some cn" "label cn = tx" "childrenData cn = d"
    using show_path_arrives [OF assms] by blast
  obtain s2 where s2: "arrive S h c s1 = (Inr (), s2)" "nav_ok L s2" "extends s1 s2"
    "selected s2 = set (marked h c s2) \<union> selected s1"
    using arrive_ok [OF s1(2,7)] nav_at_clean [OF clean at] d s1(9) by blast
  obtain m where "nodes s2 c = Some m" "label m = tx" "childrenData m = d"
    using s2(3) s1(7-9) unfolding extends_def by blast
  then have "shown_at L s2 k bs (tx, l, d) h (selected s)"
    using s2 s1(4) extends_node_path [OF s2(3) s1(6,5)] by (simp add: shown_at_def)
  then show ?thesis using s1(1) s2(1) extends_trans [OF s1(3) s2(3)] by auto
qed

end
