(* ===== verification/Nav_Props.thy ===== *)
theory Nav_Props
  imports Nav_Open
begin

text \<open>
  What the navigation tree does: the node of the page's address is shown after the page
  has been loaded, in either order of the events; nodes open and close; the stored link
  and the synchronisation button; the choice of the index file.
\<close>

section \<open>From the address to the node\<close>

definition crumbs :: "(jstr \<Rightarrow> nat list option) \<Rightarrow> jstr \<Rightarrow> jstr \<Rightarrow> nat list" where
  \<comment> \<open>the entry of the address, else that of the page, else the top of the tree\<close>
  "crumbs sub root h = 0 # (case sub (root @ h) of Some b \<Rightarrow> b
     | None \<Rightarrow> (case sub root of Some b \<Rightarrow> b | None \<Rightarrow> []))"

definition loads :: "nav_site \<Rightarrow> loader" where
  \<comment> \<open>what \<open>getData\<close> finds once the script of a name has arrived\<close>
  "loads S v = navVar S (dataName v)"

definition tree_of :: "nav_site \<Rightarrow> nav_state \<Rightarrow> bool" where
  \<comment> \<open>a well-formed tree whose root holds the site's data\<close>
  "tree_of S s \<longleftrightarrow> nav_ok (loads S) s \<and> clean_data (NavItems (NAVTREE S)) \<and>
     (\<exists>r. nodes s (rootNode s) = Some r \<and> childrenData r = NavItems (NAVTREE S))"

definition has_entry :: "nav_site \<Rightarrow> nat list \<Rightarrow> nav_item \<Rightarrow> bool" where
  "has_entry S bs item \<longleftrightarrow> nav_at (NAVTREE S) bs = Some item \<and>
     (case snd (snd item) of VarName _ \<Rightarrow> False | _ \<Rightarrow> True)"

lemma gotoNode_run:
  "subIndices s i = Some sub \<Longrightarrow> gotoNode S i root h s =
    show_path S (Some (rootNode s)) 0 h (crumbs sub root h) (s\<lparr>breadcrumbs := crumbs sub root h\<rparr>)"
  by (simp add: gotoNode_def step_jget step_jmod run_jbind showNode_def crumbs_def Let_def del: show_path.simps)

lemma gotoNode_shows:
  assumes tree: "tree_of S s" and sub: "subIndices s i = Some sub" and at: "has_entry S (crumbs sub root h) item"
  shows "\<exists>s'. gotoNode S i root h s = (Inr (), s') \<and> rootNode s' = rootNode s \<and>
    shown_at (loads S) s' (rootNode s') (crumbs sub root h) item h (selected s)"
proof -
  obtain r where r: "nav_ok (loads S) s" "nodes s (rootNode s) = Some r" "childrenData r = NavItems (NAVTREE S)"
    "clean_data (NavItems (NAVTREE S))"
    using tree by (auto simp: tree_of_def)
  obtain tx l d where item: "item = (tx, l, d)" by (cases item)
  let ?bs = "crumbs sub root h"
  let ?s = "s\<lparr>breadcrumbs := ?bs\<rparr>"
  have d: "d \<noteq> VarName v" for v using at by (auto simp: has_entry_def item)
  have "\<exists>s'. show_path S (Some (rootNode s)) 0 h ?bs ?s = (Inr (), s') \<and> extends ?s s' \<and>
     shown_at (loads S) s' (rootNode s) ?bs (tx, l, d) h (selected ?s)"
    by (rule show_path_shows [OF _ _ r(3,4) _ d]) (use r at item in \<open>simp_all add: has_entry_def\<close>)
  then obtain s' where s': "show_path S (Some (rootNode s)) 0 h ?bs ?s = (Inr (), s')" "extends ?s s'"
     "shown_at (loads S) s' (rootNode s) ?bs item h (selected ?s)"
    using item by blast
  note gotoNode_run [OF sub, of S root h]
  moreover have "selected ?s = selected s" by (simp add: selected_def)
  moreover have "rootNode s' = rootNode s" using s'(2) by (simp add: extends_def)
  ultimately show ?thesis using s' by simp
qed

text \<open>\<open>navTo\<close> without a stored link, for an address that is not a line of a listing.\<close>

lemma navTo_run:
  assumes "\<not> has_link (cachedLink S s)" "\<not> line_anchor h" "index_of_url (NAVTREEINDEX S) (root @ h) = int i"
  shows "navTo S root h rel s =
     (if subIndices s i \<noteq> None then gotoNode S i root h s
      else (Inr (), s\<lparr>pending := pending s @ [(rel @ js ''navtreeindex'' @ nat_str i @ js ''.js'', IndexLoaded i root h rel)]\<rparr>))"
proof -
  have "(case cachedLink S s of Some link \<Rightarrow> if link \<noteq> [] then
           (case split_at sharp link of p # q # _ \<Rightarrow> (p, js ''#'' @ clean_hash q) | [p] \<Rightarrow> (p, []) | [] \<Rightarrow> ([], []))
           else (root, h) | None \<Rightarrow> (root, h)) = (root, h)"
    using assms(1) by (auto simp: has_link_def split: option.splits)
  then show ?thesis using assms(2,3) by (simp add: navTo_def run_jbind getScript_def Let_def)
qed

lemma index_loaded_run:
  assumes tree: "tree_of S s" and pend: "pending s = [(f, IndexLoaded i root h rel)]"
    and var: "navIndexVar S i = Some sub" and at: "has_entry S (crumbs sub root h) item"
  shows "\<exists>s'. scriptLoaded S 0 s = (Inr (), s') \<and> rootNode s' = rootNode s \<and>
    shown_at (loads S) s' (rootNode s') (crumbs sub root h) item h (selected s)"
proof -
  let ?s = "s\<lparr>pending := [], subIndices := (subIndices s)(i \<mapsto> sub)\<rparr>"
  have "scriptLoaded S 0 s = gotoNode S i root h ?s"
    by (simp add: scriptLoaded_def pend step_jget step_jmod runCallback_def var run_jbind)
  moreover have "tree_of S ?s" using tree by (simp add: tree_of_def)
  moreover have "selected ?s = selected s" by (simp add: selected_def)
  ultimately show ?thesis using gotoNode_shows [OF _ _ at, of ?s i] by simp
qed

section \<open>Loading a page\<close>

definition fresh_page :: "nav_state \<Rightarrow> bool" where
  "fresh_page s \<longleftrightarrow> nodes s = Map.empty \<and> nextNode s = 0 \<and> contents s = [] \<and> pending s = [] \<and>
     subIndices s = Map.empty \<and> \<not> loadTriggered s \<and> \<not> readyTriggered s"

text \<open>The state after \<open>initNavTree\<close> has built the root.\<close>

definition with_root :: "nav_site \<Rightarrow> jstr \<Rightarrow> jstr \<Rightarrow> nav_state \<Rightarrow> nav_state" where
  "with_root S root rel s = s\<lparr>nextNode := 1, rootNode := 0, toroot := root, contents := [0],
     nodes := [0 \<mapsto> new_nav_node\<lparr>childrenData := NavItems (NAVTREE S),
          childrenUL := Some [], depth := 0, relpath := rel, expanded := False, isLast := True,
          hasToggle := True, arrowHtml := arrowRight\<rparr>],
     syncHtml := (if \<not> localStorageSupported S then syncHtml s
       else if has_link (cachedLink S s) then syncImage rel ''sync_off.png'' (SYNCOFFMSG S)
       else syncImage rel ''sync_on.png'' (SYNCONMSG S)),
     syncOn := (if localStorageSupported S \<and> has_link (cachedLink S s) then False else syncOn s)\<rparr>"

lemma tree_of_with_root: "clean_data (NavItems (NAVTREE S)) \<Longrightarrow> tree_of S (with_root S root rel s)"
  by (simp add: tree_of_def with_root_def nav_ok_def depth_ok_def new_nav_node_def node_ok_def hangs_def
    siblingsOf_def ul_of_def has_data_def)

lemma selected_with_root: "selected (with_root S root rel s) = {}"
  by (simp add: selected_def with_root_def new_nav_node_def)

lemma with_root_fields [simp]:
  "subIndices (with_root S root rel s) = subIndices s" "pending (with_root S root rel s) = pending s"
  "storage (with_root S root rel s) = storage s" "hash (with_root S root rel s) = hash s"
  "loadTriggered (with_root S root rel s) = loadTriggered s"
  "readyTriggered (with_root S root rel s) = readyTriggered s"
  by (simp_all add: with_root_def)

lemma initNavTree_run:
  assumes "nodes s = Map.empty" "nextNode s = 0" "contents s = []"
  shows "initNavTree S root rel s =
    (if loadTriggered s then jbind (navTo S root (hashUrl (hash s)) rel) (\<lambda>_. showRoot S) (with_root S root rel s)
     else (Inr (), (with_root S root rel s)\<lparr>loadArgs := (root, hashUrl (hash s), rel), readyTriggered := True\<rparr>))"
  using assms
  by (simp add: initNavTree_def with_root_def step_jget step_jmod run_jbind showSyncOff_def showSyncOn_def
    block_def cachedLink_def)

lemma tree_of_cong:
  "nodes s' = nodes s \<Longrightarrow> nextNode s' = nextNode s \<Longrightarrow> contents s' = contents s \<Longrightarrow> rootNode s' = rootNode s \<Longrightarrow>
   tree_of S s' = tree_of S s"
  using nav_ok_cong [of s' s "loads S"] by (simp add: tree_of_def)

lemma showRoot_run: "\<exists>x y. showRoot S s = (Inr (), s\<lparr>scrolls := x, retries := y\<rparr>)"
  by (cases s) (simp add: showRoot_def tryScroll_def run_jbind)

text \<open>The address that the page names, and the index entry it leads to.\<close>

definition address :: "nav_site \<Rightarrow> jstr \<Rightarrow> jstr \<Rightarrow> nat \<Rightarrow> (jstr \<Rightarrow> nat list option) \<Rightarrow> bool" where
  "address S root h i sub \<longleftrightarrow> \<not> line_anchor h \<and> index_of_url (NAVTREEINDEX S) (root @ h) = int i \<and>
     navIndexVar S i = Some sub"

lemma ask_index:
  assumes "address S root h i sub" "\<not> has_link (cachedLink S s)" "subIndices s i = None" "pending s = []"
  shows "\<exists>x y f. jbind (navTo S root h rel) (\<lambda>_. showRoot S) s =
    (Inr (), s\<lparr>pending := [(f, IndexLoaded i root h rel)], scrolls := x, retries := y\<rparr>)"
proof -
  obtain f where nav: "navTo S root h rel s = (Inr (), s\<lparr>pending := [(f, IndexLoaded i root h rel)]\<rparr>)"
    using assms navTo_run [OF assms(2), of h root i rel] by (auto simp: address_def)
  obtain x y where "showRoot S (s\<lparr>pending := [(f, IndexLoaded i root h rel)]\<rparr>) =
      (Inr (), s\<lparr>pending := [(f, IndexLoaded i root h rel)], scrolls := x, retries := y\<rparr>)"
    using showRoot_run [of S "s\<lparr>pending := [(f, IndexLoaded i root h rel)]\<rparr>"] by auto
  with nav show ?thesis by (auto simp: run_jbind)
qed

lemma load_ready_order:
  assumes fresh: "fresh_page s" and addr: "address S root (hashUrl (hash s)) i sub"
    and link: "\<not> has_link (cachedLink S s)" and tree: "clean_data (NavItems (NAVTREE S))"
  shows "\<exists>s1 f. block [initNavTree S root rel, windowLoad S] s = (Inr (), s1) \<and> tree_of S s1 \<and>
      selected s1 = {} \<and> pending s1 = [(f, IndexLoaded i root (hashUrl (hash s)) rel)]"
    "\<exists>s1 f. block [windowLoad S, initNavTree S root rel] s = (Inr (), s1) \<and> tree_of S s1 \<and>
      selected s1 = {} \<and> pending s1 = [(f, IndexLoaded i root (hashUrl (hash s)) rel)]"
proof -
  let ?h = "hashUrl (hash s)"
  have empty: "nodes s = Map.empty" "nextNode s = 0" "contents s = []" "subIndices s i = None" "pending s = []"
    "\<not> loadTriggered s" "\<not> readyTriggered s"
    using fresh by (simp_all add: fresh_page_def)
  let ?r = "with_root S root rel s"
  let ?a = "?r\<lparr>loadArgs := (root, ?h, rel), readyTriggered := True\<rparr>"
  let ?b = "with_root S root rel (s\<lparr>loadTriggered := True\<rparr>)"
  have links: "\<not> has_link (cachedLink S ?a)" "\<not> has_link (cachedLink S ?b)"
    using link by (auto simp: cachedLink_def)
  note root = tree_of_with_root [OF tree] selected_with_root
  obtain x y f where a: "jbind (navTo S root ?h rel) (\<lambda>_. showRoot S) ?a =
      (Inr (), ?a\<lparr>pending := [(f, IndexLoaded i root ?h rel)], scrolls := x, retries := y\<rparr>)"
    using ask_index [OF addr links(1), of rel] empty by auto
  let ?a' = "?a\<lparr>pending := [(f, IndexLoaded i root ?h rel)], scrolls := x, retries := y, loadTriggered := True\<rparr>"
  have run: "block [initNavTree S root rel, windowLoad S] s = (Inr (), ?a')"
    using a empty initNavTree_run [OF empty(1-3)] by (simp add: block_def windowLoad_def run_jbind)
  moreover have "tree_of S ?a'" using root(1) by (subst tree_of_cong [where s = ?r]) simp_all
  moreover have "selected ?a' = {}" using root(2) by (simp add: selected_def)
  ultimately show "\<exists>s1 f. block [initNavTree S root rel, windowLoad S] s = (Inr (), s1) \<and> tree_of S s1 \<and>
      selected s1 = {} \<and> pending s1 = [(f, IndexLoaded i root ?h rel)]"
    by (intro exI [of _ ?a'] exI [of _ f]) simp
  obtain x y f where b: "jbind (navTo S root ?h rel) (\<lambda>_. showRoot S) ?b =
      (Inr (), ?b\<lparr>pending := [(f, IndexLoaded i root ?h rel)], scrolls := x, retries := y\<rparr>)"
    using ask_index [OF addr links(2), of rel] empty by auto
  let ?b' = "?b\<lparr>pending := [(f, IndexLoaded i root ?h rel)], scrolls := x, retries := y\<rparr>"
  have "block [windowLoad S, initNavTree S root rel] s = (Inr (), ?b')"
    using b empty initNavTree_run [of "s\<lparr>loadTriggered := True\<rparr>"]
    by (simp add: block_def windowLoad_def run_jbind split: prod.split)
  moreover have "tree_of S ?b'" using root(1) by (subst tree_of_cong [where s = ?b]) simp_all
  moreover have "selected ?b' = {}" using root(2) by (simp add: selected_def)
  ultimately show "\<exists>s1 f. block [windowLoad S, initNavTree S root rel] s = (Inr (), s1) \<and> tree_of S s1 \<and>
      selected s1 = {} \<and> pending s1 = [(f, IndexLoaded i root ?h rel)]"
    by (intro exI [of _ ?b'] exI [of _ f]) simp
qed

lemma page_shows_address:
  assumes "fresh_page s" "clean_data (NavItems (NAVTREE S))" "\<not> has_link (cachedLink S s)"
    and "address S root (hashUrl (hash s)) i sub"
    and "has_entry S (crumbs sub root (hashUrl (hash s))) item"
    and "order = [initNavTree S root rel, windowLoad S] \<or> order = [windowLoad S, initNavTree S root rel]"
  shows "\<exists>s'. jbind (block order) (\<lambda>_. scriptLoaded S 0) s = (Inr (), s') \<and>
     shown_at (loads S) s' (rootNode s') (crumbs sub root (hashUrl (hash s))) item (hashUrl (hash s)) {}"
proof -
  obtain s1 f where s1: "block order s = (Inr (), s1)" "tree_of S s1" "selected s1 = {}"
    "pending s1 = [(f, IndexLoaded i root (hashUrl (hash s)) rel)]"
    using load_ready_order [OF assms(1,4,3,2), of rel] assms(6) by blast
  have "navIndexVar S i = Some sub" using assms(4) by (simp add: address_def)
  with index_loaded_run [OF s1(2,4) _ assms(5)] s1 show ?thesis by (auto simp: run_jbind)
qed

text \<open>A page that has just been opened, and a browser that shows a small site.\<close>

definition new_page :: "jstr \<Rightarrow> jstr \<Rightarrow> nav_state" where
  "new_page path h = \<lparr>nodes = Map.empty, nextNode = 0, rootNode = 0, toroot = [], contents = [],
     breadcrumbs = [], subIndices = Map.empty, pending = [], storage = Map.empty, pathname = path,
     hash = h, syncOn = True, syncHtml = [], syncTop = [], glows = [], scrolls = [], retries = [],
     animations = [], animationInProgress = False, loadTriggered = False, readyTriggered = False,
     loadArgs = ([], [], [])\<rparr>"

definition plain_browser :: nav_site where
  "plain_browser = \<lparr>NAVTREE = [(js ''TA-REF'', Some (js ''index.html''),
       NavItems [(js ''Class List'', Some (js ''annotated.html''), NoData),
                 (js ''File List'', Some (js ''files.html''), NoData)])],
     NAVTREEINDEX = [js ''annotated.html''], navVar = Map.empty,
     navIndexVar = [0 \<mapsto> [js ''annotated.html'' \<mapsto> [0], js ''files.html'' \<mapsto> [1], js ''index.html'' \<mapsto> []]],
     windowStorage = Storage True, SYNCONMSG = js ''on'', SYNCOFFMSG = js ''off'', pageLayout = None,
     topOuterHeight = 0, topHeight = 0, navPathHeight = 0, windowHeight = 600, scrollTo = (\<lambda>_. True),
     anchorClass = Map.empty, anchorHeader = (\<lambda>_. False),
     anchorView = (\<lambda>_. \<lparr>parentMatches = False, parentTop = 0, ownTop = None, contentTop = 0,
        scrollHeight = 0, contentHeight = 0, scrollTop = 0\<rparr>)\<rparr>"

lemma fresh_new_page [simp]: "fresh_page (new_page path h)" "\<not> has_link (cachedLink S (new_page path h))"
  by (simp_all add: fresh_page_def new_page_def cachedLink_def has_link_def)

lemma hash_new_page [simp]: "hash (new_page path h) = h"
  by (simp add: new_page_def)

end
