(* ===== verification/Value_Store.thy ===== *)
theory Value_Store
  imports Main
begin

text \<open>
  The contract of a place that remembers one value: what was put there last is what is
  read. The browser's storage keeps the link of the navigation tree under it, and the
  cookie the width of the panel.
\<close>

locale value_store =
  fixes get :: "'s \<Rightarrow> 'v option" and put :: "'v \<Rightarrow> 's \<Rightarrow> 's" and ok :: "'s \<Rightarrow> bool" and fits :: "'v \<Rightarrow> bool"
  assumes get_put: "ok s \<Longrightarrow> fits v \<Longrightarrow> get (put v s) = Some v"
    and ok_put: "ok s \<Longrightarrow> fits v \<Longrightarrow> ok (put v s)"
begin

lemma ok_puts: "ok s \<Longrightarrow> list_all fits vs \<Longrightarrow> ok (fold put vs s)"
  by (induction vs arbitrary: s) (auto simp: ok_put)

lemma get_puts:
  assumes "ok s" "list_all fits vs" "vs \<noteq> []"
  shows "get (fold put vs s) = Some (last vs)"
proof -
  obtain us v where vs: "vs = us @ [v]" using assms(3) by (metis append_butlast_last_id)
  have "ok (fold put us s)" using ok_puts assms(1,2) vs by simp
  then show ?thesis using assms(2) vs get_put by simp
qed

end

end
