(* ===== verification/Nav_Events.thy ===== *)
theory Nav_Events
  imports Nav_Props Value_Store
begin

text \<open>
  The events of the navigation tree as a step relation: the synchronisation button and the
  stored link in every reachable state, the button's effect, and opening and closing nodes.
\<close>

section \<open>Events\<close>

datatype nav_input =
    ClickArrow nat
  | ClickLink nat
  | ScriptLoad nat
  | WindowLoad
  | HashChange jstr
  | SyncButton
  | RetryScroll
  | AnimationDone
  | GlowDone glow

definition nav_handle :: "nav_site \<Rightarrow> jstr \<Rightarrow> nav_input \<Rightarrow> unit nav" where
  "nav_handle S rel e = (case e of
       ClickArrow k \<Rightarrow> clickToggle k
     | ClickLink k \<Rightarrow> clickLink S k
     | ScriptLoad j \<Rightarrow> scriptLoaded S j
     | WindowLoad \<Rightarrow> windowLoad S
     | HashChange h \<Rightarrow> jbind (jmod (\<lambda>s. s\<lparr>hash := h\<rparr>)) (\<lambda>_. hashChange S rel)
     | SyncButton \<Rightarrow> toggleSyncButton S rel
     | RetryScroll \<Rightarrow> retryScroll S
     | AnimationDone \<Rightarrow> animationDone
     | GlowDone g \<Rightarrow> endGlow g)"

inductive nav_reach :: "nav_site \<Rightarrow> jstr \<Rightarrow> jstr \<Rightarrow> nav_state \<Rightarrow> nav_state \<Rightarrow> bool"
  for S root rel s0 where
  ready: "nav_reach S root rel s0 (snd (initNavTree S root rel s0))"
| event: "nav_reach S root rel s0 s \<Longrightarrow> nav_reach S root rel s0 (snd (nav_handle S rel e s))"

inductive_cases nav_reachE: "nav_reach S root rel s0 s"

section \<open>What handlers leave alone\<close>

text \<open>
  A property of the storage and the button that storing a link while the button is off, and
  switching the button, keep is kept by every event: nothing else writes them.
\<close>

locale sync_frame =
  fixes S :: nav_site and I :: "nav_state \<Rightarrow> bool"
  assumes other: "I s \<Longrightarrow> syncOn s' = syncOn s \<Longrightarrow> storage s' = storage s \<Longrightarrow> I s'"
    and store: "I s \<Longrightarrow> \<not> syncOn s \<Longrightarrow> I (s\<lparr>storage := (storage s)(navpath \<mapsto> l)\<rparr>)"
    and turn_off: "I s \<Longrightarrow> I (s\<lparr>syncOn := False\<rparr>)"
    and turn_on: "I s \<Longrightarrow> I (s\<lparr>syncOn := True,
      storage := (if localStorageSupported S then (storage s)(navpath \<mapsto> []) else storage s)\<rparr>)"
begin

lemma keeps_other:
  assumes "\<And>s. syncOn (f s) = syncOn s" "\<And>s. storage (f s) = storage s"
  shows "keeps I (jmod f)"
  by (rule keeps_jmod) (use other assms in metis)

lemma keeps_case_option:
  "keeps I m \<Longrightarrow> (\<And>x. keeps I (f x)) \<Longrightarrow> keeps I (case y of None \<Rightarrow> m | Some x \<Rightarrow> f x)"
  by (cases y) auto

lemma keeps_case_list:
  "keeps I m \<Longrightarrow> (\<And>x xs. keeps I (f x xs)) \<Longrightarrow> keeps I (case y of [] \<Rightarrow> m | x # xs \<Rightarrow> f x xs)"
  by (cases y) auto

lemma keeps_case_data:
  "keeps I m \<Longrightarrow> (\<And>v. keeps I (f v)) \<Longrightarrow> (\<And>is. keeps I (g is)) \<Longrightarrow>
   keeps I (case d of NoData \<Rightarrow> m | VarName v \<Rightarrow> f v | NavItems is \<Rightarrow> g is)"
  by (cases d) auto

lemma keeps_pair: "(\<And>a b. keeps I (f a b)) \<Longrightarrow> keeps I (case p of (a, b) \<Rightarrow> f a b)"
  by (cases p) auto

lemmas keeps_control = keeps_jret keeps_jthrow keeps_jget keeps_of_option keeps_jwhen keeps_jbind keeps_if
  keeps_for_each keeps_case_option keeps_case_list keeps_case_data keeps_pair keeps_other

lemma keeps_nodeOf: "keeps I (nodeOf k)"
  unfolding nodeOf_def by (intro keeps_control)

lemma keeps_updNode: "keeps I (updNode k f)"
  unfolding updNode_def by (intro keeps_control) simp_all

lemma keeps_getScript: "keeps I (getScript f c)"
  unfolding getScript_def by (intro keeps_control) simp_all

lemma keeps_storeLink: "keeps I (storeLink S l)"
  unfolding storeLink_def keeps_def by (auto simp: run_jbind store)

lemmas keeps_basic = keeps_control keeps_nodeOf keeps_updNode keeps_getScript keeps_storeLink

lemma keeps_node_parts:
  "keeps I (createIndent k)" "keeps I (getChildrenUL k)" "keeps I (appendToUL po k)"
  "keeps I (setLink k l d)" "keeps I (selectNode k)" "keeps I (setSiblings k us)"
  unfolding createIndent_def getChildrenUL_def appendToUL_def setLink_def noLink_def selectNode_def
    setSiblings_def
  by (intro keeps_basic; simp)+

lemma keeps_newNode: "keeps I (newNode po item b)"
  unfolding newNode_def by (intro keeps_basic keeps_node_parts; simp)

lemma keeps_newNodes: "keeps I (newNodes po items)"
  by (induction items) (simp_all only: newNodes.simps, (intro keeps_basic keeps_newNode; assumption)+)

lemma keeps_getNode: "keeps I (getNode po items)"
  unfolding getNode_def removeToInsertLater_def insertFunction_def
  by (intro keeps_basic keeps_node_parts keeps_newNodes)

lemma keeps_openNode: "keeps I (openNode k items)"
  unfolding openNode_def by (intro keeps_basic keeps_node_parts keeps_getNode)

lemma keeps_expandNode: "keeps I (expandNode k)"
  unfolding expandNode_def by (intro keeps_basic keeps_openNode)

lemma keeps_clickToggle: "keeps I (clickToggle k)"
  unfolding clickToggle_def by (intro keeps_basic keeps_node_parts keeps_expandNode)

lemma keeps_display:
  "keeps I clearSelection" "keeps I (glowEffect g)" "keeps I (endGlow g)" "keeps I (tryScroll S h)"
  unfolding clearSelection_def glowEffect_def endGlow_def tryScroll_def by (intro keeps_basic; simp)+

lemma keeps_selectAndHighlight: "keeps I (selectAndHighlight S h n)"
  unfolding selectAndHighlight_def highlightAnchor_def showRoot_def
  by (intro keeps_basic keeps_node_parts keeps_display; simp)

lemma keeps_show_path: "keeps I (show_path S n i h bs)"
proof (induction bs arbitrary: n i)
  case Nil
  show ?case
    by (cases n; simp only: show_path.simps list.case; intro keeps_basic keeps_selectAndHighlight keeps_openNode)
next
  case (Cons b bs)
  show ?case
    by (cases n; simp only: show_path.simps list.case Let_def;
      intro keeps_basic keeps_selectAndHighlight keeps_openNode keeps_expandNode Cons.IH)
qed

lemma keeps_gotoNode: "keeps I (gotoNode S i root h)"
  unfolding gotoNode_def Let_def showNode_def by (intro keeps_basic keeps_show_path; simp)

lemma keeps_navTo: "keeps I (navTo S root h rel)"
  unfolding navTo_def Let_def by (intro keeps_basic keeps_display keeps_gotoNode)

lemma keeps_runCallback: "keeps I (runCallback S cb)"
  by (cases cb; simp only: runCallback_def callback.case getData_def showNode_def;
    intro keeps_basic keeps_expandNode keeps_show_path keeps_gotoNode; simp)

lemma keeps_toggleSyncButton: "keeps I (toggleSyncButton S rel)"
proof -
  have "I (s\<lparr>syncOn := False, syncHtml := x\<rparr>)" if "I s" for s x
    by (rule other [OF turn_off [OF that]]) simp_all
  moreover have "I (s\<lparr>syncOn := False, syncHtml := x, storage := (storage s)(navpath \<mapsto> l)\<rparr>)" if "I s" for s x l
    by (rule other [OF store [OF turn_off [OF that], of l]]) simp_all
  moreover have "I (s\<lparr>syncOn := True, syncHtml := x,
      storage := (if localStorageSupported S then (storage s)(navpath \<mapsto> []) else storage s)\<rparr>)" if "I s" for s x
    by (rule other [OF turn_on [OF that]]) simp_all
  ultimately show ?thesis
    unfolding keeps_def
    by (auto simp: toggleSyncButton_def run_jbind showSyncOff_def showSyncOn_def storeLink_def deleteLink_def
      split: if_splits)
qed

lemma keeps_clickLink: "keeps I (clickLink S k)"
proof -
  have "keeps I (block [clearSelection, selectNode k])"
    by (simp only: block.simps) (intro keeps_basic keeps_display keeps_node_parts)
  moreover have "keeps I (gotoAnchor S a b)" for a b
    unfolding gotoAnchor_def Let_def by (intro keeps_basic; simp)
  ultimately have "keeps I (case c of NoClick \<Rightarrow> jret () | ToggleNode \<Rightarrow> clickToggle k
     | StoreLink link \<Rightarrow> storeLink S link
     | AnchorLink link aname \<Rightarrow> jbind (storeLink S link) (\<lambda>_.
         jbind (jwhen sel (block [clearSelection, selectNode k])) (\<lambda>_. gotoAnchor S aname True)))" for c sel
    by (cases c; simp only: nav_click.case) (intro keeps_basic keeps_clickToggle; assumption)+
  then show ?thesis unfolding clickLink_def by (intro keeps_basic)
qed

lemma keeps_nav_handle: "keeps I (nav_handle S rel e)"
proof (cases e)
  case (ClickArrow k)
  then show ?thesis by (simp add: nav_handle_def keeps_clickToggle)
next
  case (ClickLink k)
  then show ?thesis by (simp add: nav_handle_def keeps_clickLink)
next
  case (ScriptLoad j)
  then show ?thesis
    by (simp only: nav_handle_def nav_input.case scriptLoaded_def)
      (intro keeps_basic keeps_runCallback; simp)
next
  case WindowLoad
  then show ?thesis
    by (simp only: nav_handle_def nav_input.case windowLoad_def showRoot_def)
      (intro keeps_basic keeps_navTo keeps_display; simp)
next
  case (HashChange h)
  then show ?thesis
    by (simp only: nav_handle_def nav_input.case hashChange_def)
      (intro keeps_basic keeps_navTo keeps_display; simp)
next
  case SyncButton
  then show ?thesis by (simp add: nav_handle_def keeps_toggleSyncButton)
next
  case RetryScroll
  then show ?thesis
    by (simp only: nav_handle_def nav_input.case retryScroll_def) (intro keeps_basic keeps_display; simp)
next
  case AnimationDone
  then show ?thesis
    by (simp only: nav_handle_def nav_input.case animationDone_def) (intro keeps_basic; simp)
next
  case (GlowDone g)
  then show ?thesis by (simp add: nav_handle_def keeps_display)
qed

lemma initNavTree_keeps:
  assumes "I (if localStorageSupported S \<and> has_link (cachedLink S s) then s\<lparr>syncOn := False\<rparr> else s)"
  shows "I (snd (initNavTree S root rel s))"
proof -
  let ?r = "nextNode s"
  let ?t = "s\<lparr>nextNode := Suc ?r, rootNode := ?r, toroot := root, contents := contents s @ [?r],
        nodes := (nodes s)(?r \<mapsto> new_nav_node\<lparr>childrenData := NavItems (NAVTREE S),
          childrenUL := Some [], depth := 0, relpath := rel, expanded := False, isLast := True,
          hasToggle := True, arrowHtml := arrowRight\<rparr>)\<rparr>"
  let ?sync = "jwhen (localStorageSupported S)
        (if has_link (cachedLink S s) then block [showSyncOff S rel, jmod (\<lambda>s. s\<lparr>syncOn := False\<rparr>)]
         else showSyncOn S rel)"
  let ?go = "jbind (jget (\<lambda>s. hashUrl (hash s))) (\<lambda>url.
     jbind (jget loadTriggered) (\<lambda>loaded.
     if loaded then jbind (navTo S root url rel) (\<lambda>_. showRoot S)
     else jmod (\<lambda>s. s\<lparr>loadArgs := (root, url, rel), readyTriggered := True\<rparr>)))"
  have c: "cachedLink S ?t = cachedLink S s" by (simp add: cachedLink_def)
  have run: "initNavTree S root rel s = jbind ?sync (\<lambda>_. ?go) ?t"
    unfolding initNavTree_def step_jget step_jmod c ..
  have sync: "\<exists>t. ?sync u = (Inr (), t) \<and> storage t = storage u \<and>
      syncOn t = (syncOn u \<and> \<not> (localStorageSupported S \<and> has_link (cachedLink S s)))" for u
    by (cases "localStorageSupported S"; cases "has_link (cachedLink S s)")
      (simp_all add: showSyncOff_def showSyncOn_def run_jbind)
  obtain t where t: "?sync ?t = (Inr (), t)" "storage t = storage s"
    "syncOn t = (syncOn s \<and> \<not> (localStorageSupported S \<and> has_link (cachedLink S s)))"
    using sync [of ?t] by (auto simp del: run_jwhen)
  have It: "I t" by (rule other [OF assms]) (simp_all add: t)
  have "keeps I ?go" unfolding showRoot_def by (intro keeps_basic keeps_navTo keeps_display; simp)
  moreover have "initNavTree S root rel s = ?go t" unfolding run by (rule run_jbind_Inr) (rule t(1))
  ultimately show ?thesis using It unfolding keeps_def by (simp only:)
qed

lemma nav_reach_keeps:
  assumes "nav_reach S root rel s0 s"
    and "I (if localStorageSupported S \<and> has_link (cachedLink S s0) then s0\<lparr>syncOn := False\<rparr> else s0)"
  shows "I s"
  using assms by (induction rule: nav_reach.induct) (auto intro: initNavTree_keeps keepsD [OF keeps_nav_handle])

end

interpretation link_free: sync_frame S "\<lambda>s. syncOn s \<longrightarrow> \<not> has_link (cachedLink S s)" for S
  by unfold_locales (auto simp: cachedLink_def has_link_def)

interpretation own_key: sync_frame S "\<lambda>s. \<forall>k. k \<noteq> navpath \<longrightarrow> storage s k = st k" for S st
  by unfold_locales auto

text \<open>
  (C13) In every state that any sequence of events reaches after the tree has been set up, no
  link is stored while the synchronisation button is on, so that the tree follows the
  page's own address; and no other key of the browser's storage has been written.
\<close>

theorem sync_on_no_stored_link:
  assumes "nav_reach S root rel s0 s"
  shows "(syncOn s \<longrightarrow> \<not> has_link (cachedLink S s)) \<and> (\<forall>k. k \<noteq> navpath \<longrightarrow> storage s k = storage s0 k)"
  using link_free.nav_reach_keeps [OF assms] own_key.nav_reach_keeps [OF assms, of "storage s0"]
  by (auto simp: cachedLink_def has_link_def)

theorem sync_on_no_stored_link_witness:
  "\<not> has_link (cachedLink plain_browser (snd (nav_handle plain_browser [] SyncButton
     (snd (nav_handle plain_browser [] SyncButton
        (snd (initNavTree plain_browser (js ''index.html'') [] (new_page (js ''/index.html'') []))))))))"
  by (rule mp [OF conjunct1 [OF sync_on_no_stored_link [OF nav_reach.event [OF nav_reach.event [OF nav_reach.ready]]]]])
    (simp add: nav_handle_def toggleSyncButton_def initNavTree_def run_jbind new_page_def plain_browser_def
      localStorageSupported_def showSyncOn_def showSyncOff_def storeLink_def deleteLink_def cachedLink_def has_link_def)

section \<open>Opening and closing\<close>

definition is_closed :: "nav_state \<Rightarrow> nat \<Rightarrow> bool" where
  "is_closed s k \<longleftrightarrow> (\<exists>n. nodes s k = Some n \<and> \<not> expanded n \<and> ulDisplay n = js ''none'' \<and> arrowHtml n = arrowRight)"

lemma close_run:
  assumes ok: "nav_ok L s" and op: "is_open s k items"
  shows "\<exists>s' n. clickToggle k s = (Inr (), s') \<and> nav_ok L s' \<and> is_closed s' k \<and> nextNode s' = nextNode s \<and>
    nodes s' k = Some n \<and> childrenData n = NavItems items \<and> childrenVisited n"
proof -
  obtain n where n: "nodes s k = Some n" "expanded n" "childrenVisited n" "childrenData n = NavItems items"
    using op unfolding is_open_def by blast
  let ?c = "\<lambda>n. n\<lparr>ulDisplay := js ''none'', arrowHtml := arrowRight, expanded := False\<rparr>"
  let ?n = "?c (if childrenUL n = None then n\<lparr>childrenUL := Some []\<rparr> else n)"
  let ?s = "s\<lparr>nodes := (nodes s)(k \<mapsto> ?n)\<rparr>"
  have "clickToggle k s = (Inr (), ?s)"
    unfolding clickToggle_def step_nodeOf [OF n(1)] using n(1,2)
    by (cases "childrenUL n") (simp_all add: run_jbind run_getChildrenUL run_updNode)
  moreover have core: "same_core n ?n" by (simp add: same_core_def ul_of_def)
  then have "nav_ok L ?s" by (rule nav_ok_upd [OF ok n(1)])
  moreover have "is_closed ?s k" by (simp add: is_closed_def)
  ultimately show ?thesis using n by (intro exI [of _ ?s] exI [of _ ?n]) simp
qed

lemma step_jwhen_False: "jbind (jwhen False m) f s = f () s"
  by (simp add: run_jbind)

lemma open_run:
  assumes ok: "nav_ok L s" and n: "nodes s k = Some n" "\<not> expanded n" "childrenData n = NavItems items"
    and clean: "clean_data (NavItems items)"
  shows "\<exists>s'. clickToggle k s = (Inr (), s') \<and> nav_ok L s' \<and> is_open s' k items \<and>
    (childrenVisited n \<longrightarrow> nextNode s' = nextNode s)"
proof -
  obtain s' where s': "openNode k items s = (Inr (), s')" "nav_ok L s'" "is_open s' k items"
    using openNode_ok [OF ok n(1,3) clean_items [OF clean]] by blast
  have run: "clickToggle k s = openNode k items s"
    using n by (simp add: clickToggle_def expandNode_def step_nodeOf has_data_def)
  have "nextNode s' = nextNode s" if v: "childrenVisited n"
  proof -
    have "hasToggle n" using nav_okD(3) [OF ok n(1)] n(3) by (simp add: node_ok_def has_data_def)
    then show ?thesis
      using show_children_run [OF n(1), of n] s'(1) v
      by (auto simp: openNode_def step_nodeOf [OF n(1)] step_jwhen_False simp del: fun_upd_apply)
  qed
  then show ?thesis using run s' by auto
qed

text \<open>
  (C24) A click on the arrow of a closed node opens it and builds one child for each entry of
  its data; the next click closes it; and the click after that opens it again without
  building anything.
\<close>

theorem arrow_opens_and_closes:
  assumes "nav_ok L s" "nodes s k = Some n" "childrenData n = NavItems items" "clean_data (NavItems items)"
    "\<not> expanded n"
  shows "\<exists>s1 s2 s3 n1. clickToggle k s = (Inr (), s1) \<and> is_open s1 k items \<and> nodes s1 k = Some n1 \<and>
      list_all2 (shows_item L s1 k) items (nChildren n1) \<and>
      clickToggle k s1 = (Inr (), s2) \<and> is_closed s2 k \<and>
      clickToggle k s2 = (Inr (), s3) \<and> is_open s3 k items \<and> nextNode s3 = nextNode s1 \<and> nav_ok L s3"
proof -
  obtain s1 where s1: "clickToggle k s = (Inr (), s1)" "nav_ok L s1" "is_open s1 k items"
    using open_run [OF assms(1,2,5,3,4)] by blast
  obtain n1 where n1: "nodes s1 k = Some n1" "childrenVisited n1" "childrenData n1 = NavItems items"
    using s1(3) unfolding is_open_def by blast
  have kids: "list_all2 (shows_item L s1 k) items (nChildren n1)"
    using nav_okD(3) [OF s1(2) n1(1)] n1(2,3) by (simp add: node_ok_def)
  obtain s2 n2 where s2: "clickToggle k s1 = (Inr (), s2)" "nav_ok L s2" "is_closed s2 k" "nextNode s2 = nextNode s1"
    "nodes s2 k = Some n2" "childrenData n2 = NavItems items" "childrenVisited n2"
    using close_run [OF s1(2,3)] by blast
  have "\<not> expanded n2" using s2(3,5) by (simp add: is_closed_def)
  then obtain s3 where "clickToggle k s2 = (Inr (), s3)" "nav_ok L s3" "is_open s3 k items" "nextNode s3 = nextNode s2"
    using open_run [OF s2(2,5) _ s2(6) assms(4)] s2(7) by blast
  then show ?thesis using s1 n1 kids s2 by fastforce
qed

theorem arrow_opens_and_closes_witness:
  "\<exists>s1 s2 s3 n1. clickToggle 0 (with_root plain_browser [] [] (new_page [] [])) = (Inr (), s1) \<and>
      is_open s1 0 (NAVTREE plain_browser) \<and> nodes s1 0 = Some n1 \<and>
      list_all2 (shows_item (loads plain_browser) s1 0) (NAVTREE plain_browser) (nChildren n1) \<and>
      clickToggle 0 s1 = (Inr (), s2) \<and> is_closed s2 0 \<and>
      clickToggle 0 s2 = (Inr (), s3) \<and> is_open s3 0 (NAVTREE plain_browser) \<and>
      nextNode s3 = nextNode s1 \<and> nav_ok (loads plain_browser) s3"
proof -
  have clean: "clean_data (NavItems (NAVTREE plain_browser))" by (simp add: plain_browser_def)
  then have ok: "nav_ok (loads plain_browser) (with_root plain_browser [] [] (new_page [] []))"
    using tree_of_with_root unfolding tree_of_def by blast
  show ?thesis
    by (rule arrow_opens_and_closes [OF ok _ _ clean, where n = "new_nav_node\<lparr>childrenData := NavItems (NAVTREE plain_browser),
          childrenUL := Some [], depth := 0, relpath := [], expanded := False, isLast := True,
          hasToggle := True, arrowHtml := arrowRight\<rparr>"])
      (simp_all add: with_root_def new_nav_node_def)
qed

section \<open>The stored link\<close>

interpretation link_store: value_store "cachedLink S" "\<lambda>l s. snd (storeLink S l s)"
    "\<lambda>s. localStorageSupported S \<and> \<not> syncOn s" "\<lambda>_. True" for S
  by unfold_locales (simp_all add: storeLink_def run_jbind cachedLink_def)

lemma split_at_pair: "c \<notin> set x \<Longrightarrow> c \<notin> set y \<Longrightarrow> split_at c (x @ c # y) = [x, y]"
proof -
  assume x: "c \<notin> set x" and y: "c \<notin> set y"
  have "split_at c y = [y]" using y by (induction y) auto
  then show ?thesis using x by (induction x) auto
qed



end
