(* ===== verification/Nav_Lazy.thy ===== *)
theory Nav_Lazy
  imports Nav_Events
begin

text \<open>
  Trees whose data arrives on demand: where an entry of the data is the name of a variable,
  the script of that name is asked for and the way to the address goes on when it arrives.
\<close>

section \<open>Data on demand\<close>

definition resolve :: "loader \<Rightarrow> nav_data \<Rightarrow> nav_data" where
  "resolve L d = (case d of VarName v \<Rightarrow> (case L v of Some d' \<Rightarrow> d' | None \<Rightarrow> d) | _ \<Rightarrow> d)"

fun lazy_at :: "loader \<Rightarrow> nav_data \<Rightarrow> nat list \<Rightarrow> nav_item option" where
  "lazy_at L d [] = None"
| "lazy_at L d (b # bs) = (case resolve L d of
     NavItems items \<Rightarrow> if b < length items
       then (if bs = [] then Some (items ! b) else lazy_at L (snd (snd (items ! b))) bs) else None
   | _ \<Rightarrow> None)"

text \<open>The files define lists of entries; their names are not empty.\<close>

definition clean_loader :: "loader \<Rightarrow> bool" where
  "clean_loader L \<longleftrightarrow> (\<forall>v d. L v = Some d \<longrightarrow> clean_data d \<and> (\<exists>items. d = NavItems items))"

lemma resolve_holds: "clean_loader L \<Longrightarrow> holds L d d' \<Longrightarrow> resolve L d' = resolve L d"
  by (auto simp: holds_def resolve_def clean_loader_def split: nav_data.splits option.splits)

lemma lazy_at_holds: "clean_loader L \<Longrightarrow> holds L d d' \<Longrightarrow> lazy_at L d' bs = lazy_at L d bs"
  using resolve_holds [of L d d'] by (cases bs) simp_all

lemma clean_holds: "clean_loader L \<Longrightarrow> clean_data d \<Longrightarrow> holds L d d' \<Longrightarrow> clean_data d'"
  by (auto simp: holds_def clean_loader_def)

lemma nav_ok_load:
  assumes ok: "nav_ok L s" and L: "clean_loader L" and n: "nodes s k = Some n"
    and v: "childrenData n = VarName v" "v \<noteq> []" "L v = Some d"
  shows "nav_ok L (s\<lparr>nodes := (nodes s)(k \<mapsto> n\<lparr>childrenData := d\<rparr>)\<rparr>)"
proof -
  let ?n = "n\<lparr>childrenData := d\<rparr>"
  let ?s = "s\<lparr>nodes := (nodes s)(k \<mapsto> ?n)\<rparr>"
  have item: "holds L (snd (snd it)) d" if "holds L (snd (snd it)) (VarName v)" for it :: nav_item
    using that v(3) L by (auto simp: holds_def clean_loader_def)
  have entries: "list_all2 (shows_item L ?s j) items cs" if "list_all2 (shows_item L s j) items cs" for j items cs
    using that by (rule list_all2_mono) (use n v item in \<open>auto simp: shows_item_def\<close>)
  have depth: "depth_ok (nodes ?s)"
    using depth_ok_upd [OF nav_okD(2) [OF ok] n, of ?n] by simp
  have nok: "node_ok L s k n" by (rule nav_okD(3) [OF ok n])
  have fresh: "\<not> childrenVisited n" "hasToggle n" using nok v by (auto simp: node_ok_def has_data_def)
  have "(nParent m = None \<longleftrightarrow> j = rootNode s) \<and> node_ok L ?s j m" if m: "nodes ?s j = Some m" for j m
  proof -
    obtain m0 where m0: "nodes s j = Some m0" "m = (if j = k then ?n else m0)"
      using m n by (auto split: if_splits)
    have "siblingsOf j ?s = siblingsOf j s"
      by (rule siblingsOf_cong [OF m0(1) m])
        (use m0 n depth_ok_parent [OF nav_okD(2) [OF ok] m0(1)] in \<open>auto simp: ul_of_def\<close>)
    then have "hangs ?s j \<longleftrightarrow> hangs s j" by (simp add: hangs_def)
    moreover have "m0 = n" if "j = k" using that m0(1) n by simp
    ultimately show ?thesis
      using nav_okD(3,4) [OF ok m0(1)] m0(2) entries [of j] fresh
      unfolding node_ok_def by (cases "j = k") (auto simp: ul_of_def)
  qed
  moreover have "nodes ?s j \<noteq> None \<longleftrightarrow> j < nextNode s" for j
    using nav_okD(1) [OF ok, of j] n by auto
  ultimately show ?thesis using depth nav_okD(5) [OF ok] by (simp add: nav_ok_def)
qed

section \<open>What later steps keep\<close>

definition grows :: "nav_state \<Rightarrow> nav_state \<Rightarrow> bool" where
  "grows s s' \<longleftrightarrow> (\<forall>k n. nodes s k = Some n \<longrightarrow> (\<exists>n'. nodes s' k = Some n' \<and>
     (childrenVisited n \<longrightarrow> childrenVisited n' \<and> nChildren n' = nChildren n) \<and> (expanded n \<longrightarrow> expanded n'))) \<and>
   rootNode s' = rootNode s"

lemma grows_refl [simp]: "grows s s"
  by (simp add: grows_def)

lemma grows_trans: "grows s s' \<Longrightarrow> grows s' s'' \<Longrightarrow> grows s s''"
  unfolding grows_def by (intro conjI allI impI; fastforce)

lemma extends_grows: "extends s s' \<Longrightarrow> grows s s'"
  unfolding extends_def grows_def by (intro conjI allI impI; blast)

lemma grows_node: "grows s s' \<Longrightarrow> nodes s k = Some n \<Longrightarrow> childrenVisited n \<Longrightarrow> expanded n \<Longrightarrow>
  \<exists>n'. nodes s' k = Some n' \<and> nChildren n' = nChildren n \<and> childrenVisited n' \<and> expanded n'"
  unfolding grows_def by blast

section \<open>Scripts that arrive one after the other\<close>

abbreviation arrivals :: "nav_site \<Rightarrow> nat \<Rightarrow> unit nav" where
  "arrivals S m \<equiv> block (replicate m (scriptLoaded S 0))"

lemma show_asks:
  assumes "nodes s k = Some n" "childrenData n = VarName v" "v \<noteq> []"
  shows "show_path S (Some k) i h (b # bs) s =
    (Inr (), s\<lparr>pending := pending s @ [(relpath n @ v @ js ''.js'', ShowLoaded k v i h)]\<rparr>)"
  using assms by (simp add: step_nodeOf has_data_def getScript_def)

lemma show_loaded:
  assumes "pending s = []" "nodes s k = Some n" "loads S v = Some d" "drop i (breadcrumbs s) = bs"
  shows "scriptLoaded S 0 (s\<lparr>pending := [(f, ShowLoaded k v i h)]\<rparr>) =
    show_path S (Some k) i h bs (s\<lparr>nodes := (nodes s)(k \<mapsto> n\<lparr>childrenData := d\<rparr>)\<rparr>)"
proof -
  have "s\<lparr>pending := []\<rparr> = s" using assms(1) by (cases s) simp
  then show ?thesis
    using assms(2-4) by (simp add: scriptLoaded_def runCallback_def step_jget step_jmod getData_def loads_def
        run_of_option run_jbind run_updNode showNode_def del: show_path.simps)
qed

lemma child_loaded:
  assumes "pending s = []" "nodes s c = Some cn" "nodes s k = Some n" "c \<noteq> k" "loads S v = Some d" "drop i (breadcrumbs s) = bs"
  shows "scriptLoaded S 0 (s\<lparr>pending := [(f, ChildLoaded c v k i h)]\<rparr>) =
    show_path S (Some k) i h bs (s\<lparr>nodes := (nodes s)(c \<mapsto> cn\<lparr>childrenData := d\<rparr>, k \<mapsto> n\<lparr>expanded := False\<rparr>)\<rparr>)"
proof -
  have "s\<lparr>pending := []\<rparr> = s" using assms(1) by (cases s) simp
  then show ?thesis
    using assms(2-6) by (simp add: scriptLoaded_def runCallback_def step_jget step_jmod getData_def loads_def
        run_of_option run_jbind run_updNode showNode_def del: show_path.simps)
qed

text \<open>The end of the way, when the data of the last node is there.\<close>

lemma arrive_shows:
  assumes "nav_ok L s" "nodes s k = Some n" "expanded n" "childrenVisited n" "b < length (nChildren n)"
    "nodes s (nChildren n ! b) = Some cn" "clean_data (childrenData cn)" "\<And>v. childrenData cn \<noteq> VarName v"
  shows "\<exists>s'. arrive S h (nChildren n ! b) s = (Inr (), s') \<and> extends s s' \<and>
    shown_at L s' k [b] (label cn, l, childrenData cn) h (selected s)"
proof -
  obtain s' where s': "arrive S h (nChildren n ! b) s = (Inr (), s')" "nav_ok L s'" "extends s s'"
    "selected s' = set (marked h (nChildren n ! b) s') \<union> selected s"
    using arrive_ok [OF assms(1,6,7,8)] by blast
  obtain n' where "nodes s' k = Some n'" "expanded n'" "childrenVisited n'" "nChildren n' = nChildren n"
    using s'(3) assms(2-4) unfolding extends_def by blast
  moreover obtain cn' where "nodes s' (nChildren n ! b) = Some cn'" "label cn' = label cn" "childrenData cn' = childrenData cn"
    using s'(3) assms(6) unfolding extends_def by blast
  ultimately show ?thesis using s' assms(5) by (simp add: shown_at_def)
qed

lemma shown_at_step:
  assumes "shown_at L s c bs item h old" "nodes s k = Some n" "expanded n" "childrenVisited n"
    "b < length (nChildren n)" "nChildren n ! b = c"
  shows "shown_at L s k (b # bs) item h old"
  using assms by (auto simp: shown_at_def)

lemma selected_upd: "nodes s k = Some n \<Longrightarrow> itemSelected n' = itemSelected n \<Longrightarrow>
  selected (s\<lparr>nodes := (nodes s)(k \<mapsto> n')\<rparr>) = selected s"
  by (auto simp: selected_def)

text \<open>The last node's own data has to come first: then the parent is opened once more.\<close>

lemma last_loaded:
  assumes ok: "nav_ok L s" and L: "clean_loader L" "L = loads S" and pend: "pending s = []"
    and n: "nodes s k = Some n" "childrenData n = NavItems items" "clean_data (NavItems items)"
      "expanded n" "childrenVisited n" "b < length (nChildren n)" "b < length items"
    and c: "nodes s (nChildren n ! b) = Some cn" "childrenData cn = VarName v" "v \<noteq> []" "L v = Some d"
    and crumbs: "drop i (breadcrumbs s) = [b]"
  shows "\<exists>s'. scriptLoaded S 0 (s\<lparr>pending := [(f, ChildLoaded (nChildren n ! b) v k i h)]\<rparr>) = (Inr (), s') \<and>
    grows s s' \<and> pending s' = [] \<and> shown_at L s' k [b] (label cn, l, d) h (selected s)"
proof -
  let ?c = "nChildren n ! b"
  have ck: "?c \<noteq> k" using n(2) c(1,2) n(1) by auto
  let ?cn = "cn\<lparr>childrenData := d\<rparr>" and ?n = "n\<lparr>expanded := False\<rparr>"
  let ?s1 = "s\<lparr>nodes := (nodes s)(?c \<mapsto> ?cn)\<rparr>"
  let ?s2 = "s\<lparr>nodes := (nodes s)(?c \<mapsto> ?cn, k \<mapsto> ?n)\<rparr>"
  have ok1: "nav_ok L ?s1" by (rule nav_ok_load [OF ok L(1) c])
  have k1: "nodes ?s1 k = Some n" using ck n(1) by simp
  have "nav_ok L (?s1\<lparr>nodes := (nodes ?s1)(k \<mapsto> ?n)\<rparr>)"
    by (rule nav_ok_upd [OF ok1 k1]) (simp add: same_core_def ul_of_def)
  then have ok2: "nav_ok L ?s2" by simp
  have d: "clean_data d" "\<And>v. d \<noteq> VarName v" using L(1) c(4) by (auto simp: clean_loader_def)
  have sel: "selected ?s2 = selected s" using n(1) c(1) by (auto simp: selected_def)
  have k2: "nodes ?s2 k = Some ?n" "childrenData ?n = NavItems items" using n(2) by simp_all
  obtain s3 n3 cn3 where s3: "nav_ok L s3" "extends ?s2 s3" "selected s3 = selected ?s2"
    and n3: "nodes s3 k = Some n3" "expanded n3" "childrenVisited n3" "b < length (nChildren n3)"
      "nodes s3 (nChildren n3 ! b) = Some cn3"
    and run: "show_path S (Some k) i h [b] ?s2 = (case childrenData cn3 of
           VarName varName \<Rightarrow> getScript (relpath cn3 @ varName) (ChildLoaded (nChildren n3 ! b) varName k i h) s3
         | _ \<Rightarrow> arrive S h (nChildren n3 ! b) s3)"
    using show_path_step [OF ok2 k2 n(3,7), of S i h "[]"] by (simp del: show_path.simps) blast
  have same: "nChildren n3 = nChildren n" using s3(2) n3(1) k2(1) n(5) unfolding extends_def by fastforce
  have "nodes ?s2 ?c = Some ?cn" using ck by simp
  then have cn3: "childrenData cn3 = d" "label cn3 = label cn"
    using s3(2) n3(5) same unfolding extends_def by fastforce+
  have arr: "show_path S (Some k) i h [b] ?s2 = arrive S h (nChildren n3 ! b) s3"
    unfolding run cn3(1) using d(2) by (auto split: nav_data.split)
  obtain s4 where s4: "arrive S h (nChildren n3 ! b) s3 = (Inr (), s4)" "extends s3 s4"
    "shown_at L s4 k [b] (label cn3, l, childrenData cn3) h (selected s3)"
    using arrive_shows [OF s3(1) n3] cn3(1) d by blast
  have "grows s s3"
    unfolding grows_def
  proof (intro conjI allI impI)
    fix j m assume m: "nodes s j = Some m"
    show "\<exists>n'. nodes s3 j = Some n' \<and> (childrenVisited m \<longrightarrow> childrenVisited n' \<and> nChildren n' = nChildren m) \<and>
        (expanded m \<longrightarrow> expanded n')"
    proof (cases "j = k")
      case True
      then show ?thesis using m n(1) n3 same by auto
    next
      case False
      then obtain m' where "nodes ?s2 j = Some m'" "childrenVisited m' = childrenVisited m"
        "nChildren m' = nChildren m" "expanded m' = expanded m"
        using m c(1) by (cases "j = ?c") auto
      then show ?thesis using s3(2) unfolding extends_def by metis
    qed
  qed (use s3(2) in \<open>simp_all add: extends_def\<close>)
  then have "grows s s4" using extends_grows [OF s4(2)] grows_trans by blast
  moreover have "pending s4 = []" using s4(2) s3(2) pend by (simp add: extends_def)
  moreover have "scriptLoaded S 0 (s\<lparr>pending := [(f, ChildLoaded ?c v k i h)]\<rparr>) = (Inr (), s4)"
    using child_loaded [OF pend c(1) n(1) ck _ crumbs, of S v d f h] c(4) arr s4(1) by (simp add: L(2) del: show_path.simps)
  ultimately show ?thesis using s4(3) s3(3) sel cn3 by auto
qed

section \<open>The whole way\<close>

lemma run_asks: "m s = (Inr (), s1) \<Longrightarrow> scriptLoaded S 0 s1 = (Inr (), s2) \<Longrightarrow>
  jbind m (\<lambda>_. arrivals S 1) s = (Inr (), s2)"
  by (simp add: run_jbind block_def)

definition gets_shown :: "nav_site \<Rightarrow> nat \<Rightarrow> nat list \<Rightarrow> nav_item \<Rightarrow> jstr \<Rightarrow> unit nav \<Rightarrow> nat \<Rightarrow> nav_state \<Rightarrow> bool" where
  "gets_shown S k bs item h act most s \<longleftrightarrow> (\<exists>m s'. m \<le> most \<and> jbind act (\<lambda>_. arrivals S m) s = (Inr (), s') \<and>
     grows s s' \<and> pending s' = [] \<and> shown_at (loads S) s' k bs item h (selected s))"

lemma gets_shown_later:
  assumes "act s = (Inr (), s1)" "scriptLoaded S 0 s1 = act' s2" "gets_shown S k bs item h act' most s2"
    "grows s s2" "selected s2 = selected s"
  shows "gets_shown S k bs item h act (Suc most) s"
proof -
  obtain m s' where m: "m \<le> most" "jbind act' (\<lambda>_. arrivals S m) s2 = (Inr (), s')" "grows s2 s'" "pending s' = []"
    "shown_at (loads S) s' k bs item h (selected s2)"
    using assms(3) by (auto simp: gets_shown_def)
  have "jbind act (\<lambda>_. arrivals S (Suc m)) s = (Inr (), s')"
    using assms(1,2) m(2) by (simp add: run_jbind block_def split: prod.splits sum.splits)
  then show ?thesis
    using m grows_trans [OF assms(4) m(3)] assms(5) unfolding gets_shown_def by (intro exI [of _ "Suc m"]) auto
qed

lemma gets_shown_below:
  assumes below: "gets_shown S (nChildren n1 ! b) bs item h act' most s1" and run: "act s = act' s1"
    and s1: "extends s s1" "selected s1 = selected s"
    and n1: "nodes s1 k = Some n1" "expanded n1" "childrenVisited n1" "b < length (nChildren n1)"
  shows "gets_shown S k (b # bs) item h act most s"
proof -
  obtain m s' where m: "m \<le> most" "jbind act' (\<lambda>_. arrivals S m) s1 = (Inr (), s')" "grows s1 s'" "pending s' = []"
    "shown_at (loads S) s' (nChildren n1 ! b) bs item h (selected s1)"
    using below unfolding gets_shown_def by blast
  obtain n2 where n2: "nodes s' k = Some n2" "nChildren n2 = nChildren n1" "childrenVisited n2" "expanded n2"
    using grows_node [OF m(3) n1(1,3,2)] by blast
  have "shown_at (loads S) s' k (b # bs) item h (selected s)"
    using shown_at_step [OF m(5) n2(1,4,3)] n2(2) n1(4) s1(2) by simp
  moreover have "jbind act (\<lambda>_. arrivals S m) s = (Inr (), s')" using m(2) run by (simp add: run_jbind)
  ultimately show ?thesis
    using m(1,4) grows_trans [OF extends_grows [OF s1(1)] m(3)] unfolding gets_shown_def by blast
qed

lemma last_shows:
  assumes ok: "nav_ok (loads S) s" and L: "clean_loader (loads S)" and pend: "pending s = []"
    and n: "nodes s k = Some n" "childrenData n = NavItems items" "clean_data (NavItems items)" "b < length items"
    and item: "items ! b = (tx, l, d)" and d: "\<And>v. d = VarName v \<Longrightarrow> loads S v \<noteq> None"
    and crumbs: "drop i (breadcrumbs s) = [b]"
  shows "gets_shown S k [b] (tx, l, resolve (loads S) d) h (show_path S (Some k) i h [b]) 1 s"
proof -
  obtain s1 n1 cn where s1: "nav_ok (loads S) s1" "extends s s1" "selected s1 = selected s"
    and n1: "nodes s1 k = Some n1" "expanded n1" "childrenVisited n1" "b < length (nChildren n1)"
      "nodes s1 (nChildren n1 ! b) = Some cn" "label cn = fst (items ! b)"
      "holds (loads S) (snd (snd (items ! b))) (childrenData cn)"
    and run: "show_path S (Some k) i h [b] s = (case childrenData cn of
           VarName varName \<Rightarrow> getScript (relpath cn @ varName) (ChildLoaded (nChildren n1 ! b) varName k i h) s1
         | _ \<Rightarrow> arrive S h (nChildren n1 ! b) s1)"
    using show_path_step [OF ok n, of S i h "[]"] by (simp del: show_path.simps clean_data.simps) blast
  have same: "resolve (loads S) (childrenData cn) = resolve (loads S) d"
    using resolve_holds [OF L n1(7)] item by simp
  have "clean_data (snd (snd (items ! b)))" using n(3,4) by (simp add: list_all_iff)
  then have clean: "clean_data (childrenData cn)" by (rule clean_holds [OF L _ n1(7)])
  show ?thesis
  proof (cases "\<exists>v. childrenData cn = VarName v")
    case False
    then have "show_path S (Some k) i h [b] s = arrive S h (nChildren n1 ! b) s1"
      unfolding run by (auto split: nav_data.split)
    moreover obtain s2 where "arrive S h (nChildren n1 ! b) s1 = (Inr (), s2)" "extends s1 s2"
      "shown_at (loads S) s2 k [b] (label cn, l, childrenData cn) h (selected s1)"
      using arrive_shows [OF s1(1) n1(1-5) clean] False by blast
    moreover have "resolve (loads S) d = childrenData cn"
      using same False by (auto simp: resolve_def split: nav_data.splits)
    ultimately show ?thesis
      using n1(6) item s1(3) extends_grows [OF extends_trans [OF s1(2)]] pend s1(2)
      unfolding gets_shown_def by (intro exI [of _ 0] exI [of _ s2]) (simp add: run_jbind block_def extends_def)
  next
    case True
    then obtain v where v: "childrenData cn = VarName v" by blast
    have "snd (snd (items ! b)) = VarName v"
      using n1(7) v L unfolding holds_def clean_loader_def by (metis nav_data.distinct(5))
    then obtain d' where d': "loads S v = Some d'" using d item by auto
    have ne: "v \<noteq> []" using clean v by simp
    have fields: "pending s1 = []" "drop i (breadcrumbs s1) = [b]" using s1(2) pend crumbs by (simp_all add: extends_def)
    obtain n1' where "nodes s1 k = Some n1'" "childrenData n1' = childrenData n"
      using s1(2) n(1) unfolding extends_def by blast
    then have data: "childrenData n1 = NavItems items" using n1(1) n(2) by simp
    obtain s2 where s2: "scriptLoaded S 0 (s1\<lparr>pending := [(relpath cn @ v @ js ''.js'', ChildLoaded (nChildren n1 ! b) v k i h)]\<rparr>) = (Inr (), s2)"
      "grows s1 s2" "pending s2 = []" "shown_at (loads S) s2 k [b] (label cn, l, d') h (selected s1)"
      using last_loaded [OF s1(1) L refl fields(1) n1(1) data n(3) n1(2-4) n(4) n1(5) v ne d' fields(2)] by blast
    have "show_path S (Some k) i h [b] s = (Inr (), s1\<lparr>pending := [(relpath cn @ v @ js ''.js'', ChildLoaded (nChildren n1 ! b) v k i h)]\<rparr>)"
      unfolding run v using fields(1) by (simp add: getScript_def)
    moreover have "resolve (loads S) d = d'" using same v d' by (simp add: resolve_def)
    ultimately show ?thesis
      using run_asks [OF _ s2(1)] s2 n1(6) item s1(3) grows_trans [OF extends_grows [OF s1(2)] s2(2)]
      unfolding gets_shown_def by (intro exI [of _ 1] exI [of _ s2]) simp
  qed
qed

lemma lazy_shows:
  assumes "nav_ok (loads S) s" "clean_loader (loads S)" "nodes s k = Some n" "clean_data (childrenData n)"
    and "lazy_at (loads S) (childrenData n) bs = Some (tx, l, d)" "\<And>v. d = VarName v \<Longrightarrow> loads S v \<noteq> None"
    and "pending s = []" "drop i (breadcrumbs s) = bs"
  shows "gets_shown S k bs (tx, l, resolve (loads S) d) h (show_path S (Some k) i h bs) (length bs + 1) s"
  using assms
proof (induction bs arbitrary: s k n i)
  case (Cons b bs)
  let ?L = "loads S"
  have items_case: "gets_shown S k (b # bs) (tx, l, resolve ?L d) h (show_path S (Some k) i h (b # bs)) (length bs + 1) s"
    if ok: "nav_ok ?L s" and n: "nodes s k = Some n" and data: "childrenData n = NavItems items"
      and clean: "clean_data (NavItems items)" and at: "lazy_at ?L (NavItems items) (b # bs) = Some (tx, l, d)"
      and pend: "pending s = []" and crumbs: "drop i (breadcrumbs s) = b # bs" for s n items
  proof -
    have b: "b < length items" using at by (simp add: resolve_def split: if_splits)
    show ?thesis
    proof (cases "bs = []")
      case True
      then have "items ! b = (tx, l, d)" using at b by (simp add: resolve_def)
      from last_shows [OF ok Cons.prems(2) pend n data clean b this Cons.prems(6)] crumbs True
      show ?thesis by (simp del: show_path.simps)
    next
      case False
      then have at': "lazy_at ?L (snd (snd (items ! b))) bs = Some (tx, l, d)" using at b by (simp add: resolve_def)
      obtain s1 n1 cn where s1: "nav_ok ?L s1" "extends s s1" "selected s1 = selected s"
        and n1: "nodes s1 k = Some n1" "expanded n1" "childrenVisited n1" "b < length (nChildren n1)"
          "nodes s1 (nChildren n1 ! b) = Some cn" "holds ?L (snd (snd (items ! b))) (childrenData cn)"
        and run: "show_path S (Some k) i h (b # bs) s = show_path S (Some (nChildren n1 ! b)) (i + 1) h bs s1"
        using show_path_step [OF ok n data clean b, of S i h bs] False by (simp del: show_path.simps clean_data.simps) blast
      have "clean_data (snd (snd (items ! b)))" using clean b by (simp add: list_all_iff)
      then have cl: "clean_data (childrenData cn)" by (rule clean_holds [OF Cons.prems(2) _ n1(6)])
      have at1: "lazy_at ?L (childrenData cn) bs = Some (tx, l, d)"
        using at' lazy_at_holds [OF Cons.prems(2) n1(6)] by simp
      have fields: "pending s1 = []" "drop (i + 1) (breadcrumbs s1) = bs"
        using s1(2) pend crumbs by (auto simp: extends_def drop_Suc simp flip: tl_drop)
      have below: "gets_shown S (nChildren n1 ! b) bs (tx, l, resolve ?L d) h (show_path S (Some (nChildren n1 ! b)) (i + 1) h bs) (length bs + 1) s1"
        by (rule Cons.IH [OF s1(1) Cons.prems(2) n1(5) cl at1 Cons.prems(6) fields])
      show ?thesis
        by (rule gets_shown_below [where act = "show_path S (Some k) i h (b # bs)" and s = s, OF below run s1(2,3) n1(1-4)])
    qed
  qed
  show ?case
  proof (cases "childrenData n")
    case NoData
    then show ?thesis using Cons.prems(5) by (simp add: resolve_def)
  next
    case (NavItems items)
    obtain m s' where "m \<le> length bs + 1" "jbind (show_path S (Some k) i h (b # bs)) (\<lambda>_. arrivals S m) s = (Inr (), s')"
       "grows s s'" "pending s' = []" "shown_at ?L s' k (b # bs) (tx, l, resolve ?L d) h (selected s)"
      using items_case [OF Cons.prems(1,3) NavItems] Cons.prems NavItems unfolding gets_shown_def by metis
    then show ?thesis unfolding gets_shown_def by (intro exI [of _ m]) auto
  next
    case (VarName v)
    then obtain items where v: "?L v = Some (NavItems items)"
      using Cons.prems(5) by (auto simp: resolve_def split: option.splits nav_data.splits)
    have ne: "v \<noteq> []" using Cons.prems(4) VarName by simp
    let ?n = "n\<lparr>childrenData := NavItems items\<rparr>"
    let ?s = "s\<lparr>nodes := (nodes s)(k \<mapsto> ?n)\<rparr>"
    have at: "lazy_at ?L (NavItems items) (b # bs) = Some (tx, l, d)"
      using Cons.prems(5) VarName v by (simp add: resolve_def)
    have ok: "nav_ok ?L ?s" by (rule nav_ok_load [OF Cons.prems(1,2,3) VarName ne v])
    have clean: "clean_data (NavItems items)" using Cons.prems(2) v unfolding clean_loader_def by blast
    have later: "gets_shown S k (b # bs) (tx, l, resolve ?L d) h (show_path S (Some k) i h (b # bs)) (length bs + 1) ?s"
      by (rule items_case [OF ok _ _ clean at, where n = ?n]) (use Cons.prems(7,8) in simp_all)
    have "grows s ?s" using Cons.prems(3) by (auto simp: grows_def)
    then have "gets_shown S k (b # bs) (tx, l, resolve ?L d) h (show_path S (Some k) i h (b # bs)) (Suc (length bs + 1)) s"
      using gets_shown_later [where act = "show_path S (Some k) i h (b # bs)" and act' = "show_path S (Some k) i h (b # bs)", OF show_asks [OF Cons.prems(3) VarName ne, of S i h b bs] _ later]
        show_loaded [OF Cons.prems(7,3) v Cons.prems(8), of _ h] selected_upd [OF Cons.prems(3)] Cons.prems(7)
      by (simp del: show_path.simps)
    then show ?thesis by simp
  qed
qed simp

section \<open>Loading a page\<close>

lemma dataName_plain: "CHR ''/'' \<notin> set v \<Longrightarrow> CHR ''-'' \<notin> set v \<Longrightarrow> dataName (js v) = js v"
proof -
  assume v: "CHR ''/'' \<notin> set v" "CHR ''-'' \<notin> set v"
  then have "lastIndexOf (js v) slash = -1" by (intro lastIndexOf_absent) (auto simp: js_def)
  moreover have "map (\<lambda>c. if c = cu_of (CHR ''-'') then cu_of (CHR ''_'') else c) (js v) = js v"
    using v(2) by (auto simp: js_def intro: map_idI)
  ultimately show ?thesis by (simp add: dataName_def)
qed

text \<open>The entry at a path, with its own data once that has arrived.\<close>

definition full_entry :: "nav_site \<Rightarrow> nat list \<Rightarrow> nav_item option" where
  "full_entry S bs = (case lazy_at (loads S) (NavItems (NAVTREE S)) bs of
     Some (tx, l, d) \<Rightarrow> (case resolve (loads S) d of VarName v \<Rightarrow> None | d' \<Rightarrow> Some (tx, l, d'))
   | None \<Rightarrow> None)"

lemma full_entryE:
  assumes "full_entry S bs = Some item"
  obtains tx l d where "lazy_at (loads S) (NavItems (NAVTREE S)) bs = Some (tx, l, d)"
    "item = (tx, l, resolve (loads S) d)" "\<And>v. d = VarName v \<Longrightarrow> loads S v \<noteq> None"
  using assms by (auto simp: full_entry_def resolve_def split: option.splits nav_data.splits)

lemma goto_lazy:
  assumes tree: "tree_of S s" and L: "clean_loader (loads S)" and sub: "subIndices s i = Some sub"
    and pend: "pending s = []" and at: "full_entry S (crumbs sub root h) = Some item"
  shows "gets_shown S (rootNode s) (crumbs sub root h) item h (gotoNode S i root h) (length (crumbs sub root h) + 1) s"
proof -
  let ?bs = "crumbs sub root h"
  let ?s = "s\<lparr>breadcrumbs := ?bs\<rparr>"
  let ?go = "show_path S (Some (rootNode s)) 0 h ?bs"
  obtain r where r: "nav_ok (loads S) s" "nodes s (rootNode s) = Some r" "childrenData r = NavItems (NAVTREE S)"
    "clean_data (NavItems (NAVTREE S))"
    using tree unfolding tree_of_def by blast
  obtain tx l d where e: "lazy_at (loads S) (NavItems (NAVTREE S)) ?bs = Some (tx, l, d)"
    "item = (tx, l, resolve (loads S) d)" "\<And>v. d = VarName v \<Longrightarrow> loads S v \<noteq> None"
    by (rule full_entryE [OF at]) blast
  have "gets_shown S (rootNode s) ?bs (tx, l, resolve (loads S) d) h ?go (length ?bs + 1) ?s"
    by (rule lazy_shows [OF _ L, where n = r])
      (use r e pend in \<open>simp_all del: show_path.simps clean_data.simps lazy_at.simps\<close>)
  moreover have "gotoNode S i root h s = ?go ?s" by (rule gotoNode_run [OF sub])
  moreover have "grows s s' = grows ?s s'" for s' by (simp add: grows_def)
  moreover have "selected ?s = selected s" by (simp add: selected_def)
  ultimately show ?thesis
    unfolding gets_shown_def e(2) jbind_def by (simp del: show_path.simps)
qed

lemma index_arrives:
  assumes tree: "tree_of S s" and L: "clean_loader (loads S)" and pend: "pending s = [(f, IndexLoaded i root h rel)]"
    and var: "navIndexVar S i = Some sub" and at: "full_entry S (crumbs sub root h) = Some item"
  shows "\<exists>m s'. m \<le> length (crumbs sub root h) + 2 \<and> arrivals S m s = (Inr (), s') \<and> pending s' = [] \<and>
    shown_at (loads S) s' (rootNode s') (crumbs sub root h) item h (selected s)"
proof -
  let ?bs = "crumbs sub root h"
  let ?s = "s\<lparr>pending := [], subIndices := (subIndices s)(i \<mapsto> sub)\<rparr>"
  have first: "scriptLoaded S 0 s = gotoNode S i root h ?s"
    using var by (simp add: scriptLoaded_def pend step_jget step_jmod runCallback_def run_jbind)
  have "tree_of S ?s" using tree by (simp add: tree_of_def)
  from goto_lazy [OF this L _ _ at, where i = i]
  obtain m s' where m: "m \<le> length ?bs + 1" "jbind (gotoNode S i root h) (\<lambda>_. arrivals S m) ?s = (Inr (), s')"
    "pending s' = []" "grows ?s s'" "shown_at (loads S) s' (rootNode ?s) ?bs item h (selected ?s)"
    by (auto simp: gets_shown_def)
  have "arrivals S (Suc m) s = (Inr (), s')"
    using m(2) first by (simp add: run_jbind split: prod.splits sum.splits)
  moreover have "rootNode ?s = rootNode s'" using m(4) by (simp add: grows_def)
  moreover have "selected ?s = selected s" by (simp add: selected_def)
  ultimately show ?thesis using m(1,3,5) by (intro exI [of _ "Suc m"] exI [of _ s']) simp
qed

lemma page_arrives:
  assumes "fresh_page s" "clean_data (NavItems (NAVTREE S))" "clean_loader (loads S)"
    and "\<not> has_link (cachedLink S s)" "address S root (hashUrl (hash s)) i sub"
    and "full_entry S (crumbs sub root (hashUrl (hash s))) = Some item"
    and "order = [initNavTree S root rel, windowLoad S] \<or> order = [windowLoad S, initNavTree S root rel]"
  shows "\<exists>m s'. m \<le> length (crumbs sub root (hashUrl (hash s))) + 2 \<and>
     jbind (block order) (\<lambda>_. arrivals S m) s = (Inr (), s') \<and> pending s' = [] \<and>
     shown_at (loads S) s' (rootNode s') (crumbs sub root (hashUrl (hash s))) item (hashUrl (hash s)) {}"
proof -
  obtain s1 f where s1: "block order s = (Inr (), s1)" "tree_of S s1" "selected s1 = {}"
    "pending s1 = [(f, IndexLoaded i root (hashUrl (hash s)) rel)]"
    using load_ready_order [OF assms(1,5,4,2), of rel] assms(7) by blast
  have "navIndexVar S i = Some sub" using assms(5) by (simp add: address_def)
  from index_arrives [OF s1(2) assms(3) s1(4) this assms(6)] s1(1,3)
  show ?thesis by (simp add: run_jbind)
qed

text \<open>
  (C3) Loading a page leads the tree to the page's address, also where the data of the tree
  is loaded on demand: in either order of the \<open>ready\<close> and the \<open>load\<close> event, after the
  index file and at most one script per level of the path (and one for the entry itself)
  have arrived, no script is missing any more, all nodes above the entry of the address
  are open, the node there shows that entry with its data, and it, or else the links of the
  anchor, is all that is selected. At each moment at most one script is under way, so the
  order in which scripts arrive is the only one.
\<close>

theorem page_load_shows_address:
  assumes "fresh_page s" "clean_data (NavItems (NAVTREE S))" "clean_loader (loads S)"
    and "\<not> has_link (cachedLink S s)" "address S root (hashUrl (hash s)) i sub"
    and "full_entry S (crumbs sub root (hashUrl (hash s))) = Some item"
    and "order = [initNavTree S root rel, windowLoad S] \<or> order = [windowLoad S, initNavTree S root rel]"
  shows "\<exists>m s'. m \<le> length (crumbs sub root (hashUrl (hash s))) + 2 \<and>
     jbind (block order) (\<lambda>_. block (replicate m (scriptLoaded S 0))) s = (Inr (), s') \<and> pending s' = [] \<and>
     shown_at (loads S) s' (rootNode s') (crumbs sub root (hashUrl (hash s))) item (hashUrl (hash s)) {}"
  by (rule page_arrives [OF assms])

text \<open>A small site whose list of classes is a script of its own.\<close>

definition class_site :: nav_site where
  "class_site = plain_browser\<lparr>
     NAVTREE := [(js ''TA-REF'', Some (js ''index.html''), NavItems [
        (js ''Class List'', Some (js ''annotated.html''), VarName (js ''annotated_dup''))])],
     NAVTREEINDEX := [js ''a00200.html''],
     navVar := [js ''annotated_dup'' \<mapsto> NavItems [
        (js ''report'', Some (js ''a00136.html''), NoData), (js ''TEE_Time'', Some (js ''a00200.html''), NoData)]],
     navIndexVar := [0 \<mapsto> [js ''a00200.html'' \<mapsto> [0, 1], js ''annotated.html'' \<mapsto> [0]]]\<rparr>"

abbreviation class_sub :: "jstr \<Rightarrow> nat list option" where
  "class_sub \<equiv> [js ''a00200.html'' \<mapsto> [0, 1], js ''annotated.html'' \<mapsto> [0]]"

lemma class_site_clean: "clean_data (NavItems (NAVTREE class_site))" "clean_loader (loads class_site)"
  by (auto simp: class_site_def loads_def clean_loader_def split: if_splits)

lemma class_site_entry: "full_entry class_site [0, 0, 1] = Some (js ''TEE_Time'', Some (js ''a00200.html''), NoData)"
proof -
  have "NAVTREE class_site = [(js ''TA-REF'', Some (js ''index.html''), NavItems [
      (js ''Class List'', Some (js ''annotated.html''), VarName (js ''annotated_dup''))])]"
    by (simp add: class_site_def)
  moreover have "loads class_site (js ''annotated_dup'') = Some (NavItems [
        (js ''report'', Some (js ''a00136.html''), NoData), (js ''TEE_Time'', Some (js ''a00200.html''), NoData)])"
    by (simp add: loads_def class_site_def dataName_plain)
  ultimately show ?thesis by (simp add: full_entry_def resolve_def)
qed

lemma hashUrl_none: "hashUrl [] = js ''#''"
  by (simp add: hashUrl_def hashValue_def clean_hash_def substring1_def)

theorem page_load_shows_address_witness:
  "\<exists>m s'. m \<le> 5 \<and> jbind (block [windowLoad class_site, initNavTree class_site (js ''a00200.html'') []])
      (\<lambda>_. block (replicate m (scriptLoaded class_site 0))) (new_page (js ''/a00200.html'') []) = (Inr (), s') \<and>
    pending s' = [] \<and>
    shown_at (loads class_site) s' (rootNode s') [0, 0, 1] (js ''TEE_Time'', Some (js ''a00200.html''), NoData) (js ''#'') {}"
proof -
  have c: "crumbs class_sub (js ''a00200.html'') (js ''#'') = [0, 0, 1]" by (simp add: crumbs_def js_append)
  have addr: "address class_site (js ''a00200.html'') (js ''#'') 0 class_sub"
    by (simp add: address_def class_site_def line_anchor_def index_of_url_def str_le_lit js_append)
  note page = page_load_shows_address [of "new_page (js ''/a00200.html'') []", unfolded hash_new_page hashUrl_none,
      OF fresh_new_page(1) class_site_clean fresh_new_page(2) addr, unfolded c, OF class_site_entry disjI2 [OF refl], of "[]"]
  show ?thesis using page by (simp add: eval_nat_numeral del: block.simps)
qed

end
