(* ===== verification/Nav_Invariant.thy ===== *)
theory Nav_Invariant
  imports Nav_Lazy Nav_Events
begin

text \<open>
  The navigation tree in every state that events reach: the nodes follow the data, what the
  scripts under way are for is there, and the numbers of index files and the times of
  animations are within their bounds.
\<close>

section \<open>The invariant\<close>

text \<open>A node that waits for a variable has its name as data, or what the variable held.\<close>

definition waits_for :: "loader \<Rightarrow> nav_state \<Rightarrow> nat \<Rightarrow> jstr \<Rightarrow> bool" where
  "waits_for L s k v \<longleftrightarrow> (\<exists>n. nodes s k = Some n \<and> (childrenData n = VarName v \<or> L v = Some (childrenData n)))"

definition callback_ok :: "nav_site \<Rightarrow> nav_state \<Rightarrow> callback \<Rightarrow> bool" where
  "callback_ok S s cb = (case cb of
       ExpandLoaded k v \<Rightarrow> waits_for (loads S) s k v
     | ShowLoaded k v i h \<Rightarrow> waits_for (loads S) s k v
     | ChildLoaded c v k i h \<Rightarrow> waits_for (loads S) s c v \<and> nodes s k \<noteq> None
     | IndexLoaded i root h rel \<Rightarrow> i < max 1 (length (NAVTREEINDEX S)))"

definition tree_inv :: "nav_site \<Rightarrow> nav_state \<Rightarrow> bool" where
  "tree_inv S s \<longleftrightarrow> nav_ok (loads S) s \<and> (\<forall>k n. nodes s k = Some n \<longrightarrow> clean_data (childrenData n)) \<and>
     (\<exists>r. nodes s (rootNode s) = Some r \<and> childrenData r = NavItems (NAVTREE S)) \<and>
     (\<forall>(f, cb) \<in> set (pending s). callback_ok S s cb) \<and>
     (\<forall>(pos, time, aname) \<in> set (animations s). 50 \<le> time \<and> time \<le> 500) \<and>
     (\<forall>i sub. subIndices s i = Some sub \<longrightarrow> navIndexVar S i = Some sub)"

lemma tree_invD:
  assumes "tree_inv S s"
  shows "nav_ok (loads S) s" "nodes s k = Some n \<Longrightarrow> clean_data (childrenData n)"
    "\<exists>r. nodes s (rootNode s) = Some r \<and> childrenData r = NavItems (NAVTREE S)"
    "(f, cb) \<in> set (pending s) \<Longrightarrow> callback_ok S s cb"
    "(pos, time, aname) \<in> set (animations s) \<Longrightarrow> 50 \<le> time \<and> time \<le> 500"
    "subIndices s i = Some sub \<Longrightarrow> navIndexVar S i = Some sub"
  using assms unfolding tree_inv_def by fast+

text \<open>Steps that keep the data of every node keep what callbacks wait for.\<close>

definition same_data :: "nav_state \<Rightarrow> nav_state \<Rightarrow> bool" where
  "same_data s s' \<longleftrightarrow> (\<forall>k n. nodes s k = Some n \<longrightarrow> (\<exists>n'. nodes s' k = Some n' \<and> childrenData n' = childrenData n)) \<and>
     rootNode s' = rootNode s"

lemma callback_ok_same: "same_data s s' \<Longrightarrow> callback_ok S s cb \<Longrightarrow> callback_ok S s' cb"
  unfolding same_data_def callback_ok_def waits_for_def by (cases cb; simp; metis)

lemma tree_inv_step:
  assumes inv: "tree_inv S s" and ok: "nav_ok (loads S) s'" and same: "same_data s s'"
    and clean: "\<And>k n. nodes s' k = Some n \<Longrightarrow> clean_data (childrenData n)"
    and pend: "pending s' = pending s" and anim: "animations s' = animations s" and subs: "subIndices s' = subIndices s"
  shows "tree_inv S s'"
proof -
  have "\<exists>r. nodes s' (rootNode s') = Some r \<and> childrenData r = NavItems (NAVTREE S)"
    using tree_invD(3) [OF inv] same unfolding same_data_def by metis
  moreover have "callback_ok S s' cb" if "(f, cb) \<in> set (pending s')" for f cb
    using callback_ok_same [OF same] tree_invD(4) [OF inv] that pend by simp
  ultimately show ?thesis
    using ok clean tree_invD(5,6) [OF inv] anim subs unfolding tree_inv_def by (intro conjI) (simp_all, blast+)
qed

lemma tree_inv_core:
  assumes inv: "tree_inv S s" and same: "\<And>k. rel_option same_core (nodes s k) (nodes s' k)"
    and fields: "nextNode s' = nextNode s" "contents s' = contents s" "rootNode s' = rootNode s"
      "pending s' = pending s" "animations s' = animations s" "subIndices s' = subIndices s"
  shows "tree_inv S s'"
proof (rule tree_inv_step [OF inv _ _ _ fields(4-6)])
  show "nav_ok (loads S) s'" by (rule nav_ok_same [OF tree_invD(1) [OF inv] same fields(1-3)])
  show "same_data s s'"
    unfolding same_data_def
  proof (intro conjI allI impI)
    fix k n assume "nodes s k = Some n"
    then show "\<exists>n'. nodes s' k = Some n' \<and> childrenData n' = childrenData n"
      using same [of k] by (auto simp: option_rel_Some1 same_core_def)
  qed (rule fields(3))
  show "clean_data (childrenData n)" if "nodes s' k = Some n" for k n
    using same [of k] that tree_invD(2) [OF inv] by (fastforce simp: option_rel_Some2 same_core_def)
qed

section \<open>Steps that leave the tree alone\<close>

lemma kept_aside:
  assumes "\<And>s. nodes (f s) = nodes s" "\<And>s. nextNode (f s) = nextNode s" "\<And>s. contents (f s) = contents s"
    "\<And>s. rootNode (f s) = rootNode s" "\<And>s. pending (f s) = pending s" "\<And>s. animations (f s) = animations s"
    "\<And>s. subIndices (f s) = subIndices s"
  shows "keeps (tree_inv S) (jmod f)"
  by (rule keeps_jmod, erule tree_inv_core) (simp_all add: assms option.rel_refl)

lemma kept_look: "(\<And>n. same_core n (f n)) \<Longrightarrow> keeps (tree_inv S) (updNode k f)"
  unfolding updNode_def
  by (rule keeps_jmod, erule tree_inv_core) (auto simp: option.rel_map intro: option.rel_refl_strong)

lemma kept_clearSelection: "keeps (tree_inv S) clearSelection"
  unfolding clearSelection_def
  by (rule keeps_jmod, erule tree_inv_core) (auto simp: option.rel_map same_core_def ul_of_def intro: option.rel_refl_strong)

lemma kept_selectNode: "keeps (tree_inv S) (selectNode k)"
  unfolding selectNode_def by (rule kept_look) (simp add: same_core_def ul_of_def)

lemma kept_node_bind:
  assumes "\<And>s n. tree_inv S s \<Longrightarrow> nodes s k = Some n \<Longrightarrow> tree_inv S (snd (f n s))"
  shows "keeps (tree_inv S) (jbind (nodeOf k) f)"
  unfolding keeps_def
proof (intro allI impI)
  fix s assume "tree_inv S s"
  then show "tree_inv S (snd (jbind (nodeOf k) f s))"
    using assms [of s] by (cases "nodes s k") (simp_all add: run_jbind run_nodeOf)
qed

section \<open>New nodes hold the data of their entries\<close>

abbreviation all_clean :: "(int \<times> int \<times> jstr option) list \<Rightarrow> nav_state \<Rightarrow> bool" where
  \<comment> \<open>and no animation is started\<close>
  "all_clean A s \<equiv> (\<forall>k n. nodes s k = Some n \<longrightarrow> clean_data (childrenData n)) \<and> animations s = A"

lemma clean_updNode: "(\<And>n. childrenData (f n) = childrenData n) \<Longrightarrow> keeps (all_clean A) (updNode k f)"
  unfolding updNode_def by (rule keeps_jmod) auto

lemma clean_aside: "(\<And>s. nodes (f s) = nodes s) \<Longrightarrow> (\<And>s. animations (f s) = animations s) \<Longrightarrow> keeps (all_clean A) (jmod f)"
  by (rule keeps_jmod) simp

lemma clean_nodeOf: "keeps (all_clean A) (nodeOf k)"
  unfolding nodeOf_def by (intro keeps_jbind keeps_jget keeps_of_option)

lemma clean_option: "(\<And>x. keeps I (f x)) \<Longrightarrow> keeps I m \<Longrightarrow> keeps I (case y of None \<Rightarrow> m | Some x \<Rightarrow> f x)"
  by (cases y) auto

lemmas clean_control = keeps_jret keeps_jthrow keeps_jget keeps_of_option keeps_jwhen keeps_jbind keeps_if
  clean_option clean_nodeOf clean_updNode clean_aside

lemma fillLink_data [simp]: "childrenData (fillLink path link n) = childrenData n"
  by (simp add: fillLink_def Let_def)

lemma clean_newNode: "clean_data (snd (snd item)) \<Longrightarrow> keeps (all_clean A) (newNode po item b)"
proof -
  assume item: "clean_data (snd (snd item))"
  obtain tx l d where i: "item = (tx, l, d)" by (cases item)
  have new: "keeps (all_clean A) (jmod (\<lambda>s. s\<lparr>nextNode := Suc k, nodes := (nodes s)(k \<mapsto>
      new_nav_node\<lparr>childrenData := d, depth := x, relpath := r, isLast := b\<rparr>)\<rparr>))" for k x r
    by (rule keeps_jmod) (use item i in auto)
  show ?thesis
    unfolding newNode_def i prod.case getChildrenUL_def appendToUL_def createIndent_def setLink_def noLink_def
    by (intro clean_control new; simp)
qed

lemma clean_newNodes: "list_all (\<lambda>item. clean_data (snd (snd item))) items \<Longrightarrow> keeps (all_clean A) (newNodes po items)"
proof (induction items)
  case (Cons item items)
  have "keeps (all_clean A) (newNode po item b)" for b using Cons.prems by (intro clean_newNode) simp
  moreover have "keeps (all_clean A) (newNodes po items)" using Cons by simp
  ultimately show ?case by (simp only: newNodes.simps) (intro clean_control; simp)
qed (simp add: keeps_jret)

lemma clean_openNode:
  assumes "clean_data (NavItems items)"
  shows "keeps (all_clean A) (openNode k items)"
proof -
  have "keeps (all_clean A) (newNodes k items)" using assms by (intro clean_newNodes) simp
  moreover have "keeps (all_clean A) (setSiblings j us)" for j us
    unfolding setSiblings_def by (intro clean_control; simp)
  ultimately show ?thesis
    unfolding openNode_def getNode_def removeToInsertLater_def insertFunction_def getChildrenUL_def
    by (intro clean_control; simp)
qed

section \<open>Opening nodes\<close>

lemma inv_openNode:
  assumes inv: "tree_inv S s" and n: "nodes s k = Some n" "childrenData n = NavItems items"
  shows "\<exists>s'. openNode k items s = (Inr (), s') \<and> tree_inv S s' \<and> extends s s'"
proof -
  have clean: "clean_data (NavItems items)" using tree_invD(2) [OF inv n(1)] n(2) by simp
  obtain s' where s': "openNode k items s = (Inr (), s')" "nav_ok (loads S) s'" "extends s s'"
    using openNode_ok [OF tree_invD(1) [OF inv] n clean_items [OF clean]] by blast
  have "all_clean (animations s) s'"
    using keepsD [OF clean_openNode [OF clean, of "animations s" k], of s] tree_invD(2) [OF inv] s'(1) by auto
  moreover have "same_data s s'" using s'(3) unfolding extends_def same_data_def by blast
  ultimately have "tree_inv S s'"
    using tree_inv_step [OF inv s'(2)] s'(3) unfolding extends_def by blast
  with s' show ?thesis by blast
qed

lemma inv_getScript: "tree_inv S s \<Longrightarrow> callback_ok S s cb \<Longrightarrow> tree_inv S (snd (getScript nm cb s))"
proof -
  assume inv: "tree_inv S s" and cb: "callback_ok S s cb"
  let ?s = "s\<lparr>pending := pending s @ [(nm @ js ''.js'', cb)]\<rparr>"
  have "callback_ok S ?s c = callback_ok S s c" for c
    by (cases c) (simp_all add: callback_ok_def waits_for_def)
  then have "tree_inv S ?s" using inv cb by (auto simp: tree_inv_def)
  then show ?thesis by (simp add: run_getScript)
qed

lemma kept_expandNode: "keeps (tree_inv S) (expandNode k)"
  unfolding expandNode_def
proof (rule kept_node_bind)
  fix s n assume inv: "tree_inv S s" and n: "nodes s k = Some n"
  have "tree_inv S (snd (case childrenData n of VarName v \<Rightarrow> getScript (relpath n @ v) (ExpandLoaded k v) s
      | NavItems items \<Rightarrow> openNode k items s | NoData \<Rightarrow> jret () s))"
    using inv n inv_openNode [OF inv n]
    by (cases "childrenData n") (auto intro!: inv_getScript simp: callback_ok_def waits_for_def)
  then show "tree_inv S (snd (jwhen (has_data (childrenData n) \<and> \<not> expanded n)
      (case childrenData n of NoData \<Rightarrow> jret () | VarName v \<Rightarrow> getScript (relpath n @ v) (ExpandLoaded k v)
       | NavItems items \<Rightarrow> openNode k items) s))"
    using inv by (cases "childrenData n") (auto simp: jwhen_def)
qed

lemma kept_clickToggle: "keeps (tree_inv S) (clickToggle k)"
proof -
  have "keeps (tree_inv S) (getChildrenUL k)"
    unfolding getChildrenUL_def
  proof (rule kept_node_bind)
    fix s n assume inv: "tree_inv S s" and n: "nodes s k = Some n"
    show "tree_inv S (snd (jwhen (childrenUL n = None) (updNode k (\<lambda>n. n\<lparr>childrenUL := Some [], ulDisplay := js ''none''\<rparr>)) s))"
    proof (cases "childrenUL n = None")
      case True
      have "tree_inv S (s\<lparr>nodes := (nodes s)(k \<mapsto> n\<lparr>childrenUL := Some [], ulDisplay := js ''none''\<rparr>)\<rparr>)"
        by (rule tree_inv_core [OF inv]) (use n True in \<open>auto simp: same_core_def ul_of_def option.rel_refl\<close>)
      then show ?thesis using True n by (simp add: run_updNode)
    qed (auto simp: inv)
  qed
  moreover have "keeps (tree_inv S) (updNode k (\<lambda>n. n\<lparr>ulDisplay := js ''none'', arrowHtml := arrowRight, expanded := False\<rparr>))"
    by (rule kept_look) (simp add: same_core_def ul_of_def)
  ultimately show ?thesis
    unfolding clickToggle_def nodeOf_def by (intro keeps_jbind keeps_jget keeps_of_option keeps_if kept_expandNode)
qed

section \<open>Finding the node of an address\<close>

lemmas inv_control = keeps_jret keeps_jthrow keeps_jget keeps_of_option keeps_jwhen keeps_jbind keeps_if
  keeps_for_each clean_option kept_selectNode kept_clearSelection kept_expandNode kept_aside

lemma kept_selectAndHighlight: "keeps (tree_inv S) (selectAndHighlight S h n)"
  unfolding selectAndHighlight_def highlightAnchor_def glowEffect_def showRoot_def tryScroll_def
  by (intro inv_control; simp)

lemma inv_arrive: "tree_inv S s \<Longrightarrow> tree_inv S (snd (arrive S h c s))"
proof (rule keepsD)
  show "keeps (tree_inv S) (arrive S h c)"
    unfolding arrive_def by (intro inv_control kept_selectAndHighlight)
qed

text \<open>The end of the way, in a tree whose last node may have to wait for its data.\<close>

lemma inv_last:
  assumes inv: "tree_inv S s" and k: "nodes s k \<noteq> None"
  shows "tree_inv S (snd (jbind (nodeOf c) (\<lambda>child. case childrenData child of
      VarName v \<Rightarrow> getScript (relpath child @ v) (ChildLoaded c v k i h)
    | _ \<Rightarrow> jbind (jget toroot) (\<lambda>r. jbind (jwhen (is_start_page r) (expandNode c)) (\<lambda>_.
        selectAndHighlight S h (Some c)))) s))"
proof (cases "nodes s c")
  case None
  then show ?thesis using inv by (simp add: run_jbind run_nodeOf)
next
  case (Some n)
  then have "callback_ok S s (ChildLoaded c v k i h)" if "childrenData n = VarName v" for v
    using that k by (simp add: callback_ok_def waits_for_def)
  then show ?thesis
    unfolding step_nodeOf [OF Some] arrive_def [symmetric]
    using inv inv_arrive [OF inv] by (cases "childrenData n") (auto intro!: inv_getScript)
qed

text \<open>Without a list of entries at hand the way stops, or waits for a script.\<close>

lemma inv_show_stop:
  assumes inv: "tree_inv S s"
    and items: "\<And>k n items. node = Some k \<Longrightarrow> nodes s k = Some n \<Longrightarrow> childrenData n = NavItems items \<Longrightarrow>
      tree_inv S (snd (show_path S node i h bs s))"
  shows "tree_inv S (snd (show_path S node i h bs s))"
proof (cases node)
  case None
  then show ?thesis using keepsD [OF kept_selectAndHighlight inv] by simp
next
  case (Some k)
  show ?thesis
  proof (cases "nodes s k")
    case None
    then show ?thesis using Some inv by (simp add: run_jbind run_nodeOf)
  next
    case n: (Some n)
    show ?thesis
    proof (cases "childrenData n")
      case (NavItems items)
      then show ?thesis using items [OF Some n] by blast
    qed (use Some n inv keepsD [OF kept_selectAndHighlight inv] in
      \<open>auto simp: step_nodeOf has_data_def callback_ok_def waits_for_def intro!: inv_getScript\<close>)
  qed
qed

lemma inv_show_path: "tree_inv S s \<Longrightarrow> tree_inv S (snd (show_path S node i h bs s))"
proof (induction bs arbitrary: s node i)
  case Nil
  show ?case
  proof (rule inv_show_stop [OF Nil])
    fix k n items assume n: "node = Some k" "nodes s k = Some n" "childrenData n = NavItems items"
    obtain s1 where s1: "openNode k items s = (Inr (), s1)" "tree_inv S s1"
      using inv_openNode [OF Nil n(2,3)] by blast
    have "show_path S node i h [] s = jbind (nodeOf k) (\<lambda>_. jthrow TypeError) s1"
      using n by (simp add: step_nodeOf [OF n(2)] has_data_def run_jbind_Inr [where m = "openNode k items", OF s1(1)])
    then show "tree_inv S (snd (show_path S node i h [] s))"
      using s1(2) by (simp add: run_jbind run_nodeOf split: option.split)
  qed
next
  case (Cons b bs)
  show ?case
  proof (rule inv_show_stop [OF Cons.prems])
    fix k n items assume n: "node = Some k" "nodes s k = Some n" "childrenData n = NavItems items"
    obtain s1 where s1: "openNode k items s = (Inr (), s1)" "tree_inv S s1" "extends s s1"
      using inv_openNode [OF Cons.prems n(2,3)] by blast
    obtain n1 where n1: "nodes s1 k = Some n1" using s1(3) n(2) unfolding extends_def by blast
    let ?c = "if b < length (nChildren n1) then Some (nChildren n1 ! b) else None"
    have run: "show_path S node i h (b # bs) s =
      (if bs \<noteq> [] then show_path S ?c (i + 1) h bs s1
       else (case ?c of None \<Rightarrow> jthrow TypeError | Some c \<Rightarrow> jbind (nodeOf c) (\<lambda>child. case childrenData child of
          VarName v \<Rightarrow> getScript (relpath child @ v) (ChildLoaded c v k i h)
        | _ \<Rightarrow> jbind (jget toroot) (\<lambda>r. jbind (jwhen (is_start_page r) (expandNode c)) (\<lambda>_.
            selectAndHighlight S h (Some c))))) s1)"
      using n by (simp add: step_nodeOf [OF n(2)] has_data_def
        run_jbind_Inr [where m = "openNode k items", OF s1(1)] step_nodeOf [OF n1] Let_def)
    show "tree_inv S (snd (show_path S node i h (b # bs) s))"
    proof (cases "bs = []")
      case True
      then show ?thesis unfolding run using inv_last [OF s1(2)] n1 s1(2) by (simp del: show_path.simps)
    next
      case False
      then show ?thesis unfolding run using Cons.IH [OF s1(2)] by (simp del: show_path.simps)
    qed
  qed
qed

lemma kept_show_path: "keeps (tree_inv S) (show_path S node i h bs)"
  by (simp add: keeps_def inv_show_path del: show_path.simps)

lemma kept_gotoNode: "keeps (tree_inv S) (gotoNode S i root h)"
  unfolding gotoNode_def Let_def showNode_def by (intro inv_control kept_show_path; simp)

lemma kept_getScript_index:
  "i < max 1 (length (NAVTREEINDEX S)) \<Longrightarrow> keeps (tree_inv S) (getScript nm (IndexLoaded i root h rel))"
  unfolding keeps_def by (auto intro!: inv_getScript simp: callback_ok_def)

lemma kept_navTo: "keeps (tree_inv S) (navTo S root h rel)"
proof -
  have index: "(if i = -1 then 0 else nat i) < max 1 (length (NAVTREEINDEX S))"
    if "i = index_of_url (NAVTREEINDEX S) u" for i u
    using index_of_url_range [of "NAVTREEINDEX S" u] that by (auto simp: nat_less_iff)
  have pair: "keeps (tree_inv S) (case p of (a, b) \<Rightarrow> f a b)" if "\<And>a b. keeps (tree_inv S) (f a b)" for p f
    using that by (cases p) simp
  show ?thesis
    unfolding navTo_def Let_def glowEffect_def
    by (intro inv_control pair kept_gotoNode kept_getScript_index index; simp)
qed

section \<open>Scripts that arrive\<close>

lemma inv_load:
  assumes inv: "tree_inv S s" and L: "clean_loader (loads S)" and w: "waits_for (loads S) s k v"
    and v: "loads S v = Some d"
  shows "tree_inv S (s\<lparr>nodes := (nodes s)(k := map_option (\<lambda>n. n\<lparr>childrenData := d\<rparr>) (nodes s k))\<rparr>)"
proof -
  obtain n where n: "nodes s k = Some n" "childrenData n = VarName v \<or> loads S v = Some (childrenData n)"
    using w by (auto simp: waits_for_def)
  show ?thesis
  proof (cases "childrenData n = VarName v")
    case False
    then have "n\<lparr>childrenData := d\<rparr> = n" using n(2) v by auto
    then show ?thesis using inv n(1) by (simp add: nodes_same)
  next
    case True
    let ?s = "s\<lparr>nodes := (nodes s)(k \<mapsto> n\<lparr>childrenData := d\<rparr>)\<rparr>"
    have ne: "v \<noteq> []" using tree_invD(2) [OF inv n(1)] True by simp
    have "rootNode s \<noteq> k" using tree_invD(3) [OF inv] n(1) True by auto
    then have root: "\<exists>r. nodes ?s (rootNode ?s) = Some r \<and> childrenData r = NavItems (NAVTREE S)"
      using tree_invD(3) [OF inv] by auto
    have "waits_for (loads S) s j u \<Longrightarrow> waits_for (loads S) ?s j u" for j u
      using n(1) True v L by (cases "j = k") (auto simp: waits_for_def clean_loader_def)
    then have pend: "callback_ok S s cb \<Longrightarrow> callback_ok S ?s cb" for cb
      by (cases cb) (auto simp: callback_ok_def)
    have clean: "clean_data (childrenData m)" if "nodes ?s j = Some m" for j m
      using that tree_invD(2) [OF inv] v L by (cases "j = k") (auto simp: clean_loader_def)
    have "nav_ok (loads S) ?s" by (rule nav_ok_load [OF tree_invD(1) [OF inv] L n(1) True ne v])
    then have "tree_inv S ?s"
      using root clean pend tree_invD(4-6) [OF inv] unfolding tree_inv_def by (intro conjI) (simp_all, blast+)
    then show ?thesis using n(1) by simp
  qed
qed

lemma run_loaded:
  assumes inv: "tree_inv S s" and L: "clean_loader (loads S)" and w: "waits_for (loads S) s k v"
    and m: "\<And>s'. tree_inv S s' \<Longrightarrow> tree_inv S (snd (m s'))"
  shows "tree_inv S (snd (jbind (getData S v) (\<lambda>d. jbind (updNode k (\<lambda>n. n\<lparr>childrenData := d\<rparr>)) (\<lambda>_. m)) s))"
proof (cases "loads S v")
  case None
  then show ?thesis using inv by (simp add: getData_def loads_def run_jbind run_of_option)
next
  case (Some d)
  then show ?thesis
    using m [OF inv_load [OF inv L w Some]] by (simp add: getData_def loads_def run_jbind run_of_option run_updNode)
qed

lemma inv_runCallback:
  assumes inv: "tree_inv S s" and L: "clean_loader (loads S)" and cb: "callback_ok S s cb"
  shows "tree_inv S (snd (runCallback S cb s))"
proof -
  have shown: "keeps (tree_inv S) (showNode S n i h)" for n i h
    unfolding showNode_def by (intro inv_control kept_show_path)
  have close: "keeps (tree_inv S) (jbind (updNode k (\<lambda>n. n\<lparr>expanded := False\<rparr>)) (\<lambda>_. showNode S n i h))" for k n i h
    by (intro keeps_jbind kept_look shown) (simp add: same_core_def ul_of_def)
  show ?thesis
  proof (cases cb)
    case (ExpandLoaded k v)
    then show ?thesis using run_loaded [OF inv L _ keepsD [OF kept_expandNode]] cb
      by (simp add: runCallback_def callback_ok_def)
  next
    case (ShowLoaded k v i h)
    then show ?thesis using run_loaded [OF inv L _ keepsD [OF shown]] cb
      by (simp add: runCallback_def callback_ok_def)
  next
    case (ChildLoaded c v k i h)
    then show ?thesis using run_loaded [OF inv L _ keepsD [OF close]] cb
      by (simp add: runCallback_def callback_ok_def)
  next
    case (IndexLoaded i root h rel)
    have "tree_inv S (s\<lparr>subIndices := (subIndices s)(i \<mapsto> sub)\<rparr>)" if sub: "navIndexVar S i = Some sub" for sub
    proof -
      have "callback_ok S (s\<lparr>subIndices := x\<rparr>) c = callback_ok S s c" for c x
        by (cases c) (simp_all add: callback_ok_def waits_for_def)
      then show ?thesis using inv sub by (simp add: tree_inv_def)
    qed
    then show ?thesis
      using IndexLoaded inv keepsD [OF kept_gotoNode]
      by (cases "navIndexVar S i") (simp_all add: runCallback_def run_jbind run_of_option)
  qed
qed

lemma kept_scriptLoaded:
  assumes L: "clean_loader (loads S)"
  shows "keeps (tree_inv S) (scriptLoaded S j)"
  unfolding keeps_def
proof (intro allI impI)
  fix s assume inv: "tree_inv S s"
  let ?ps = "take j (pending s) @ drop (Suc j) (pending s)"
  show "tree_inv S (snd (scriptLoaded S j s))"
  proof (cases "j < length (pending s)")
    case True
    let ?s = "s\<lparr>pending := ?ps\<rparr>"
    have same: "callback_ok S ?s cb = callback_ok S s cb" for cb
      by (cases cb) (simp_all add: callback_ok_def waits_for_def)
    have "set ?ps \<subseteq> set (pending s)" by (auto dest: in_set_takeD in_set_dropD)
    then have "tree_inv S ?s" using inv same unfolding tree_inv_def by fastforce
    moreover have "callback_ok S ?s (snd (pending s ! j))"
      unfolding same using tree_invD(4) [OF inv, of "fst (pending s ! j)"] True by simp
    ultimately show ?thesis
      using inv_runCallback [OF _ L] True by (simp add: scriptLoaded_def step_jget step_jmod)
  qed (simp add: scriptLoaded_def step_jget inv)
qed

section \<open>All events\<close>

lemma scroll_duration_bounds: "50 \<le> scroll_duration v pos" "scroll_duration v pos \<le> 500"
  by (simp_all add: scroll_duration_def Let_def)

lemma kept_animation:
  assumes "\<And>s. nodes (f s) = nodes s" "\<And>s. nextNode (f s) = nextNode s" "\<And>s. contents (f s) = contents s"
    "\<And>s. rootNode (f s) = rootNode s" "\<And>s. pending (f s) = pending s" "\<And>s. subIndices (f s) = subIndices s"
    and bounds: "\<And>s pos t a. (pos, t, a) \<in> set (animations (f s)) \<Longrightarrow> (pos, t, a) \<in> set (animations s) \<or> 50 \<le> t \<and> t \<le> 500"
  shows "keeps (tree_inv S) (jmod f)"
proof (rule keeps_jmod)
  fix s assume inv: "tree_inv S s"
  let ?s = "(f s)\<lparr>animations := animations s\<rparr>"
  have "tree_inv S ?s" by (rule tree_inv_core [OF inv]) (simp_all add: assms option.rel_refl)
  moreover have "callback_ok S (f s) cb = callback_ok S ?s cb" for cb
    by (cases cb) (simp_all add: callback_ok_def waits_for_def)
  moreover have "nav_ok (loads S) (f s) = nav_ok (loads S) ?s" by (rule nav_ok_cong) simp_all
  moreover have "\<forall>(pos, t, a) \<in> set (animations (f s)). 50 \<le> t \<and> t \<le> 500"
    using bounds tree_invD(5) [OF inv] by blast
  ultimately show "tree_inv S (f s)" unfolding tree_inv_def by auto
qed

lemma kept_gotoAnchor: "keeps (tree_inv S) (gotoAnchor S a b)"
  unfolding gotoAnchor_def Let_def
  by (intro inv_control kept_animation) (auto simp: scroll_duration_bounds)

lemma kept_animationDone: "keeps (tree_inv S) animationDone"
  unfolding keeps_def
proof (intro allI impI)
  fix s assume inv: "tree_inv S s"
  have "keeps (tree_inv S) (jmod (\<lambda>s. s\<lparr>animations := tl (animations s), animationInProgress := x, hash := y\<rparr>))" for x y
    by (rule kept_animation) (auto dest: list.set_sel(2) [rotated] simp: in_set_conv_nth nth_tl)
  from keepsD [OF this inv] show "tree_inv S (snd (animationDone s))"
    using inv by (cases "animations s") (auto simp: animationDone_def step_jget split: prod.splits)
qed

lemma kept_storeLink: "keeps (tree_inv S) (storeLink S l)"
  unfolding storeLink_def by (intro inv_control; simp)

lemma kept_clickLink: "keeps (tree_inv S) (clickLink S k)"
proof -
  have sel: "keeps (tree_inv S) (block [clearSelection, selectNode k])"
    by (simp only: block.simps) (intro inv_control)
  have "keeps (tree_inv S) (case c of NoClick \<Rightarrow> jret () | ToggleNode \<Rightarrow> clickToggle k
     | StoreLink link \<Rightarrow> storeLink S link
     | AnchorLink link aname \<Rightarrow> jbind (storeLink S link) (\<lambda>_.
         jbind (jwhen b (block [clearSelection, selectNode k])) (\<lambda>_. gotoAnchor S aname True)))" for c b
    by (cases c; simp only: nav_click.case) (intro inv_control kept_clickToggle kept_storeLink sel kept_gotoAnchor)+
  then show ?thesis unfolding clickLink_def nodeOf_def by (intro inv_control)
qed

lemma kept_nav_handle:
  assumes L: "clean_loader (loads S)"
  shows "keeps (tree_inv S) (nav_handle S rel e)"
proof (cases e)
  case (HashChange h)
  then show ?thesis
    by (simp only: nav_handle_def nav_input.case hashChange_def) (intro inv_control kept_navTo; simp)
next
  case WindowLoad
  have "keeps (tree_inv S) (case p of (root, url, rel) \<Rightarrow>
      jbind (jwhen b (jbind (navTo S root url rel) (\<lambda>_. showRoot S))) (\<lambda>_. jmod (\<lambda>s. s\<lparr>loadTriggered := True\<rparr>)))" for p b
    by (cases p; simp only: prod.case showRoot_def tryScroll_def) (intro inv_control kept_navTo; simp)
  then show ?thesis using WindowLoad by (simp only: nav_handle_def nav_input.case windowLoad_def) (intro inv_control)
next
  case SyncButton
  then show ?thesis
    by (simp only: nav_handle_def nav_input.case toggleSyncButton_def block.simps showSyncOff_def showSyncOn_def
      deleteLink_def) (intro inv_control kept_storeLink; simp)
next
  case RetryScroll
  have "keeps (tree_inv S) (case rs of [] \<Rightarrow> jret () | height # rest \<Rightarrow>
         jbind (jmod (\<lambda>s. s\<lparr>retries := rest\<rparr>)) (\<lambda>_. tryScroll S height))" for rs
    by (cases rs; simp only: list.case tryScroll_def) (intro inv_control; simp)+
  then show ?thesis using RetryScroll by (simp only: nav_handle_def nav_input.case retryScroll_def) (intro inv_control)
next
  case (GlowDone g)
  then show ?thesis by (simp only: nav_handle_def nav_input.case endGlow_def) (intro inv_control; simp)
qed (simp_all add: nav_handle_def kept_clickToggle kept_clickLink kept_scriptLoaded [OF L] kept_animationDone)

lemma inv_reached:
  assumes "nav_reach S root rel s0 s"
    and "nodes s0 = Map.empty" "nextNode s0 = 0" "contents s0 = []" "pending s0 = []" "animations s0 = []" "subIndices s0 = Map.empty"
    and "clean_data (NavItems (NAVTREE S))" "clean_loader (loads S)"
  shows "tree_inv S s"
  using assms(1)
proof (induction rule: nav_reach.induct)
  case ready
  have "tree_of S (with_root S root rel s0)" by (rule tree_of_with_root [OF assms(8)])
  moreover have "animations (with_root S root rel s0) = []" using assms(6) by (simp add: with_root_def)
  moreover have "clean_data (childrenData n)" if "nodes (with_root S root rel s0) k = Some n" for k n
    using that assms(8) by (auto simp: with_root_def split: if_splits)
  ultimately have start: "tree_inv S (with_root S root rel s0)" using assms(5,7) by (simp add: tree_inv_def tree_of_def)
  have go: "keeps (tree_inv S) (jbind (navTo S root (hashUrl (hash s0)) rel) (\<lambda>_. showRoot S))"
    unfolding showRoot_def tryScroll_def by (intro inv_control kept_navTo; simp)
  have rest: "keeps (tree_inv S) (jmod (\<lambda>s. s\<lparr>loadArgs := (root, hashUrl (hash s0), rel), readyTriggered := True\<rparr>))"
    by (rule kept_aside) simp_all
  show ?case
    using keepsD [OF go start] keepsD [OF rest start] unfolding initNavTree_run [OF assms(2-4)] by simp
next
  case (event s e)
  show ?case by (rule keepsD [OF kept_nav_handle [OF assms(9)] event.IH])
qed

lemma arrow_returns:
  assumes inv: "tree_inv S s" and n: "nodes s k = Some n"
  shows "\<exists>s'. clickToggle k s = (Inr (), s')"
proof (cases "expanded n")
  case True
  then show ?thesis
    unfolding clickToggle_def step_nodeOf [OF n] using n
    by (cases "childrenUL n") (simp_all add: run_jbind run_getChildrenUL run_updNode)
next
  case False
  have "\<exists>s'. expandNode k s = (Inr (), s')"
    using inv_openNode [OF inv n]
    by (cases "childrenData n") (auto simp: expandNode_def step_nodeOf [OF n] jwhen_def run_getScript has_data_def)
  then show ?thesis using False by (simp add: clickToggle_def step_nodeOf [OF n])
qed

text \<open>
  (C4) The tree follows its data whatever happens: after any sequence of clicks on arrows and
  links, scripts that arrive in any order, hash changes, scrolling and the button, every
  node hangs once in the list of its parent and holds the data of its entry or what the
  entry's script brought, an opened node has one child per entry, the root holds the
  site's tree, each script under way is for a node that is there and waits for it, the index
  files at hand are the site's own, and a click on the arrow of any node returns.
\<close>

theorem tree_follows_data:
  assumes "nav_reach S root rel s0 s" "clean_data (NavItems (NAVTREE S))" "clean_loader (loads S)"
    and "nodes s0 = Map.empty" "nextNode s0 = 0" "contents s0 = []" "pending s0 = []" "animations s0 = []" "subIndices s0 = Map.empty"
  shows "nav_ok (loads S) s \<and> (\<exists>r. nodes s (rootNode s) = Some r \<and> childrenData r = NavItems (NAVTREE S)) \<and>
    (\<forall>(f, cb) \<in> set (pending s). callback_ok S s cb) \<and>
    (\<forall>i sub. subIndices s i = Some sub \<longrightarrow> navIndexVar S i = Some sub) \<and>
    (\<forall>k n. nodes s k = Some n \<longrightarrow> (\<exists>s'. clickToggle k s = (Inr (), s')))"
proof -
  have inv: "tree_inv S s" by (rule inv_reached [OF assms(1,4-9,2,3)])
  show ?thesis using arrow_returns [OF inv] inv unfolding tree_inv_def by blast
qed

lemma new_page_blank [simp]:
  "nodes (new_page path h) = Map.empty" "nextNode (new_page path h) = 0" "contents (new_page path h) = []"
  "pending (new_page path h) = []" "animations (new_page path h) = []" "subIndices (new_page path h) = Map.empty"
  by (simp_all add: new_page_def)

theorem tree_follows_data_witness:
  "\<exists>s. s = snd (nav_handle class_site [] (ScriptLoad 0) (snd (nav_handle class_site [] WindowLoad
      (snd (initNavTree class_site (js ''a00200.html'') [] (new_page (js ''/a00200.html'') [])))))) \<and>
    nav_ok (loads class_site) s \<and>
    (\<exists>r. nodes s (rootNode s) = Some r \<and> childrenData r = NavItems (NAVTREE class_site)) \<and>
    (\<forall>(f, cb) \<in> set (pending s). callback_ok class_site s cb) \<and>
    (\<forall>i sub. subIndices s i = Some sub \<longrightarrow> navIndexVar class_site i = Some sub) \<and>
    (\<forall>k n. nodes s k = Some n \<longrightarrow> (\<exists>s'. clickToggle k s = (Inr (), s')))"
  by (rule exI, rule conjI [OF refl],
    rule tree_follows_data [OF nav_reach.event [OF nav_reach.event [OF nav_reach.ready]] class_site_clean new_page_blank])

text \<open>
  (C19) Numbers stay in their range: in every state that events reach, a request for an index
  file has the number of one of the site's index files, and every animation that scrolls to
  an anchor takes between 50 and 500 milliseconds, however far away the anchor is.
\<close>

theorem requests_and_scrolls_in_range:
  assumes "nav_reach S root rel s0 s" "clean_data (NavItems (NAVTREE S))" "clean_loader (loads S)"
    and "nodes s0 = Map.empty" "nextNode s0 = 0" "contents s0 = []" "pending s0 = []" "animations s0 = []" "subIndices s0 = Map.empty"
    and "NAVTREEINDEX S \<noteq> []"
  shows "(\<forall>f i r h q. (f, IndexLoaded i r h q) \<in> set (pending s) \<longrightarrow> i < length (NAVTREEINDEX S)) \<and>
    (\<forall>(pos, time, aname) \<in> set (animations s). 50 \<le> time \<and> time \<le> 500)"
proof -
  have inv: "tree_inv S s" by (rule inv_reached [OF assms(1,4-9,2,3)])
  have "max 1 (length (NAVTREEINDEX S)) = length (NAVTREEINDEX S)" using assms(10) by (simp add: Suc_leI max_def)
  then show ?thesis using tree_invD(4) [OF inv] inv unfolding tree_inv_def callback_ok_def by fastforce
qed

theorem requests_and_scrolls_in_range_witness:
  "\<exists>s. s = snd (nav_handle class_site [] WindowLoad
      (snd (initNavTree class_site (js ''a00200.html'') [] (new_page (js ''/a00200.html'') [])))) \<and>
    (\<forall>f i r h q. (f, IndexLoaded i r h q) \<in> set (pending s) \<longrightarrow> i < length (NAVTREEINDEX class_site)) \<and>
    (\<forall>(pos, time, aname) \<in> set (animations s). 50 \<le> time \<and> time \<le> 500)"
  by (rule exI, rule conjI [OF refl],
    rule requests_and_scrolls_in_range [OF nav_reach.event [OF nav_reach.ready] class_site_clean new_page_blank])
    (simp add: class_site_def)

end
