(* ===== verification/Nav_Follow.thy ===== *)
theory Nav_Follow
  imports Nav_Invariant
begin

text \<open>Anchors that the reader follows on a page that has been loaded.\<close>

section \<open>The hash changes\<close>

definition anchor_selected :: "nav_state \<Rightarrow> jstr \<Rightarrow> bool" where
  \<comment> \<open>one of the links of the anchor is selected already\<close>
  "anchor_selected s h \<longleftrightarrow> (\<exists>k \<in> set (linksEnding (stripPath (pathName (pathname s)) @ js '':'' @ hashValue h) s). k \<in> selected s)"

lemma hashChange_run:
  assumes inv: "tree_inv S s" and h: "length h > 1"
  shows "\<exists>s1. nav_handle S rel (HashChange h) s = navTo S (stripPath2 (pathName (pathname s))) (hashUrl h) rel s1 \<and>
    tree_inv S s1 \<and> selected s1 = (if anchor_selected s h then selected s else {}) \<and> storage s1 = storage s \<and>
    pathname s1 = pathname s \<and> subIndices s1 = subIndices s \<and> pending s1 = pending s"
proof -
  let ?t = "s\<lparr>hash := h\<rparr>"
  let ?links = "linksEnding (stripPath (pathName (pathname s)) @ js '':'' @ hashValue h) ?t"
  let ?b = "\<not> list_ex (\<lambda>k. case nodes s k of Some n \<Rightarrow> itemSelected n | None \<Rightarrow> False) ?links"
  have links: "?links = linksEnding (stripPath (pathName (pathname s)) @ js '':'' @ hashValue h) s"
    by (simp add: linksEnding_def)
  have b: "?b \<longleftrightarrow> \<not> anchor_selected s h"
    unfolding links anchor_selected_def list_ex_iff selected_def by (auto split: option.splits)
  obtain s1 where c: "jwhen ?b clearSelection ?t = (Inr (), s1)" and f: "storage s1 = storage s" "pathname s1 = pathname s"
    "subIndices s1 = subIndices s" "pending s1 = pending s" "selected s1 = (if anchor_selected s h then selected s else {})"
  proof (cases "anchor_selected s h")
    case True
    then show thesis using that [of ?t] by (simp add: b jwhen_def selected_def)
  next
    case False
    let ?u = "?t\<lparr>nodes := \<lambda>k. map_option (\<lambda>n. n\<lparr>itemSelected := False, itemId := None\<rparr>) (nodes ?t k)\<rparr>"
    have "selected ?u = {}" by (auto simp: selected_def)
    then show thesis using that [of ?u] False by (simp add: b jwhen_def clearSelection_def)
  qed
  have "keeps (tree_inv S) (jbind (jmod (\<lambda>s. s\<lparr>hash := h\<rparr>)) (\<lambda>_. jwhen ?b clearSelection))"
    by (intro inv_control) simp_all
  from keepsD [OF this inv] have "tree_inv S s1" using c by (simp add: run_jbind)
  moreover have "nav_handle S rel (HashChange h) s = navTo S (stripPath2 (pathName (pathname s))) (hashUrl h) rel s1"
    using c f(2) h by (simp add: nav_handle_def hashChange_def run_jbind)
  ultimately show ?thesis using f by blast
qed

lemma tree_inv_tree: "tree_inv S s \<Longrightarrow> clean_data (NavItems (NAVTREE S)) \<Longrightarrow> tree_of S s"
  by (simp add: tree_inv_def tree_of_def)

lemma navTo_arrives:
  assumes inv: "tree_inv S s" and clean: "clean_data (NavItems (NAVTREE S))" "clean_loader (loads S)"
    and pend: "pending s = []" and link: "\<not> has_link (cachedLink S s)"
    and addr: "address S root h i sub" and at: "full_entry S (crumbs sub root h) = Some item"
  shows "\<exists>m s'. m \<le> length (crumbs sub root h) + 2 \<and>
    jbind (navTo S root h rel) (\<lambda>_. arrivals S m) s = (Inr (), s') \<and> pending s' = [] \<and>
    shown_at (loads S) s' (rootNode s') (crumbs sub root h) item h (selected s)"
proof -
  let ?bs = "crumbs sub root h"
  note tree = tree_inv_tree [OF inv clean(1)]
  have a: "\<not> line_anchor h" "index_of_url (NAVTREEINDEX S) (root @ h) = int i" "navIndexVar S i = Some sub"
    using addr by (simp_all add: address_def)
  note run = navTo_run [OF link a(1,2), of rel]
  show ?thesis
  proof (cases "subIndices s i")
    case (Some sub')
    then have sub: "subIndices s i = Some sub" using tree_invD(6) [OF inv] a(3) by fastforce
    obtain m s' where m: "m \<le> length ?bs + 1" "jbind (gotoNode S i root h) (\<lambda>_. arrivals S m) s = (Inr (), s')"
      "grows s s'" "pending s' = []" "shown_at (loads S) s' (rootNode s) ?bs item h (selected s)"
      using goto_lazy [OF tree clean(2) sub pend at] by (auto simp: gets_shown_def)
    have "rootNode s' = rootNode s" using m(3) by (simp add: grows_def)
    then show ?thesis using m run sub by (intro exI [of _ m] exI [of _ s']) (simp add: run_jbind)
  next
    case None
    obtain f where nav: "navTo S root h rel s = (Inr (), s\<lparr>pending := [(f, IndexLoaded i root h rel)]\<rparr>)"
      using run None pend by simp
    let ?s = "s\<lparr>pending := [(f, IndexLoaded i root h rel)]\<rparr>"
    have "tree_of S ?s" using tree by (simp add: tree_of_def)
    moreover have "selected ?s = selected s" by (simp add: selected_def)
    ultimately show ?thesis
      using index_arrives [OF _ clean(2) _ a(3) at, of ?s f rel] nav by (simp add: run_jbind)
  qed
qed


lemma plain_page_path: "stripPath2 (pathName (js ''/a00200.html'')) = js ''a00200.html''"
  by (simp add: pathName_def stripPath2_def lastIndexOf_def js_Cons path_char_def is_word_def Let_def is_split_dir_def
    substring1_def substring2_def clamp_index_def)


end
