(* ===== verification/Nav_Races.thy ===== *)
theory Nav_Races
  imports Nav_Follow
begin

text \<open>
  Scripts that arrive late: the way to an address is kept in one list for the whole tree, and
  a script that was asked for on the way to an earlier address goes on along the new one.
\<close>

section \<open>A script for an address that is no longer wanted\<close>

lemma show_past_end:
  assumes inv: "tree_inv S s" and n: "nodes s k = Some n" "childrenData n = NavItems items"
  shows "fst (show_path S (Some k) i h [] s) = Inl TypeError"
proof -
  obtain s1 where s1: "openNode k items s = (Inr (), s1)" "extends s s1"
    using inv_openNode [OF inv n] by blast
  obtain n1 where "nodes s1 k = Some n1" using s1(2) n(1) unfolding extends_def by blast
  then show ?thesis
    using n(2) by (simp add: step_nodeOf [OF n(1)] has_data_def run_jbind_Inr [where m = "openNode k items", OF s1(1)] step_nodeOf)
qed

lemma late_script:
  assumes inv: "tree_inv S s" and L: "clean_loader (loads S)"
    and j: "j < length (pending s)" "pending s ! j = (f, ShowLoaded k v i h)"
    and v: "loads S v = Some d" and short: "length (breadcrumbs s) \<le> i"
  shows "fst (scriptLoaded S j s) = Inl TypeError"
proof -
  let ?s = "s\<lparr>pending := take j (pending s) @ drop (Suc j) (pending s)\<rparr>"
  have same: "callback_ok S ?s cb = callback_ok S s cb" for cb
    by (cases cb) (simp_all add: callback_ok_def waits_for_def)
  have "set (take j (pending s) @ drop (Suc j) (pending s)) \<subseteq> set (pending s)"
    by (auto dest: in_set_takeD in_set_dropD)
  then have inv1: "tree_inv S ?s" using inv same unfolding tree_inv_def by fastforce
  have "callback_ok S s (ShowLoaded k v i h)" using tree_invD(4) [OF inv] j by (metis nth_mem)
  then have w: "waits_for (loads S) ?s k v" by (simp add: callback_ok_def waits_for_def)
  then obtain n where n: "nodes s k = Some n" by (auto simp: waits_for_def)
  obtain items where d: "d = NavItems items" using L v unfolding clean_loader_def by blast
  let ?s2 = "?s\<lparr>nodes := (nodes s)(k \<mapsto> n\<lparr>childrenData := NavItems items\<rparr>)\<rparr>"
  have inv2: "tree_inv S ?s2" using inv_load [OF inv1 L w v] n d by simp
  have "scriptLoaded S j s = show_path S (Some k) i h [] ?s2"
    using j v short n d by (simp add: scriptLoaded_def step_jget step_jmod runCallback_def getData_def loads_def
      run_of_option run_jbind run_updNode showNode_def del: show_path.simps)
  then show ?thesis using show_past_end [OF inv2, of k] by simp
qed

text \<open>
  (C32) A script that arrives late loses its way: where a script was asked for on the way to an
  address and the reader has gone on to an address with a shorter path before it arrives,
  its arrival ends in a \<open>TypeError\<close>, whatever else has happened on the page.
\<close>

theorem late_script_loses_way:
  assumes "nav_reach S root rel s0 s" "clean_data (NavItems (NAVTREE S))" "clean_loader (loads S)"
    and "nodes s0 = Map.empty" "nextNode s0 = 0" "contents s0 = []" "pending s0 = []" "animations s0 = []" "subIndices s0 = Map.empty"
    and "j < length (pending s)" "pending s ! j = (f, ShowLoaded k v i h)"
    and "loads S v = Some d" "length (breadcrumbs s) \<le> i"
  shows "fst (nav_handle S rel (ScriptLoad j) s) = Inl TypeError"
  using late_script [OF inv_reached [OF assms(1,4-9,2,3)] assms(3,10-13)] by (simp add: nav_handle_def)

section \<open>A page where that happens\<close>

text \<open>
  The list of classes is on its way when the reader follows an anchor that the index sends to
  the top of the tree.
\<close>

definition late_site :: nav_site where
  "late_site = class_site\<lparr>navIndexVar := [0 \<mapsto> [js ''a00200.html'' \<mapsto> [0, 1], js ''a00200.html#top'' \<mapsto> []]]\<rparr>"

definition late_page :: nav_state where
  "late_page = new_page (js ''/a00200.html'') []"

lemma late_site_clean: "clean_data (NavItems (NAVTREE late_site))" "clean_loader (loads late_site)"
  by (auto simp: late_site_def class_site_def loads_def clean_loader_def split: if_splits)

lemma late_site_tree:
  "NAVTREE late_site = [(js ''TA-REF'', Some (js ''index.html''), NavItems [
      (js ''Class List'', Some (js ''annotated.html''), VarName (js ''annotated_dup''))])]"
  by (simp add: late_site_def class_site_def)

abbreviation late_sub :: "jstr \<Rightarrow> nat list option" where
  "late_sub \<equiv> [js ''a00200.html'' \<mapsto> [0, 1], js ''a00200.html#top'' \<mapsto> []]"

lemma late_addresses:
  "address late_site (js ''a00200.html'') (js ''#'') 0 late_sub" "crumbs late_sub (js ''a00200.html'') (js ''#'') = [0, 0, 1]"
  "address late_site (js ''a00200.html'') (js ''#top'') 0 late_sub" "crumbs late_sub (js ''a00200.html'') (js ''#top'') = [0]"
  by (simp_all add: address_def late_site_def class_site_def line_anchor_def index_of_url_def str_le_lit js_append crumbs_def js_Cons)

text \<open>What the steps below know of the page.\<close>

definition on_page :: "nav_state \<Rightarrow> bool" where
  "on_page s \<longleftrightarrow> nav_reach late_site (js ''a00200.html'') [] late_page s \<and> storage s = Map.empty \<and>
     pathname s = js ''/a00200.html''"

lemma on_page_inv: "on_page s \<Longrightarrow> tree_inv late_site s"
  unfolding on_page_def late_page_def using inv_reached [OF _ new_page_blank late_site_clean] by blast

lemma on_page_event:
  "on_page s \<Longrightarrow> storage (snd (nav_handle late_site [] e s)) = Map.empty \<Longrightarrow>
   pathname (snd (nav_handle late_site [] e s)) = js ''/a00200.html'' \<Longrightarrow> on_page (snd (nav_handle late_site [] e s))"
  unfolding on_page_def using nav_reach.event by blast

lemma nav_ok_with_root: "nav_ok L (with_root S root rel s)"
  by (simp add: with_root_def nav_ok_def depth_ok_def new_nav_node_def node_ok_def hangs_def
    siblingsOf_def ul_of_def has_data_def)

lemma late_start:
  "\<exists>s f. on_page s \<and> nav_ok Map.empty s \<and> subIndices s = Map.empty \<and> pending s = [(f, IndexLoaded 0 (js ''a00200.html'') (js ''#'') [])]"
proof -
  let ?root = "js ''a00200.html''"
  let ?a = "(with_root late_site ?root [] late_page)\<lparr>loadArgs := (?root, js ''#'', []), readyTriggered := True\<rparr>"
  have page: "hash late_page = []" "\<not> loadTriggered late_page" "subIndices late_page = Map.empty"
    "storage late_page = Map.empty" "pathname late_page = js ''/a00200.html''" "pending late_page = []"
    by (simp_all add: late_page_def new_page_def)
  have init: "initNavTree late_site ?root [] late_page = (Inr (), ?a)"
    using page hashUrl_none by (subst initNavTree_run) (simp_all add: late_page_def)
  have a: "nav_reach late_site ?root [] late_page ?a"
    using nav_reach.ready [of late_site ?root "[]" late_page] init by simp
  have "\<not> has_link (cachedLink late_site ?a)" using page by (simp add: cachedLink_def has_link_def)
  then obtain x y f where load: "jbind (navTo late_site ?root (js ''#'') []) (\<lambda>_. showRoot late_site) ?a =
      (Inr (), ?a\<lparr>pending := [(f, IndexLoaded 0 ?root (js ''#'') [])], scrolls := x, retries := y\<rparr>)"
    using ask_index [OF late_addresses(1), of ?a "[]"] page by auto
  let ?s = "?a\<lparr>pending := [(f, IndexLoaded 0 ?root (js ''#'') [])], scrolls := x, retries := y, loadTriggered := True\<rparr>"
  have "snd (nav_handle late_site [] WindowLoad ?a) = ?s"
    using load by (simp add: nav_handle_def windowLoad_def run_jbind)
  then have "nav_reach late_site ?root [] late_page ?s" using nav_reach.event [OF a, of WindowLoad] by simp
  moreover have "pathname ?s = js ''/a00200.html''" using page by (simp add: with_root_def)
  ultimately have "on_page ?s" unfolding on_page_def using page by simp
  moreover have "nav_ok Map.empty ?s"
    using nav_ok_with_root by (subst nav_ok_cong [where s = "with_root late_site ?root [] late_page"]) simp_all
  ultimately show ?thesis using page by (intro exI [of _ ?s] exI [of _ f]) simp
qed

lemma inner_step:
  assumes "nav_ok Map.empty s" "nodes s k = Some n" "childrenData n = NavItems items" "clean_data (NavItems items)"
    and "b < length items" "bs \<noteq> []"
  shows "\<exists>s1 c cn. nav_ok Map.empty s1 \<and> extends s s1 \<and> nodes s1 c = Some cn \<and> childrenData cn = snd (snd (items ! b)) \<and>
    show_path S (Some k) i h (b # bs) s = show_path S (Some c) (i + 1) h bs s1"
  using show_path_step [OF assms(1-5), of S i h bs] assms(6)
  by (simp add: holds_def del: show_path.simps clean_data.simps) blast

text \<open>The index arrives, and the tree asks for the list of classes.\<close>

lemma late_asks:
  assumes on: "on_page s" and new: "nav_ok Map.empty s" and sub: "subIndices s = Map.empty"
    and pend: "pending s = [(f, IndexLoaded 0 (js ''a00200.html'') (js ''#'') [])]"
  shows "\<exists>s' f' c. on_page s' \<and> subIndices s' = [0 \<mapsto> late_sub] \<and>
    pending s' = [(f', ShowLoaded c (js ''annotated_dup'') 2 (js ''#''))]"
proof -
  let ?S = late_site
  let ?s = "s\<lparr>pending := [], subIndices := [0 \<mapsto> late_sub], breadcrumbs := [0, 0, 1]\<rparr>"
  have inv: "tree_inv ?S s" by (rule on_page_inv [OF on])
  obtain r where r: "nodes s (rootNode s) = Some r" "childrenData r = NavItems (NAVTREE ?S)"
    using tree_invD(3) [OF inv] by blast
  have ok: "nav_ok Map.empty ?s" using new by simp
  have run: "scriptLoaded ?S 0 s = show_path ?S (Some (rootNode s)) 0 (js ''#'') [0, 0, 1] ?s"
    using gotoNode_run [of "s\<lparr>pending := [], subIndices := [0 \<mapsto> late_sub]\<rparr>" 0 late_sub ?S "js ''a00200.html''" "js ''#''"]
      pend sub late_addresses(1,2)
    by (simp add: scriptLoaded_def step_jget step_jmod runCallback_def run_jbind address_def del: show_path.simps)
  let ?sub = "[(js ''Class List'', Some (js ''annotated.html''), VarName (js ''annotated_dup''))]"
  have top: "NAVTREE ?S ! 0 = (js ''TA-REF'', Some (js ''index.html''), NavItems ?sub)" "0 < length (NAVTREE ?S)"
    by (simp_all add: late_site_tree)
  have r': "nodes ?s (rootNode s) = Some r" using r(1) by simp
  obtain s1 c1 n1 where s1: "nav_ok Map.empty s1" "extends ?s s1" "nodes s1 c1 = Some n1" "childrenData n1 = NavItems ?sub"
    and run1: "show_path ?S (Some (rootNode s)) 0 (js ''#'') [0, 0, 1] ?s = show_path ?S (Some c1) (0 + 1) (js ''#'') [0, 1] s1"
    using inner_step [OF ok r' r(2) late_site_clean(1) top(2), of "[0, 1]" ?S 0 "js ''#''"] top(1) by auto
  have "clean_data (NavItems ?sub)" by simp
  from inner_step [OF s1(1,3,4) this, of 0 "[1]" ?S "0 + 1" "js ''#''"]
  obtain s2 c2 n2 where s2: "extends s1 s2" "nodes s2 c2 = Some n2" "childrenData n2 = VarName (js ''annotated_dup'')"
    and run2: "show_path ?S (Some c1) (0 + 1) (js ''#'') [0, 1] s1 = show_path ?S (Some c2) (0 + 1 + 1) (js ''#'') [1] s2"
    by auto
  have ext: "extends ?s s2" by (rule extends_trans [OF s1(2) s2(1)])
  let ?f = "relpath n2 @ js ''annotated_dup'' @ js ''.js''"
  let ?t = "s2\<lparr>pending := [(?f, ShowLoaded c2 (js ''annotated_dup'') 2 (js ''#''))]\<rparr>"
  have "pending s2 = []" using ext by (simp add: extends_def)
  then have "scriptLoaded ?S 0 s = (Inr (), ?t)"
    unfolding run run1 run2 using show_asks [OF s2(2,3), of ?S 2 "js ''#''" 1 "[]"] by (simp add: numeral_2_eq_2 del: show_path.simps)
  then have t: "snd (nav_handle ?S [] (ScriptLoad 0) s) = ?t" by (simp add: nav_handle_def)
  have "on_page ?t"
    using on_page_event [OF on, of "ScriptLoad 0"] on ext unfolding t on_page_def by (simp add: extends_def)
  then show ?thesis using ext by (intro exI [of _ ?t] exI [of _ ?f] exI [of _ c2]) (simp add: extends_def)
qed

text \<open>The reader follows the anchor.\<close>

lemma late_moves_on:
  assumes on: "on_page s" and sub: "subIndices s = [0 \<mapsto> late_sub]"
  shows "\<exists>s'. on_page s' \<and> pending s' = pending s \<and> breadcrumbs s' = [0]"
proof -
  let ?S = late_site and ?h = "js ''#top''"
  have inv: "tree_inv ?S s" by (rule on_page_inv [OF on])
  have h: "hashUrl ?h = ?h" by (simp add: hashUrl_def hashValue_def clean_hash_def substring1_def clamp_index_def js_Cons is_word_def Let_def)
  have "length ?h > 1" "pathname s = js ''/a00200.html''" "storage s = Map.empty" using on by (simp_all add: on_page_def)
  then obtain s1 where s1: "tree_inv ?S s1" "storage s1 = Map.empty" "pathname s1 = js ''/a00200.html''"
      "subIndices s1 = [0 \<mapsto> late_sub]" "pending s1 = pending s"
    and run: "nav_handle ?S [] (HashChange ?h) s = navTo ?S (js ''a00200.html'') ?h [] s1"
    using hashChange_run [OF inv, of ?h "[]"] sub unfolding h plain_page_path by (auto simp: plain_page_path)
  let ?s = "s1\<lparr>breadcrumbs := [0]\<rparr>"
  have "\<not> has_link (cachedLink ?S s1)" using s1(2) by (simp add: cachedLink_def has_link_def)
  from navTo_run [OF this, of ?h "js ''a00200.html''" 0 "[]"]
  have go: "navTo ?S (js ''a00200.html'') ?h [] s1 = show_path ?S (Some (rootNode s1)) 0 ?h [0] ?s"
    using late_addresses(3,4) gotoNode_run [of s1 0 late_sub ?S "js ''a00200.html''" ?h] s1(4)
    by (simp add: address_def del: show_path.simps)
  have ok: "nav_ok (loads ?S) ?s" using tree_invD(1) [OF s1(1)] by simp
  obtain r where r: "nodes ?s (rootNode s1) = Some r" "childrenData r = NavItems (NAVTREE ?S)"
    using tree_invD(3) [OF s1(1)] by auto
  have at: "nav_at (NAVTREE ?S) [0] = Some (js ''TA-REF'', Some (js ''index.html''), NavItems [
      (js ''Class List'', Some (js ''annotated.html''), VarName (js ''annotated_dup''))])"
    by (simp add: late_site_tree)
  obtain s2 where s2: "show_path ?S (Some (rootNode s1)) 0 ?h [0] ?s = (Inr (), s2)" "extends ?s s2"
    using show_path_shows [OF ok r late_site_clean(1) at, of ?S 0 ?h] by blast
  have t: "snd (nav_handle ?S [] (HashChange ?h) s) = s2" using run go s2(1) by simp
  have "on_page s2"
    using on_page_event [OF on, of "HashChange ?h"] s1(2,3) s2(2) unfolding t by (simp add: extends_def)
  then show ?thesis using s2(2) s1(5) by (intro exI [of _ s2]) (simp add: extends_def)
qed

theorem late_script_loses_way_witness:
  "\<exists>s. nav_reach late_site (js ''a00200.html'') [] late_page s \<and>
     fst (nav_handle late_site [] (ScriptLoad 0) s) = Inl TypeError"
proof -
  obtain s f where s: "on_page s" "nav_ok Map.empty s" "subIndices s = Map.empty"
    "pending s = [(f, IndexLoaded 0 (js ''a00200.html'') (js ''#'') [])]"
    using late_start by blast
  obtain s1 f1 c where s1: "on_page s1" "subIndices s1 = [0 \<mapsto> late_sub]"
    "pending s1 = [(f1, ShowLoaded c (js ''annotated_dup'') 2 (js ''#''))]"
    using late_asks [OF s] by blast
  obtain s2 where s2: "on_page s2" "pending s2 = pending s1" "breadcrumbs s2 = [0]"
    using late_moves_on [OF s1(1,2)] by blast
  have v: "\<exists>d. loads late_site (js ''annotated_dup'') = Some d"
    by (simp add: loads_def late_site_def class_site_def dataName_plain)
  have reach: "nav_reach late_site (js ''a00200.html'') [] (new_page (js ''/a00200.html'') []) s2"
    using s2(1) by (simp add: on_page_def late_page_def)
  show ?thesis
    using late_script_loses_way [OF reach late_site_clean new_page_blank, of 0] s1(3) s2 v reach
    unfolding late_page_def by auto
qed

end
