(* ===== verification/Nav_Index.thy ===== *)
theory Nav_Index
  imports Nav_Lazy
begin

text \<open>
  Sites whose index files fit their list \<open>NAVTREEINDEX\<close>: the address of a page, with or
  without an anchor, leads to the path that its index file has for it.
\<close>

section \<open>Tables in ascending order\<close>

text \<open>
  An address before another, even with a bare \<open>#\<close> behind it: nothing between the two is an
  address, and both belong to the same index file if the last of the file does.
\<close>

definition before :: "jstr \<Rightarrow> jstr \<Rightarrow> bool" where
  "before u v \<longleftrightarrow> str_less (u @ js ''#'') v"

fun lit_before :: "string \<Rightarrow> string \<Rightarrow> bool" where
  "lit_before s [] = False"
| "lit_before [] (d # t) = (if d = CHR ''#'' then t \<noteq> [] else (of_char CHR ''#'' :: nat) < of_char d)"
| "lit_before (c # s) (d # t) = (if c = d then lit_before s t else (of_char c :: nat) < of_char d)"

lemma before_lit: "before (js u) (js v) = lit_before u v"
proof -
  have nil: "lit_le s [] \<longleftrightarrow> s = []" for s by (cases s) simp_all
  have "lit_le (u @ ''#'') v \<and> u @ ''#'' \<noteq> v \<longleftrightarrow> lit_before u v"
    by (induction u v rule: lit_before.induct) (auto simp: nil)
  then show ?thesis by (simp add: before_def str_less_def js_append str_le_lit)
qed

lemma str_le_append: "str_le u (u @ v)"
  by (induction u) simp_all

lemma before_le: "before u v \<Longrightarrow> str_le u v"
  unfolding before_def str_less_def using str_le_trans [OF str_le_append] by blast

lemma before_trans: "before u v \<Longrightarrow> before v w \<Longrightarrow> before u w"
  unfolding before_def str_less_def
  by (metis before_def before_le str_le_antisym str_le_trans str_less_def)

lemma before_not: "before u v \<Longrightarrow> \<not> str_le v u" "before u v \<Longrightarrow> \<not> str_le v (u @ js ''#'')"
  unfolding before_def str_less_def using str_le_antisym str_le_trans [OF _ str_le_append] by blast+

text \<open>A table that ascends, up to an address.\<close>

fun chain :: "(jstr \<times> nat list) list \<Rightarrow> jstr \<Rightarrow> bool" where
  "chain [] w = True"
| "chain [e] w = before (fst e) w"
| "chain (e # e' # es) w = (before (fst e) (fst e') \<and> chain (e' # es) w)"

lemma chain_lit:
  "chain ((js u, x) # (js v, y) # es) w = (lit_before u v \<and> chain ((js v, y) # es) w)"
  "chain [(js u, x)] (js v) = lit_before u v"
  by (simp_all add: before_lit)

lemma lit_before_same: "lit_before (c # s) (c # t) = lit_before s t"
  by simp

lemma lit_before_differ: "c \<noteq> d \<Longrightarrow> lit_before (c # s) (d # t) = ((of_char c :: nat) < of_char d)"
  by simp

lemmas chain_rules = chain_lit lit_before_differ lit_before_same

text \<open>Tables and texts are not looked at before they are compared.\<close>

lemma frozen_js: "js s = js s"
  by simp

lemma chain_frozen: "chain es w = chain es w" "lit_before s t = lit_before s t"
  by simp_all

lemma chain_append: "chain es (fst (hd es')) \<Longrightarrow> chain es' w \<Longrightarrow> es' \<noteq> [] \<Longrightarrow> chain (es @ es') w"
proof (induction es "fst (hd es')" rule: chain.induct)
  case (2 e)
  then show ?case by (cases es') simp_all
qed simp_all

lemma chain_ascends: "chain es w \<Longrightarrow> sorted_wrt (\<lambda>e e'. before (fst e) (fst e')) es \<and> (\<forall>e \<in> set es. before (fst e) w)"
proof (induction es w rule: chain.induct)
  case (3 e e' es w)
  then have ih: "sorted_wrt (\<lambda>e e'. before (fst e) (fst e')) (e' # es)" "\<forall>x \<in> set (e' # es). before (fst x) w"
    and e: "before (fst e) (fst e')" by simp_all
  have "before (fst e) (fst x)" if "x \<in> set es" for x
    using before_trans [OF e] ih(1) that by simp
  then show ?case using ih e before_trans [OF e, of w] by simp
qed simp_all

lemma ascends_distinct:
  "sorted_wrt (\<lambda>e e'. before (fst e) (fst e')) es \<Longrightarrow> distinct (map fst es)"
proof (induction es)
  case (Cons e es)
  then show ?case using before_not(1) [of "fst e" "fst e"] by auto
qed simp

lemma ascends_no_bare:
  assumes "sorted_wrt (\<lambda>e e'. before (fst e) (fst e')) es" "(url, bs) \<in> set es"
  shows "(url @ js ''#'', bs') \<notin> set es"
  using assms
proof (induction es)
  case (Cons e es)
  have "before url (url @ js ''#'') \<Longrightarrow> False" using before_not(2) str_le_refl by blast
  moreover have "before (url @ js ''#'') url \<Longrightarrow> False" using before_not(1) str_le_append by blast
  ultimately show ?case using Cons by fastforce
qed simp

section \<open>The index files of a site\<close>

definition page_address :: "jstr \<Rightarrow> jstr \<Rightarrow> jstr" where
  \<comment> \<open>the address a page has in the index; \<open>hashUrl\<close> of no anchor is a bare \<open>#\<close>\<close>
  "page_address root h = (if h = js ''#'' then root else root @ h)"

locale indexed_site =
  fixes S :: nav_site and index :: "nat \<Rightarrow> (jstr \<times> nat list) list"
  assumes files_sorted: "sorted_wrt str_le (NAVTREEINDEX S)"
    and index_file: "index i \<noteq> [] \<Longrightarrow> navIndexVar S i = Some (map_of (index i))"
    and first_address: "index i \<noteq> [] \<Longrightarrow> i < length (NAVTREEINDEX S) \<and> NAVTREEINDEX S ! i = fst (hd (index i))"
    and ascending: "\<exists>w. chain (index i) w \<and> (Suc i < length (NAVTREEINDEX S) \<longrightarrow> w = NAVTREEINDEX S ! Suc i)"
begin

lemma bucket:
  assumes "(url, bs) \<in> set (index i)" "u = url \<or> u = url @ js ''#''"
  shows "index_of_url (NAVTREEINDEX S) u = int i"
proof (rule index_of_url_bucket [OF files_sorted])
  obtain w where w: "chain (index i) w" "Suc i < length (NAVTREEINDEX S) \<longrightarrow> w = NAVTREEINDEX S ! Suc i"
    using ascending by blast
  obtain e es where es: "index i = e # es" using assms(1) by (cases "index i") auto
  then have first: "i < length (NAVTREEINDEX S)" "NAVTREEINDEX S ! i = fst e" using first_address by simp_all
  have "before url w" using chain_ascends [OF w(1)] assms(1) by force
  then have "\<not> str_le w u" using before_not assms(2) by blast
  moreover have "str_le (fst e) url"
    using chain_ascends [OF w(1)] assms(1) es before_le by fastforce
  then have "str_le (fst e) u" using str_le_trans [OF _ str_le_append] assms(2) by blast
  ultimately show "in_bucket (NAVTREEINDEX S) i u" using first w(2) by (auto simp: in_bucket_def)
qed

lemma entry_found:
  assumes "(page_address root h, bs) \<in> set (index i)" "\<not> line_anchor h"
  shows "address S root h i (map_of (index i))" "crumbs (map_of (index i)) root h = 0 # bs"
proof -
  obtain w where "chain (index i) w" using ascending by blast
  then have asc: "sorted_wrt (\<lambda>e e'. before (fst e) (fst e')) (index i)" using chain_ascends by blast
  have at: "map_of (index i) (page_address root h) = Some bs" using ascends_distinct [OF asc] assms(1) by simp
  have none: "h = js ''#'' \<Longrightarrow> map_of (index i) (root @ js ''#'') = None"
    using ascends_no_bare [OF asc assms(1)] by (auto simp: map_of_eq_None_iff page_address_def)
  have "index i \<noteq> []" using assms(1) by auto
  then show "address S root h i (map_of (index i))"
    using index_file bucket [OF assms(1)] assms(2) by (auto simp: address_def page_address_def split: if_splits)
  show "crumbs (map_of (index i)) root h = 0 # bs"
    using at none by (auto simp: crumbs_def page_address_def split: if_splits)
qed

end

text \<open>
  A site whose data may be spread over scripts: the entry at the path of an address has a
  link that stands for the address. The index gives source listings the entry of their file.
\<close>

definition source_page :: "jstr \<Rightarrow> jstr" where
  "source_page l = take (length l - 5) l @ js ''_source.html''"

definition stands_for :: "jstr \<Rightarrow> jstr \<Rightarrow> bool" where
  "stands_for l url \<longleftrightarrow> (if l = url then True else url = source_page l)"

fun has_full_page :: "jstr \<Rightarrow> nav_item option \<Rightarrow> bool" where
  "has_full_page url (Some (_, Some l, d)) = stands_for l url"
| "has_full_page url _ = False"

locale documented_site = indexed_site +
  assumes tree: "clean_data (NavItems (NAVTREE S))" and scripts: "clean_loader (loads S)"
    and entry: "(url, bs) \<in> set (index i) \<Longrightarrow> bs \<noteq> [] \<Longrightarrow> has_full_page url (full_entry S (0 # bs))"
begin

lemma addresses_shown:
  assumes "(page_address root (hashUrl (hash s)), bs) \<in> set (index i)" "bs \<noteq> []"
    and "fresh_page s" "\<not> has_link (cachedLink S s)" "\<not> line_anchor (hashUrl (hash s))"
    and "order = [initNavTree S root rel, windowLoad S] \<or> order = [windowLoad S, initNavTree S root rel]"
  shows "\<exists>m s' tx l d. m \<le> length bs + 3 \<and>
     jbind (block order) (\<lambda>_. block (replicate m (scriptLoaded S 0))) s = (Inr (), s') \<and> pending s' = [] \<and>
     stands_for l (page_address root (hashUrl (hash s))) \<and>
     shown_at (loads S) s' (rootNode s') (0 # bs) (tx, Some l, d) (hashUrl (hash s)) {}"
proof -
  note found = entry_found [OF assms(1,5)]
  obtain tx l d where at: "full_entry S (0 # bs) = Some (tx, Some l, d)"
    "stands_for l (page_address root (hashUrl (hash s)))"
    using entry [OF assms(1,2)] by (cases "(page_address root (hashUrl (hash s)), full_entry S (0 # bs))" rule: has_full_page.cases) auto
  have "full_entry S (crumbs (map_of (index i)) root (hashUrl (hash s))) = Some (tx, Some l, d)"
    using at(1) found(2) by simp
  note page = page_arrives [OF assms(3) tree scripts assms(4) found(1) this assms(6), unfolded found(2)]
  have "length (0 # bs) + 2 = length bs + 3" by simp
  then show ?thesis using page at(2) by metis
qed

end

end
