(* ===== verification/Site_Readme.thy ===== *)
theory Site_Readme
  imports Nav_Index
begin

text \<open>
  The navigation data of the readme site (\<open>ta-ref_readme_html/navtreedata.js\<close> and
  \<open>navtreeindex0.js\<close>): the index file and the tree agree.
\<close>

section \<open>The tables\<close>

definition readme_page0 :: nav_item where
  "readme_page0 =
    (js ''Overview of Trusted Application Reference (TA-Ref)'', Some (js ''index.html''), NavItems [
      (js ''Features of TA-Ref'', Some (js ''index.html#autotoc_md1''), NavItems [
        (js ''Assumption of hardware features of TA-Ref on TEE'', Some (js ''index.html#autotoc_md2''), NoData)]),
      (js ''Components of TA-Ref'', Some (js ''index.html#autotoc_md3''), NavItems [
        (js ''TA-Ref Components on Keystone'', Some (js ''index.html#autotoc_md4''), NoData),
        (js ''TA-Ref Components on OP-TEE'', Some (js ''index.html#autotoc_md5''), NoData),
        (js ''TA-Ref Components on SGX'', Some (js ''index.html#autotoc_md6''), NoData)]),
      (js ''What we did on RISC-V'', Some (js ''index.html#autotoc_md7''), NavItems [
        (js ''Challenges faced during Implementation'', Some (js ''index.html#autotoc_md8''), NoData),
        (js ''Selected GP TEE Internal API's for testing'', Some (js ''index.html#autotoc_md9''), NoData)]),
      (js ''Dependency of category'', Some (js ''index.html#autotoc_md10''), NoData)])"

definition readme_page1 :: nav_item where
  "readme_page1 =
    (js ''API comparison with full set of GP API'', Some (js ''a00053.html''), NavItems [
      (js ''GP API'', Some (js ''a00053.html#autotoc_md12''), NoData)])"

definition readme_page2 :: nav_item where
  "readme_page2 =
    (js ''How to run sample TA programs on TA-Ref'', Some (js ''a00054.html''), NavItems [
      (js ''Run samples for Keystone'', Some (js ''a00054.html#autotoc_md14''), NoData),
      (js ''Run samples for OP-TEE'', Some (js ''a00054.html#autotoc_md15''), NoData),
      (js ''Run samples for Intel SGX'', Some (js ''a00054.html#autotoc_md16''), NoData)])"

definition readme_page3 :: nav_item where
  "readme_page3 =
    (js ''How to write your first 'Hello World' TA Program'', Some (js ''a00055.html''), NavItems [
      (js ''Writing 'Hello World' TA for Keystone'', Some (js ''a00055.html#autotoc_md18''), NoData),
      (js ''Writing 'Hello World' TA for OP-TEE'', Some (js ''a00055.html#autotoc_md19''), NoData),
      (js ''Writing 'Hello World' TA for Intel SGX'', Some (js ''a00055.html#autotoc_md20''), NoData)])"

definition readme_page4 :: nav_item where
  "readme_page4 =
    (js ''Tutorials of using GP API's in TEE'', Some (js ''a00056.html''), NavItems [
      (js ''Time Functions'', Some (js ''a00056.html#autotoc_md22''), NoData),
      (js ''Random Functions'', Some (js ''a00056.html#autotoc_md23''), NoData),
      (js ''Hash Functions'', Some (js ''a00056.html#autotoc_md24''), NoData),
      (js ''Symmetric Crypto AES-GCM Functions'', Some (js ''a00056.html#autotoc_md25''), NoData),
      (js ''Asymmetric Crypto Functions'', Some (js ''a00056.html#autotoc_md26''), NoData),
      (js ''Open, Read, Write, Close On Secure Storage'', Some (js ''a00056.html#autotoc_md27''), NoData),
      (js ''API Error Codes and its values'', Some (js ''a00056.html#autotoc_md28''), NoData)])"

definition readme_page5 :: nav_item where
  "readme_page5 =
    (js ''Preparation and building TA-Ref with docker'', Some (js ''a00057.html''), NavItems [
      (js ''Preparation'', Some (js ''a00057.html#autotoc_md30''), NavItems [
        (js ''Installing Docker'', Some (js ''a00057.html#autotoc_md31''), NoData),
        (js ''Executing Docker without sudo'', Some (js ''a00057.html#autotoc_md32''), NoData),
        (js ''Create a docker network tamproto'', Some (js ''a00057.html#autotoc_md33''), NoData)]),
      (js ''Docker images details'', Some (js ''a00057.html#autotoc_md34''), NoData),
      (js ''Building TA-Ref with Docker'', Some (js ''a00057.html#autotoc_md35''), NavItems [
        (js ''Building TA-Ref for Keystone with docker'', Some (js ''a00057.html#autotoc_md36''), NoData),
        (js ''Building TA-Ref for OP-TEE with docker'', Some (js ''a00057.html#autotoc_md37''), NoData),
        (js ''Building TA-Ref for Intel SGX with docker'', Some (js ''a00057.html#autotoc_md38''), NoData)])])"

definition readme_page6_0 :: nav_item where
  "readme_page6_0 =
    (js ''Keystone(RISC-V Unleased)'', Some (js ''a00058.html#autotoc_md40''), NavItems [
      (js ''Required Packages'', Some (js ''a00058.html#autotoc_md41''), NoData),
      (js ''Download RISC-V toolchain and Keystone SDK'', Some (js ''a00058.html#autotoc_md42''), NoData),
      (js ''Run Keystone examples'', Some (js ''a00058.html#autotoc_md43''), NoData)])"

definition readme_page6_1 :: nav_item where
  "readme_page6_1 =
    (js ''OP-TEE (ARM64 Raspberry Pi 3 Model B)'', Some (js ''a00058.html#autotoc_md44''), NavItems [
      (js ''Required Packages'', Some (js ''a00058.html#autotoc_md45''), NoData),
      (js ''Download and build OP-TEE Toolchains 3.10.0'', Some (js ''a00058.html#autotoc_md46''), NoData),
      (js ''Download OP-TEE 3.10.0'', Some (js ''a00058.html#autotoc_md47''), NoData),
      (js ''Build OP-TEE 3.10.0'', Some (js ''a00058.html#autotoc_md48''), NoData),
      (js ''Run OP-TEE Examples'', Some (js ''a00058.html#autotoc_md49''), NavItems [
        (js ''Launching QEMU Console'', Some (js ''a00058.html#autotoc_md50''), NoData),
        (js ''Run hello world example'', Some (js ''a00058.html#autotoc_md51''), NoData)])])"

definition readme_page6_2 :: nav_item where
  "readme_page6_2 =
    (js ''SGX (Intel NUC)'', Some (js ''a00058.html#autotoc_md52''), NavItems [
      (js ''System Requirements'', Some (js ''a00058.html#autotoc_md53''), NavItems [
        (js ''List of machines which are confirmed to work'', Some (js ''a00058.html#autotoc_md54''), NoData),
        (js ''BIOS Versions which are failed or scucceeded in IAS Test'', Some (js ''a00058.html#autotoc_md55''), NoData),
        (js ''BIOS Settings'', Some (js ''a00058.html#autotoc_md56''), NoData)]),
      (js ''Required Packages'', Some (js ''a00058.html#autotoc_md57''), NoData),
      (js ''Build SGX'', Some (js ''a00058.html#autotoc_md58''), NavItems [
        (js ''Build and install linux-sgx'', Some (js ''a00058.html#autotoc_md59''), NoData),
        (js ''Build and Install SGX Driver'', Some (js ''a00058.html#autotoc_md60''), NoData)]),
      (js ''Run sgx-ra-sample'', Some (js ''a00058.html#autotoc_md61''), NavItems [
        (js ''Build sgx-ra-sample'', Some (js ''a00058.html#autotoc_md62''), NoData),
        (js ''Prepare for IAS Test'', Some (js ''a00058.html#autotoc_md63''), NoData),
        (js ''Run IAS Test'', Some (js ''a00058.html#autotoc_md64''), NoData),
        (js ''Possible wget Error'', Some (js ''a00058.html#autotoc_md65''), NoData),
        (js ''BIOS Updating'', Some (js ''a00058.html#autotoc_md66''), NoData),
        (js ''Run LocalAttestation'', Some (js ''a00058.html#autotoc_md67''), NoData)])])"

definition readme_page6_3 :: nav_item where
  "readme_page6_3 =
    (js ''Doxygen'', Some (js ''a00058.html#autotoc_md68''), NavItems [
      (js ''Required Packages'', Some (js ''a00058.html#autotoc_md69''), NoData),
      (js ''Build and Install Doxygen'', Some (js ''a00058.html#autotoc_md70''), NoData)])"

definition readme_page6_4 :: nav_item where
  "readme_page6_4 =
    (js ''Customizing MbedTLS Configuration file'', Some (js ''a00058.html#autotoc_md71''), NavItems [
      (js ''What can be customized?'', Some (js ''a00058.html#autotoc_md72''), NoData),
      (js ''mbedtls configuration file (config.h)'', Some (js ''a00058.html#autotoc_md73''), NavItems [
        (js ''Optee mbetls config file'', Some (js ''a00058.html#autotoc_md74''), NoData),
        (js ''TA-Ref mbetls config file'', Some (js ''a00058.html#autotoc_md75''), NoData),
        (js ''TEEP-Device mbetls config file'', Some (js ''a00058.html#autotoc_md76''), NoData)]),
      (js ''Supplement Investigation information'', Some (js ''a00058.html#autotoc_md77''), NoData)])"

definition readme_page6 :: nav_item where
  "readme_page6 = (js ''Preparation before building TA-Ref without Docker'', Some (js ''a00058.html''), NavItems [
     readme_page6_0, readme_page6_1, readme_page6_2, readme_page6_3, readme_page6_4])"

definition readme_page7_0 :: nav_item where
  "readme_page7_0 =
    (js ''TA-Ref with Keystone'', Some (js ''a00059.html#autotoc_md79''), NavItems [
      (js ''Cloning and building dependent sources'', Some (js ''a00059.html#autotoc_md80''), NoData),
      (js ''Clone the ta-ref source'', Some (js ''a00059.html#autotoc_md81''), NoData),
      (js ''Build the ta-ref source for test_hello and test_gp'', Some (js ''a00059.html#autotoc_md82''), NoData)])"

definition readme_page7_1 :: nav_item where
  "readme_page7_1 =
    (js ''TA-Ref with OP-TEE'', Some (js ''a00059.html#autotoc_md83''), NavItems [
      (js ''Clone the ta-ref source'', Some (js ''a00059.html#autotoc_md84''), NoData),
      (js ''Build the ta-ref source for test_hello and test_gp'', Some (js ''a00059.html#autotoc_md85''), NoData)])"

definition readme_page7_2 :: nav_item where
  "readme_page7_2 =
    (js ''TA-Ref with SGX'', Some (js ''a00059.html#autotoc_md86''), NavItems [
      (js ''Clone the ta-ref source'', Some (js ''a00059.html#autotoc_md87''), NoData),
      (js ''Build the ta-ref source for test_hello and test_gp'', Some (js ''a00059.html#autotoc_md88''), NoData),
      (js ''Check TA-Ref by running test_gp, test_hello, simulation mode on any pc'', Some (js ''a00059.html#autotoc_md89''), NavItems [
        (js ''test_hello'', Some (js ''a00059.html#autotoc_md90''), NoData),
        (js ''test_gp'', Some (js ''a00059.html#autotoc_md91''), NoData)])])"

definition readme_page7_3 :: nav_item where
  "readme_page7_3 =
    (js ''Generating ta-ref.pdf with Doxygen'', Some (js ''a00059.html#autotoc_md92''), NavItems [
      (js ''Cloning source and building docs'', Some (js ''a00059.html#autotoc_md93''), NoData)])"

definition readme_page7 :: nav_item where
  "readme_page7 = (js ''Building TA-Ref without Docker'', Some (js ''a00059.html''), NavItems [
     readme_page7_0, readme_page7_1, readme_page7_2, readme_page7_3])"

definition readme_page8_0 :: nav_item where
  "readme_page8_0 =
    (js ''Keystone, Unleased'', Some (js ''a00060.html#autotoc_md95''), NavItems [
      (js ''Preparation of rootfs on SD Card'', Some (js ''a00060.html#autotoc_md96''), NavItems [
        (js ''Create SD-card partition manually'', Some (js ''a00060.html#autotoc_md97''), NoData),
        (js ''Write boot and rootfs files into SD-card'', Some (js ''a00060.html#autotoc_md98''), NoData)]),
      (js ''Copying binaries of test_hello and test_gp'', Some (js ''a00060.html#autotoc_md99''), NoData),
      (js ''Check test_hello and test_gp on Unleased'', Some (js ''a00060.html#autotoc_md100''), NoData)])"

definition readme_page8_1 :: nav_item where
  "readme_page8_1 =
    (js ''OP-TEE, Raspberry PI 3'', Some (js ''a00060.html#autotoc_md101''), NavItems [
      (js ''Preparation of rootfs on SD Card'', Some (js ''a00060.html#autotoc_md102''), NoData),
      (js ''Copying binaries of test_hello and test_gp to rootfs partition'', Some (js ''a00060.html#autotoc_md103''), NoData),
      (js ''Check test_hello and test_gp'', Some (js ''a00060.html#autotoc_md104''), NoData)])"

definition readme_page8_2 :: nav_item where
  "readme_page8_2 =
    (js ''SGX, NUC'', Some (js ''a00060.html#autotoc_md105''), NavItems [
      (js ''Copying binaries of test_hello and test_gp to NUC machine'', Some (js ''a00060.html#autotoc_md106''), NoData),
      (js ''Check test_hello and test_gp'', Some (js ''a00060.html#autotoc_md107''), NoData)])"

definition readme_page8 :: nav_item where
  "readme_page8 = (js ''Running on Development Boards'', Some (js ''a00060.html''), NavItems [
     readme_page8_0, readme_page8_1, readme_page8_2])"

definition readme_NAVTREE :: "nav_item list" where
  "readme_NAVTREE = [(js ''TA-REF'', Some (js ''index.html''), NavItems [
     readme_page0, readme_page1, readme_page2, readme_page3, readme_page4, readme_page5, readme_page6, readme_page7, readme_page8])]"

definition readme_NAVTREEINDEX :: "jstr list" where
  "readme_NAVTREEINDEX = [js ''a00053.html'']"

definition readme_NAVTREEINDEX0 :: "(jstr \<times> nat list) list" where
  "readme_NAVTREEINDEX0 = [
    (js ''a00053.html'', [1]),
    (js ''a00053.html#autotoc_md12'', [1, 0]),
    (js ''a00054.html'', [2]),
    (js ''a00054.html#autotoc_md14'', [2, 0]),
    (js ''a00054.html#autotoc_md15'', [2, 1]),
    (js ''a00054.html#autotoc_md16'', [2, 2]),
    (js ''a00055.html'', [3]),
    (js ''a00055.html#autotoc_md18'', [3, 0]),
    (js ''a00055.html#autotoc_md19'', [3, 1]),
    (js ''a00055.html#autotoc_md20'', [3, 2]),
    (js ''a00056.html'', [4]),
    (js ''a00056.html#autotoc_md22'', [4, 0]),
    (js ''a00056.html#autotoc_md23'', [4, 1]),
    (js ''a00056.html#autotoc_md24'', [4, 2]),
    (js ''a00056.html#autotoc_md25'', [4, 3]),
    (js ''a00056.html#autotoc_md26'', [4, 4]),
    (js ''a00056.html#autotoc_md27'', [4, 5]),
    (js ''a00056.html#autotoc_md28'', [4, 6]),
    (js ''a00057.html'', [5]),
    (js ''a00057.html#autotoc_md30'', [5, 0]),
    (js ''a00057.html#autotoc_md31'', [5, 0, 0]),
    (js ''a00057.html#autotoc_md32'', [5, 0, 1]),
    (js ''a00057.html#autotoc_md33'', [5, 0, 2]),
    (js ''a00057.html#autotoc_md34'', [5, 1]),
    (js ''a00057.html#autotoc_md35'', [5, 2]),
    (js ''a00057.html#autotoc_md36'', [5, 2, 0]),
    (js ''a00057.html#autotoc_md37'', [5, 2, 1]),
    (js ''a00057.html#autotoc_md38'', [5, 2, 2]),
    (js ''a00058.html'', [6]),
    (js ''a00058.html#autotoc_md40'', [6, 0]),
    (js ''a00058.html#autotoc_md41'', [6, 0, 0]),
    (js ''a00058.html#autotoc_md42'', [6, 0, 1]),
    (js ''a00058.html#autotoc_md43'', [6, 0, 2]),
    (js ''a00058.html#autotoc_md44'', [6, 1]),
    (js ''a00058.html#autotoc_md45'', [6, 1, 0]),
    (js ''a00058.html#autotoc_md46'', [6, 1, 1]),
    (js ''a00058.html#autotoc_md47'', [6, 1, 2]),
    (js ''a00058.html#autotoc_md48'', [6, 1, 3]),
    (js ''a00058.html#autotoc_md49'', [6, 1, 4]),
    (js ''a00058.html#autotoc_md50'', [6, 1, 4, 0]),
    (js ''a00058.html#autotoc_md51'', [6, 1, 4, 1]),
    (js ''a00058.html#autotoc_md52'', [6, 2]),
    (js ''a00058.html#autotoc_md53'', [6, 2, 0]),
    (js ''a00058.html#autotoc_md54'', [6, 2, 0, 0]),
    (js ''a00058.html#autotoc_md55'', [6, 2, 0, 1]),
    (js ''a00058.html#autotoc_md56'', [6, 2, 0, 2]),
    (js ''a00058.html#autotoc_md57'', [6, 2, 1]),
    (js ''a00058.html#autotoc_md58'', [6, 2, 2]),
    (js ''a00058.html#autotoc_md59'', [6, 2, 2, 0]),
    (js ''a00058.html#autotoc_md60'', [6, 2, 2, 1]),
    (js ''a00058.html#autotoc_md61'', [6, 2, 3]),
    (js ''a00058.html#autotoc_md62'', [6, 2, 3, 0]),
    (js ''a00058.html#autotoc_md63'', [6, 2, 3, 1]),
    (js ''a00058.html#autotoc_md64'', [6, 2, 3, 2]),
    (js ''a00058.html#autotoc_md65'', [6, 2, 3, 3]),
    (js ''a00058.html#autotoc_md66'', [6, 2, 3, 4]),
    (js ''a00058.html#autotoc_md67'', [6, 2, 3, 5]),
    (js ''a00058.html#autotoc_md68'', [6, 3]),
    (js ''a00058.html#autotoc_md69'', [6, 3, 0]),
    (js ''a00058.html#autotoc_md70'', [6, 3, 1]),
    (js ''a00058.html#autotoc_md71'', [6, 4]),
    (js ''a00058.html#autotoc_md72'', [6, 4, 0]),
    (js ''a00058.html#autotoc_md73'', [6, 4, 1]),
    (js ''a00058.html#autotoc_md74'', [6, 4, 1, 0]),
    (js ''a00058.html#autotoc_md75'', [6, 4, 1, 1]),
    (js ''a00058.html#autotoc_md76'', [6, 4, 1, 2]),
    (js ''a00058.html#autotoc_md77'', [6, 4, 2]),
    (js ''a00059.html'', [7]),
    (js ''a00059.html#autotoc_md79'', [7, 0]),
    (js ''a00059.html#autotoc_md80'', [7, 0, 0]),
    (js ''a00059.html#autotoc_md81'', [7, 0, 1]),
    (js ''a00059.html#autotoc_md82'', [7, 0, 2]),
    (js ''a00059.html#autotoc_md83'', [7, 1]),
    (js ''a00059.html#autotoc_md84'', [7, 1, 0]),
    (js ''a00059.html#autotoc_md85'', [7, 1, 1]),
    (js ''a00059.html#autotoc_md86'', [7, 2]),
    (js ''a00059.html#autotoc_md87'', [7, 2, 0]),
    (js ''a00059.html#autotoc_md88'', [7, 2, 1]),
    (js ''a00059.html#autotoc_md89'', [7, 2, 2]),
    (js ''a00059.html#autotoc_md90'', [7, 2, 2, 0]),
    (js ''a00059.html#autotoc_md91'', [7, 2, 2, 1]),
    (js ''a00059.html#autotoc_md92'', [7, 3]),
    (js ''a00059.html#autotoc_md93'', [7, 3, 0]),
    (js ''a00060.html'', [8]),
    (js ''a00060.html#autotoc_md100'', [8, 0, 2]),
    (js ''a00060.html#autotoc_md101'', [8, 1]),
    (js ''a00060.html#autotoc_md102'', [8, 1, 0]),
    (js ''a00060.html#autotoc_md103'', [8, 1, 1]),
    (js ''a00060.html#autotoc_md104'', [8, 1, 2]),
    (js ''a00060.html#autotoc_md105'', [8, 2]),
    (js ''a00060.html#autotoc_md106'', [8, 2, 0]),
    (js ''a00060.html#autotoc_md107'', [8, 2, 1]),
    (js ''a00060.html#autotoc_md95'', [8, 0]),
    (js ''a00060.html#autotoc_md96'', [8, 0, 0]),
    (js ''a00060.html#autotoc_md97'', [8, 0, 0, 0]),
    (js ''a00060.html#autotoc_md98'', [8, 0, 0, 1]),
    (js ''a00060.html#autotoc_md99'', [8, 0, 1]),
    (js ''index.html'', [0]),
    (js ''index.html#autotoc_md1'', [0, 0]),
    (js ''index.html#autotoc_md10'', [0, 3]),
    (js ''index.html#autotoc_md2'', [0, 0, 0]),
    (js ''index.html#autotoc_md3'', [0, 1]),
    (js ''index.html#autotoc_md4'', [0, 1, 0]),
    (js ''index.html#autotoc_md5'', [0, 1, 1]),
    (js ''index.html#autotoc_md6'', [0, 1, 2]),
    (js ''index.html#autotoc_md7'', [0, 2]),
    (js ''index.html#autotoc_md8'', [0, 2, 0]),
    (js ''index.html#autotoc_md9'', [0, 2, 1]),
    (js ''pages.html'', [])]"

definition readme_SYNCONMSG :: jstr where
  "readme_SYNCONMSG = js ''click to disable panel synchronisation''"

definition readme_SYNCOFFMSG :: jstr where
  "readme_SYNCOFFMSG = js ''click to enable panel synchronisation''"

definition readme_nav :: "nav_site \<Rightarrow> nav_site" where
  \<comment> \<open>the site's data on a given browser\<close>
  "readme_nav B = B\<lparr>NAVTREE := readme_NAVTREE, NAVTREEINDEX := readme_NAVTREEINDEX,
     navVar := Map.empty, navIndexVar := [0 \<mapsto> map_of readme_NAVTREEINDEX0],
     SYNCONMSG := readme_SYNCONMSG, SYNCOFFMSG := readme_SYNCOFFMSG\<rparr>"

section \<open>The index and the tree\<close>

text \<open>The entry below an entry; an entry with a page is one whose data is there.\<close>

fun entry_at :: "nav_item \<Rightarrow> nat list \<Rightarrow> nav_item option" where
  "entry_at item [] = Some item"
| "entry_at item (b # bs) = (case snd (snd item) of
     NavItems sub \<Rightarrow> if b < length sub then entry_at (sub ! b) bs else None | _ \<Rightarrow> None)"

lemma nav_at_entry: "nav_at items (b # bs) = (if b < length items then entry_at (items ! b) bs else None)"
proof (induction bs arbitrary: items b)
  case (Cons c bs)
  then show ?case by (simp split: nav_data.split)
qed simp

fun has_page :: "jstr \<Rightarrow> nav_item option \<Rightarrow> bool" where
  "has_page url (Some (_, l, d)) = (l = Some url \<and> (case d of VarName _ \<Rightarrow> False | _ \<Rightarrow> True))"
| "has_page url None = False"

text \<open>The way from the top to the pages, and below the three largest pages.\<close>

lemma readme_top:
  "nav_at readme_NAVTREE (0 # 0 # bs) = entry_at readme_page0 bs"
  "nav_at readme_NAVTREE (0 # Suc 0 # bs) = entry_at readme_page1 bs"
  "nav_at readme_NAVTREE (0 # 2 # bs) = entry_at readme_page2 bs"
  "nav_at readme_NAVTREE (0 # 3 # bs) = entry_at readme_page3 bs"
  "nav_at readme_NAVTREE (0 # 4 # bs) = entry_at readme_page4 bs"
  "nav_at readme_NAVTREE (0 # 5 # bs) = entry_at readme_page5 bs"
  "nav_at readme_NAVTREE (0 # 6 # bs) = entry_at readme_page6 bs"
  "nav_at readme_NAVTREE (0 # 7 # bs) = entry_at readme_page7 bs"
  "nav_at readme_NAVTREE (0 # 8 # bs) = entry_at readme_page8 bs"
  by (simp_all add: nav_at_entry readme_NAVTREE_def del: nav_at.simps)

lemma readme_below:
  "entry_at readme_page6 (0 # bs) = entry_at readme_page6_0 bs"
  "entry_at readme_page6 (Suc 0 # bs) = entry_at readme_page6_1 bs"
  "entry_at readme_page6 (2 # bs) = entry_at readme_page6_2 bs"
  "entry_at readme_page6 (3 # bs) = entry_at readme_page6_3 bs"
  "entry_at readme_page6 (4 # bs) = entry_at readme_page6_4 bs"
  "entry_at readme_page7 (0 # bs) = entry_at readme_page7_0 bs"
  "entry_at readme_page7 (Suc 0 # bs) = entry_at readme_page7_1 bs"
  "entry_at readme_page7 (2 # bs) = entry_at readme_page7_2 bs"
  "entry_at readme_page7 (3 # bs) = entry_at readme_page7_3 bs"
  "entry_at readme_page8 (0 # bs) = entry_at readme_page8_0 bs"
  "entry_at readme_page8 (Suc 0 # bs) = entry_at readme_page8_1 bs"
  "entry_at readme_page8 (2 # bs) = entry_at readme_page8_2 bs"
  by (simp_all add: readme_page6_def readme_page7_def readme_page8_def)

lemmas readme_pages =
  readme_page0_def readme_page1_def readme_page2_def readme_page3_def readme_page4_def
  readme_page5_def readme_page6_0_def readme_page6_1_def readme_page6_2_def readme_page6_3_def
  readme_page6_4_def readme_page6_def readme_page7_0_def readme_page7_1_def readme_page7_2_def
  readme_page7_3_def readme_page7_def readme_page8_0_def readme_page8_1_def readme_page8_2_def
  readme_page8_def

lemma readme_clean: "clean_data (NavItems readme_NAVTREE)"
  by (simp add: readme_NAVTREE_def readme_pages cong: frozen_js)

lemma readme_paths:
  "list_all (\<lambda>(url, bs). bs = [] \<or> has_page url (nav_at readme_NAVTREE (0 # bs))) readme_NAVTREEINDEX0"
  unfolding readme_NAVTREEINDEX0_def
  apply (simp add: readme_top readme_below del: nav_at.simps entry_at.simps cong: frozen_js)
  apply (simp add: readme_pages cong: frozen_js)
  done

lemma readme_chain: "chain readme_NAVTREEINDEX0 (js ''q'')"
  unfolding readme_NAVTREEINDEX0_def
  by (simp add: chain_rules del: chain.simps(2,3) lit_before.simps(3) cong: chain_frozen)

definition readme_index :: "nat \<Rightarrow> (jstr \<times> nat list) list" where
  "readme_index i = (if i = 0 then readme_NAVTREEINDEX0 else [])"

interpretation readme_site: indexed_site "readme_nav B" readme_index
proof unfold_locales
  have first: "fst (hd readme_NAVTREEINDEX0) = js ''a00053.html''" by (simp add: readme_NAVTREEINDEX0_def)
  fix i
  show "navIndexVar (readme_nav B) i = Some (map_of (readme_index i))" if "readme_index i \<noteq> []"
    using that by (simp add: readme_nav_def readme_index_def split: if_splits)
  show "i < length (NAVTREEINDEX (readme_nav B)) \<and> NAVTREEINDEX (readme_nav B) ! i = fst (hd (readme_index i))"
    if "readme_index i \<noteq> []"
    using that first by (simp add: readme_nav_def readme_index_def readme_NAVTREEINDEX_def split: if_splits)
  show "\<exists>w. chain (readme_index i) w \<and>
      (Suc i < length (NAVTREEINDEX (readme_nav B)) \<longrightarrow> w = NAVTREEINDEX (readme_nav B) ! Suc i)"
    using readme_chain by (auto simp: readme_nav_def readme_index_def readme_NAVTREEINDEX_def)
qed (simp add: readme_nav_def readme_NAVTREEINDEX_def)



end
