(* ===== verification/Site_Spec.thy ===== *)
theory Site_Spec
  imports Nav_Props
begin

text \<open>
  The index files of the specification site (\<open>ta-ref_spec_html/navtreeindex0.js\<close>,
  \<open>navtreeindex1.js\<close>, \<open>navtreeindex2.js\<close>), and an address that leads away from its page.
\<close>

section \<open>The tables\<close>

definition spec_NAVTREEINDEX :: "jstr list" where
  "spec_NAVTREEINDEX = [js ''a00029.html'',
     js ''a00092.html#aadb9bac764034588d3f2279f1453f8c0'',
     js ''a00294.html#a12e0a5703767c19b688f1056ce87518f'']"

definition spec_NAVTREEINDEX0a :: "(jstr \<times> nat list) list" where
  "spec_NAVTREEINDEX0a = [
    (js ''a00029.html'', [1, 0, 0, 0, 1, 4]),
    (js ''a00029_source.html'', [1, 0, 0, 0, 1, 4]),
    (js ''a00050.html'', [1, 0, 0, 0, 1, 9]),
    (js ''a00050.html#a2e057c67c5ec43b8052ad89809929e61'', [1, 0, 0, 0, 1, 9, 4]),
    (js ''a00050.html#a3e9d47511b2b76ec947655708cca039f'', [1, 0, 0, 0, 1, 9, 3]),
    (js ''a00050.html#a8358037528cb0d29d57f1da4fdb12d23'', [1, 0, 0, 0, 1, 9, 0]),
    (js ''a00050.html#a8ff39851efe335623922e6f800f3113b'', [1, 0, 0, 0, 1, 9, 2]),
    (js ''a00050.html#ab0f689a7da4d607e46fe9f8d7dba277c'', [1, 0, 0, 0, 1, 9, 7]),
    (js ''a00050.html#abbd4e86c7d7a2830b66dd1c455e57708'', [1, 0, 0, 0, 1, 9, 1]),
    (js ''a00050.html#ae95c1a0a68654f50a280d94581859d76'', [1, 0, 0, 0, 1, 9, 5]),
    (js ''a00050.html#af2ef3c0fbde59e7249cf8eb43a36abce'', [1, 0, 0, 0, 1, 9, 6]),
    (js ''a00056.html'', [1, 0, 0, 0, 1, 6]),
    (js ''a00056.html#a93b9cf91f7623d6d8b100a3693d6d5e4'', [1, 0, 0, 0, 1, 6, 0]),
    (js ''a00071.html'', [1, 0, 0, 0, 4]),
    (js ''a00071.html#a071525e4f644911d7d4468f7a8f193cd'', [1, 0, 0, 0, 4, 11]),
    (js ''a00071.html#a18cecb2f284d0cf5e657a070137cd581'', [1, 0, 0, 0, 4, 18]),
    (js ''a00071.html#a24d0a83df10ad59bd3e4c98aa70c7a0a'', [1, 0, 0, 0, 4, 19]),
    (js ''a00071.html#a28a4fd049acb6bf502be5a6195baf86f'', [1, 0, 0, 0, 4, 21]),
    (js ''a00071.html#a3249061a4b04d968af1fe24ebdcafa94'', [1, 0, 0, 0, 4, 0]),
    (js ''a00071.html#a5accdbcb639e2cd1a55f21fe5544a686'', [1, 0, 0, 0, 4, 7]),
    (js ''a00071.html#a6e9ece9dbe0483464277902be82486ef'', [1, 0, 0, 0, 4, 13]),
    (js ''a00071.html#a7898745b154d57c77fbb3413eecabed3'', [1, 0, 0, 0, 4, 4]),
    (js ''a00071.html#a825dca146722195fe490bd12bbe8a27f'', [1, 0, 0, 0, 4, 15]),
    (js ''a00071.html#a843b65f4564569843860b4bce5a144b9'', [1, 0, 0, 0, 4, 12]),
    (js ''a00071.html#a87e501d7abee6d50b5c2c68fde57a1b2'', [1, 0, 0, 0, 4, 6]),
    (js ''a00071.html#a92d483e9bef62ca0755c188f12d95746'', [1, 0, 0, 0, 4, 5]),
    (js ''a00071.html#a994af593ff8186af8b6c2ed8edd8c389'', [1, 0, 0, 0, 4, 10]),
    (js ''a00071.html#aadd6434bca67535e4832209e5a449ffa'', [1, 0, 0, 0, 4, 8]),
    (js ''a00071.html#ad2065447661a6ccaaba9957bf0c392b0'', [1, 0, 0, 0, 4, 16]),
    (js ''a00071.html#ad4c7d46eaa62f8f8d206a1c075c94882'', [1, 0, 0, 0, 4, 2]),
    (js ''a00071.html#ae03ad904c4536ad2d194eb54a092e384'', [1, 0, 0, 0, 4, 9]),
    (js ''a00071.html#ae89193ba8d16c41b615dda216f13384c'', [1, 0, 0, 0, 4, 20]),
    (js ''a00071.html#ae9b3bb3c35419a914b4c6bc5cda781ab'', [1, 0, 0, 0, 4, 1]),
    (js ''a00071.html#af5f3a12e4fbaa2ae82d4dadf122ad4cd'', [1, 0, 0, 0, 4, 14]),
    (js ''a00071.html#afa7320f99bc9f7d2f9a0af79450e7a9b'', [1, 0, 0, 0, 4, 3]),
    (js ''a00071.html#afe152a85c5f39fd64655526b174d579f'', [1, 0, 0, 0, 4, 17]),
    (js ''a00074.html'', [1, 0, 0, 0, 0, 2]),
    (js ''a00074_source.html'', [1, 0, 0, 0, 0, 2]),
    (js ''a00077.html'', [1, 0, 0, 0, 0, 0]),
    (js ''a00077_source.html'', [1, 0, 0, 0, 0, 0]),
    (js ''a00080.html'', [1, 0, 0, 0, 0, 8]),
    (js ''a00080.html#a003ccda0ce6a2d7889b2933a201e2bd1'', [1, 0, 0, 0, 0, 8, 18]),
    (js ''a00080.html#a04635613d9083443cbbbc5877eb72741'', [1, 0, 0, 0, 0, 8, 24]),
    (js ''a00080.html#a062d270abecd4e983bf02ed30febb4f0'', [1, 0, 0, 0, 0, 8, 11]),
    (js ''a00080.html#a0b888a3053880d3fb5c9ba7fdffcd68e'', [1, 0, 0, 0, 0, 8, 26]),
    (js ''a00080.html#a0f5a82f41c1aeb996d5d0b3169047f06'', [1, 0, 0, 0, 0, 8, 17]),
    (js ''a00080.html#a1a5d27fdaf557d27b33bbe38aa5129fd'', [1, 0, 0, 0, 0, 8, 23]),
    (js ''a00080.html#a1c088b4398b0d8b6df9c871deaa81ab8'', [1, 0, 0, 0, 0, 8, 28]),
    (js ''a00080.html#a1c088b4398b0d8b6df9c871deaa81ab8a283bec96896cd01f08089e9217ab0071'', [1, 0, 0, 0, 0, 8, 28, 0]),
    (js ''a00080.html#a1c088b4398b0d8b6df9c871deaa81ab8a3a546e4bb166976552cf4173a9780fe7'', [1, 0, 0, 0, 0, 8, 28, 2]),
    (js ''a00080.html#a1c088b4398b0d8b6df9c871deaa81ab8a58d66a0d10ad95ec3b1e2bd8ec76c71c'', [1, 0, 0, 0, 0, 8, 28, 1]),
    (js ''a00080.html#a1e12baaa5300148f63b001b1fd4f50dd'', [1, 0, 0, 0, 0, 8, 25]),
    (js ''a00080.html#a310c41a3ea70bacf3fc0fb67ca94405e'', [1, 0, 0, 0, 0, 8, 12]),
    (js ''a00080.html#a34e9460c6f4baa569ee42e9ff18179ee'', [1, 0, 0, 0, 0, 8, 22]),
    (js ''a00080.html#a40cf2de4383adf822f198c07ab8d5f3a'', [1, 0, 0, 0, 0, 8, 13]),
    (js ''a00080.html#a48342fd010d3c8ad882d5dfd05cecffa'', [1, 0, 0, 0, 0, 8, 21]),
    (js ''a00080.html#a6b7a829a612f7bfb5714a6a550bac592'', [1, 0, 0, 0, 0, 8, 27]),
    (js ''a00080.html#a6b7a829a612f7bfb5714a6a550bac592a14fd1dd01b612be722995b8753a9ced3'', [1, 0, 0, 0, 0, 8, 27, 5]),
    (js ''a00080.html#a6b7a829a612f7bfb5714a6a550bac592a2f3dbf0c7c0373015cf75946564c26f4'', [1, 0, 0, 0, 0, 8, 27, 4]),
    (js ''a00080.html#a6b7a829a612f7bfb5714a6a550bac592a7f379c000fe1ffe48160acae8cdab73a'', [1, 0, 0, 0, 0, 8, 27, 6]),
    (js ''a00080.html#a6b7a829a612f7bfb5714a6a550bac592a96f810c660ff068a087065c6769c0655'', [1, 0, 0, 0, 0, 8, 27, 2]),
    (js ''a00080.html#a6b7a829a612f7bfb5714a6a550bac592aa20104f46a28d0fe8596fec000b93fb0'', [1, 0, 0, 0, 0, 8, 27, 1]),
    (js ''a00080.html#a6b7a829a612f7bfb5714a6a550bac592ae986e0ac521db4f424b1c1fae66778c9'', [1, 0, 0, 0, 0, 8, 27, 0]),
    (js ''a00080.html#a6b7a829a612f7bfb5714a6a550bac592af254d3515d5c4075989a785a568612e3'', [1, 0, 0, 0, 0, 8, 27, 3]),
    (js ''a00080.html#a773a0ae16cd350bb65e0acd3c2e6a4d6'', [1, 0, 0, 0, 0, 8, 19]),
    (js ''a00080.html#a93a3db41b30eea0eefe104eea3e81c4d'', [1, 0, 0, 0, 0, 8, 15]),
    (js ''a00080.html#a9f9bb8e582acc2c79335158932f0b954'', [1, 0, 0, 0, 0, 8, 16]),
    (js ''a00080.html#aa1b64b7b46cd8040d03cb32c6504796a'', [1, 0, 0, 0, 0, 8, 20]),
    (js ''a00080.html#af1b39f1a856c03c4f17a5d77ff7a1f0f'', [1, 0, 0, 0, 0, 8, 14]),
    (js ''a00080_source.html'', [1, 0, 0, 0, 0, 8]),
    (js ''a00083.html'', [1, 0, 0, 0, 0, 5]),
    (js ''a00083.html#a001308a1a5198c1f3d6bbd3f43c68a1e'', [1, 0, 0, 0, 0, 5, 93]),
    (js ''a00083.html#a071525e4f644911d7d4468f7a8f193cd'', [1, 0, 0, 0, 0, 5, 49]),
    (js ''a00083.html#a0770243df596f28bbffdbe2a09dc1223'', [1, 0, 0, 0, 0, 5, 121]),
    (js ''a00083.html#a087393fc9dd24ac208f100c386dd02e0'', [1, 0, 0, 0, 0, 5, 96]),
    (js ''a00083.html#a0bf013e7bf7332d8c48dda266323800e'', [1, 0, 0, 0, 0, 5, 37]),
    (js ''a00083.html#a0cd97604693fc9a12baddc0d7039abc9'', [1, 0, 0, 0, 0, 5, 61]),
    (js ''a00083.html#a15e21ada58f629957e7d217a239db2c0'', [1, 0, 0, 0, 0, 5, 38]),
    (js ''a00083.html#a181b8f6aab855d7fc82c20bb88924ad2'', [1, 0, 0, 0, 0, 5, 43]),
    (js ''a00083.html#a181c0351e8794c86166e79e3a311da4a'', [1, 0, 0, 0, 0, 5, 33]),
    (js ''a00083.html#a18cecb2f284d0cf5e657a070137cd581'', [1, 0, 0, 0, 0, 5, 89]),
    (js ''a00083.html#a1c206c72da5222ee6453ab0d95f7dc19'', [1, 0, 0, 0, 0, 5, 40]),
    (js ''a00083.html#a1d4ba0211029b43fa330069cd9181e05'', [1, 0, 0, 0, 0, 5, 30]),
    (js ''a00083.html#a201b782eb0b7af3e5d67538672be1431'', [1, 0, 0, 0, 0, 5, 109]),
    (js ''a00083.html#a21c7a5c802b4176599556bf502e80183'', [1, 0, 0, 0, 0, 5, 24]),
    (js ''a00083.html#a21e0fb1f73395811783259cea4924ac3'', [1, 0, 0, 0, 0, 5, 34]),
    (js ''a00083.html#a2238f36691bb906b642a6ded67af28f4'', [1, 0, 0, 0, 0, 5, 112]),
    (js ''a00083.html#a23d701214a4c53bc0963622b2909724e'', [1, 0, 0, 0, 0, 5, 72]),
    (js ''a00083.html#a23ddd8d63265670f1d2d3308053cdfc1'', [1, 0, 0, 0, 0, 5, 39]),
    (js ''a00083.html#a24d0a83df10ad59bd3e4c98aa70c7a0a'', [1, 0, 0, 0, 0, 5, 116]),
    (js ''a00083.html#a25a6ed042b2e933aeae3c26727987811'', [1, 0, 0, 0, 0, 5, 103]),
    (js ''a00083.html#a277768e26e3f63bc630af53d094dda24'', [1, 0, 0, 0, 0, 5, 45]),
    (js ''a00083.html#a2a107b479fba64302465a1f67da531d0'', [1, 0, 0, 0, 0, 5, 44]),
    (js ''a00083.html#a2ce6c25dca4d916c6b1ca40ae3a431e3'', [1, 0, 0, 0, 0, 5, 86]),
    (js ''a00083.html#a2d36adb59a76af1f73090475e98aa4c9'', [1, 0, 0, 0, 0, 5, 108]),
    (js ''a00083.html#a2f8d4f043c7930b75deb1499270a813f'', [1, 0, 0, 0, 0, 5, 122]),
    (js ''a00083.html#a2fc70a7f4072b8fe6abd77721c5ccc1f'', [1, 0, 0, 0, 0, 5, 77]),
    (js ''a00083.html#a32323472448048b47c17d7aa0c644361'', [1, 0, 0, 0, 0, 5, 120]),
    (js ''a00083.html#a3249061a4b04d968af1fe24ebdcafa94'', [1, 0, 0, 0, 0, 5, 0]),
    (js ''a00083.html#a333824d79fa9e46b6969bfff7e3a1158'', [1, 0, 0, 0, 0, 5, 52]),
    (js ''a00083.html#a3414eec972e33b501c9fbee1e976f78c'', [1, 0, 0, 0, 0, 5, 23]),
    (js ''a00083.html#a349e457b1b5e9de722d43af1bae18c5f'', [1, 0, 0, 0, 0, 5, 58]),
    (js ''a00083.html#a39565a83c197a918d214798a4b5e551a'', [1, 0, 0, 0, 0, 5, 123]),
    (js ''a00083.html#a434ef50d7567a0112dd0b5471fabc5d2'', [1, 0, 0, 0, 0, 5, 35]),
    (js ''a00083.html#a44ce7881aa25b6d28bac1f8ecaf65793'', [1, 0, 0, 0, 0, 5, 71]),
    (js ''a00083.html#a4b9cdec35240a19d6f784f0159cea109'', [1, 0, 0, 0, 0, 5, 17]),
    (js ''a00083.html#a4c1bbb858954ee8e4fc595c478bcc4ac'', [1, 0, 0, 0, 0, 5, 97]),
    (js ''a00083.html#a4eca2209820659cc95756fc85e1a4837'', [1, 0, 0, 0, 0, 5, 56]),
    (js ''a00083.html#a55e5a34db840cfdf1f8f01b1f55451c8'', [1, 0, 0, 0, 0, 5, 54]),
    (js ''a00083.html#a5709bc399bf8daf153001544897469ce'', [1, 0, 0, 0, 0, 5, 10]),
    (js ''a00083.html#a57fcb978078e1f9cd86cb49dc93f0643'', [1, 0, 0, 0, 0, 5, 83]),
    (js ''a00083.html#a589e1930eccaae908db12412864fa728'', [1, 0, 0, 0, 0, 5, 26]),
    (js ''a00083.html#a5a67752d33bbe35cd1442c3fffa4ea25'', [1, 0, 0, 0, 0, 5, 124]),
    (js ''a00083.html#a5abc943bbe72008f816f7e78f3af9845'', [1, 0, 0, 0, 0, 5, 27]),
    (js ''a00083.html#a5accdbcb639e2cd1a55f21fe5544a686'', [1, 0, 0, 0, 0, 5, 11]),
    (js ''a00083.html#a5c4679789d99b8be60d3bb8996c91119'', [1, 0, 0, 0, 0, 5, 90]),
    (js ''a00083.html#a5e2e29c99dee20bf7728b583a49bea0c'', [1, 0, 0, 0, 0, 5, 99]),
    (js ''a00083.html#a5e2f9729390de1c4143489e4e92cf80c'', [1, 0, 0, 0, 0, 5, 81]),
    (js ''a00083.html#a66d8c7796cd56616e089a248ffce283f'', [1, 0, 0, 0, 0, 5, 118]),
    (js ''a00083.html#a6713318482a440babef0b480bd4dc5c6'', [1, 0, 0, 0, 0, 5, 100]),
    (js ''a00083.html#a67a4c65ab5e520ac34dec75a30b6b05f'', [1, 0, 0, 0, 0, 5, 51]),
    (js ''a00083.html#a6812750a279fe080b2b46f685156aabe'', [1, 0, 0, 0, 0, 5, 20]),
    (js ''a00083.html#a6b6b071e283439bea92d55b1d082ee70'', [1, 0, 0, 0, 0, 5, 15]),
    (js ''a00083.html#a6cca6b984c36ed19ce54ff133f99f7f1'', [1, 0, 0, 0, 0, 5, 113]),
    (js ''a00083.html#a6e9ece9dbe0483464277902be82486ef'', [1, 0, 0, 0, 0, 5, 60])]"

definition spec_NAVTREEINDEX0b :: "(jstr \<times> nat list) list" where
  "spec_NAVTREEINDEX0b = [
    (js ''a00083.html#a70d944aa12cea2bad255b9bdd30225eb'', [1, 0, 0, 0, 0, 5, 105]),
    (js ''a00083.html#a714fe46ada09b8de202ef8107de91f1c'', [1, 0, 0, 0, 0, 5, 21]),
    (js ''a00083.html#a74dfba6b2a11201f47ce7ca8915ee96a'', [1, 0, 0, 0, 0, 5, 64]),
    (js ''a00083.html#a758eb10a8544eafce2675416ead1d1ea'', [1, 0, 0, 0, 0, 5, 22]),
    (js ''a00083.html#a77190cd7b1199a6d9a7b3399e52a2608'', [1, 0, 0, 0, 0, 5, 68]),
    (js ''a00083.html#a7898745b154d57c77fbb3413eecabed3'', [1, 0, 0, 0, 0, 5, 4]),
    (js ''a00083.html#a7dd6370f087bf7051f15931dbf0fa25a'', [1, 0, 0, 0, 0, 5, 87]),
    (js ''a00083.html#a7f362a278388b46830511af110ec4517'', [1, 0, 0, 0, 0, 5, 110]),
    (js ''a00083.html#a8257d78b7bec1c90e9bd42b1a2857aa9'', [1, 0, 0, 0, 0, 5, 50]),
    (js ''a00083.html#a825dca146722195fe490bd12bbe8a27f'', [1, 0, 0, 0, 0, 5, 65]),
    (js ''a00083.html#a843b65f4564569843860b4bce5a144b9'', [1, 0, 0, 0, 0, 5, 59]),
    (js ''a00083.html#a84ed96bd63ffbf14179212410b15eab3'', [1, 0, 0, 0, 0, 5, 114]),
    (js ''a00083.html#a87e501d7abee6d50b5c2c68fde57a1b2'', [1, 0, 0, 0, 0, 5, 8]),
    (js ''a00083.html#a8d40b18030f274b984eb05424128418b'', [1, 0, 0, 0, 0, 5, 107]),
    (js ''a00083.html#a8ee5d399881165b9fe31c3f5bb0c72a1'', [1, 0, 0, 0, 0, 5, 42]),
    (js ''a00083.html#a92d483e9bef62ca0755c188f12d95746'', [1, 0, 0, 0, 0, 5, 5]),
    (js ''a00083.html#a93fbbf8c538edd677ff2e013e4b024c4'', [1, 0, 0, 0, 0, 5, 106]),
    (js ''a00083.html#a974908e3a136d6da3891367a0863fcbb'', [1, 0, 0, 0, 0, 5, 48]),
    (js ''a00083.html#a9b1f756b684839a6f06126ea0872d35a'', [1, 0, 0, 0, 0, 5, 29]),
    (js ''a00083.html#a9ba4528c754b003d1d5091e8fc6c2812'', [1, 0, 0, 0, 0, 5, 84]),
    (js ''a00083.html#aa30d1ee97956d8eab8be1b905620604e'', [1, 0, 0, 0, 0, 5, 63]),
    (js ''a00083.html#aa926e6fc7ebdd6eeccdcf689b77ad236'', [1, 0, 0, 0, 0, 5, 82]),
    (js ''a00083.html#aa982dd6c482aa1cdec532a13fe1ceda5'', [1, 0, 0, 0, 0, 5, 13]),
    (js ''a00083.html#aaa50b70b6eff2f1539a1e1b45b01daf6'', [1, 0, 0, 0, 0, 5, 69]),
    (js ''a00083.html#aaa89fe8cb6b6e1e7bdfbafe0bd817094'', [1, 0, 0, 0, 0, 5, 74]),
    (js ''a00083.html#aaca2790ab1df187f3535a55db1336c8f'', [1, 0, 0, 0, 0, 5, 94]),
    (js ''a00083.html#aadd6434bca67535e4832209e5a449ffa'', [1, 0, 0, 0, 0, 5, 12]),
    (js ''a00083.html#aae70ddc633ba20e9e523d23e69df69f0'', [1, 0, 0, 0, 0, 5, 67]),
    (js ''a00083.html#ab08e067dcd07c475a6f13110a5997503'', [1, 0, 0, 0, 0, 5, 16]),
    (js ''a00083.html#ab0c4a76983dc97122bf9c540458225d0'', [1, 0, 0, 0, 0, 5, 76]),
    (js ''a00083.html#ab2c8616f8e4a126ce8c91ae7c64b69a2'', [1, 0, 0, 0, 0, 5, 18]),
    (js ''a00083.html#ab974376ca95bb0c3e316ad789f33b3c6'', [1, 0, 0, 0, 0, 5, 111]),
    (js ''a00083.html#abb64d1041b0f996d909f10c1fafd0ccd'', [1, 0, 0, 0, 0, 5, 92]),
    (js ''a00083.html#abcc46184566df4b45b4a167fe54e5de3'', [1, 0, 0, 0, 0, 5, 95]),
    (js ''a00083.html#abd5c626b74396a70475b42b74ce0271c'', [1, 0, 0, 0, 0, 5, 79]),
    (js ''a00083.html#abe433c1557e4290ea7b7b4ee623321c0'', [1, 0, 0, 0, 0, 5, 73]),
    (js ''a00083.html#ac0465fb736d92a3fde3a04ea1529d1cc'', [1, 0, 0, 0, 0, 5, 104]),
    (js ''a00083.html#ac1377b23820680cb9b5017a08ee72b80'', [1, 0, 0, 0, 0, 5, 9]),
    (js ''a00083.html#ac1c7c9380a331e2a4bf3c69d5eb539ff'', [1, 0, 0, 0, 0, 5, 55]),
    (js ''a00083.html#ac254872f1baa5d86f335da7c43dcbef0'', [1, 0, 0, 0, 0, 5, 31]),
    (js ''a00083.html#ac2cfc934106a5bc629f0b354b08a30f5'', [1, 0, 0, 0, 0, 5, 85]),
    (js ''a00083.html#ac2e60d4f84c265ab3c275b562a20c2dc'', [1, 0, 0, 0, 0, 5, 6]),
    (js ''a00083.html#ac42274885ae227734bf66eafe866a4a0'', [1, 0, 0, 0, 0, 5, 78]),
    (js ''a00083.html#ac7e864db33a3f54b0889b99917cbc794'', [1, 0, 0, 0, 0, 5, 117]),
    (js ''a00083.html#ad0eff5697536a558a84e732c59634597'', [1, 0, 0, 0, 0, 5, 36]),
    (js ''a00083.html#ad2065447661a6ccaaba9957bf0c392b0'', [1, 0, 0, 0, 0, 5, 66]),
    (js ''a00083.html#ad299348685d99cb01cd82f87e788f71b'', [1, 0, 0, 0, 0, 5, 28]),
    (js ''a00083.html#ad38d03ed88e3b4cde1d1e54d9bbfd1fd'', [1, 0, 0, 0, 0, 5, 80]),
    (js ''a00083.html#ad4c7d46eaa62f8f8d206a1c075c94882'', [1, 0, 0, 0, 0, 5, 2]),
    (js ''a00083.html#adb6e7616c695e420616c44c76e2ba118'', [1, 0, 0, 0, 0, 5, 119]),
    (js ''a00083.html#adc0dc44aea3ce4994446bc107a54c0a4'', [1, 0, 0, 0, 0, 5, 70]),
    (js ''a00083.html#adf60218e9693cae6d3576c0f2f940473'', [1, 0, 0, 0, 0, 5, 19]),
    (js ''a00083.html#adf77c5c0d620b8c8c5d29e5d5768ebd3'', [1, 0, 0, 0, 0, 5, 25]),
    (js ''a00083.html#ae03ad904c4536ad2d194eb54a092e384'', [1, 0, 0, 0, 0, 5, 47]),
    (js ''a00083.html#ae08bd2a664e700fa3c5db0d172e38a1b'', [1, 0, 0, 0, 0, 5, 102]),
    (js ''a00083.html#ae3599ef72278f8e54e237bbb2f4d3c78'', [1, 0, 0, 0, 0, 5, 7]),
    (js ''a00083.html#ae810ba39222d8913978ddd9c5939f8a9'', [1, 0, 0, 0, 0, 5, 41]),
    (js ''a00083.html#ae9b3bb3c35419a914b4c6bc5cda781ab'', [1, 0, 0, 0, 0, 5, 1]),
    (js ''a00083.html#aea24dd104bb245719ec09f6df2acaf75'', [1, 0, 0, 0, 0, 5, 91]),
    (js ''a00083.html#aeb3c350f87318ea07d282af02767ef23'', [1, 0, 0, 0, 0, 5, 115]),
    (js ''a00083.html#aed82ff6f713f23948020900109aad5f6'', [1, 0, 0, 0, 0, 5, 75]),
    (js ''a00083.html#aee5c5b6cfe2cc9ee4a8f84f7d690ccbc'', [1, 0, 0, 0, 0, 5, 101]),
    (js ''a00083.html#aefe870eef19172c6e25f3507c3a93875'', [1, 0, 0, 0, 0, 5, 32]),
    (js ''a00083.html#af5f3a12e4fbaa2ae82d4dadf122ad4cd'', [1, 0, 0, 0, 0, 5, 62]),
    (js ''a00083.html#af73ce780a255e5232dc7196acafebf11'', [1, 0, 0, 0, 0, 5, 57]),
    (js ''a00083.html#af7ada151b876daff93593868bc57eab9'', [1, 0, 0, 0, 0, 5, 46]),
    (js ''a00083.html#af8e1c1fb75f05ddd9b94b82e47e663b7'', [1, 0, 0, 0, 0, 5, 98]),
    (js ''a00083.html#af972189100f5cdd3de5e0f0a419fca98'', [1, 0, 0, 0, 0, 5, 14]),
    (js ''a00083.html#af9d51bf94690a65f43005937ed65635b'', [1, 0, 0, 0, 0, 5, 53]),
    (js ''a00083.html#afa7320f99bc9f7d2f9a0af79450e7a9b'', [1, 0, 0, 0, 0, 5, 3]),
    (js ''a00083.html#afe152a85c5f39fd64655526b174d579f'', [1, 0, 0, 0, 0, 5, 88]),
    (js ''a00083_source.html'', [1, 0, 0, 0, 0, 5]),
    (js ''a00086.html'', [1, 0, 0, 0, 0, 4]),
    (js ''a00086.html#a071525e4f644911d7d4468f7a8f193cd'', [1, 0, 0, 0, 0, 4, 13]),
    (js ''a00086.html#a12e0a5703767c19b688f1056ce87518f'', [1, 0, 0, 0, 0, 4, 1]),
    (js ''a00086.html#a18cecb2f284d0cf5e657a070137cd581'', [1, 0, 0, 0, 0, 4, 26]),
    (js ''a00086.html#a24d0a83df10ad59bd3e4c98aa70c7a0a'', [1, 0, 0, 0, 0, 4, 29]),
    (js ''a00086.html#a2ce6c25dca4d916c6b1ca40ae3a431e3'', [1, 0, 0, 0, 0, 4, 24]),
    (js ''a00086.html#a3249061a4b04d968af1fe24ebdcafa94'', [1, 0, 0, 0, 0, 4, 3]),
    (js ''a00086.html#a333824d79fa9e46b6969bfff7e3a1158'', [1, 0, 0, 0, 0, 4, 14]),
    (js ''a00086.html#a365ac1202478160e1ced5899f65b15c6'', [1, 0, 0, 0, 0, 4, 2]),
    (js ''a00086.html#a5a67752d33bbe35cd1442c3fffa4ea25'', [1, 0, 0, 0, 0, 4, 30]),
    (js ''a00086.html#a5accdbcb639e2cd1a55f21fe5544a686'', [1, 0, 0, 0, 0, 4, 10]),
    (js ''a00086.html#a6e9ece9dbe0483464277902be82486ef'', [1, 0, 0, 0, 0, 4, 17]),
    (js ''a00086.html#a70d944aa12cea2bad255b9bdd30225eb'', [1, 0, 0, 0, 0, 4, 28]),
    (js ''a00086.html#a7898745b154d57c77fbb3413eecabed3'', [1, 0, 0, 0, 0, 4, 7]),
    (js ''a00086.html#a825dca146722195fe490bd12bbe8a27f'', [1, 0, 0, 0, 0, 4, 19]),
    (js ''a00086.html#a843b65f4564569843860b4bce5a144b9'', [1, 0, 0, 0, 0, 4, 16]),
    (js ''a00086.html#a87e501d7abee6d50b5c2c68fde57a1b2'', [1, 0, 0, 0, 0, 4, 9]),
    (js ''a00086.html#a92d483e9bef62ca0755c188f12d95746'', [1, 0, 0, 0, 0, 4, 8]),
    (js ''a00086.html#a994af593ff8186af8b6c2ed8edd8c389'', [1, 0, 0, 0, 0, 4, 12]),
    (js ''a00086.html#aaa89fe8cb6b6e1e7bdfbafe0bd817094'', [1, 0, 0, 0, 0, 4, 22]),
    (js ''a00086.html#aadd6434bca67535e4832209e5a449ffa'', [1, 0, 0, 0, 0, 4, 11]),
    (js ''a00086.html#aae70ddc633ba20e9e523d23e69df69f0'', [1, 0, 0, 0, 0, 4, 21]),
    (js ''a00086.html#abe4e96ad3ef09baf69af6684ff52dce5'', [1, 0, 0, 0, 0, 4, 0]),
    (js ''a00086.html#ac2cfc934106a5bc629f0b354b08a30f5'', [1, 0, 0, 0, 0, 4, 23]),
    (js ''a00086.html#ad2065447661a6ccaaba9957bf0c392b0'', [1, 0, 0, 0, 0, 4, 20]),
    (js ''a00086.html#ad4c7d46eaa62f8f8d206a1c075c94882'', [1, 0, 0, 0, 0, 4, 5]),
    (js ''a00086.html#ae9b3bb3c35419a914b4c6bc5cda781ab'', [1, 0, 0, 0, 0, 4, 4]),
    (js ''a00086.html#aee5c5b6cfe2cc9ee4a8f84f7d690ccbc'', [1, 0, 0, 0, 0, 4, 27]),
    (js ''a00086.html#af5f3a12e4fbaa2ae82d4dadf122ad4cd'', [1, 0, 0, 0, 0, 4, 18]),
    (js ''a00086.html#af73ce780a255e5232dc7196acafebf11'', [1, 0, 0, 0, 0, 4, 15]),
    (js ''a00086.html#afa7320f99bc9f7d2f9a0af79450e7a9b'', [1, 0, 0, 0, 0, 4, 6]),
    (js ''a00086.html#afe152a85c5f39fd64655526b174d579f'', [1, 0, 0, 0, 0, 4, 25]),
    (js ''a00086_source.html'', [1, 0, 0, 0, 0, 4]),
    (js ''a00089.html'', [1, 0, 0, 0, 0, 9]),
    (js ''a00089.html#a2e057c67c5ec43b8052ad89809929e61'', [1, 0, 0, 0, 0, 9, 15]),
    (js ''a00089.html#a33d421ce57c64600db759fe55bd0541e'', [1, 0, 0, 0, 0, 9, 14]),
    (js ''a00089.html#a3e9d47511b2b76ec947655708cca039f'', [1, 0, 0, 0, 0, 9, 13]),
    (js ''a00089.html#a8358037528cb0d29d57f1da4fdb12d23'', [1, 0, 0, 0, 0, 9, 10]),
    (js ''a00089.html#a8ff39851efe335623922e6f800f3113b'', [1, 0, 0, 0, 0, 9, 12]),
    (js ''a00089.html#a95ece7e03b3154198e554f847b4b0211'', [1, 0, 0, 0, 0, 9, 9]),
    (js ''a00089.html#ab0f689a7da4d607e46fe9f8d7dba277c'', [1, 0, 0, 0, 0, 9, 18]),
    (js ''a00089.html#abbd4e86c7d7a2830b66dd1c455e57708'', [1, 0, 0, 0, 0, 9, 11]),
    (js ''a00089.html#ae95c1a0a68654f50a280d94581859d76'', [1, 0, 0, 0, 0, 9, 16]),
    (js ''a00089.html#af2ef3c0fbde59e7249cf8eb43a36abce'', [1, 0, 0, 0, 0, 9, 17]),
    (js ''a00089_source.html'', [1, 0, 0, 0, 0, 9]),
    (js ''a00092.html'', [1, 0, 0, 0, 0, 14]),
    (js ''a00092.html#a35b9c5a80a47eb5089240614f75d35ca'', [1, 0, 0, 0, 0, 14, 5]),
    (js ''a00092.html#a4fc6b18371df36a1ece74f1b0465a1ed'', [1, 0, 0, 0, 0, 14, 3]),
    (js ''a00092.html#a5a9bb49b93f61cb0227d351713cfe8ea'', [1, 0, 0, 0, 0, 14, 7]),
    (js ''a00092.html#a5af2a639fea54768ed5428cb4f8bbb8c'', [1, 0, 0, 0, 0, 14, 6]),
    (js ''a00092.html#a6ae309735ee1fed9decc4e537dcc240d'', [1, 0, 0, 0, 0, 14, 0]),
    (js ''a00092.html#a8675158a59c5041a3bd82a3e916d8e17'', [1, 0, 0, 0, 0, 14, 1]),
    (js ''a00092.html#a94cceab502088c7e86af3599dd7de87b'', [1, 0, 0, 0, 0, 14, 4])]"

definition spec_NAVTREEINDEX0 :: "(jstr \<times> nat list) list" where
  "spec_NAVTREEINDEX0 = spec_NAVTREEINDEX0a @ spec_NAVTREEINDEX0b"

definition spec_NAVTREEINDEX1a :: "(jstr \<times> nat list) list" where
  "spec_NAVTREEINDEX1a = [
    (js ''a00092.html#aadb9bac764034588d3f2279f1453f8c0'', [1, 0, 0, 0, 0, 14, 2]),
    (js ''a00092_source.html'', [1, 0, 0, 0, 0, 14]),
    (js ''a00095.html'', [1, 0, 0, 0, 0, 3]),
    (js ''a00095_source.html'', [1, 0, 0, 0, 0, 3]),
    (js ''a00098.html'', [1, 0, 0, 0, 0, 6]),
    (js ''a00098_source.html'', [1, 0, 0, 0, 0, 6]),
    (js ''a00101.html'', [1, 0, 0, 0, 0, 11]),
    (js ''a00101.html#a24ca7e88f5a30fec143f97a1327359ef'', [1, 0, 0, 0, 0, 11, 1]),
    (js ''a00101.html#a27d93f6be16b56ff551b713827fa631b'', [1, 0, 0, 0, 0, 11, 5]),
    (js ''a00101.html#a47b84a3c3095eda1a3fddf9e7837bb20'', [1, 0, 0, 0, 0, 11, 4]),
    (js ''a00101.html#a90aa98d624809145c52042b6d74a70e6'', [1, 0, 0, 0, 0, 11, 2]),
    (js ''a00101.html#ac20b2f63bf136471c73bdf079a0b9d99'', [1, 0, 0, 0, 0, 11, 3]),
    (js ''a00101.html#ac923f71f15df56d5828fd94055091c5b'', [1, 0, 0, 0, 0, 11, 7]),
    (js ''a00101.html#ad3d0c07600b6ef481bb33eb79a4303ff'', [1, 0, 0, 0, 0, 11, 0]),
    (js ''a00101.html#afa03f3b310aa10326ee979379b6705c8'', [1, 0, 0, 0, 0, 11, 6]),
    (js ''a00101_source.html'', [1, 0, 0, 0, 0, 11]),
    (js ''a00104.html'', [1, 0, 0, 0, 0, 1]),
    (js ''a00104.html#a119db5620d3a2523cdb35399dd218dfc'', [1, 0, 0, 0, 0, 1, 1]),
    (js ''a00104.html#a9424e624a5e3583781568f5bb092d2fa'', [1, 0, 0, 0, 0, 1, 0]),
    (js ''a00104_source.html'', [1, 0, 0, 0, 0, 1]),
    (js ''a00107.html'', [1, 0, 0, 0, 0, 15]),
    (js ''a00107_source.html'', [1, 0, 0, 0, 0, 15]),
    (js ''a00110.html'', [1, 0, 0, 0, 0, 10]),
    (js ''a00110_source.html'', [1, 0, 0, 0, 0, 10]),
    (js ''a00113.html'', [1, 0, 0, 0, 0, 12]),
    (js ''a00113.html#a69014edd979110e3907a47bbf251489b'', [1, 0, 0, 0, 0, 12, 4]),
    (js ''a00113.html#a7e2a0d6b80182c6589b4a53f0530b549'', [1, 0, 0, 0, 0, 12, 0]),
    (js ''a00113.html#a9489e4c117de7d55518be7f9983df478'', [1, 0, 0, 0, 0, 12, 1]),
    (js ''a00113.html#aa5862d7225f9472804aae4d55e87a6ab'', [1, 0, 0, 0, 0, 12, 2]),
    (js ''a00113.html#acc562b6733782c0965a37f697ebb20fc'', [1, 0, 0, 0, 0, 12, 3]),
    (js ''a00113_source.html'', [1, 0, 0, 0, 0, 12]),
    (js ''a00116.html'', [1, 0, 0, 0, 0, 16]),
    (js ''a00116.html#a0439b587ccbbf840ae554d112543c38b'', [1, 0, 0, 0, 0, 16, 3]),
    (js ''a00116.html#a61e189da16d0f6e25a99b95578e47bd2'', [1, 0, 0, 0, 0, 16, 1]),
    (js ''a00116.html#a834fd6ca9d6a5d58fb5d5651a17c7e24'', [1, 0, 0, 0, 0, 16, 2]),
    (js ''a00116_source.html'', [1, 0, 0, 0, 0, 16]),
    (js ''a00119.html'', [1, 0, 0, 0, 0, 7]),
    (js ''a00119_source.html'', [1, 0, 0, 0, 0, 7]),
    (js ''a00122.html'', [1, 0, 0, 0, 0, 13]),
    (js ''a00122.html#a1b5789e1ce77c1a87c7e76b7791b455f'', [1, 0, 0, 0, 0, 13, 1]),
    (js ''a00122.html#a414ca01e5a7ab1682647f105452f108d'', [1, 0, 0, 0, 0, 13, 2]),
    (js ''a00122.html#aac4c6e63829bd59132735f04822ab316'', [1, 0, 0, 0, 0, 13, 0]),
    (js ''a00122.html#ad20f1506f9c3fb7261f560dcb9a9360f'', [1, 0, 0, 0, 0, 13, 3]),
    (js ''a00122_source.html'', [1, 0, 0, 0, 0, 13]),
    (js ''a00128.html'', [0, 0, 3]),
    (js ''a00128.html#a4c27dccaed93db331b221e2214259842'', [0, 0, 3, 2]),
    (js ''a00128.html#a54ed2bc56245d4c8137ec0dc7fdde4b5'', [0, 0, 3, 0]),
    (js ''a00128.html#a91bf1391adf1c705e9d1e6dbba195f32'', [0, 0, 3, 1]),
    (js ''a00128.html#ab2cd270427e8e6d1bb2c290f1116ed0b'', [0, 0, 3, 3]),
    (js ''a00132.html'', [0, 0, 6]),
    (js ''a00132.html#a0a214b0c7dd1e4d5ce2e9526110c4fa3'', [0, 0, 6, 1]),
    (js ''a00132.html#a4f51fc6e09ab0c53a83123a4da56e959'', [0, 0, 6, 2]),
    (js ''a00132.html#a69ec422c9a6cc8b16e9c638e185051da'', [0, 0, 6, 0]),
    (js ''a00136.html'', [0, 0, 5]),
    (js ''a00136.html#a3fb7a865631a190ad02f612fc25da4d8'', [0, 0, 5, 0]),
    (js ''a00136.html#aa754d0cffa449e9618d0ae0554a186be'', [0, 0, 5, 1]),
    (js ''a00136.html#adc3027d84a05d24ff1753c0e9426e823'', [0, 0, 5, 2]),
    (js ''a00140.html'', [0, 0, 17]),
    (js ''a00140.html#a3f3bc50e0403f69548ec717086518c0c'', [0, 0, 17, 3]),
    (js ''a00140.html#a4e18d5f060fc4b0858b401c5ba140439'', [0, 0, 17, 2]),
    (js ''a00140.html#aa97da60dc4d26bde2c853b067cec3537'', [0, 0, 17, 0]),
    (js ''a00140.html#afc9e9d0c299f7e81fbed34b2dc26633d'', [0, 0, 17, 1]),
    (js ''a00144.html'', [0, 0, 8]),
    (js ''a00144.html#a108f022f766173cff3f954cc6272e9b2'', [0, 0, 8, 1]),
    (js ''a00144.html#a52584626d8e5a41c8fbd6fbbd9b85077'', [0, 0, 8, 0]),
    (js ''a00148.html'', [0, 0, 13]),
    (js ''a00148.html#a4ba9b3f1c014273ec00e5cd0afcb2d9d'', [0, 0, 13, 5]),
    (js ''a00148.html#a94151deeec4d910ac70b95c875e82b65'', [0, 0, 13, 4]),
    (js ''a00148.html#a94753452c474e869d03a6f6b25ffaccf'', [0, 0, 13, 3]),
    (js ''a00148.html#ac8b2130649fda1c9b6da2250d8ee53bd'', [0, 0, 13, 1]),
    (js ''a00148.html#ad4f3026630fff95706057a133acf25cb'', [0, 0, 13, 2]),
    (js ''a00148.html#aeada71a90d1d2809b722d61a5c3565d1'', [0, 0, 13, 0]),
    (js ''a00160.html'', [0, 0, 9]),
    (js ''a00160.html#a383259be1f2372c70d06179e323b56a9'', [0, 0, 9, 2]),
    (js ''a00160.html#a5582e0846c28f661adfb13fce9341d7f'', [0, 0, 9, 3]),
    (js ''a00160.html#a62e86918ecc3604c78c19ec4b82db942'', [0, 0, 9, 1]),
    (js ''a00160.html#a76d31d60fd6c6ace1c83128d7c8e1978'', [0, 0, 9, 4]),
    (js ''a00160.html#abdc9a52757555fcde7fd65d0a666dd86'', [0, 0, 9, 7]),
    (js ''a00160.html#ac5691332392887315a0463512a5a37eb'', [0, 0, 9, 5]),
    (js ''a00160.html#acf38e3c3b3b94d174b5cc4bcc4c05e73'', [0, 0, 9, 8]),
    (js ''a00160.html#ae1030668d95126537c787c6041116141'', [0, 0, 9, 6]),
    (js ''a00160.html#afaa0ef417c1fdca9f1a80f96621a20ac'', [0, 0, 9, 0]),
    (js ''a00172.html'', [0, 0, 7]),
    (js ''a00172.html#a09884c9e507fcea246221c936d1f31e8'', [0, 0, 7, 7]),
    (js ''a00172.html#a256bd9dd9b7da0532c196fbd7a669319'', [0, 0, 7, 4]),
    (js ''a00172.html#a2f836429d3010c82bd3c5721c3f8b7e7'', [0, 0, 7, 2]),
    (js ''a00172.html#a4a6cd490e3ac839612e6d7915230e83c'', [0, 0, 7, 1]),
    (js ''a00172.html#aa7f07d775839d40c7c9aab574d2ba6ee'', [0, 0, 7, 3]),
    (js ''a00172.html#aabd8bec634dd8a59a75446b51ac08d5c'', [0, 0, 7, 6]),
    (js ''a00172.html#ad9856740dc29f94abf5b33df1936cbc3'', [0, 0, 7, 0]),
    (js ''a00172.html#adec3127e2ba82d0d5029f04cef7fdf8d'', [0, 0, 7, 5]),
    (js ''a00188.html'', [0, 0, 10]),
    (js ''a00188.html#a0128fb74c66b52875b6a5c30a0fd0060'', [0, 0, 10, 5]),
    (js ''a00188.html#a08a70cd70b8b188a7bf8e2830eab337d'', [0, 0, 10, 6]),
    (js ''a00188.html#a1031dc53718a12ff9a3324b8f38a0990'', [0, 0, 10, 2]),
    (js ''a00188.html#a17a8ad6cb73ff8499e12a87e1eb93f0b'', [0, 0, 10, 7]),
    (js ''a00188.html#a20b452df1cc34aaa0d5d000165bf5c79'', [0, 0, 10, 1]),
    (js ''a00188.html#a3aab7d72383ddb7a2dfc8caa5da993cb'', [0, 0, 10, 4]),
    (js ''a00188.html#a4748020a3c4e9f29b16ba543d882738c'', [0, 0, 10, 0]),
    (js ''a00188.html#a54a7fa7e098818aedf1c20bc275a27ab'', [0, 0, 10, 3]),
    (js ''a00192.html'', [0, 0, 11]),
    (js ''a00192.html#a5e07b0861e6d7eb3bf0f500ab9f475a3'', [0, 0, 11, 0]),
    (js ''a00192.html#aa4b1b8382412db08f57e3438c711996f'', [0, 0, 11, 1]),
    (js ''a00196.html'', [0, 0, 12]),
    (js ''a00196.html#a044bf13008704b31b78e40e8702449aa'', [0, 0, 12, 5]),
    (js ''a00196.html#a4848f2823b0daedcb3c18872bfd43ac8'', [0, 0, 12, 1]),
    (js ''a00196.html#a5d26142b2e77c31f629933f44e597a23'', [0, 0, 12, 0]),
    (js ''a00196.html#a7f735dc1b77788365738af8545165950'', [0, 0, 12, 4]),
    (js ''a00196.html#a8e4d089d5754b8e1c5e5b9a3bb5892c6'', [0, 0, 12, 2]),
    (js ''a00196.html#a9553d75bc6c65637e177252705509fa4'', [0, 0, 12, 6]),
    (js ''a00196.html#ab01c9bff21c6a0be3a0534391f49e95d'', [0, 0, 12, 8]),
    (js ''a00196.html#ab28fa037b1b13cc686857712051828f4'', [0, 0, 12, 3]),
    (js ''a00196.html#ab8ac51e5bec956b245793718e960e56d'', [0, 0, 12, 7]),
    (js ''a00200.html'', [0, 0, 16]),
    (js ''a00200.html#a39483b274f96430336fec8ff492bf194'', [0, 0, 16, 1]),
    (js ''a00200.html#afc349d218aa40ab1f9dedc3cc57e6c69'', [0, 0, 16, 0]),
    (js ''a00204.html'', [0, 0, 15]),
    (js ''a00204.html#a0e1336135b6afb1094afe02e2189f84f'', [0, 0, 15, 0]),
    (js ''a00204.html#a4034ed6b80c1ca8e844889f957ae14a9'', [0, 0, 15, 2]),
    (js ''a00204.html#af59dfdfc357eca2c9923765225c9bb29'', [0, 0, 15, 1]),
    (js ''a00208.html'', [0, 0, 14]),
    (js ''a00208.html#a5251ab3f916984effbfe7686b26224be'', [0, 0, 14, 1]),
    (js ''a00208.html#a8e012daefc967e51527f65356c7328c0'', [0, 0, 14, 0]),
    (js ''a00212.html'', [0, 0, 18]),
    (js ''a00212.html#a820f288b2e1d68de48d3fbf8964aa6a7'', [0, 0, 18, 0])]"

definition spec_NAVTREEINDEX1b :: "(jstr \<times> nat list) list" where
  "spec_NAVTREEINDEX1b = [
    (js ''a00212.html#af6f29b1bab1ae17c00e8a0cd458390ab'', [0, 0, 18, 1]),
    (js ''a00216.html'', [0, 0, 25]),
    (js ''a00216.html#a006ff61341e697d883a3e7c250e675f3'', [0, 0, 25, 3]),
    (js ''a00216.html#a01c5625e34a36789266075dca8f35419'', [0, 0, 25, 1]),
    (js ''a00216.html#a3061340e1db616d20bfbc299a6baf221'', [0, 0, 25, 2]),
    (js ''a00216.html#af815f6d95298fe866aecb3f46029f72e'', [0, 0, 25, 0]),
    (js ''a00220.html'', [0, 0, 23]),
    (js ''a00220.html#a1ce57af1619f1ab9e9aa0cdc448f89f3'', [0, 0, 23, 5]),
    (js ''a00220.html#a3ba07a082c8191db60410f1178a4ba2a'', [0, 0, 23, 2]),
    (js ''a00220.html#a7ced755c88a53bfadc0354fe1e33e0f9'', [0, 0, 23, 1]),
    (js ''a00220.html#a952af666858535b863b162a8b9e53e0c'', [0, 0, 23, 3]),
    (js ''a00220.html#ab0ad90885135c692b3162cbf6f223cd0'', [0, 0, 23, 6]),
    (js ''a00220.html#ade465778b424b13ee99e044c2a221af8'', [0, 0, 23, 7]),
    (js ''a00220.html#ae26c11738472ff9c03fa0ac5c00289c9'', [0, 0, 23, 0]),
    (js ''a00220.html#af88e103c5cc9efdd328226163a9101c7'', [0, 0, 23, 4]),
    (js ''a00224.html'', [0, 0, 24]),
    (js ''a00224.html#a814ab10dfaa7eca1fe81f572342ae325'', [0, 0, 24, 0]),
    (js ''a00224.html#ae6076f1360d7b8bbdf79e7b22f45fc29'', [0, 0, 24, 1]),
    (js ''a00228.html'', [0, 0, 21]),
    (js ''a00228.html#a2d86e5093bb7930fcc70730ad73ab103'', [0, 0, 21, 2]),
    (js ''a00228.html#a5246c33b96861a607d173c5b9a6cf5f8'', [0, 0, 21, 1]),
    (js ''a00228.html#a8951871c92918826408dfedc4156ee20'', [0, 0, 21, 0]),
    (js ''a00232.html'', [0, 0, 26]),
    (js ''a00232.html#a9092e5e087843ebfc5d7cfa40f04a1c2'', [0, 0, 26, 0]),
    (js ''a00232.html#ad6cef620e07a83dabbc6220020ee47b5'', [0, 0, 26, 1]),
    (js ''a00236.html'', [0, 0, 20]),
    (js ''a00236.html#a341d29a495da6914bb99b0af853c4fd1'', [0, 0, 20, 0]),
    (js ''a00236.html#a819a08a56fe8d2cbbeb4a4409d60c975'', [0, 0, 20, 2]),
    (js ''a00236.html#abb1df8a9d3c54299a3de780e49f2fe92'', [0, 0, 20, 1]),
    (js ''a00240.html'', [0, 0, 22]),
    (js ''a00240.html#a2c0952177d9da1b0018e289505b94a34'', [0, 0, 22, 0]),
    (js ''a00240.html#aa77da4c2abd0430f203daadd1ff7dee8'', [0, 0, 22, 1]),
    (js ''a00244.html'', [0, 0, 19]),
    (js ''a00244.html#a0130fb0963c09a80ce48a909b385aba5'', [0, 0, 19, 2]),
    (js ''a00244.html#a7eae7fcad883d4d78c9daef00fe08e6c'', [0, 0, 19, 3]),
    (js ''a00244.html#a93f9e0ac48cbc3f9147e68bef96763c6'', [0, 0, 19, 0]),
    (js ''a00244.html#afd2f1c406a61de0f0595824295bcb050'', [0, 0, 19, 1]),
    (js ''a00248.html'', [0, 0, 2]),
    (js ''a00248.html#a35c50c64b71cf15cf96197ea8a28c3bd'', [0, 0, 2, 0]),
    (js ''a00248.html#a93545de6afcf5b4531df73696b3e96ce'', [0, 0, 2, 2]),
    (js ''a00248.html#ae718e729383388ca41bb7d69bf560669'', [0, 0, 2, 1]),
    (js ''a00252.html'', [0, 0, 1]),
    (js ''a00252.html#a088a6a47110be1eca4f95d265adcc02e'', [0, 0, 1, 2]),
    (js ''a00252.html#a1186aa17d0f7fed7f6e70e9f2c3c75d8'', [0, 0, 1, 7]),
    (js ''a00252.html#a120191be0e7e0d4e4519a1637a335fbe'', [0, 0, 1, 3]),
    (js ''a00252.html#a2b358563c6e3266e010a546c28272aa5'', [0, 0, 1, 1]),
    (js ''a00252.html#a47d698601ceb067d2685808c71c400bd'', [0, 0, 1, 9]),
    (js ''a00252.html#a73b1d29239767dedf35599f4a525f5a0'', [0, 0, 1, 0]),
    (js ''a00252.html#a791a8c89cbaa2a356e5fba1bb55aa67e'', [0, 0, 1, 10]),
    (js ''a00252.html#a94e3ab00a0698e2b96726d9d9047f8f1'', [0, 0, 1, 4]),
    (js ''a00252.html#aae0709321031fe9643187ff4e83e45be'', [0, 0, 1, 6]),
    (js ''a00252.html#ad4d817ab632c1a0476dbac5b15152a30'', [0, 0, 1, 5]),
    (js ''a00252.html#ad7f5841dcfc17fef658ad5db15ea9b89'', [0, 0, 1, 8]),
    (js ''a00256.html'', [0, 0, 0]),
    (js ''a00256.html#a332b861b97a0354bb79a90e4b94044fc'', [0, 0, 0, 0]),
    (js ''a00256.html#a8365fd20396e3067525bf1de1699ad1c'', [0, 0, 0, 6]),
    (js ''a00256.html#a9b13de9861e399b047369d9f87add9b9'', [0, 0, 0, 1]),
    (js ''a00256.html#aa63c199c890e5544362a74c0a1a54f18'', [0, 0, 0, 2]),
    (js ''a00256.html#ac2eaf70b7b3cbecf1f6822d0abea10cf'', [0, 0, 0, 3]),
    (js ''a00256.html#aed783a84af756c09298ba1c1db758d24'', [0, 0, 0, 4]),
    (js ''a00256.html#afda394bd9ce7437f0d977849f174355e'', [0, 0, 0, 5]),
    (js ''a00260.html'', [0, 0, 4]),
    (js ''a00260.html#a199f2657cebba34be43baf497cc5f3f0'', [0, 0, 4, 1]),
    (js ''a00260.html#abde90c830e321b8198f04ba69e07ab50'', [0, 0, 4, 0]),
    (js ''a00261.html'', [1, 0, 0, 0, 1, 0]),
    (js ''a00261.html#a46fa2dbb047795a353ed2287f3b8eba8'', [1, 0, 0, 0, 1, 0, 2]),
    (js ''a00261.html#a4e6fb3d8b1edcc908a4603d4aa7aef03'', [1, 0, 0, 0, 1, 0, 0]),
    (js ''a00261.html#a59373f42ae455344fede3a006d239318'', [1, 0, 0, 0, 1, 0, 1]),
    (js ''a00261.html#ae9907f0900630263f50fd895ed8a5919'', [1, 0, 0, 0, 1, 0, 4]),
    (js ''a00261.html#af2fac2d3c8acad4009c7eabbbfd9908e'', [1, 0, 0, 0, 1, 0, 3]),
    (js ''a00264.html'', [1, 0, 0, 0, 3, 0]),
    (js ''a00264.html#a46fa2dbb047795a353ed2287f3b8eba8'', [1, 0, 0, 0, 3, 0, 2]),
    (js ''a00264.html#a4e6fb3d8b1edcc908a4603d4aa7aef03'', [1, 0, 0, 0, 3, 0, 0]),
    (js ''a00264.html#a59373f42ae455344fede3a006d239318'', [1, 0, 0, 0, 3, 0, 1]),
    (js ''a00264.html#ae9907f0900630263f50fd895ed8a5919'', [1, 0, 0, 0, 3, 0, 4]),
    (js ''a00264.html#af2fac2d3c8acad4009c7eabbbfd9908e'', [1, 0, 0, 0, 3, 0, 3]),
    (js ''a00267.html'', [1, 0, 0, 0, 1, 1]),
    (js ''a00267.html#a2a2d1010d09d0f0280aa875f596e0741'', [1, 0, 0, 0, 1, 1, 0]),
    (js ''a00267.html#a4e6fb3d8b1edcc908a4603d4aa7aef03'', [1, 0, 0, 0, 1, 1, 1]),
    (js ''a00267.html#a840291bc02cba5474a4cb46a9b9566fe'', [1, 0, 0, 0, 1, 1, 2]),
    (js ''a00267_source.html'', [1, 0, 0, 0, 1, 1]),
    (js ''a00270.html'', [1, 0, 0, 0, 3, 1]),
    (js ''a00270.html#a2a2d1010d09d0f0280aa875f596e0741'', [1, 0, 0, 0, 3, 1, 0]),
    (js ''a00270.html#a4e6fb3d8b1edcc908a4603d4aa7aef03'', [1, 0, 0, 0, 3, 1, 1]),
    (js ''a00270.html#a840291bc02cba5474a4cb46a9b9566fe'', [1, 0, 0, 0, 3, 1, 2]),
    (js ''a00270_source.html'', [1, 0, 0, 0, 3, 1]),
    (js ''a00273.html'', [1, 0, 0, 0, 1, 2]),
    (js ''a00273.html#a91eb2c1ee7fb81800ddd298ad93e4047'', [1, 0, 0, 0, 1, 2, 0]),
    (js ''a00276.html'', [1, 0, 0, 0, 3, 2]),
    (js ''a00276.html#a91eb2c1ee7fb81800ddd298ad93e4047'', [1, 0, 0, 0, 3, 2, 0]),
    (js ''a00279.html'', [1, 0, 0, 0, 1, 3]),
    (js ''a00279.html#a91eb2c1ee7fb81800ddd298ad93e4047'', [1, 0, 0, 0, 1, 3, 0]),
    (js ''a00279_source.html'', [1, 0, 0, 0, 1, 3]),
    (js ''a00282.html'', [1, 0, 0, 0, 3, 3]),
    (js ''a00282.html#a91eb2c1ee7fb81800ddd298ad93e4047'', [1, 0, 0, 0, 3, 3, 0]),
    (js ''a00282_source.html'', [1, 0, 0, 0, 3, 3]),
    (js ''a00285.html'', [1, 0, 0, 0, 1, 5]),
    (js ''a00285.html#a004a86ca4c8797352e0e0ae7f3eeb4f0'', [1, 0, 0, 0, 1, 5, 0]),
    (js ''a00285.html#ac4a79cc8f6845c2de668bd5bd68fd553'', [1, 0, 0, 0, 1, 5, 1]),
    (js ''a00288.html'', [1, 0, 0, 0, 3, 4]),
    (js ''a00288.html#af9aace1b44b73111e15aa39f06f43456'', [1, 0, 0, 0, 3, 4, 0]),
    (js ''a00291.html'', [1, 0, 0, 0, 1, 7]),
    (js ''a00291.html#a087393fc9dd24ac208f100c386dd02e0'', [1, 0, 0, 0, 1, 7, 13]),
    (js ''a00291.html#a0cd97604693fc9a12baddc0d7039abc9'', [1, 0, 0, 0, 1, 7, 8]),
    (js ''a00291.html#a12e0a5703767c19b688f1056ce87518f'', [1, 0, 0, 0, 1, 7, 2]),
    (js ''a00291.html#a18b21d13c6e44a0c13509efed221f6ff'', [1, 0, 0, 0, 1, 7, 4]),
    (js ''a00291.html#a2b3c04c8aee4000b3fc582d3d6e73254'', [1, 0, 0, 0, 1, 7, 19]),
    (js ''a00291.html#a2ce6c25dca4d916c6b1ca40ae3a431e3'', [1, 0, 0, 0, 1, 7, 12]),
    (js ''a00291.html#a333824d79fa9e46b6969bfff7e3a1158'', [1, 0, 0, 0, 1, 7, 6]),
    (js ''a00291.html#a365ac1202478160e1ced5899f65b15c6'', [1, 0, 0, 0, 1, 7, 3]),
    (js ''a00291.html#a44d268544426ce78fedfe1f53d22b028'', [1, 0, 0, 0, 1, 7, 0]),
    (js ''a00291.html#a50ee30b06c127961e73a9333fbf47172'', [1, 0, 0, 0, 1, 7, 18]),
    (js ''a00291.html#a54b8a057aeabc35229a18d654ddd768d'', [1, 0, 0, 0, 1, 7, 5]),
    (js ''a00291.html#a5a67752d33bbe35cd1442c3fffa4ea25'', [1, 0, 0, 0, 1, 7, 17]),
    (js ''a00291.html#a70d944aa12cea2bad255b9bdd30225eb'', [1, 0, 0, 0, 1, 7, 15]),
    (js ''a00291.html#a93fbbf8c538edd677ff2e013e4b024c4'', [1, 0, 0, 0, 1, 7, 16]),
    (js ''a00291.html#aaa89fe8cb6b6e1e7bdfbafe0bd817094'', [1, 0, 0, 0, 1, 7, 10]),
    (js ''a00291.html#aae70ddc633ba20e9e523d23e69df69f0'', [1, 0, 0, 0, 1, 7, 9]),
    (js ''a00291.html#aba17145211fbee9e11cbbd79a8342566'', [1, 0, 0, 0, 1, 7, 1]),
    (js ''a00291.html#ac2cfc934106a5bc629f0b354b08a30f5'', [1, 0, 0, 0, 1, 7, 11]),
    (js ''a00291.html#acc67feac22b919c3b27c87fc5b66af78'', [1, 0, 0, 0, 1, 7, 20]),
    (js ''a00291.html#aee5c5b6cfe2cc9ee4a8f84f7d690ccbc'', [1, 0, 0, 0, 1, 7, 14]),
    (js ''a00291.html#af73ce780a255e5232dc7196acafebf11'', [1, 0, 0, 0, 1, 7, 7]),
    (js ''a00294.html'', [1, 0, 0, 0, 3, 5]),
    (js ''a00294.html#a0137626183f8415fdd7a882877ebf3fb'', [1, 0, 0, 0, 3, 5, 6])]"

definition spec_NAVTREEINDEX1 :: "(jstr \<times> nat list) list" where
  "spec_NAVTREEINDEX1 = spec_NAVTREEINDEX1a @ spec_NAVTREEINDEX1b"

definition spec_NAVTREEINDEX2a :: "(jstr \<times> nat list) list" where
  "spec_NAVTREEINDEX2a = [
    (js ''a00294.html#a12e0a5703767c19b688f1056ce87518f'', [1, 0, 0, 0, 3, 5, 3]),
    (js ''a00294.html#a18b21d13c6e44a0c13509efed221f6ff'', [1, 0, 0, 0, 3, 5, 5]),
    (js ''a00294.html#a2b3c04c8aee4000b3fc582d3d6e73254'', [1, 0, 0, 0, 3, 5, 16]),
    (js ''a00294.html#a2ce6c25dca4d916c6b1ca40ae3a431e3'', [1, 0, 0, 0, 3, 5, 12]),
    (js ''a00294.html#a333824d79fa9e46b6969bfff7e3a1158'', [1, 0, 0, 0, 3, 5, 7]),
    (js ''a00294.html#a365ac1202478160e1ced5899f65b15c6'', [1, 0, 0, 0, 3, 5, 4]),
    (js ''a00294.html#a44d268544426ce78fedfe1f53d22b028'', [1, 0, 0, 0, 3, 5, 1]),
    (js ''a00294.html#a5a67752d33bbe35cd1442c3fffa4ea25'', [1, 0, 0, 0, 3, 5, 15]),
    (js ''a00294.html#a70d944aa12cea2bad255b9bdd30225eb'', [1, 0, 0, 0, 3, 5, 14]),
    (js ''a00294.html#a93b9cf91f7623d6d8b100a3693d6d5e4'', [1, 0, 0, 0, 3, 5, 0]),
    (js ''a00294.html#aa28943c832365ac4dc1185829a571beb'', [1, 0, 0, 0, 3, 5, 2]),
    (js ''a00294.html#aaa89fe8cb6b6e1e7bdfbafe0bd817094'', [1, 0, 0, 0, 3, 5, 10]),
    (js ''a00294.html#aae70ddc633ba20e9e523d23e69df69f0'', [1, 0, 0, 0, 3, 5, 9]),
    (js ''a00294.html#ac2cfc934106a5bc629f0b354b08a30f5'', [1, 0, 0, 0, 3, 5, 11]),
    (js ''a00294.html#acc67feac22b919c3b27c87fc5b66af78'', [1, 0, 0, 0, 3, 5, 17]),
    (js ''a00294.html#aee5c5b6cfe2cc9ee4a8f84f7d690ccbc'', [1, 0, 0, 0, 3, 5, 13]),
    (js ''a00294.html#af73ce780a255e5232dc7196acafebf11'', [1, 0, 0, 0, 3, 5, 8]),
    (js ''a00297.html'', [1, 0, 0, 0, 1, 8]),
    (js ''a00297_source.html'', [1, 0, 0, 0, 1, 8]),
    (js ''a00300.html'', [1, 0, 0, 0, 2, 0]),
    (js ''a00300_source.html'', [1, 0, 0, 0, 2, 0]),
    (js ''a00303.html'', [1, 0, 0, 0, 3, 6]),
    (js ''a00303_source.html'', [1, 0, 0, 0, 3, 6]),
    (js ''a00306.html'', [1, 0, 0, 0, 1, 10]),
    (js ''a00306.html#a55f3d956bb2ba20b5059e9e25484a47f'', [1, 0, 0, 0, 1, 10, 1]),
    (js ''a00306.html#a67af87af758806836ba0a24934fc87b5'', [1, 0, 0, 0, 1, 10, 0]),
    (js ''a00306.html#ad41876f99f190c7488e64ef39c50a23f'', [1, 0, 0, 0, 1, 10, 3]),
    (js ''a00306.html#af4de2514b7778805db3815e8dd6cf09a'', [1, 0, 0, 0, 1, 10, 2]),
    (js ''a00309.html'', [1, 0, 0, 0, 3, 7]),
    (js ''a00309.html#a55f3d956bb2ba20b5059e9e25484a47f'', [1, 0, 0, 0, 3, 7, 1]),
    (js ''a00309.html#a67af87af758806836ba0a24934fc87b5'', [1, 0, 0, 0, 3, 7, 0]),
    (js ''a00309.html#ad41876f99f190c7488e64ef39c50a23f'', [1, 0, 0, 0, 3, 7, 3]),
    (js ''a00309.html#af4de2514b7778805db3815e8dd6cf09a'', [1, 0, 0, 0, 3, 7, 2]),
    (js ''a00312.html'', [1, 0, 0, 0, 1, 11]),
    (js ''a00312.html#a55f3d956bb2ba20b5059e9e25484a47f'', [1, 0, 0, 0, 1, 11, 0]),
    (js ''a00312.html#ad41876f99f190c7488e64ef39c50a23f'', [1, 0, 0, 0, 1, 11, 2]),
    (js ''a00312.html#af4de2514b7778805db3815e8dd6cf09a'', [1, 0, 0, 0, 1, 11, 1]),
    (js ''a00312_source.html'', [1, 0, 0, 0, 1, 11]),
    (js ''a00315.html'', [1, 0, 0, 0, 3, 8]),
    (js ''a00315.html#a55f3d956bb2ba20b5059e9e25484a47f'', [1, 0, 0, 0, 3, 8, 0]),
    (js ''a00315.html#ad41876f99f190c7488e64ef39c50a23f'', [1, 0, 0, 0, 3, 8, 2]),
    (js ''a00315.html#af4de2514b7778805db3815e8dd6cf09a'', [1, 0, 0, 0, 3, 8, 1]),
    (js ''a00315_source.html'', [1, 0, 0, 0, 3, 8]),
    (js ''a00318.html'', [1, 0, 0, 0, 1, 12]),
    (js ''a00318.html#a7810930509846d7e6ceb76cd78907fec'', [1, 0, 0, 0, 1, 12, 0]),
    (js ''a00318.html#a7d792e1f5dbf87f5b0daea6eaafc370b'', [1, 0, 0, 0, 1, 12, 1]),
    (js ''a00321.html'', [1, 0, 0, 0, 3, 9]),
    (js ''a00321.html#a119db5620d3a2523cdb35399dd218dfc'', [1, 0, 0, 0, 3, 9, 1]),
    (js ''a00321.html#a67af87af758806836ba0a24934fc87b5'', [1, 0, 0, 0, 3, 9, 0]),
    (js ''a00324.html'', [1, 0, 0, 0, 1, 13]),
    (js ''a00324.html#a119db5620d3a2523cdb35399dd218dfc'', [1, 0, 0, 0, 1, 13, 1]),
    (js ''a00324.html#a67af87af758806836ba0a24934fc87b5'', [1, 0, 0, 0, 1, 13, 0]),
    (js ''a00327.html'', [1, 0, 0, 0, 3, 10]),
    (js ''a00327.html#a7810930509846d7e6ceb76cd78907fec'', [1, 0, 0, 0, 3, 10, 0]),
    (js ''a00327.html#a7d792e1f5dbf87f5b0daea6eaafc370b'', [1, 0, 0, 0, 3, 10, 1]),
    (js ''a00330.html'', [1, 0, 0, 0, 1, 14]),
    (js ''a00330.html#a06269ee8ee1275eb9063da1a6fb6ea0e'', [1, 0, 0, 0, 1, 14, 7]),
    (js ''a00330.html#a07bb8b97d4180b8f8b67de90890bafdf'', [1, 0, 0, 0, 1, 14, 14]),
    (js ''a00330.html#a0c705954c7582efdee9daa215694611a'', [1, 0, 0, 0, 1, 14, 6]),
    (js ''a00330.html#a16cdc6ff34afc2122ae164d4ee3a8c50'', [1, 0, 0, 0, 1, 14, 12]),
    (js ''a00330.html#a212e2f1c2162f8a24b156191be16b6cd'', [1, 0, 0, 0, 1, 14, 13]),
    (js ''a00330.html#a2bad5a18d0dcf3bbf70d0eb1b2797044'', [1, 0, 0, 0, 1, 14, 11]),
    (js ''a00330.html#a3b3255e97ad723d1af56cc336b9ba0ff'', [1, 0, 0, 0, 1, 14, 3]),
    (js ''a00330.html#a3ee89701d5bf35415505f4412ed9d8df'', [1, 0, 0, 0, 1, 14, 2]),
    (js ''a00330.html#a61bd4f47896225e10fc347c3896c323f'', [1, 0, 0, 0, 1, 14, 15]),
    (js ''a00330.html#a67af87af758806836ba0a24934fc87b5'', [1, 0, 0, 0, 1, 14, 10]),
    (js ''a00330.html#ab7af60ce6079dfaea8e8589e47eeb8f0'', [1, 0, 0, 0, 1, 14, 9]),
    (js ''a00330.html#ac4a1ad6d5e0eae2f65ab59703847359a'', [1, 0, 0, 0, 1, 14, 1]),
    (js ''a00330.html#acd89d7f040822741e36375ba7bbb2d74'', [1, 0, 0, 0, 1, 14, 4]),
    (js ''a00330.html#ad940608e967c675b53207179377308f5'', [1, 0, 0, 0, 1, 14, 8]),
    (js ''a00330.html#aef1143febac07b5961075f4d76b6cc75'', [1, 0, 0, 0, 1, 14, 5]),
    (js ''a00333.html'', [1, 0, 0, 0, 3, 11]),
    (js ''a00333.html#a06269ee8ee1275eb9063da1a6fb6ea0e'', [1, 0, 0, 0, 3, 11, 26]),
    (js ''a00333.html#a07bb8b97d4180b8f8b67de90890bafdf'', [1, 0, 0, 0, 3, 11, 34]),
    (js ''a00333.html#a0c705954c7582efdee9daa215694611a'', [1, 0, 0, 0, 3, 11, 25]),
    (js ''a00333.html#a15a50af941ea5ca0a9517faf2f90b524'', [1, 0, 0, 0, 3, 11, 5]),
    (js ''a00333.html#a16cdc6ff34afc2122ae164d4ee3a8c50'', [1, 0, 0, 0, 3, 11, 31])]"

definition spec_NAVTREEINDEX2b :: "(jstr \<times> nat list) list" where
  "spec_NAVTREEINDEX2b = [
    (js ''a00333.html#a1aecd1c242901cf3c8844fd276c6047a'', [1, 0, 0, 0, 3, 11, 1]),
    (js ''a00333.html#a212e2f1c2162f8a24b156191be16b6cd'', [1, 0, 0, 0, 3, 11, 33]),
    (js ''a00333.html#a2bad5a18d0dcf3bbf70d0eb1b2797044'', [1, 0, 0, 0, 3, 11, 30]),
    (js ''a00333.html#a2c0991970c9075b6e6197c313a1203fc'', [1, 0, 0, 0, 3, 11, 20]),
    (js ''a00333.html#a2c249ce13d36626995f96880028b3d0a'', [1, 0, 0, 0, 3, 11, 10]),
    (js ''a00333.html#a34aa02fd74c9f366b87312cf708dc9e1'', [1, 0, 0, 0, 3, 11, 16]),
    (js ''a00333.html#a3b3255e97ad723d1af56cc336b9ba0ff'', [1, 0, 0, 0, 3, 11, 21]),
    (js ''a00333.html#a3d8b1bd3dd657ac7856e8aa67b170fee'', [1, 0, 0, 0, 3, 11, 7]),
    (js ''a00333.html#a3ee89701d5bf35415505f4412ed9d8df'', [1, 0, 0, 0, 3, 11, 19]),
    (js ''a00333.html#a4278b980717163a8ef983ce3fbf0b9db'', [1, 0, 0, 0, 3, 11, 14]),
    (js ''a00333.html#a4ac2d97fe74925064a50628a469403d3'', [1, 0, 0, 0, 3, 11, 6]),
    (js ''a00333.html#a4e289a20e315f0a470da3f149d33c7a5'', [1, 0, 0, 0, 3, 11, 9]),
    (js ''a00333.html#a4e4ed2c9a700bf9cfddabb05debd4790'', [1, 0, 0, 0, 3, 11, 3]),
    (js ''a00333.html#a5584c6d116b42ffdf2c2b7b72209cb25'', [1, 0, 0, 0, 3, 11, 2]),
    (js ''a00333.html#a61bd4f47896225e10fc347c3896c323f'', [1, 0, 0, 0, 3, 11, 35]),
    (js ''a00333.html#a67af87af758806836ba0a24934fc87b5'', [1, 0, 0, 0, 3, 11, 29]),
    (js ''a00333.html#a738a48de177a2e385f66995685334761'', [1, 0, 0, 0, 3, 11, 11]),
    (js ''a00333.html#a7ffc74d008f9e494649d270668555dd1'', [1, 0, 0, 0, 3, 11, 8]),
    (js ''a00333.html#ab7af60ce6079dfaea8e8589e47eeb8f0'', [1, 0, 0, 0, 3, 11, 28]),
    (js ''a00333.html#ac4a1ad6d5e0eae2f65ab59703847359a'', [1, 0, 0, 0, 3, 11, 18]),
    (js ''a00333.html#ac65831bb84fde6008edd159836e82eed'', [1, 0, 0, 0, 3, 11, 15]),
    (js ''a00333.html#ac6c26878acb903cb07de2b9552fec26b'', [1, 0, 0, 0, 3, 11, 4]),
    (js ''a00333.html#acd89d7f040822741e36375ba7bbb2d74'', [1, 0, 0, 0, 3, 11, 22]),
    (js ''a00333.html#acf2e41c6171fe92b66260c643098fae2'', [1, 0, 0, 0, 3, 11, 24]),
    (js ''a00333.html#ad7b04ce70e8c9e609f02c796be254062'', [1, 0, 0, 0, 3, 11, 12]),
    (js ''a00333.html#ad940608e967c675b53207179377308f5'', [1, 0, 0, 0, 3, 11, 27]),
    (js ''a00333.html#aef1143febac07b5961075f4d76b6cc75'', [1, 0, 0, 0, 3, 11, 23]),
    (js ''a00333.html#af27dcab85ade0935109c58206df1eab9'', [1, 0, 0, 0, 3, 11, 32]),
    (js ''a00333.html#af341191ed47c98ec35beaa7bb8db8e75'', [1, 0, 0, 0, 3, 11, 17]),
    (js ''a00333.html#af7aeb1c970d5c2bf5fada4eaca516a25'', [1, 0, 0, 0, 3, 11, 13]),
    (js ''annotated.html'', [0, 0]),
    (js ''classes.html'', [0, 1]),
    (js ''dir_17edc2d27dad8bf4bcee8d792b0504f2.html'', [1, 0, 0, 0, 2]),
    (js ''dir_766553b45c2595ee373ab9cd46c1b7b4.html'', [1, 0, 0, 0, 3]),
    (js ''dir_777eb751ba0556a74a781f1965b690d9.html'', [1, 0, 0, 0, 0]),
    (js ''dir_d7a110bb8765aa85a3c6cafeaf54b8ea.html'', [1, 0, 0, 0, 1]),
    (js ''dir_f46799117fa6d4670f313b2ab4ad8389.html'', [1, 0, 0, 0]),
    (js ''dir_f9530a031e82794186de7c9c8fdc2b6f.html'', [1, 0, 0]),
    (js ''files.html'', [1, 0]),
    (js ''functions.html'', [0, 2, 0]),
    (js ''functions_vars.html'', [0, 2, 1]),
    (js ''globals.html'', [1, 1, 0]),
    (js ''globals_a.html'', [1, 1, 0, 1]),
    (js ''globals_c.html'', [1, 1, 0, 2]),
    (js ''globals_d.html'', [1, 1, 0, 3]),
    (js ''globals_defs.html'', [1, 1, 6]),
    (js ''globals_e.html'', [1, 1, 0, 4]),
    (js ''globals_enum.html'', [1, 1, 4]),
    (js ''globals_eval.html'', [1, 1, 5]),
    (js ''globals_f.html'', [1, 1, 0, 5]),
    (js ''globals_func.html'', [1, 1, 1]),
    (js ''globals_func_c.html'', [1, 1, 1, 1]),
    (js ''globals_func_d.html'', [1, 1, 1, 2]),
    (js ''globals_func_e.html'', [1, 1, 1, 3]),
    (js ''globals_func_f.html'', [1, 1, 1, 4]),
    (js ''globals_func_g.html'', [1, 1, 1, 5]),
    (js ''globals_func_m.html'', [1, 1, 1, 6]),
    (js ''globals_func_o.html'', [1, 1, 1, 7]),
    (js ''globals_func_p.html'', [1, 1, 1, 8]),
    (js ''globals_func_s.html'', [1, 1, 1, 9]),
    (js ''globals_func_t.html'', [1, 1, 1, 10]),
    (js ''globals_func_v.html'', [1, 1, 1, 11]),
    (js ''globals_func_w.html'', [1, 1, 1, 12]),
    (js ''globals_g.html'', [1, 1, 0, 6]),
    (js ''globals_i.html'', [1, 1, 0, 7]),
    (js ''globals_m.html'', [1, 1, 0, 8]),
    (js ''globals_o.html'', [1, 1, 0, 9]),
    (js ''globals_p.html'', [1, 1, 0, 10]),
    (js ''globals_r.html'', [1, 1, 0, 11]),
    (js ''globals_s.html'', [1, 1, 0, 12]),
    (js ''globals_t.html'', [1, 1, 0, 13]),
    (js ''globals_type.html'', [1, 1, 3]),
    (js ''globals_v.html'', [1, 1, 0, 14]),
    (js ''globals_vars.html'', [1, 1, 2]),
    (js ''globals_w.html'', [1, 1, 0, 15]),
    (js ''index.html'', []),
    (js ''pages.html'', [])]"

definition spec_NAVTREEINDEX2 :: "(jstr \<times> nat list) list" where
  "spec_NAVTREEINDEX2 = spec_NAVTREEINDEX2a @ spec_NAVTREEINDEX2b"

section \<open>The index file of an address\<close>

definition spec_index :: "nat \<Rightarrow> (jstr \<times> nat list) list" where
  "spec_index i = (if i = 0 then spec_NAVTREEINDEX0 else if i = 1 then spec_NAVTREEINDEX1
     else if i = 2 then spec_NAVTREEINDEX2 else [])"


end
