(* ===== verification/Spec_Tree_Data.thy ===== *)
theory Spec_Tree_Data
  imports Nav_Tree
begin

text \<open>
  The navigation data of the specification site: the tree of
  \<open>ta-ref_spec_html/navtreedata.js\<close> and the lists of the scripts that it names, one
  script for each list (\<open>annotated_dup.js\<close>, \<open>files_dup.js\<close>, \<open>globals_dup.js\<close>,
  \<open>globals_func.js\<close>, \<open>dir_*.js\<close>, \<open>a*.js\<close>).
\<close>

section \<open>The tree\<close>

definition spec_NAVTREE :: "nav_item list" where
  "spec_NAVTREE = [
    (js ''TA-REF'', Some (js ''index.html''), NavItems [
      (js ''Classes'', Some (js ''annotated.html''), NavItems [
        (js ''Class List'', Some (js ''annotated.html''), VarName (js ''annotated_dup'')),
        (js ''Class Index'', Some (js ''classes.html''), NoData),
        (js ''Class Members'', Some (js ''functions.html''), NavItems [
          (js ''All'', Some (js ''functions.html''), NoData),
          (js ''Variables'', Some (js ''functions_vars.html''), NoData)])]),
      (js ''Files'', Some (js ''files.html''), NavItems [
        (js ''File List'', Some (js ''files.html''), VarName (js ''files_dup'')),
        (js ''File Members'', Some (js ''globals.html''), NavItems [
          (js ''All'', Some (js ''globals.html''), VarName (js ''globals_dup'')),
          (js ''Functions'', Some (js ''globals_func.html''), VarName (js ''globals_func'')),
          (js ''Variables'', Some (js ''globals_vars.html''), NoData),
          (js ''Typedefs'', Some (js ''globals_type.html''), NoData),
          (js ''Enumerations'', Some (js ''globals_enum.html''), NoData),
          (js ''Enumerator'', Some (js ''globals_eval.html''), NoData),
          (js ''Macros'', Some (js ''globals_defs.html''), NoData)])])])]"

definition spec_SYNCONMSG :: jstr where
  "spec_SYNCONMSG = js ''click to disable panel synchronisation''"

definition spec_SYNCOFFMSG :: jstr where
  "spec_SYNCOFFMSG = js ''click to enable panel synchronisation''"

section \<open>Lists that are loaded on demand\<close>

definition spec_a00050 :: "nav_item list" where
  "spec_a00050 = [
    (js ''TEEC_AllocateSharedMemory'', Some (js ''a00050.html#a8358037528cb0d29d57f1da4fdb12d23''), NoData),
    (js ''TEEC_CloseSession'', Some (js ''a00050.html#abbd4e86c7d7a2830b66dd1c455e57708''), NoData),
    (js ''TEEC_FinalizeContext'', Some (js ''a00050.html#a8ff39851efe335623922e6f800f3113b''), NoData),
    (js ''TEEC_InitializeContext'', Some (js ''a00050.html#a3e9d47511b2b76ec947655708cca039f''), NoData),
    (js ''TEEC_OpenSession'', Some (js ''a00050.html#a2e057c67c5ec43b8052ad89809929e61''), NoData),
    (js ''TEEC_RegisterSharedMemory'', Some (js ''a00050.html#ae95c1a0a68654f50a280d94581859d76''), NoData),
    (js ''TEEC_ReleaseSharedMemory'', Some (js ''a00050.html#af2ef3c0fbde59e7249cf8eb43a36abce''), NoData),
    (js ''TEEC_RequestCancellation'', Some (js ''a00050.html#ab0f689a7da4d607e46fe9f8d7dba277c''), NoData)]"

definition spec_a00056 :: "nav_item list" where
  "spec_a00056 = [
    (js ''__attribute__'', Some (js ''a00056.html#a93b9cf91f7623d6d8b100a3693d6d5e4''), NoData)]"

definition spec_a00071 :: "nav_item list" where
  "spec_a00071 = [
    (js ''TEE_AEDecryptFinal'', Some (js ''a00071.html#a3249061a4b04d968af1fe24ebdcafa94''), NoData),
    (js ''TEE_AEEncryptFinal'', Some (js ''a00071.html#ae9b3bb3c35419a914b4c6bc5cda781ab''), NoData),
    (js ''TEE_AEInit'', Some (js ''a00071.html#ad4c7d46eaa62f8f8d206a1c075c94882''), NoData),
    (js ''TEE_AEUpdate'', Some (js ''a00071.html#afa7320f99bc9f7d2f9a0af79450e7a9b''), NoData),
    (js ''TEE_AEUpdateAAD'', Some (js ''a00071.html#a7898745b154d57c77fbb3413eecabed3''), NoData),
    (js ''TEE_AllocateOperation'', Some (js ''a00071.html#a92d483e9bef62ca0755c188f12d95746''), NoData),
    (js ''TEE_AllocateTransientObject'', Some (js ''a00071.html#a87e501d7abee6d50b5c2c68fde57a1b2''), NoData),
    (js ''TEE_AsymmetricSignDigest'', Some (js ''a00071.html#a5accdbcb639e2cd1a55f21fe5544a686''), NoData),
    (js ''TEE_AsymmetricVerifyDigest'', Some (js ''a00071.html#aadd6434bca67535e4832209e5a449ffa''), NoData),
    (js ''TEE_CipherDoFinal'', Some (js ''a00071.html#ae03ad904c4536ad2d194eb54a092e384''), NoData),
    (js ''TEE_CipherInit'', Some (js ''a00071.html#a994af593ff8186af8b6c2ed8edd8c389''), NoData),
    (js ''TEE_CipherUpdate'', Some (js ''a00071.html#a071525e4f644911d7d4468f7a8f193cd''), NoData),
    (js ''TEE_DigestDoFinal'', Some (js ''a00071.html#a843b65f4564569843860b4bce5a144b9''), NoData),
    (js ''TEE_DigestUpdate'', Some (js ''a00071.html#a6e9ece9dbe0483464277902be82486ef''), NoData),
    (js ''TEE_FreeOperation'', Some (js ''a00071.html#af5f3a12e4fbaa2ae82d4dadf122ad4cd''), NoData),
    (js ''TEE_FreeTransientObject'', Some (js ''a00071.html#a825dca146722195fe490bd12bbe8a27f''), NoData),
    (js ''TEE_GenerateKey'', Some (js ''a00071.html#ad2065447661a6ccaaba9957bf0c392b0''), NoData),
    (js ''TEE_InitRefAttribute'', Some (js ''a00071.html#afe152a85c5f39fd64655526b174d579f''), NoData),
    (js ''TEE_InitValueAttribute'', Some (js ''a00071.html#a18cecb2f284d0cf5e657a070137cd581''), NoData),
    (js ''TEE_SetOperationKey'', Some (js ''a00071.html#a24d0a83df10ad59bd3e4c98aa70c7a0a''), NoData),
    (js ''wolfSSL_Free'', Some (js ''a00071.html#ae89193ba8d16c41b615dda216f13384c''), NoData),
    (js ''wolfSSL_Malloc'', Some (js ''a00071.html#a28a4fd049acb6bf502be5a6195baf86f''), NoData)]"

definition spec_a00080 :: "nav_item list" where
  "spec_a00080 = [
    (js ''TEE_UUID'', Some (js ''a00140.html''), VarName (js ''a00140'')),
    (js ''TEE_Identity'', Some (js ''a00144.html''), VarName (js ''a00144'')),
    (js ''TEE_Param'', Some (js ''a00148.html''), VarName (js ''a00148'')),
    (js ''TEE_ObjectInfo'', Some (js ''a00160.html''), VarName (js ''a00160'')),
    (js ''TEE_Attribute'', Some (js ''a00172.html''), VarName (js ''a00172'')),
    (js ''TEE_OperationInfo'', Some (js ''a00188.html''), VarName (js ''a00188'')),
    (js ''TEE_OperationInfoKey'', Some (js ''a00192.html''), VarName (js ''a00192'')),
    (js ''TEE_OperationInfoMultiple'', Some (js ''a00196.html''), VarName (js ''a00196'')),
    (js ''TEE_Time'', Some (js ''a00200.html''), VarName (js ''a00200'')),
    (js ''TEE_SEReaderProperties'', Some (js ''a00204.html''), VarName (js ''a00204'')),
    (js ''TEE_SEAID'', Some (js ''a00208.html''), VarName (js ''a00208'')),
    (js ''__aligned'', Some (js ''a00080.html#a062d270abecd4e983bf02ed30febb4f0''), NoData),
    (js ''TEE_BigInt'', Some (js ''a00080.html#a310c41a3ea70bacf3fc0fb67ca94405e''), NoData),
    (js ''TEE_BigIntFMM'', Some (js ''a00080.html#a40cf2de4383adf822f198c07ab8d5f3a''), NoData),
    (js ''TEE_ErrorOrigin'', Some (js ''a00080.html#af1b39f1a856c03c4f17a5d77ff7a1f0f''), NoData),
    (js ''TEE_ObjectEnumHandle'', Some (js ''a00080.html#a93a3db41b30eea0eefe104eea3e81c4d''), NoData),
    (js ''TEE_ObjectHandle'', Some (js ''a00080.html#a9f9bb8e582acc2c79335158932f0b954''), NoData),
    (js ''TEE_ObjectType'', Some (js ''a00080.html#a0f5a82f41c1aeb996d5d0b3169047f06''), NoData),
    (js ''TEE_OperationHandle'', Some (js ''a00080.html#a003ccda0ce6a2d7889b2933a201e2bd1''), NoData),
    (js ''TEE_PropSetHandle'', Some (js ''a00080.html#a773a0ae16cd350bb65e0acd3c2e6a4d6''), NoData),
    (js ''TEE_Result'', Some (js ''a00080.html#aa1b64b7b46cd8040d03cb32c6504796a''), NoData),
    (js ''TEE_SEChannelHandle'', Some (js ''a00080.html#a48342fd010d3c8ad882d5dfd05cecffa''), NoData),
    (js ''TEE_SEReaderHandle'', Some (js ''a00080.html#a34e9460c6f4baa569ee42e9ff18179ee''), NoData),
    (js ''TEE_SEServiceHandle'', Some (js ''a00080.html#a1a5d27fdaf557d27b33bbe38aa5129fd''), NoData),
    (js ''TEE_SESessionHandle'', Some (js ''a00080.html#a04635613d9083443cbbbc5877eb72741''), NoData),
    (js ''TEE_Session'', Some (js ''a00080.html#a1e12baaa5300148f63b001b1fd4f50dd''), NoData),
    (js ''TEE_TASessionHandle'', Some (js ''a00080.html#a0b888a3053880d3fb5c9ba7fdffcd68e''), NoData),
    (js ''TEE_OperationMode'', Some (js ''a00080.html#a6b7a829a612f7bfb5714a6a550bac592''), NavItems [
      (js ''TEE_MODE_ENCRYPT'', Some (js ''a00080.html#a6b7a829a612f7bfb5714a6a550bac592ae986e0ac521db4f424b1c1fae66778c9''), NoData),
      (js ''TEE_MODE_DECRYPT'', Some (js ''a00080.html#a6b7a829a612f7bfb5714a6a550bac592aa20104f46a28d0fe8596fec000b93fb0''), NoData),
      (js ''TEE_MODE_SIGN'', Some (js ''a00080.html#a6b7a829a612f7bfb5714a6a550bac592a96f810c660ff068a087065c6769c0655''), NoData),
      (js ''TEE_MODE_VERIFY'', Some (js ''a00080.html#a6b7a829a612f7bfb5714a6a550bac592af254d3515d5c4075989a785a568612e3''), NoData),
      (js ''TEE_MODE_MAC'', Some (js ''a00080.html#a6b7a829a612f7bfb5714a6a550bac592a2f3dbf0c7c0373015cf75946564c26f4''), NoData),
      (js ''TEE_MODE_DIGEST'', Some (js ''a00080.html#a6b7a829a612f7bfb5714a6a550bac592a14fd1dd01b612be722995b8753a9ced3''), NoData),
      (js ''TEE_MODE_DERIVE'', Some (js ''a00080.html#a6b7a829a612f7bfb5714a6a550bac592a7f379c000fe1ffe48160acae8cdab73a''), NoData)]),
    (js ''TEE_Whence'', Some (js ''a00080.html#a1c088b4398b0d8b6df9c871deaa81ab8''), NavItems [
      (js ''TEE_DATA_SEEK_SET'', Some (js ''a00080.html#a1c088b4398b0d8b6df9c871deaa81ab8a283bec96896cd01f08089e9217ab0071''), NoData),
      (js ''TEE_DATA_SEEK_CUR'', Some (js ''a00080.html#a1c088b4398b0d8b6df9c871deaa81ab8a58d66a0d10ad95ec3b1e2bd8ec76c71c''), NoData),
      (js ''TEE_DATA_SEEK_END'', Some (js ''a00080.html#a1c088b4398b0d8b6df9c871deaa81ab8a3a546e4bb166976552cf4173a9780fe7''), NoData)])]"

definition spec_a00083 :: "nav_item list" where
  "spec_a00083 = [
    (js ''TEE_AEDecryptFinal'', Some (js ''a00083.html#a3249061a4b04d968af1fe24ebdcafa94''), NoData),
    (js ''TEE_AEEncryptFinal'', Some (js ''a00083.html#ae9b3bb3c35419a914b4c6bc5cda781ab''), NoData),
    (js ''TEE_AEInit'', Some (js ''a00083.html#ad4c7d46eaa62f8f8d206a1c075c94882''), NoData),
    (js ''TEE_AEUpdate'', Some (js ''a00083.html#afa7320f99bc9f7d2f9a0af79450e7a9b''), NoData),
    (js ''TEE_AEUpdateAAD'', Some (js ''a00083.html#a7898745b154d57c77fbb3413eecabed3''), NoData),
    (js ''TEE_AllocateOperation'', Some (js ''a00083.html#a92d483e9bef62ca0755c188f12d95746''), NoData),
    (js ''TEE_AllocatePersistentObjectEnumerator'', Some (js ''a00083.html#ac2e60d4f84c265ab3c275b562a20c2dc''), NoData),
    (js ''TEE_AllocatePropertyEnumerator'', Some (js ''a00083.html#ae3599ef72278f8e54e237bbb2f4d3c78''), NoData),
    (js ''TEE_AllocateTransientObject'', Some (js ''a00083.html#a87e501d7abee6d50b5c2c68fde57a1b2''), NoData),
    (js ''TEE_AsymmetricDecrypt'', Some (js ''a00083.html#ac1377b23820680cb9b5017a08ee72b80''), NoData),
    (js ''TEE_AsymmetricEncrypt'', Some (js ''a00083.html#a5709bc399bf8daf153001544897469ce''), NoData),
    (js ''TEE_AsymmetricSignDigest'', Some (js ''a00083.html#a5accdbcb639e2cd1a55f21fe5544a686''), NoData),
    (js ''TEE_AsymmetricVerifyDigest'', Some (js ''a00083.html#aadd6434bca67535e4832209e5a449ffa''), NoData),
    (js ''TEE_BigIntAdd'', Some (js ''a00083.html#aa982dd6c482aa1cdec532a13fe1ceda5''), NoData),
    (js ''TEE_BigIntAddMod'', Some (js ''a00083.html#af972189100f5cdd3de5e0f0a419fca98''), NoData),
    (js ''TEE_BigIntCmp'', Some (js ''a00083.html#a6b6b071e283439bea92d55b1d082ee70''), NoData),
    (js ''TEE_BigIntCmpS32'', Some (js ''a00083.html#ab08e067dcd07c475a6f13110a5997503''), NoData),
    (js ''TEE_BigIntComputeExtendedGcd'', Some (js ''a00083.html#a4b9cdec35240a19d6f784f0159cea109''), NoData),
    (js ''TEE_BigIntComputeFMM'', Some (js ''a00083.html#ab2c8616f8e4a126ce8c91ae7c64b69a2''), NoData),
    (js ''TEE_BigIntConvertFromFMM'', Some (js ''a00083.html#adf60218e9693cae6d3576c0f2f940473''), NoData),
    (js ''TEE_BigIntConvertFromOctetString'', Some (js ''a00083.html#a6812750a279fe080b2b46f685156aabe''), NoData),
    (js ''TEE_BigIntConvertFromS32'', Some (js ''a00083.html#a714fe46ada09b8de202ef8107de91f1c''), NoData),
    (js ''TEE_BigIntConvertToFMM'', Some (js ''a00083.html#a758eb10a8544eafce2675416ead1d1ea''), NoData),
    (js ''TEE_BigIntConvertToOctetString'', Some (js ''a00083.html#a3414eec972e33b501c9fbee1e976f78c''), NoData),
    (js ''TEE_BigIntConvertToS32'', Some (js ''a00083.html#a21c7a5c802b4176599556bf502e80183''), NoData),
    (js ''TEE_BigIntDiv'', Some (js ''a00083.html#adf77c5c0d620b8c8c5d29e5d5768ebd3''), NoData),
    (js ''TEE_BigIntFMMContextSizeInU32'', Some (js ''a00083.html#a589e1930eccaae908db12412864fa728''), NoData),
    (js ''TEE_BigIntFMMConvertToBigInt'', Some (js ''a00083.html#a5abc943bbe72008f816f7e78f3af9845''), NoData),
    (js ''TEE_BigIntFMMSizeInU32'', Some (js ''a00083.html#ad299348685d99cb01cd82f87e788f71b''), NoData),
    (js ''TEE_BigIntGetBit'', Some (js ''a00083.html#a9b1f756b684839a6f06126ea0872d35a''), NoData),
    (js ''TEE_BigIntGetBitCount'', Some (js ''a00083.html#a1d4ba0211029b43fa330069cd9181e05''), NoData),
    (js ''TEE_BigIntInit'', Some (js ''a00083.html#ac254872f1baa5d86f335da7c43dcbef0''), NoData),
    (js ''TEE_BigIntInitFMM'', Some (js ''a00083.html#aefe870eef19172c6e25f3507c3a93875''), NoData),
    (js ''TEE_BigIntInitFMMContext'', Some (js ''a00083.html#a181c0351e8794c86166e79e3a311da4a''), NoData),
    (js ''TEE_BigIntInvMod'', Some (js ''a00083.html#a21e0fb1f73395811783259cea4924ac3''), NoData),
    (js ''TEE_BigIntIsProbablePrime'', Some (js ''a00083.html#a434ef50d7567a0112dd0b5471fabc5d2''), NoData),
    (js ''TEE_BigIntMod'', Some (js ''a00083.html#ad0eff5697536a558a84e732c59634597''), NoData),
    (js ''TEE_BigIntMul'', Some (js ''a00083.html#a0bf013e7bf7332d8c48dda266323800e''), NoData),
    (js ''TEE_BigIntMulMod'', Some (js ''a00083.html#a15e21ada58f629957e7d217a239db2c0''), NoData),
    (js ''TEE_BigIntNeg'', Some (js ''a00083.html#a23ddd8d63265670f1d2d3308053cdfc1''), NoData),
    (js ''TEE_BigIntRelativePrime'', Some (js ''a00083.html#a1c206c72da5222ee6453ab0d95f7dc19''), NoData),
    (js ''TEE_BigIntShiftRight'', Some (js ''a00083.html#ae810ba39222d8913978ddd9c5939f8a9''), NoData),
    (js ''TEE_BigIntSquare'', Some (js ''a00083.html#a8ee5d399881165b9fe31c3f5bb0c72a1''), NoData),
    (js ''TEE_BigIntSquareMod'', Some (js ''a00083.html#a181b8f6aab855d7fc82c20bb88924ad2''), NoData),
    (js ''TEE_BigIntSub'', Some (js ''a00083.html#a2a107b479fba64302465a1f67da531d0''), NoData),
    (js ''TEE_BigIntSubMod'', Some (js ''a00083.html#a277768e26e3f63bc630af53d094dda24''), NoData),
    (js ''TEE_CheckMemoryAccessRights'', Some (js ''a00083.html#af7ada151b876daff93593868bc57eab9''), NoData),
    (js ''TEE_CipherDoFinal'', Some (js ''a00083.html#ae03ad904c4536ad2d194eb54a092e384''), NoData),
    (js ''TEE_CipherInit'', Some (js ''a00083.html#a974908e3a136d6da3891367a0863fcbb''), NoData),
    (js ''TEE_CipherUpdate'', Some (js ''a00083.html#a071525e4f644911d7d4468f7a8f193cd''), NoData),
    (js ''TEE_CloseAndDeletePersistentObject'', Some (js ''a00083.html#a8257d78b7bec1c90e9bd42b1a2857aa9''), NoData),
    (js ''TEE_CloseAndDeletePersistentObject1'', Some (js ''a00083.html#a67a4c65ab5e520ac34dec75a30b6b05f''), NoData),
    (js ''TEE_CloseObject'', Some (js ''a00083.html#a333824d79fa9e46b6969bfff7e3a1158''), NoData),
    (js ''TEE_CloseTASession'', Some (js ''a00083.html#af9d51bf94690a65f43005937ed65635b''), NoData),
    (js ''TEE_CopyObjectAttributes'', Some (js ''a00083.html#a55e5a34db840cfdf1f8f01b1f55451c8''), NoData),
    (js ''TEE_CopyObjectAttributes1'', Some (js ''a00083.html#ac1c7c9380a331e2a4bf3c69d5eb539ff''), NoData),
    (js ''TEE_CopyOperation'', Some (js ''a00083.html#a4eca2209820659cc95756fc85e1a4837''), NoData),
    (js ''TEE_CreatePersistentObject'', Some (js ''a00083.html#af73ce780a255e5232dc7196acafebf11''), NoData),
    (js ''TEE_DeriveKey'', Some (js ''a00083.html#a349e457b1b5e9de722d43af1bae18c5f''), NoData),
    (js ''TEE_DigestDoFinal'', Some (js ''a00083.html#a843b65f4564569843860b4bce5a144b9''), NoData),
    (js ''TEE_DigestUpdate'', Some (js ''a00083.html#a6e9ece9dbe0483464277902be82486ef''), NoData),
    (js ''TEE_Free'', Some (js ''a00083.html#a0cd97604693fc9a12baddc0d7039abc9''), NoData),
    (js ''TEE_FreeOperation'', Some (js ''a00083.html#af5f3a12e4fbaa2ae82d4dadf122ad4cd''), NoData),
    (js ''TEE_FreePersistentObjectEnumerator'', Some (js ''a00083.html#aa30d1ee97956d8eab8be1b905620604e''), NoData),
    (js ''TEE_FreePropertyEnumerator'', Some (js ''a00083.html#a74dfba6b2a11201f47ce7ca8915ee96a''), NoData),
    (js ''TEE_FreeTransientObject'', Some (js ''a00083.html#a825dca146722195fe490bd12bbe8a27f''), NoData),
    (js ''TEE_GenerateKey'', Some (js ''a00083.html#ad2065447661a6ccaaba9957bf0c392b0''), NoData),
    (js ''TEE_GenerateRandom'', Some (js ''a00083.html#aae70ddc633ba20e9e523d23e69df69f0''), NoData),
    (js ''TEE_GetCancellationFlag'', Some (js ''a00083.html#a77190cd7b1199a6d9a7b3399e52a2608''), NoData),
    (js ''TEE_GetInstanceData'', Some (js ''a00083.html#aaa50b70b6eff2f1539a1e1b45b01daf6''), NoData),
    (js ''TEE_GetNextPersistentObject'', Some (js ''a00083.html#adc0dc44aea3ce4994446bc107a54c0a4''), NoData),
    (js ''TEE_GetNextProperty'', Some (js ''a00083.html#a44ce7881aa25b6d28bac1f8ecaf65793''), NoData),
    (js ''TEE_GetObjectBufferAttribute'', Some (js ''a00083.html#a23d701214a4c53bc0963622b2909724e''), NoData),
    (js ''TEE_GetObjectInfo'', Some (js ''a00083.html#abe433c1557e4290ea7b7b4ee623321c0''), NoData),
    (js ''TEE_GetObjectInfo1'', Some (js ''a00083.html#aaa89fe8cb6b6e1e7bdfbafe0bd817094''), NoData),
    (js ''TEE_GetObjectValueAttribute'', Some (js ''a00083.html#aed82ff6f713f23948020900109aad5f6''), NoData),
    (js ''TEE_GetOperationInfo'', Some (js ''a00083.html#ab0c4a76983dc97122bf9c540458225d0''), NoData),
    (js ''TEE_GetOperationInfoMultiple'', Some (js ''a00083.html#a2fc70a7f4072b8fe6abd77721c5ccc1f''), NoData),
    (js ''TEE_GetPropertyAsBinaryBlock'', Some (js ''a00083.html#ac42274885ae227734bf66eafe866a4a0''), NoData),
    (js ''TEE_GetPropertyAsBool'', Some (js ''a00083.html#abd5c626b74396a70475b42b74ce0271c''), NoData),
    (js ''TEE_GetPropertyAsIdentity'', Some (js ''a00083.html#ad38d03ed88e3b4cde1d1e54d9bbfd1fd''), NoData),
    (js ''TEE_GetPropertyAsString'', Some (js ''a00083.html#a5e2f9729390de1c4143489e4e92cf80c''), NoData),
    (js ''TEE_GetPropertyAsU32'', Some (js ''a00083.html#aa926e6fc7ebdd6eeccdcf689b77ad236''), NoData),
    (js ''TEE_GetPropertyAsUUID'', Some (js ''a00083.html#a57fcb978078e1f9cd86cb49dc93f0643''), NoData),
    (js ''TEE_GetPropertyName'', Some (js ''a00083.html#a9ba4528c754b003d1d5091e8fc6c2812''), NoData),
    (js ''TEE_GetREETime'', Some (js ''a00083.html#ac2cfc934106a5bc629f0b354b08a30f5''), NoData),
    (js ''TEE_GetSystemTime'', Some (js ''a00083.html#a2ce6c25dca4d916c6b1ca40ae3a431e3''), NoData),
    (js ''TEE_GetTAPersistentTime'', Some (js ''a00083.html#a7dd6370f087bf7051f15931dbf0fa25a''), NoData),
    (js ''TEE_InitRefAttribute'', Some (js ''a00083.html#afe152a85c5f39fd64655526b174d579f''), NoData),
    (js ''TEE_InitValueAttribute'', Some (js ''a00083.html#a18cecb2f284d0cf5e657a070137cd581''), NoData),
    (js ''TEE_InvokeTACommand'', Some (js ''a00083.html#a5c4679789d99b8be60d3bb8996c91119''), NoData),
    (js ''TEE_IsAlgorithmSupported'', Some (js ''a00083.html#aea24dd104bb245719ec09f6df2acaf75''), NoData),
    (js ''TEE_MACCompareFinal'', Some (js ''a00083.html#abb64d1041b0f996d909f10c1fafd0ccd''), NoData),
    (js ''TEE_MACComputeFinal'', Some (js ''a00083.html#a001308a1a5198c1f3d6bbd3f43c68a1e''), NoData),
    (js ''TEE_MACInit'', Some (js ''a00083.html#aaca2790ab1df187f3535a55db1336c8f''), NoData),
    (js ''TEE_MACUpdate'', Some (js ''a00083.html#abcc46184566df4b45b4a167fe54e5de3''), NoData),
    (js ''TEE_Malloc'', Some (js ''a00083.html#a087393fc9dd24ac208f100c386dd02e0''), NoData),
    (js ''TEE_MaskCancellation'', Some (js ''a00083.html#a4c1bbb858954ee8e4fc595c478bcc4ac''), NoData),
    (js ''TEE_MemCompare'', Some (js ''a00083.html#af8e1c1fb75f05ddd9b94b82e47e663b7''), NoData),
    (js ''TEE_MemFill'', Some (js ''a00083.html#a5e2e29c99dee20bf7728b583a49bea0c''), NoData),
    (js ''TEE_MemMove'', Some (js ''a00083.html#a6713318482a440babef0b480bd4dc5c6''), NoData),
    (js ''TEE_OpenPersistentObject'', Some (js ''a00083.html#aee5c5b6cfe2cc9ee4a8f84f7d690ccbc''), NoData),
    (js ''TEE_OpenTASession'', Some (js ''a00083.html#ae08bd2a664e700fa3c5db0d172e38a1b''), NoData),
    (js ''TEE_Panic'', Some (js ''a00083.html#a25a6ed042b2e933aeae3c26727987811''), NoData),
    (js ''TEE_PopulateTransientObject'', Some (js ''a00083.html#ac0465fb736d92a3fde3a04ea1529d1cc''), NoData),
    (js ''TEE_ReadObjectData'', Some (js ''a00083.html#a70d944aa12cea2bad255b9bdd30225eb''), NoData),
    (js ''TEE_Realloc'', Some (js ''a00083.html#a93fbbf8c538edd677ff2e013e4b024c4''), NoData),
    (js ''TEE_RenamePersistentObject'', Some (js ''a00083.html#a8d40b18030f274b984eb05424128418b''), NoData),
    (js ''TEE_ResetOperation'', Some (js ''a00083.html#a2d36adb59a76af1f73090475e98aa4c9''), NoData),
    (js ''TEE_ResetPersistentObjectEnumerator'', Some (js ''a00083.html#a201b782eb0b7af3e5d67538672be1431''), NoData),
    (js ''TEE_ResetPropertyEnumerator'', Some (js ''a00083.html#a7f362a278388b46830511af110ec4517''), NoData),
    (js ''TEE_ResetTransientObject'', Some (js ''a00083.html#ab974376ca95bb0c3e316ad789f33b3c6''), NoData),
    (js ''TEE_RestrictObjectUsage'', Some (js ''a00083.html#a2238f36691bb906b642a6ded67af28f4''), NoData),
    (js ''TEE_RestrictObjectUsage1'', Some (js ''a00083.html#a6cca6b984c36ed19ce54ff133f99f7f1''), NoData),
    (js ''TEE_SeekObjectData'', Some (js ''a00083.html#a84ed96bd63ffbf14179212410b15eab3''), NoData),
    (js ''TEE_SetInstanceData'', Some (js ''a00083.html#aeb3c350f87318ea07d282af02767ef23''), NoData),
    (js ''TEE_SetOperationKey'', Some (js ''a00083.html#a24d0a83df10ad59bd3e4c98aa70c7a0a''), NoData),
    (js ''TEE_SetOperationKey2'', Some (js ''a00083.html#ac7e864db33a3f54b0889b99917cbc794''), NoData),
    (js ''TEE_SetTAPersistentTime'', Some (js ''a00083.html#a66d8c7796cd56616e089a248ffce283f''), NoData),
    (js ''TEE_StartPersistentObjectEnumerator'', Some (js ''a00083.html#adb6e7616c695e420616c44c76e2ba118''), NoData),
    (js ''TEE_StartPropertyEnumerator'', Some (js ''a00083.html#a32323472448048b47c17d7aa0c644361''), NoData),
    (js ''TEE_TruncateObjectData'', Some (js ''a00083.html#a0770243df596f28bbffdbe2a09dc1223''), NoData),
    (js ''TEE_UnmaskCancellation'', Some (js ''a00083.html#a2f8d4f043c7930b75deb1499270a813f''), NoData),
    (js ''TEE_Wait'', Some (js ''a00083.html#a39565a83c197a918d214798a4b5e551a''), NoData),
    (js ''TEE_WriteObjectData'', Some (js ''a00083.html#a5a67752d33bbe35cd1442c3fffa4ea25''), NoData)]"

definition spec_a00086 :: "nav_item list" where
  "spec_a00086 = [
    (js ''__attribute__'', Some (js ''a00086.html#abe4e96ad3ef09baf69af6684ff52dce5''), NoData),
    (js ''GetRelTimeEnd'', Some (js ''a00086.html#a12e0a5703767c19b688f1056ce87518f''), NoData),
    (js ''GetRelTimeStart'', Some (js ''a00086.html#a365ac1202478160e1ced5899f65b15c6''), NoData),
    (js ''TEE_AEDecryptFinal'', Some (js ''a00086.html#a3249061a4b04d968af1fe24ebdcafa94''), NoData),
    (js ''TEE_AEEncryptFinal'', Some (js ''a00086.html#ae9b3bb3c35419a914b4c6bc5cda781ab''), NoData),
    (js ''TEE_AEInit'', Some (js ''a00086.html#ad4c7d46eaa62f8f8d206a1c075c94882''), NoData),
    (js ''TEE_AEUpdate'', Some (js ''a00086.html#afa7320f99bc9f7d2f9a0af79450e7a9b''), NoData),
    (js ''TEE_AEUpdateAAD'', Some (js ''a00086.html#a7898745b154d57c77fbb3413eecabed3''), NoData),
    (js ''TEE_AllocateOperation'', Some (js ''a00086.html#a92d483e9bef62ca0755c188f12d95746''), NoData),
    (js ''TEE_AllocateTransientObject'', Some (js ''a00086.html#a87e501d7abee6d50b5c2c68fde57a1b2''), NoData),
    (js ''TEE_AsymmetricSignDigest'', Some (js ''a00086.html#a5accdbcb639e2cd1a55f21fe5544a686''), NoData),
    (js ''TEE_AsymmetricVerifyDigest'', Some (js ''a00086.html#aadd6434bca67535e4832209e5a449ffa''), NoData),
    (js ''TEE_CipherInit'', Some (js ''a00086.html#a994af593ff8186af8b6c2ed8edd8c389''), NoData),
    (js ''TEE_CipherUpdate'', Some (js ''a00086.html#a071525e4f644911d7d4468f7a8f193cd''), NoData),
    (js ''TEE_CloseObject'', Some (js ''a00086.html#a333824d79fa9e46b6969bfff7e3a1158''), NoData),
    (js ''TEE_CreatePersistentObject'', Some (js ''a00086.html#af73ce780a255e5232dc7196acafebf11''), NoData),
    (js ''TEE_DigestDoFinal'', Some (js ''a00086.html#a843b65f4564569843860b4bce5a144b9''), NoData),
    (js ''TEE_DigestUpdate'', Some (js ''a00086.html#a6e9ece9dbe0483464277902be82486ef''), NoData),
    (js ''TEE_FreeOperation'', Some (js ''a00086.html#af5f3a12e4fbaa2ae82d4dadf122ad4cd''), NoData),
    (js ''TEE_FreeTransientObject'', Some (js ''a00086.html#a825dca146722195fe490bd12bbe8a27f''), NoData),
    (js ''TEE_GenerateKey'', Some (js ''a00086.html#ad2065447661a6ccaaba9957bf0c392b0''), NoData),
    (js ''TEE_GenerateRandom'', Some (js ''a00086.html#aae70ddc633ba20e9e523d23e69df69f0''), NoData),
    (js ''TEE_GetObjectInfo1'', Some (js ''a00086.html#aaa89fe8cb6b6e1e7bdfbafe0bd817094''), NoData),
    (js ''TEE_GetREETime'', Some (js ''a00086.html#ac2cfc934106a5bc629f0b354b08a30f5''), NoData),
    (js ''TEE_GetSystemTime'', Some (js ''a00086.html#a2ce6c25dca4d916c6b1ca40ae3a431e3''), NoData),
    (js ''TEE_InitRefAttribute'', Some (js ''a00086.html#afe152a85c5f39fd64655526b174d579f''), NoData),
    (js ''TEE_InitValueAttribute'', Some (js ''a00086.html#a18cecb2f284d0cf5e657a070137cd581''), NoData),
    (js ''TEE_OpenPersistentObject'', Some (js ''a00086.html#aee5c5b6cfe2cc9ee4a8f84f7d690ccbc''), NoData),
    (js ''TEE_ReadObjectData'', Some (js ''a00086.html#a70d944aa12cea2bad255b9bdd30225eb''), NoData),
    (js ''TEE_SetOperationKey'', Some (js ''a00086.html#a24d0a83df10ad59bd3e4c98aa70c7a0a''), NoData),
    (js ''TEE_WriteObjectData'', Some (js ''a00086.html#a5a67752d33bbe35cd1442c3fffa4ea25''), NoData)]"

definition spec_a00089 :: "nav_item list" where
  "spec_a00089 = [
    (js ''TEEC_Context'', Some (js ''a00212.html''), VarName (js ''a00212'')),
    (js ''TEEC_UUID'', Some (js ''a00216.html''), VarName (js ''a00216'')),
    (js ''TEEC_SharedMemory'', Some (js ''a00220.html''), VarName (js ''a00220'')),
    (js ''TEEC_TempMemoryReference'', Some (js ''a00224.html''), VarName (js ''a00224'')),
    (js ''TEEC_RegisteredMemoryReference'', Some (js ''a00228.html''), VarName (js ''a00228'')),
    (js ''TEEC_Value'', Some (js ''a00232.html''), VarName (js ''a00232'')),
    (js ''TEEC_Parameter'', Some (js ''a00236.html''), VarName (js ''a00236'')),
    (js ''TEEC_Session'', Some (js ''a00240.html''), VarName (js ''a00240'')),
    (js ''TEEC_Operation'', Some (js ''a00244.html''), VarName (js ''a00244'')),
    (js ''TEEC_Result'', Some (js ''a00089.html#a95ece7e03b3154198e554f847b4b0211''), NoData),
    (js ''TEEC_AllocateSharedMemory'', Some (js ''a00089.html#a8358037528cb0d29d57f1da4fdb12d23''), NoData),
    (js ''TEEC_CloseSession'', Some (js ''a00089.html#abbd4e86c7d7a2830b66dd1c455e57708''), NoData),
    (js ''TEEC_FinalizeContext'', Some (js ''a00089.html#a8ff39851efe335623922e6f800f3113b''), NoData),
    (js ''TEEC_InitializeContext'', Some (js ''a00089.html#a3e9d47511b2b76ec947655708cca039f''), NoData),
    (js ''TEEC_InvokeCommand'', Some (js ''a00089.html#a33d421ce57c64600db759fe55bd0541e''), NoData),
    (js ''TEEC_OpenSession'', Some (js ''a00089.html#a2e057c67c5ec43b8052ad89809929e61''), NoData),
    (js ''TEEC_RegisterSharedMemory'', Some (js ''a00089.html#ae95c1a0a68654f50a280d94581859d76''), NoData),
    (js ''TEEC_ReleaseSharedMemory'', Some (js ''a00089.html#af2ef3c0fbde59e7249cf8eb43a36abce''), NoData),
    (js ''TEEC_RequestCancellation'', Some (js ''a00089.html#ab0f689a7da4d607e46fe9f8d7dba277c''), NoData)]"

definition spec_a00092 :: "nav_item list" where
  "spec_a00092 = [
    (js ''dhex_dump'', Some (js ''a00092.html#a6ae309735ee1fed9decc4e537dcc240d''), NoData),
    (js ''trace_ext_get_thread_id'', Some (js ''a00092.html#a8675158a59c5041a3bd82a3e916d8e17''), NoData),
    (js ''trace_ext_puts'', Some (js ''a00092.html#aadb9bac764034588d3f2279f1453f8c0''), NoData),
    (js ''trace_get_level'', Some (js ''a00092.html#a4fc6b18371df36a1ece74f1b0465a1ed''), NoData),
    (js ''trace_printf'', Some (js ''a00092.html#a94cceab502088c7e86af3599dd7de87b''), NoData),
    (js ''trace_set_level'', Some (js ''a00092.html#a35b9c5a80a47eb5089240614f75d35ca''), NoData),
    (js ''trace_ext_prefix'', Some (js ''a00092.html#a5af2a639fea54768ed5428cb4f8bbb8c''), NoData),
    (js ''trace_level'', Some (js ''a00092.html#a5a9bb49b93f61cb0227d351713cfe8ea''), NoData)]"

definition spec_a00101 :: "nav_item list" where
  "spec_a00101 = [
    (js ''TEE_CacheClean'', Some (js ''a00101.html#ad3d0c07600b6ef481bb33eb79a4303ff''), NoData),
    (js ''TEE_CacheFlush'', Some (js ''a00101.html#a24ca7e88f5a30fec143f97a1327359ef''), NoData),
    (js ''TEE_CacheInvalidate'', Some (js ''a00101.html#a90aa98d624809145c52042b6d74a70e6''), NoData),
    (js ''tee_map_zi'', Some (js ''a00101.html#ac20b2f63bf136471c73bdf079a0b9d99''), NoData),
    (js ''tee_unmap'', Some (js ''a00101.html#a47b84a3c3095eda1a3fddf9e7837bb20''), NoData),
    (js ''tee_user_mem_check_heap'', Some (js ''a00101.html#a27d93f6be16b56ff551b713827fa631b''), NoData),
    (js ''tee_user_mem_mark_heap'', Some (js ''a00101.html#afa03f3b310aa10326ee979379b6705c8''), NoData),
    (js ''tee_uuid_from_str'', Some (js ''a00101.html#ac923f71f15df56d5828fd94055091c5b''), NoData)]"

definition spec_a00104 :: "nav_item list" where
  "spec_a00104 = [
    (js ''GP_ASSERT'', Some (js ''a00104.html#a9424e624a5e3583781568f5bb092d2fa''), NoData),
    (js ''tee_printf'', Some (js ''a00104.html#a119db5620d3a2523cdb35399dd218dfc''), NoData)]"

definition spec_a00113 :: "nav_item list" where
  "spec_a00113 = [
    (js ''TA_CloseSessionEntryPoint'', Some (js ''a00113.html#a7e2a0d6b80182c6589b4a53f0530b549''), NoData),
    (js ''TA_CreateEntryPoint'', Some (js ''a00113.html#a9489e4c117de7d55518be7f9983df478''), NoData),
    (js ''TA_DestroyEntryPoint'', Some (js ''a00113.html#aa5862d7225f9472804aae4d55e87a6ab''), NoData),
    (js ''TA_InvokeCommandEntryPoint'', Some (js ''a00113.html#acc562b6733782c0965a37f697ebb20fc''), NoData),
    (js ''TA_OpenSessionEntryPoint'', Some (js ''a00113.html#a69014edd979110e3907a47bbf251489b''), NoData)]"

definition spec_a00116 :: "nav_item list" where
  "spec_a00116 = [
    (js ''_sgx_errlist_t'', Some (js ''a00248.html''), VarName (js ''a00248'')),
    (js ''sgx_errlist_t'', Some (js ''a00116.html#a61e189da16d0f6e25a99b95578e47bd2''), NoData),
    (js ''global_eid'', Some (js ''a00116.html#a834fd6ca9d6a5d58fb5d5651a17c7e24''), NoData),
    (js ''sgx_errlist'', Some (js ''a00116.html#a0439b587ccbbf840ae554d112543c38b''), NoData)]"

definition spec_a00122 :: "nav_item list" where
  "spec_a00122 = [
    (js ''_sanctum_dev_public_key'', Some (js ''a00122.html#aac4c6e63829bd59132735f04822ab316''), NoData),
    (js ''_sanctum_dev_public_key_len'', Some (js ''a00122.html#a1b5789e1ce77c1a87c7e76b7791b455f''), NoData),
    (js ''_sanctum_dev_secret_key'', Some (js ''a00122.html#a414ca01e5a7ab1682647f105452f108d''), NoData),
    (js ''_sanctum_dev_secret_key_len'', Some (js ''a00122.html#ad20f1506f9c3fb7261f560dcb9a9360f''), NoData)]"

definition spec_a00128 :: "nav_item list" where
  "spec_a00128 = [
    (js ''data'', Some (js ''a00128.html#a54ed2bc56245d4c8137ec0dc7fdde4b5''), NoData),
    (js ''data_len'', Some (js ''a00128.html#a91bf1391adf1c705e9d1e6dbba195f32''), NoData),
    (js ''hash'', Some (js ''a00128.html#a4c27dccaed93db331b221e2214259842''), NoData),
    (js ''signature'', Some (js ''a00128.html#ab2cd270427e8e6d1bb2c290f1116ed0b''), NoData)]"

definition spec_a00132 :: "nav_item list" where
  "spec_a00132 = [
    (js ''hash'', Some (js ''a00132.html#a69ec422c9a6cc8b16e9c638e185051da''), NoData),
    (js ''public_key'', Some (js ''a00132.html#a0a214b0c7dd1e4d5ce2e9526110c4fa3''), NoData),
    (js ''signature'', Some (js ''a00132.html#a4f51fc6e09ab0c53a83123a4da56e959''), NoData)]"

definition spec_a00136 :: "nav_item list" where
  "spec_a00136 = [
    (js ''dev_public_key'', Some (js ''a00136.html#a3fb7a865631a190ad02f612fc25da4d8''), NoData),
    (js ''enclave'', Some (js ''a00136.html#aa754d0cffa449e9618d0ae0554a186be''), NoData),
    (js ''sm'', Some (js ''a00136.html#adc3027d84a05d24ff1753c0e9426e823''), NoData)]"

definition spec_a00140 :: "nav_item list" where
  "spec_a00140 = [
    (js ''clockSeqAndNode'', Some (js ''a00140.html#aa97da60dc4d26bde2c853b067cec3537''), NoData),
    (js ''timeHiAndVersion'', Some (js ''a00140.html#afc9e9d0c299f7e81fbed34b2dc26633d''), NoData),
    (js ''timeLow'', Some (js ''a00140.html#a4e18d5f060fc4b0858b401c5ba140439''), NoData),
    (js ''timeMid'', Some (js ''a00140.html#a3f3bc50e0403f69548ec717086518c0c''), NoData)]"

definition spec_a00144 :: "nav_item list" where
  "spec_a00144 = [
    (js ''login'', Some (js ''a00144.html#a52584626d8e5a41c8fbd6fbbd9b85077''), NoData),
    (js ''uuid'', Some (js ''a00144.html#a108f022f766173cff3f954cc6272e9b2''), NoData)]"

definition spec_a00148 :: "nav_item list" where
  "spec_a00148 = [
    (js ''a'', Some (js ''a00148.html#aeada71a90d1d2809b722d61a5c3565d1''), NoData),
    (js ''b'', Some (js ''a00148.html#ac8b2130649fda1c9b6da2250d8ee53bd''), NoData),
    (js ''buffer'', Some (js ''a00148.html#ad4f3026630fff95706057a133acf25cb''), NoData),
    (js ''memref'', Some (js ''a00148.html#a94753452c474e869d03a6f6b25ffaccf''), NoData),
    (js ''size'', Some (js ''a00148.html#a94151deeec4d910ac70b95c875e82b65''), NoData),
    (js ''value'', Some (js ''a00148.html#a4ba9b3f1c014273ec00e5cd0afcb2d9d''), NoData)]"

definition spec_a00160 :: "nav_item list" where
  "spec_a00160 = [
    (js ''dataPosition'', Some (js ''a00160.html#afaa0ef417c1fdca9f1a80f96621a20ac''), NoData),
    (js ''dataSize'', Some (js ''a00160.html#a62e86918ecc3604c78c19ec4b82db942''), NoData),
    (js ''handleFlags'', Some (js ''a00160.html#a383259be1f2372c70d06179e323b56a9''), NoData),
    (js ''keySize'', Some (js ''a00160.html#a5582e0846c28f661adfb13fce9341d7f''), NoData),
    (js ''maxKeySize'', Some (js ''a00160.html#a76d31d60fd6c6ace1c83128d7c8e1978''), NoData),
    (js ''maxObjectSize'', Some (js ''a00160.html#ac5691332392887315a0463512a5a37eb''), NoData),
    (js ''objectSize'', Some (js ''a00160.html#ae1030668d95126537c787c6041116141''), NoData),
    (js ''objectType'', Some (js ''a00160.html#abdc9a52757555fcde7fd65d0a666dd86''), NoData),
    (js ''objectUsage'', Some (js ''a00160.html#acf38e3c3b3b94d174b5cc4bcc4c05e73''), NoData)]"

definition spec_a00172 :: "nav_item list" where
  "spec_a00172 = [
    (js ''a'', Some (js ''a00172.html#ad9856740dc29f94abf5b33df1936cbc3''), NoData),
    (js ''attributeID'', Some (js ''a00172.html#a4a6cd490e3ac839612e6d7915230e83c''), NoData),
    (js ''b'', Some (js ''a00172.html#a2f836429d3010c82bd3c5721c3f8b7e7''), NoData),
    (js ''buffer'', Some (js ''a00172.html#aa7f07d775839d40c7c9aab574d2ba6ee''), NoData),
    (js ''content'', Some (js ''a00172.html#a256bd9dd9b7da0532c196fbd7a669319''), NoData),
    (js ''length'', Some (js ''a00172.html#adec3127e2ba82d0d5029f04cef7fdf8d''), NoData),
    (js ''ref'', Some (js ''a00172.html#aabd8bec634dd8a59a75446b51ac08d5c''), NoData),
    (js ''value'', Some (js ''a00172.html#a09884c9e507fcea246221c936d1f31e8''), NoData)]"

definition spec_a00188 :: "nav_item list" where
  "spec_a00188 = [
    (js ''algorithm'', Some (js ''a00188.html#a4748020a3c4e9f29b16ba543d882738c''), NoData),
    (js ''digestLength'', Some (js ''a00188.html#a20b452df1cc34aaa0d5d000165bf5c79''), NoData),
    (js ''handleState'', Some (js ''a00188.html#a1031dc53718a12ff9a3324b8f38a0990''), NoData),
    (js ''keySize'', Some (js ''a00188.html#a54a7fa7e098818aedf1c20bc275a27ab''), NoData),
    (js ''maxKeySize'', Some (js ''a00188.html#a3aab7d72383ddb7a2dfc8caa5da993cb''), NoData),
    (js ''mode'', Some (js ''a00188.html#a0128fb74c66b52875b6a5c30a0fd0060''), NoData),
    (js ''operationClass'', Some (js ''a00188.html#a08a70cd70b8b188a7bf8e2830eab337d''), NoData),
    (js ''requiredKeyUsage'', Some (js ''a00188.html#a17a8ad6cb73ff8499e12a87e1eb93f0b''), NoData)]"

definition spec_a00192 :: "nav_item list" where
  "spec_a00192 = [
    (js ''keySize'', Some (js ''a00192.html#a5e07b0861e6d7eb3bf0f500ab9f475a3''), NoData),
    (js ''requiredKeyUsage'', Some (js ''a00192.html#aa4b1b8382412db08f57e3438c711996f''), NoData)]"

definition spec_a00196 :: "nav_item list" where
  "spec_a00196 = [
    (js ''algorithm'', Some (js ''a00196.html#a5d26142b2e77c31f629933f44e597a23''), NoData),
    (js ''digestLength'', Some (js ''a00196.html#a4848f2823b0daedcb3c18872bfd43ac8''), NoData),
    (js ''handleState'', Some (js ''a00196.html#a8e4d089d5754b8e1c5e5b9a3bb5892c6''), NoData),
    (js ''keyInformation'', Some (js ''a00196.html#ab28fa037b1b13cc686857712051828f4''), NoData),
    (js ''maxKeySize'', Some (js ''a00196.html#a7f735dc1b77788365738af8545165950''), NoData),
    (js ''mode'', Some (js ''a00196.html#a044bf13008704b31b78e40e8702449aa''), NoData),
    (js ''numberOfKeys'', Some (js ''a00196.html#a9553d75bc6c65637e177252705509fa4''), NoData),
    (js ''operationClass'', Some (js ''a00196.html#ab8ac51e5bec956b245793718e960e56d''), NoData),
    (js ''operationState'', Some (js ''a00196.html#ab01c9bff21c6a0be3a0534391f49e95d''), NoData)]"

definition spec_a00200 :: "nav_item list" where
  "spec_a00200 = [
    (js ''millis'', Some (js ''a00200.html#afc349d218aa40ab1f9dedc3cc57e6c69''), NoData),
    (js ''seconds'', Some (js ''a00200.html#a39483b274f96430336fec8ff492bf194''), NoData)]"

definition spec_a00204 :: "nav_item list" where
  "spec_a00204 = [
    (js ''selectResponseEnable'', Some (js ''a00204.html#a0e1336135b6afb1094afe02e2189f84f''), NoData),
    (js ''sePresent'', Some (js ''a00204.html#af59dfdfc357eca2c9923765225c9bb29''), NoData),
    (js ''teeOnly'', Some (js ''a00204.html#a4034ed6b80c1ca8e844889f957ae14a9''), NoData)]"

definition spec_a00208 :: "nav_item list" where
  "spec_a00208 = [
    (js ''buffer'', Some (js ''a00208.html#a8e012daefc967e51527f65356c7328c0''), NoData),
    (js ''bufferLen'', Some (js ''a00208.html#a5251ab3f916984effbfe7686b26224be''), NoData)]"

definition spec_a00212 :: "nav_item list" where
  "spec_a00212 = [
    (js ''fd'', Some (js ''a00212.html#a820f288b2e1d68de48d3fbf8964aa6a7''), NoData),
    (js ''reg_mem'', Some (js ''a00212.html#af6f29b1bab1ae17c00e8a0cd458390ab''), NoData)]"

definition spec_a00216 :: "nav_item list" where
  "spec_a00216 = [
    (js ''clockSeqAndNode'', Some (js ''a00216.html#af815f6d95298fe866aecb3f46029f72e''), NoData),
    (js ''timeHiAndVersion'', Some (js ''a00216.html#a01c5625e34a36789266075dca8f35419''), NoData),
    (js ''timeLow'', Some (js ''a00216.html#a3061340e1db616d20bfbc299a6baf221''), NoData),
    (js ''timeMid'', Some (js ''a00216.html#a006ff61341e697d883a3e7c250e675f3''), NoData)]"

definition spec_a00220 :: "nav_item list" where
  "spec_a00220 = [
    (js ''alloced_size'', Some (js ''a00220.html#ae26c11738472ff9c03fa0ac5c00289c9''), NoData),
    (js ''buffer'', Some (js ''a00220.html#a7ced755c88a53bfadc0354fe1e33e0f9''), NoData),
    (js ''buffer_allocated'', Some (js ''a00220.html#a3ba07a082c8191db60410f1178a4ba2a''), NoData),
    (js ''flags'', Some (js ''a00220.html#a952af666858535b863b162a8b9e53e0c''), NoData),
    (js ''id'', Some (js ''a00220.html#af88e103c5cc9efdd328226163a9101c7''), NoData),
    (js ''registered_fd'', Some (js ''a00220.html#a1ce57af1619f1ab9e9aa0cdc448f89f3''), NoData),
    (js ''shadow_buffer'', Some (js ''a00220.html#ab0ad90885135c692b3162cbf6f223cd0''), NoData),
    (js ''size'', Some (js ''a00220.html#ade465778b424b13ee99e044c2a221af8''), NoData)]"

definition spec_a00224 :: "nav_item list" where
  "spec_a00224 = [
    (js ''buffer'', Some (js ''a00224.html#a814ab10dfaa7eca1fe81f572342ae325''), NoData),
    (js ''size'', Some (js ''a00224.html#ae6076f1360d7b8bbdf79e7b22f45fc29''), NoData)]"

definition spec_a00228 :: "nav_item list" where
  "spec_a00228 = [
    (js ''offset'', Some (js ''a00228.html#a8951871c92918826408dfedc4156ee20''), NoData),
    (js ''parent'', Some (js ''a00228.html#a5246c33b96861a607d173c5b9a6cf5f8''), NoData),
    (js ''size'', Some (js ''a00228.html#a2d86e5093bb7930fcc70730ad73ab103''), NoData)]"

definition spec_a00232 :: "nav_item list" where
  "spec_a00232 = [
    (js ''a'', Some (js ''a00232.html#a9092e5e087843ebfc5d7cfa40f04a1c2''), NoData),
    (js ''b'', Some (js ''a00232.html#ad6cef620e07a83dabbc6220020ee47b5''), NoData)]"

definition spec_a00236 :: "nav_item list" where
  "spec_a00236 = [
    (js ''memref'', Some (js ''a00236.html#a341d29a495da6914bb99b0af853c4fd1''), NoData),
    (js ''tmpref'', Some (js ''a00236.html#abb1df8a9d3c54299a3de780e49f2fe92''), NoData),
    (js ''value'', Some (js ''a00236.html#a819a08a56fe8d2cbbeb4a4409d60c975''), NoData)]"

definition spec_a00240 :: "nav_item list" where
  "spec_a00240 = [
    (js ''ctx'', Some (js ''a00240.html#a2c0952177d9da1b0018e289505b94a34''), NoData),
    (js ''session_id'', Some (js ''a00240.html#aa77da4c2abd0430f203daadd1ff7dee8''), NoData)]"

definition spec_a00244 :: "nav_item list" where
  "spec_a00244 = [
    (js ''params'', Some (js ''a00244.html#a93f9e0ac48cbc3f9147e68bef96763c6''), NoData),
    (js ''paramTypes'', Some (js ''a00244.html#afd2f1c406a61de0f0595824295bcb050''), NoData),
    (js ''session'', Some (js ''a00244.html#a0130fb0963c09a80ce48a909b385aba5''), NoData),
    (js ''started'', Some (js ''a00244.html#a7eae7fcad883d4d78c9daef00fe08e6c''), NoData)]"

definition spec_a00248 :: "nav_item list" where
  "spec_a00248 = [
    (js ''err'', Some (js ''a00248.html#a35c50c64b71cf15cf96197ea8a28c3bd''), NoData),
    (js ''msg'', Some (js ''a00248.html#ae718e729383388ca41bb7d69bf560669''), NoData),
    (js ''sug'', Some (js ''a00248.html#a93545de6afcf5b4531df73696b3e96ce''), NoData)]"

definition spec_a00252 :: "nav_item list" where
  "spec_a00252 = [
    (js ''aectx'', Some (js ''a00252.html#a73b1d29239767dedf35599f4a525f5a0''), NoData),
    (js ''aegcm_state'', Some (js ''a00252.html#a2b358563c6e3266e010a546c28272aa5''), NoData),
    (js ''aegcmctx'', Some (js ''a00252.html#a088a6a47110be1eca4f95d265adcc02e''), NoData),
    (js ''aeiv'', Some (js ''a00252.html#a120191be0e7e0d4e4519a1637a335fbe''), NoData),
    (js ''aekey'', Some (js ''a00252.html#a94e3ab00a0698e2b96726d9d9047f8f1''), NoData),
    (js ''alg'', Some (js ''a00252.html#ad4d817ab632c1a0476dbac5b15152a30''), NoData),
    (js ''ctx'', Some (js ''a00252.html#aae0709321031fe9643187ff4e83e45be''), NoData),
    (js ''flags'', Some (js ''a00252.html#a1186aa17d0f7fed7f6e70e9f2c3c75d8''), NoData),
    (js ''mode'', Some (js ''a00252.html#ad7f5841dcfc17fef658ad5db15ea9b89''), NoData),
    (js ''prikey'', Some (js ''a00252.html#a47d698601ceb067d2685808c71c400bd''), NoData),
    (js ''pubkey'', Some (js ''a00252.html#a791a8c89cbaa2a356e5fba1bb55aa67e''), NoData)]"

definition spec_a00256 :: "nav_item list" where
  "spec_a00256 = [
    (js ''desc'', Some (js ''a00256.html#a332b861b97a0354bb79a90e4b94044fc''), NoData),
    (js ''flags'', Some (js ''a00256.html#a9b13de9861e399b047369d9f87add9b9''), NoData),
    (js ''persist_ctx'', Some (js ''a00256.html#aa63c199c890e5544362a74c0a1a54f18''), NoData),
    (js ''persist_iv'', Some (js ''a00256.html#ac2eaf70b7b3cbecf1f6822d0abea10cf''), NoData),
    (js ''private_key'', Some (js ''a00256.html#aed783a84af756c09298ba1c1db758d24''), NoData),
    (js ''public_key'', Some (js ''a00256.html#afda394bd9ce7437f0d977849f174355e''), NoData),
    (js ''type'', Some (js ''a00256.html#a8365fd20396e3067525bf1de1699ad1c''), NoData)]"

definition spec_a00260 :: "nav_item list" where
  "spec_a00260 = [
    (js ''arg'', Some (js ''a00260.html#abde90c830e321b8198f04ba69e07ab50''), NoData),
    (js ''fct'', Some (js ''a00260.html#a199f2657cebba34be43baf497cc5f3f0''), NoData)]"

definition spec_a00261 :: "nav_item list" where
  "spec_a00261 = [
    (js ''crt_end'', Some (js ''a00261.html#a4e6fb3d8b1edcc908a4603d4aa7aef03''), NoData),
    (js ''__init_array_start'', Some (js ''a00261.html#a59373f42ae455344fede3a006d239318''), NoData),
    (js ''aligned'', Some (js ''a00261.html#a46fa2dbb047795a353ed2287f3b8eba8''), NoData),
    (js ''fini_array'', Some (js ''a00261.html#af2fac2d3c8acad4009c7eabbbfd9908e''), NoData),
    (js ''init_array'', Some (js ''a00261.html#ae9907f0900630263f50fd895ed8a5919''), NoData)]"

definition spec_a00264 :: "nav_item list" where
  "spec_a00264 = [
    (js ''crt_end'', Some (js ''a00264.html#a4e6fb3d8b1edcc908a4603d4aa7aef03''), NoData),
    (js ''__init_array_start'', Some (js ''a00264.html#a59373f42ae455344fede3a006d239318''), NoData),
    (js ''aligned'', Some (js ''a00264.html#a46fa2dbb047795a353ed2287f3b8eba8''), NoData),
    (js ''fini_array'', Some (js ''a00264.html#af2fac2d3c8acad4009c7eabbbfd9908e''), NoData),
    (js ''init_array'', Some (js ''a00264.html#ae9907f0900630263f50fd895ed8a5919''), NoData)]"

definition spec_a00267 :: "nav_item list" where
  "spec_a00267 = [
    (js ''crt_begin'', Some (js ''a00267.html#a2a2d1010d09d0f0280aa875f596e0741''), NoData),
    (js ''crt_end'', Some (js ''a00267.html#a4e6fb3d8b1edcc908a4603d4aa7aef03''), NoData),
    (js ''main'', Some (js ''a00267.html#a840291bc02cba5474a4cb46a9b9566fe''), NoData)]"

definition spec_a00270 :: "nav_item list" where
  "spec_a00270 = [
    (js ''crt_begin'', Some (js ''a00270.html#a2a2d1010d09d0f0280aa875f596e0741''), NoData),
    (js ''crt_end'', Some (js ''a00270.html#a4e6fb3d8b1edcc908a4603d4aa7aef03''), NoData),
    (js ''main'', Some (js ''a00270.html#a840291bc02cba5474a4cb46a9b9566fe''), NoData)]"

definition spec_a00273 :: "nav_item list" where
  "spec_a00273 = [
    (js ''ocall_print_string_wrapper'', Some (js ''a00273.html#a91eb2c1ee7fb81800ddd298ad93e4047''), NoData)]"

definition spec_a00276 :: "nav_item list" where
  "spec_a00276 = [
    (js ''ocall_print_string_wrapper'', Some (js ''a00276.html#a91eb2c1ee7fb81800ddd298ad93e4047''), NoData)]"

definition spec_a00279 :: "nav_item list" where
  "spec_a00279 = [
    (js ''ocall_print_string_wrapper'', Some (js ''a00279.html#a91eb2c1ee7fb81800ddd298ad93e4047''), NoData)]"

definition spec_a00282 :: "nav_item list" where
  "spec_a00282 = [
    (js ''ocall_print_string_wrapper'', Some (js ''a00282.html#a91eb2c1ee7fb81800ddd298ad93e4047''), NoData)]"

definition spec_a00285 :: "nav_item list" where
  "spec_a00285 = [
    (js ''eapp_entry'', Some (js ''a00285.html#a004a86ca4c8797352e0e0ae7f3eeb4f0''), NoData),
    (js ''TA_InvokeCommandEntryPoint'', Some (js ''a00285.html#ac4a79cc8f6845c2de668bd5bd68fd553''), NoData)]"

definition spec_a00288 :: "nav_item list" where
  "spec_a00288 = [
    (js ''__attribute__'', Some (js ''a00288.html#af9aace1b44b73111e15aa39f06f43456''), NoData)]"

definition spec_a00291 :: "nav_item list" where
  "spec_a00291 = [
    (js ''flags2flags'', Some (js ''a00291.html#a44d268544426ce78fedfe1f53d22b028''), NoData),
    (js ''get_wc_rng'', Some (js ''a00291.html#aba17145211fbee9e11cbbd79a8342566''), NoData),
    (js ''GetRelTimeEnd'', Some (js ''a00291.html#a12e0a5703767c19b688f1056ce87518f''), NoData),
    (js ''GetRelTimeStart'', Some (js ''a00291.html#a365ac1202478160e1ced5899f65b15c6''), NoData),
    (js ''OpenPersistentObject'', Some (js ''a00291.html#a18b21d13c6e44a0c13509efed221f6ff''), NoData),
    (js ''set_object_key'', Some (js ''a00291.html#a54b8a057aeabc35229a18d654ddd768d''), NoData),
    (js ''TEE_CloseObject'', Some (js ''a00291.html#a333824d79fa9e46b6969bfff7e3a1158''), NoData),
    (js ''TEE_CreatePersistentObject'', Some (js ''a00291.html#af73ce780a255e5232dc7196acafebf11''), NoData),
    (js ''TEE_Free'', Some (js ''a00291.html#a0cd97604693fc9a12baddc0d7039abc9''), NoData),
    (js ''TEE_GenerateRandom'', Some (js ''a00291.html#aae70ddc633ba20e9e523d23e69df69f0''), NoData),
    (js ''TEE_GetObjectInfo1'', Some (js ''a00291.html#aaa89fe8cb6b6e1e7bdfbafe0bd817094''), NoData),
    (js ''TEE_GetREETime'', Some (js ''a00291.html#ac2cfc934106a5bc629f0b354b08a30f5''), NoData),
    (js ''TEE_GetSystemTime'', Some (js ''a00291.html#a2ce6c25dca4d916c6b1ca40ae3a431e3''), NoData),
    (js ''TEE_Malloc'', Some (js ''a00291.html#a087393fc9dd24ac208f100c386dd02e0''), NoData),
    (js ''TEE_OpenPersistentObject'', Some (js ''a00291.html#aee5c5b6cfe2cc9ee4a8f84f7d690ccbc''), NoData),
    (js ''TEE_ReadObjectData'', Some (js ''a00291.html#a70d944aa12cea2bad255b9bdd30225eb''), NoData),
    (js ''TEE_Realloc'', Some (js ''a00291.html#a93fbbf8c538edd677ff2e013e4b024c4''), NoData),
    (js ''TEE_WriteObjectData'', Some (js ''a00291.html#a5a67752d33bbe35cd1442c3fffa4ea25''), NoData),
    (js ''wc_ocall_genseed'', Some (js ''a00291.html#a50ee30b06c127961e73a9333fbf47172''), NoData),
    (js ''rngstr'', Some (js ''a00291.html#a2b3c04c8aee4000b3fc582d3d6e73254''), NoData),
    (js ''wc_rng_init'', Some (js ''a00291.html#acc67feac22b919c3b27c87fc5b66af78''), NoData)]"

definition spec_a00294 :: "nav_item list" where
  "spec_a00294 = [
    (js ''__attribute__'', Some (js ''a00294.html#a93b9cf91f7623d6d8b100a3693d6d5e4''), NoData),
    (js ''flags2flags'', Some (js ''a00294.html#a44d268544426ce78fedfe1f53d22b028''), NoData),
    (js ''get_wc_rng'', Some (js ''a00294.html#aa28943c832365ac4dc1185829a571beb''), NoData),
    (js ''GetRelTimeEnd'', Some (js ''a00294.html#a12e0a5703767c19b688f1056ce87518f''), NoData),
    (js ''GetRelTimeStart'', Some (js ''a00294.html#a365ac1202478160e1ced5899f65b15c6''), NoData),
    (js ''OpenPersistentObject'', Some (js ''a00294.html#a18b21d13c6e44a0c13509efed221f6ff''), NoData),
    (js ''set_object_key'', Some (js ''a00294.html#a0137626183f8415fdd7a882877ebf3fb''), NoData),
    (js ''TEE_CloseObject'', Some (js ''a00294.html#a333824d79fa9e46b6969bfff7e3a1158''), NoData),
    (js ''TEE_CreatePersistentObject'', Some (js ''a00294.html#af73ce780a255e5232dc7196acafebf11''), NoData),
    (js ''TEE_GenerateRandom'', Some (js ''a00294.html#aae70ddc633ba20e9e523d23e69df69f0''), NoData),
    (js ''TEE_GetObjectInfo1'', Some (js ''a00294.html#aaa89fe8cb6b6e1e7bdfbafe0bd817094''), NoData),
    (js ''TEE_GetREETime'', Some (js ''a00294.html#ac2cfc934106a5bc629f0b354b08a30f5''), NoData),
    (js ''TEE_GetSystemTime'', Some (js ''a00294.html#a2ce6c25dca4d916c6b1ca40ae3a431e3''), NoData),
    (js ''TEE_OpenPersistentObject'', Some (js ''a00294.html#aee5c5b6cfe2cc9ee4a8f84f7d690ccbc''), NoData),
    (js ''TEE_ReadObjectData'', Some (js ''a00294.html#a70d944aa12cea2bad255b9bdd30225eb''), NoData),
    (js ''TEE_WriteObjectData'', Some (js ''a00294.html#a5a67752d33bbe35cd1442c3fffa4ea25''), NoData),
    (js ''rngstr'', Some (js ''a00294.html#a2b3c04c8aee4000b3fc582d3d6e73254''), NoData),
    (js ''wc_rng_init'', Some (js ''a00294.html#acc67feac22b919c3b27c87fc5b66af78''), NoData)]"

definition spec_a00306 :: "nav_item list" where
  "spec_a00306 = [
    (js ''_strlen'', Some (js ''a00306.html#a67af87af758806836ba0a24934fc87b5''), NoData),
    (js ''printf'', Some (js ''a00306.html#a55f3d956bb2ba20b5059e9e25484a47f''), NoData),
    (js ''putchar'', Some (js ''a00306.html#af4de2514b7778805db3815e8dd6cf09a''), NoData),
    (js ''puts'', Some (js ''a00306.html#ad41876f99f190c7488e64ef39c50a23f''), NoData)]"

definition spec_a00309 :: "nav_item list" where
  "spec_a00309 = [
    (js ''_strlen'', Some (js ''a00309.html#a67af87af758806836ba0a24934fc87b5''), NoData),
    (js ''printf'', Some (js ''a00309.html#a55f3d956bb2ba20b5059e9e25484a47f''), NoData),
    (js ''putchar'', Some (js ''a00309.html#af4de2514b7778805db3815e8dd6cf09a''), NoData),
    (js ''puts'', Some (js ''a00309.html#ad41876f99f190c7488e64ef39c50a23f''), NoData)]"

definition spec_a00312 :: "nav_item list" where
  "spec_a00312 = [
    (js ''printf'', Some (js ''a00312.html#a55f3d956bb2ba20b5059e9e25484a47f''), NoData),
    (js ''putchar'', Some (js ''a00312.html#af4de2514b7778805db3815e8dd6cf09a''), NoData),
    (js ''puts'', Some (js ''a00312.html#ad41876f99f190c7488e64ef39c50a23f''), NoData)]"

definition spec_a00315 :: "nav_item list" where
  "spec_a00315 = [
    (js ''printf'', Some (js ''a00315.html#a55f3d956bb2ba20b5059e9e25484a47f''), NoData),
    (js ''putchar'', Some (js ''a00315.html#af4de2514b7778805db3815e8dd6cf09a''), NoData),
    (js ''puts'', Some (js ''a00315.html#ad41876f99f190c7488e64ef39c50a23f''), NoData)]"

definition spec_a00318 :: "nav_item list" where
  "spec_a00318 = [
    (js ''trace_printf'', Some (js ''a00318.html#a7810930509846d7e6ceb76cd78907fec''), NoData),
    (js ''trace_vprintf'', Some (js ''a00318.html#a7d792e1f5dbf87f5b0daea6eaafc370b''), NoData)]"

definition spec_a00321 :: "nav_item list" where
  "spec_a00321 = [
    (js ''_strlen'', Some (js ''a00321.html#a67af87af758806836ba0a24934fc87b5''), NoData),
    (js ''tee_printf'', Some (js ''a00321.html#a119db5620d3a2523cdb35399dd218dfc''), NoData)]"

definition spec_a00324 :: "nav_item list" where
  "spec_a00324 = [
    (js ''_strlen'', Some (js ''a00324.html#a67af87af758806836ba0a24934fc87b5''), NoData),
    (js ''tee_printf'', Some (js ''a00324.html#a119db5620d3a2523cdb35399dd218dfc''), NoData)]"

definition spec_a00327 :: "nav_item list" where
  "spec_a00327 = [
    (js ''trace_printf'', Some (js ''a00327.html#a7810930509846d7e6ceb76cd78907fec''), NoData),
    (js ''trace_vprintf'', Some (js ''a00327.html#a7d792e1f5dbf87f5b0daea6eaafc370b''), NoData)]"

definition spec_a00330 :: "nav_item list" where
  "spec_a00330 = [
    (js ''out_fct_wrap_type'', Some (js ''a00260.html''), VarName (js ''a00260'')),
    (js ''out_fct_type'', Some (js ''a00330.html#ac4a1ad6d5e0eae2f65ab59703847359a''), NoData),
    (js ''_atoi'', Some (js ''a00330.html#a3ee89701d5bf35415505f4412ed9d8df''), NoData),
    (js ''_is_digit'', Some (js ''a00330.html#a3b3255e97ad723d1af56cc336b9ba0ff''), NoData),
    (js ''_ntoa_format'', Some (js ''a00330.html#acd89d7f040822741e36375ba7bbb2d74''), NoData),
    (js ''_ntoa_long'', Some (js ''a00330.html#aef1143febac07b5961075f4d76b6cc75''), NoData),
    (js ''_out_buffer'', Some (js ''a00330.html#a0c705954c7582efdee9daa215694611a''), NoData),
    (js ''_out_char'', Some (js ''a00330.html#a06269ee8ee1275eb9063da1a6fb6ea0e''), NoData),
    (js ''_out_fct'', Some (js ''a00330.html#ad940608e967c675b53207179377308f5''), NoData),
    (js ''_out_null'', Some (js ''a00330.html#ab7af60ce6079dfaea8e8589e47eeb8f0''), NoData),
    (js ''_strlen'', Some (js ''a00330.html#a67af87af758806836ba0a24934fc87b5''), NoData),
    (js ''_vsnprintf'', Some (js ''a00330.html#a2bad5a18d0dcf3bbf70d0eb1b2797044''), NoData),
    (js ''fctprintf'', Some (js ''a00330.html#a16cdc6ff34afc2122ae164d4ee3a8c50''), NoData),
    (js ''snprintf'', Some (js ''a00330.html#a212e2f1c2162f8a24b156191be16b6cd''), NoData),
    (js ''sprintf'', Some (js ''a00330.html#a07bb8b97d4180b8f8b67de90890bafdf''), NoData),
    (js ''vsnprintf'', Some (js ''a00330.html#a61bd4f47896225e10fc347c3896c323f''), NoData)]"

definition spec_a00333 :: "nav_item list" where
  "spec_a00333 = [
    (js ''out_fct_wrap_type'', Some (js ''a00260.html''), VarName (js ''a00260'')),
    (js ''_putchar'', Some (js ''a00333.html#a1aecd1c242901cf3c8844fd276c6047a''), NoData),
    (js ''FLAGS_CHAR'', Some (js ''a00333.html#a5584c6d116b42ffdf2c2b7b72209cb25''), NoData),
    (js ''FLAGS_HASH'', Some (js ''a00333.html#a4e4ed2c9a700bf9cfddabb05debd4790''), NoData),
    (js ''FLAGS_LEFT'', Some (js ''a00333.html#ac6c26878acb903cb07de2b9552fec26b''), NoData),
    (js ''FLAGS_LONG'', Some (js ''a00333.html#a15a50af941ea5ca0a9517faf2f90b524''), NoData),
    (js ''FLAGS_LONG_LONG'', Some (js ''a00333.html#a4ac2d97fe74925064a50628a469403d3''), NoData),
    (js ''FLAGS_PLUS'', Some (js ''a00333.html#a3d8b1bd3dd657ac7856e8aa67b170fee''), NoData),
    (js ''FLAGS_PRECISION'', Some (js ''a00333.html#a7ffc74d008f9e494649d270668555dd1''), NoData),
    (js ''FLAGS_SHORT'', Some (js ''a00333.html#a4e289a20e315f0a470da3f149d33c7a5''), NoData),
    (js ''FLAGS_SPACE'', Some (js ''a00333.html#a2c249ce13d36626995f96880028b3d0a''), NoData),
    (js ''FLAGS_UPPERCASE'', Some (js ''a00333.html#a738a48de177a2e385f66995685334761''), NoData),
    (js ''FLAGS_ZEROPAD'', Some (js ''a00333.html#ad7b04ce70e8c9e609f02c796be254062''), NoData),
    (js ''PRINTF_FTOA_BUFFER_SIZE'', Some (js ''a00333.html#af7aeb1c970d5c2bf5fada4eaca516a25''), NoData),
    (js ''PRINTF_NTOA_BUFFER_SIZE'', Some (js ''a00333.html#a4278b980717163a8ef983ce3fbf0b9db''), NoData),
    (js ''PRINTF_SUPPORT_FLOAT'', Some (js ''a00333.html#ac65831bb84fde6008edd159836e82eed''), NoData),
    (js ''PRINTF_SUPPORT_LONG_LONG'', Some (js ''a00333.html#a34aa02fd74c9f366b87312cf708dc9e1''), NoData),
    (js ''PRINTF_SUPPORT_PTRDIFF_T'', Some (js ''a00333.html#af341191ed47c98ec35beaa7bb8db8e75''), NoData),
    (js ''out_fct_type'', Some (js ''a00333.html#ac4a1ad6d5e0eae2f65ab59703847359a''), NoData),
    (js ''_atoi'', Some (js ''a00333.html#a3ee89701d5bf35415505f4412ed9d8df''), NoData),
    (js ''_ftoa'', Some (js ''a00333.html#a2c0991970c9075b6e6197c313a1203fc''), NoData),
    (js ''_is_digit'', Some (js ''a00333.html#a3b3255e97ad723d1af56cc336b9ba0ff''), NoData),
    (js ''_ntoa_format'', Some (js ''a00333.html#acd89d7f040822741e36375ba7bbb2d74''), NoData),
    (js ''_ntoa_long'', Some (js ''a00333.html#aef1143febac07b5961075f4d76b6cc75''), NoData),
    (js ''_ntoa_long_long'', Some (js ''a00333.html#acf2e41c6171fe92b66260c643098fae2''), NoData),
    (js ''_out_buffer'', Some (js ''a00333.html#a0c705954c7582efdee9daa215694611a''), NoData),
    (js ''_out_char'', Some (js ''a00333.html#a06269ee8ee1275eb9063da1a6fb6ea0e''), NoData),
    (js ''_out_fct'', Some (js ''a00333.html#ad940608e967c675b53207179377308f5''), NoData),
    (js ''_out_null'', Some (js ''a00333.html#ab7af60ce6079dfaea8e8589e47eeb8f0''), NoData),
    (js ''_strlen'', Some (js ''a00333.html#a67af87af758806836ba0a24934fc87b5''), NoData),
    (js ''_vsnprintf'', Some (js ''a00333.html#a2bad5a18d0dcf3bbf70d0eb1b2797044''), NoData),
    (js ''fctprintf'', Some (js ''a00333.html#a16cdc6ff34afc2122ae164d4ee3a8c50''), NoData),
    (js ''putchar'', Some (js ''a00333.html#af27dcab85ade0935109c58206df1eab9''), NoData),
    (js ''snprintf'', Some (js ''a00333.html#a212e2f1c2162f8a24b156191be16b6cd''), NoData),
    (js ''sprintf'', Some (js ''a00333.html#a07bb8b97d4180b8f8b67de90890bafdf''), NoData),
    (js ''vsnprintf'', Some (js ''a00333.html#a61bd4f47896225e10fc347c3896c323f''), NoData)]"

definition spec_annotated_dup :: "nav_item list" where
  "spec_annotated_dup = [
    (js ''__TEE_ObjectHandle'', Some (js ''a00256.html''), VarName (js ''a00256'')),
    (js ''__TEE_OperationHandle'', Some (js ''a00252.html''), VarName (js ''a00252'')),
    (js ''_sgx_errlist_t'', Some (js ''a00248.html''), VarName (js ''a00248'')),
    (js ''enclave_report'', Some (js ''a00128.html''), VarName (js ''a00128'')),
    (js ''out_fct_wrap_type'', Some (js ''a00260.html''), VarName (js ''a00260'')),
    (js ''report'', Some (js ''a00136.html''), VarName (js ''a00136'')),
    (js ''sm_report'', Some (js ''a00132.html''), VarName (js ''a00132'')),
    (js ''TEE_Attribute'', Some (js ''a00172.html''), VarName (js ''a00172'')),
    (js ''TEE_Identity'', Some (js ''a00144.html''), VarName (js ''a00144'')),
    (js ''TEE_ObjectInfo'', Some (js ''a00160.html''), VarName (js ''a00160'')),
    (js ''TEE_OperationInfo'', Some (js ''a00188.html''), VarName (js ''a00188'')),
    (js ''TEE_OperationInfoKey'', Some (js ''a00192.html''), VarName (js ''a00192'')),
    (js ''TEE_OperationInfoMultiple'', Some (js ''a00196.html''), VarName (js ''a00196'')),
    (js ''TEE_Param'', Some (js ''a00148.html''), VarName (js ''a00148'')),
    (js ''TEE_SEAID'', Some (js ''a00208.html''), VarName (js ''a00208'')),
    (js ''TEE_SEReaderProperties'', Some (js ''a00204.html''), VarName (js ''a00204'')),
    (js ''TEE_Time'', Some (js ''a00200.html''), VarName (js ''a00200'')),
    (js ''TEE_UUID'', Some (js ''a00140.html''), VarName (js ''a00140'')),
    (js ''TEEC_Context'', Some (js ''a00212.html''), VarName (js ''a00212'')),
    (js ''TEEC_Operation'', Some (js ''a00244.html''), VarName (js ''a00244'')),
    (js ''TEEC_Parameter'', Some (js ''a00236.html''), VarName (js ''a00236'')),
    (js ''TEEC_RegisteredMemoryReference'', Some (js ''a00228.html''), VarName (js ''a00228'')),
    (js ''TEEC_Session'', Some (js ''a00240.html''), VarName (js ''a00240'')),
    (js ''TEEC_SharedMemory'', Some (js ''a00220.html''), VarName (js ''a00220'')),
    (js ''TEEC_TempMemoryReference'', Some (js ''a00224.html''), VarName (js ''a00224'')),
    (js ''TEEC_UUID'', Some (js ''a00216.html''), VarName (js ''a00216'')),
    (js ''TEEC_Value'', Some (js ''a00232.html''), VarName (js ''a00232''))]"

definition spec_dir_17edc2d27dad8bf4bcee8d792b0504f2 :: "nav_item list" where
  "spec_dir_17edc2d27dad8bf4bcee8d792b0504f2 = [
    (js ''tee_api_tee_types.h'', Some (js ''a00300.html''), NoData)]"

definition spec_dir_766553b45c2595ee373ab9cd46c1b7b4 :: "nav_item list" where
  "spec_dir_766553b45c2595ee373ab9cd46c1b7b4 = [
    (js ''crt.c'', Some (js ''a00264.html''), VarName (js ''a00264'')),
    (js ''crt.h'', Some (js ''a00270.html''), VarName (js ''a00270'')),
    (js ''ocall_wrapper.c'', Some (js ''a00276.html''), VarName (js ''a00276'')),
    (js ''ocall_wrapper.h'', Some (js ''a00282.html''), VarName (js ''a00282'')),
    (js ''startup.c'', Some (js ''a00288.html''), VarName (js ''a00288'')),
    (js ''tee-internal-api.c'', Some (js ''a00294.html''), VarName (js ''a00294'')),
    (js ''tee_api_tee_types.h'', Some (js ''a00303.html''), NavItems [
      (js ''__TEE_OperationHandle'', Some (js ''a00252.html''), VarName (js ''a00252'')),
      (js ''__TEE_ObjectHandle'', Some (js ''a00256.html''), VarName (js ''a00256''))]),
    (js ''tools.c'', Some (js ''a00309.html''), VarName (js ''a00309'')),
    (js ''tools.h'', Some (js ''a00315.html''), VarName (js ''a00315'')),
    (js ''trace.c'', Some (js ''a00321.html''), VarName (js ''a00321'')),
    (js ''trace2.c'', Some (js ''a00327.html''), VarName (js ''a00327'')),
    (js ''vsnprintf.c'', Some (js ''a00333.html''), VarName (js ''a00333''))]"

definition spec_dir_777eb751ba0556a74a781f1965b690d9 :: "nav_item list" where
  "spec_dir_777eb751ba0556a74a781f1965b690d9 = [
    (js ''compiler.h'', Some (js ''a00077.html''), NoData),
    (js ''config_ref_ta.h'', Some (js ''a00104.html''), VarName (js ''a00104'')),
    (js ''report.h'', Some (js ''a00074.html''), NavItems [
      (js ''enclave_report'', Some (js ''a00128.html''), VarName (js ''a00128'')),
      (js ''sm_report'', Some (js ''a00132.html''), VarName (js ''a00132'')),
      (js ''report'', Some (js ''a00136.html''), VarName (js ''a00136''))]),
    (js ''tee-common.h'', Some (js ''a00095.html''), NoData),
    (js ''tee-ta-internal.h'', Some (js ''a00086.html''), VarName (js ''a00086'')),
    (js ''tee_api.h'', Some (js ''a00083.html''), VarName (js ''a00083'')),
    (js ''tee_api_defines.h'', Some (js ''a00098.html''), NoData),
    (js ''tee_api_defines_extensions.h'', Some (js ''a00119.html''), NoData),
    (js ''tee_api_types.h'', Some (js ''a00080.html''), VarName (js ''a00080'')),
    (js ''tee_client_api.h'', Some (js ''a00089.html''), VarName (js ''a00089'')),
    (js ''tee_internal_api.h'', Some (js ''a00110.html''), NoData),
    (js ''tee_internal_api_extensions.h'', Some (js ''a00101.html''), VarName (js ''a00101'')),
    (js ''tee_ta_api.h'', Some (js ''a00113.html''), VarName (js ''a00113'')),
    (js ''test_dev_key.h'', Some (js ''a00122.html''), VarName (js ''a00122'')),
    (js ''trace.h'', Some (js ''a00092.html''), VarName (js ''a00092'')),
    (js ''trace_levels.h'', Some (js ''a00107.html''), NoData),
    (js ''types.h'', Some (js ''a00116.html''), VarName (js ''a00116''))]"

definition spec_dir_d7a110bb8765aa85a3c6cafeaf54b8ea :: "nav_item list" where
  "spec_dir_d7a110bb8765aa85a3c6cafeaf54b8ea = [
    (js ''crt.c'', Some (js ''a00261.html''), VarName (js ''a00261'')),
    (js ''crt.h'', Some (js ''a00267.html''), VarName (js ''a00267'')),
    (js ''ocall_wrapper.c'', Some (js ''a00273.html''), VarName (js ''a00273'')),
    (js ''ocall_wrapper.h'', Some (js ''a00279.html''), VarName (js ''a00279'')),
    (js ''random.h'', Some (js ''a00029.html''), NoData),
    (js ''startup.c'', Some (js ''a00285.html''), VarName (js ''a00285'')),
    (js ''tee-internal-api-machine.c'', Some (js ''a00056.html''), VarName (js ''a00056'')),
    (js ''tee-internal-api.c'', Some (js ''a00291.html''), VarName (js ''a00291'')),
    (js ''tee_api_tee_types.h'', Some (js ''a00297.html''), NavItems [
      (js ''__TEE_OperationHandle'', Some (js ''a00252.html''), VarName (js ''a00252'')),
      (js ''__TEE_ObjectHandle'', Some (js ''a00256.html''), VarName (js ''a00256''))]),
    (js ''teec_stub.c'', Some (js ''a00050.html''), VarName (js ''a00050'')),
    (js ''tools.c'', Some (js ''a00306.html''), VarName (js ''a00306'')),
    (js ''tools.h'', Some (js ''a00312.html''), VarName (js ''a00312'')),
    (js ''trace.c'', Some (js ''a00318.html''), VarName (js ''a00318'')),
    (js ''trace2.c'', Some (js ''a00324.html''), VarName (js ''a00324'')),
    (js ''vsnprintf.c'', Some (js ''a00330.html''), VarName (js ''a00330''))]"

definition spec_dir_f46799117fa6d4670f313b2ab4ad8389 :: "nav_item list" where
  "spec_dir_f46799117fa6d4670f313b2ab4ad8389 = [
    (js ''include'', Some (js ''dir_777eb751ba0556a74a781f1965b690d9.html''), VarName (js ''dir_777eb751ba0556a74a781f1965b690d9'')),
    (js ''keystone'', Some (js ''dir_d7a110bb8765aa85a3c6cafeaf54b8ea.html''), VarName (js ''dir_d7a110bb8765aa85a3c6cafeaf54b8ea'')),
    (js ''optee'', Some (js ''dir_17edc2d27dad8bf4bcee8d792b0504f2.html''), VarName (js ''dir_17edc2d27dad8bf4bcee8d792b0504f2'')),
    (js ''sgx'', Some (js ''dir_766553b45c2595ee373ab9cd46c1b7b4.html''), VarName (js ''dir_766553b45c2595ee373ab9cd46c1b7b4'')),
    (js ''tee-internal-api-cryptlib.c'', Some (js ''a00071.html''), VarName (js ''a00071''))]"

definition spec_dir_f9530a031e82794186de7c9c8fdc2b6f :: "nav_item list" where
  "spec_dir_f9530a031e82794186de7c9c8fdc2b6f = [
    (js ''api'', Some (js ''dir_f46799117fa6d4670f313b2ab4ad8389.html''), VarName (js ''dir_f46799117fa6d4670f313b2ab4ad8389''))]"

definition spec_files_dup :: "nav_item list" where
  "spec_files_dup = [
    (js ''ta-ref'', Some (js ''dir_f9530a031e82794186de7c9c8fdc2b6f.html''), VarName (js ''dir_f9530a031e82794186de7c9c8fdc2b6f''))]"

definition spec_globals_dup :: "nav_item list" where
  "spec_globals_dup = [
    (js ''_'', Some (js ''globals.html''), NoData),
    (js ''a'', Some (js ''globals_a.html''), NoData),
    (js ''c'', Some (js ''globals_c.html''), NoData),
    (js ''d'', Some (js ''globals_d.html''), NoData),
    (js ''e'', Some (js ''globals_e.html''), NoData),
    (js ''f'', Some (js ''globals_f.html''), NoData),
    (js ''g'', Some (js ''globals_g.html''), NoData),
    (js ''i'', Some (js ''globals_i.html''), NoData),
    (js ''m'', Some (js ''globals_m.html''), NoData),
    (js ''o'', Some (js ''globals_o.html''), NoData),
    (js ''p'', Some (js ''globals_p.html''), NoData),
    (js ''r'', Some (js ''globals_r.html''), NoData),
    (js ''s'', Some (js ''globals_s.html''), NoData),
    (js ''t'', Some (js ''globals_t.html''), NoData),
    (js ''v'', Some (js ''globals_v.html''), NoData),
    (js ''w'', Some (js ''globals_w.html''), NoData)]"

definition spec_globals_func :: "nav_item list" where
  "spec_globals_func = [
    (js ''_'', Some (js ''globals_func.html''), NoData),
    (js ''c'', Some (js ''globals_func_c.html''), NoData),
    (js ''d'', Some (js ''globals_func_d.html''), NoData),
    (js ''e'', Some (js ''globals_func_e.html''), NoData),
    (js ''f'', Some (js ''globals_func_f.html''), NoData),
    (js ''g'', Some (js ''globals_func_g.html''), NoData),
    (js ''m'', Some (js ''globals_func_m.html''), NoData),
    (js ''o'', Some (js ''globals_func_o.html''), NoData),
    (js ''p'', Some (js ''globals_func_p.html''), NoData),
    (js ''s'', Some (js ''globals_func_s.html''), NoData),
    (js ''t'', Some (js ''globals_func_t.html''), NoData),
    (js ''v'', Some (js ''globals_func_v.html''), NoData),
    (js ''w'', Some (js ''globals_func_w.html''), NoData)]"

text \<open>The variables that the scripts define.\<close>

definition spec_vars :: "(jstr \<times> nav_item list) list" where
  "spec_vars = [
    (js ''a00050'', spec_a00050),
    (js ''a00056'', spec_a00056),
    (js ''a00071'', spec_a00071),
    (js ''a00080'', spec_a00080),
    (js ''a00083'', spec_a00083),
    (js ''a00086'', spec_a00086),
    (js ''a00089'', spec_a00089),
    (js ''a00092'', spec_a00092),
    (js ''a00101'', spec_a00101),
    (js ''a00104'', spec_a00104),
    (js ''a00113'', spec_a00113),
    (js ''a00116'', spec_a00116),
    (js ''a00122'', spec_a00122),
    (js ''a00128'', spec_a00128),
    (js ''a00132'', spec_a00132),
    (js ''a00136'', spec_a00136),
    (js ''a00140'', spec_a00140),
    (js ''a00144'', spec_a00144),
    (js ''a00148'', spec_a00148),
    (js ''a00160'', spec_a00160),
    (js ''a00172'', spec_a00172),
    (js ''a00188'', spec_a00188),
    (js ''a00192'', spec_a00192),
    (js ''a00196'', spec_a00196),
    (js ''a00200'', spec_a00200),
    (js ''a00204'', spec_a00204),
    (js ''a00208'', spec_a00208),
    (js ''a00212'', spec_a00212),
    (js ''a00216'', spec_a00216),
    (js ''a00220'', spec_a00220),
    (js ''a00224'', spec_a00224),
    (js ''a00228'', spec_a00228),
    (js ''a00232'', spec_a00232),
    (js ''a00236'', spec_a00236),
    (js ''a00240'', spec_a00240),
    (js ''a00244'', spec_a00244),
    (js ''a00248'', spec_a00248),
    (js ''a00252'', spec_a00252),
    (js ''a00256'', spec_a00256),
    (js ''a00260'', spec_a00260),
    (js ''a00261'', spec_a00261),
    (js ''a00264'', spec_a00264),
    (js ''a00267'', spec_a00267),
    (js ''a00270'', spec_a00270),
    (js ''a00273'', spec_a00273),
    (js ''a00276'', spec_a00276),
    (js ''a00279'', spec_a00279),
    (js ''a00282'', spec_a00282),
    (js ''a00285'', spec_a00285),
    (js ''a00288'', spec_a00288),
    (js ''a00291'', spec_a00291),
    (js ''a00294'', spec_a00294),
    (js ''a00306'', spec_a00306),
    (js ''a00309'', spec_a00309),
    (js ''a00312'', spec_a00312),
    (js ''a00315'', spec_a00315),
    (js ''a00318'', spec_a00318),
    (js ''a00321'', spec_a00321),
    (js ''a00324'', spec_a00324),
    (js ''a00327'', spec_a00327),
    (js ''a00330'', spec_a00330),
    (js ''a00333'', spec_a00333),
    (js ''annotated_dup'', spec_annotated_dup),
    (js ''dir_17edc2d27dad8bf4bcee8d792b0504f2'', spec_dir_17edc2d27dad8bf4bcee8d792b0504f2),
    (js ''dir_766553b45c2595ee373ab9cd46c1b7b4'', spec_dir_766553b45c2595ee373ab9cd46c1b7b4),
    (js ''dir_777eb751ba0556a74a781f1965b690d9'', spec_dir_777eb751ba0556a74a781f1965b690d9),
    (js ''dir_d7a110bb8765aa85a3c6cafeaf54b8ea'', spec_dir_d7a110bb8765aa85a3c6cafeaf54b8ea),
    (js ''dir_f46799117fa6d4670f313b2ab4ad8389'', spec_dir_f46799117fa6d4670f313b2ab4ad8389),
    (js ''dir_f9530a031e82794186de7c9c8fdc2b6f'', spec_dir_f9530a031e82794186de7c9c8fdc2b6f),
    (js ''files_dup'', spec_files_dup),
    (js ''globals_dup'', spec_globals_dup),
    (js ''globals_func'', spec_globals_func)]"

lemmas spec_lists =
  spec_a00050_def
  spec_a00056_def
  spec_a00071_def
  spec_a00080_def
  spec_a00083_def
  spec_a00086_def
  spec_a00089_def
  spec_a00092_def
  spec_a00101_def
  spec_a00104_def
  spec_a00113_def
  spec_a00116_def
  spec_a00122_def
  spec_a00128_def
  spec_a00132_def
  spec_a00136_def
  spec_a00140_def
  spec_a00144_def
  spec_a00148_def
  spec_a00160_def
  spec_a00172_def
  spec_a00188_def
  spec_a00192_def
  spec_a00196_def
  spec_a00200_def
  spec_a00204_def
  spec_a00208_def
  spec_a00212_def
  spec_a00216_def
  spec_a00220_def
  spec_a00224_def
  spec_a00228_def
  spec_a00232_def
  spec_a00236_def
  spec_a00240_def
  spec_a00244_def
  spec_a00248_def
  spec_a00252_def
  spec_a00256_def
  spec_a00260_def
  spec_a00261_def
  spec_a00264_def
  spec_a00267_def
  spec_a00270_def
  spec_a00273_def
  spec_a00276_def
  spec_a00279_def
  spec_a00282_def
  spec_a00285_def
  spec_a00288_def
  spec_a00291_def
  spec_a00294_def
  spec_a00306_def
  spec_a00309_def
  spec_a00312_def
  spec_a00315_def
  spec_a00318_def
  spec_a00321_def
  spec_a00324_def
  spec_a00327_def
  spec_a00330_def
  spec_a00333_def
  spec_annotated_dup_def
  spec_dir_17edc2d27dad8bf4bcee8d792b0504f2_def
  spec_dir_766553b45c2595ee373ab9cd46c1b7b4_def
  spec_dir_777eb751ba0556a74a781f1965b690d9_def
  spec_dir_d7a110bb8765aa85a3c6cafeaf54b8ea_def
  spec_dir_f46799117fa6d4670f313b2ab4ad8389_def
  spec_dir_f9530a031e82794186de7c9c8fdc2b6f_def
  spec_files_dup_def
  spec_globals_dup_def
  spec_globals_func_def

end
