(* ===== verification/Spec_Tree.thy ===== *)
theory Spec_Tree
  imports Nav_Index Site_Spec Spec_Tree_Data
begin

text \<open>
  The navigation tree of the specification site, whose lists are loaded on demand: every
  address of the three index files is shown by the tree.
\<close>

section \<open>The site\<close>

definition spec_nav :: "nav_site \<Rightarrow> nav_site" where
  \<comment> \<open>the site's data on a given browser\<close>
  "spec_nav B = B\<lparr>NAVTREE := spec_NAVTREE, NAVTREEINDEX := spec_NAVTREEINDEX,
     navVar := (\<lambda>v. map_option NavItems (map_of spec_vars v)),
     navIndexVar := (\<lambda>i. if i < 3 then Some (map_of (spec_index i)) else None),
     SYNCONMSG := spec_SYNCONMSG, SYNCOFFMSG := spec_SYNCOFFMSG\<rparr>"

lemma spec_nav_fields [simp]:
  "NAVTREE (spec_nav B) = spec_NAVTREE" "NAVTREEINDEX (spec_nav B) = spec_NAVTREEINDEX"
  "navVar (spec_nav B) = (\<lambda>v. map_option NavItems (map_of spec_vars v))"
  "navIndexVar (spec_nav B) = (\<lambda>i. if i < 3 then Some (map_of (spec_index i)) else None)"
  by (simp_all add: spec_nav_def)

section \<open>The scripts\<close>

lemma spec_vars_distinct: "distinct (map fst spec_vars)"
  by (rule distinct_of_ascending) (simp add: spec_vars_def str_less_def str_le_lit)

lemma spec_var_names: "list_all (\<lambda>(v, items). dataName v = v) spec_vars"
  by (simp add: spec_vars_def dataName_plain)

lemma spec_loads: "(v, items) \<in> set spec_vars \<Longrightarrow> loads (spec_nav B) v = Some (NavItems items)"
  using spec_vars_distinct spec_var_names by (auto simp: loads_def list_all_iff)

lemma spec_loaded: "list_all (\<lambda>(v, items). loads (spec_nav B) v = Some (NavItems items)) spec_vars"
  using spec_loads by (auto simp: list_all_iff)

lemmas spec_scripts = spec_loaded [unfolded spec_vars_def list.pred_inject prod.case]

lemma spec_lists_clean: "list_all (\<lambda>(v, items). clean_data (NavItems items)) spec_vars"
  by (simp add: spec_vars_def spec_lists cong: frozen_js)

lemma spec_clean_loader: "clean_loader (loads (spec_nav B))"
  using spec_lists_clean
  by (auto simp: clean_loader_def loads_def list_all_iff dest!: map_of_SomeD simp del: clean_data.simps)

lemma spec_clean: "clean_data (NavItems spec_NAVTREE)"
  by (simp add: spec_NAVTREE_def cong: frozen_js)

section \<open>The paths of the index\<close>

text \<open>An address below an entry, with the search for the entry at a number spelled out.\<close>

fun page_below :: "nav_site \<Rightarrow> jstr \<Rightarrow> nav_item \<Rightarrow> nat list \<Rightarrow> bool" where
  "page_below S url (tx, l, d) [] = ((case l of Some p \<Rightarrow> stands_for p url | None \<Rightarrow> False) \<and>
     (case d of VarName v \<Rightarrow> loads S v \<noteq> None | _ \<Rightarrow> True))"
| "page_below S url (tx, l, d) (b # bs) = (case resolve (loads S) d of
     NavItems items \<Rightarrow> b < length items \<and> page_below S url (items ! b) bs | _ \<Rightarrow> False)"

lemma page_below_entry:
  assumes "clean_loader (loads S)"
  shows "page_below S url item bs \<Longrightarrow> items ! b = item \<Longrightarrow> b < length items \<Longrightarrow>
    \<exists>tx p d. lazy_at (loads S) (NavItems items) (b # bs) = Some (tx, Some p, d) \<and> stands_for p url \<and>
      (\<forall>v. d = VarName v \<longrightarrow> loads S v \<noteq> None)"
proof (induction S url item bs arbitrary: items b rule: page_below.induct)
  case (1 S url tx l d)
  then show ?case by (auto simp: resolve_def split: option.splits nav_data.splits)
next
  case (2 S url tx l d c bs)
  then obtain sub where sub: "resolve (loads S) d = NavItems sub" "c < length sub" "page_below S url (sub ! c) bs"
    by (auto split: nav_data.splits)
  have "lazy_at (loads S) (NavItems items) (b # c # bs) = lazy_at (loads S) d (c # bs)"
    using 2(3,4) by (simp add: resolve_def [of _ "NavItems items"])
  also have "\<dots> = lazy_at (loads S) (NavItems sub) (c # bs)" using sub(1) by (simp add: resolve_def [of _ "NavItems sub"])
  finally show ?case using 2(1) [OF sub(1) sub(3) refl sub(2)] by simp
qed

lemma page_below_full:
  assumes "clean_loader (loads S)" "NAVTREE S = [item]" "page_below S url item bs"
  shows "has_full_page url (full_entry S (0 # bs))"
proof -
  obtain tx p d where d: "lazy_at (loads S) (NavItems [item]) (0 # bs) = Some (tx, Some p, d)" "stands_for p url"
    "\<forall>v. d = VarName v \<longrightarrow> loads S v \<noteq> None"
    using page_below_entry [OF assms(1,3), of "[item]" 0] by auto
  have "\<not> (\<exists>v. resolve (loads S) d = VarName v)"
    using assms(1) d(3) by (auto simp: resolve_def clean_loader_def split: nav_data.splits option.splits)
  then show ?thesis
    using d(1,2) unfolding full_entry_def assms(2) by (auto split: nav_data.splits simp del: lazy_at.simps)
qed

definition page_in :: "nav_site \<Rightarrow> jstr \<Rightarrow> nav_item list \<Rightarrow> nat \<Rightarrow> nat list \<Rightarrow> bool" where
  "page_in S url items b bs \<longleftrightarrow> b < length items \<and> page_below S url (items ! b) bs"

text \<open>Long lists are walked in steps of eight.\<close>

definition page_near :: "nav_site \<Rightarrow> jstr \<Rightarrow> nav_item list \<Rightarrow> nat \<Rightarrow> nat list \<Rightarrow> bool" where
  "page_near = page_in"

lemma page_in_append: "page_in S url (xs @ ys) b bs =
    (if b < length xs then page_near S url xs b bs else page_in S url ys (b - length xs) bs)"
  by (auto simp: page_in_def page_near_def nth_append)

lemma page_in_eight:
  "page_in S url (x0 # x1 # x2 # x3 # x4 # x5 # x6 # x7 # xs) b bs =
    (if b < 8 then page_near S url [x0, x1, x2, x3, x4, x5, x6, x7] b bs else page_in S url xs (b - 8) bs)"
  using page_in_append [of S url "[x0, x1, x2, x3, x4, x5, x6, x7]" xs b bs] by (simp add: eval_nat_numeral)

lemma page_in_short:
  "page_in S url [] b bs = False" "page_in S url [x0] b bs = page_near S url [x0] b bs"
  "page_in S url [x0, x1] b bs = page_near S url [x0, x1] b bs"
  "page_in S url [x0, x1, x2] b bs = page_near S url [x0, x1, x2] b bs"
  "page_in S url [x0, x1, x2, x3] b bs = page_near S url [x0, x1, x2, x3] b bs"
  "page_in S url [x0, x1, x2, x3, x4] b bs = page_near S url [x0, x1, x2, x3, x4] b bs"
  "page_in S url [x0, x1, x2, x3, x4, x5] b bs = page_near S url [x0, x1, x2, x3, x4, x5] b bs"
  "page_in S url [x0, x1, x2, x3, x4, x5, x6] b bs = page_near S url [x0, x1, x2, x3, x4, x5, x6] b bs"
  by (simp_all add: page_near_def page_in_def)

lemma page_near_simps:
  "page_near S url [] b bs = False"
  "page_near S url (x # xs) 0 bs = page_below S url x bs"
  "page_near S url (x # xs) 1 bs = page_near S url xs 0 bs"
  "page_near S url (x # xs) (Suc k) bs = page_near S url xs k bs"
  "page_near S url (x # xs) (numeral w) bs = page_near S url xs (pred_numeral w) bs"
  by (simp_all add: page_near_def page_in_def numeral_eq_Suc)

lemma page_below_list:
  "page_below S url (tx, l, NavItems items) (b # bs) = page_in S url items b bs"
  by (simp add: resolve_def page_in_def)

lemma page_below_script:
  "loads S v = Some (NavItems items) \<Longrightarrow> page_below S url (tx, l, VarName v) (b # bs) = page_in S url items b bs"
  by (simp add: resolve_def page_in_def)

lemma page_below_here:
  "page_below S url (tx, Some p, NoData) [] = stands_for p url"
  "page_below S url (tx, Some p, NavItems items) [] = stands_for p url"
  "loads S v = Some x \<Longrightarrow> page_below S url (tx, Some p, VarName v) [] = stands_for p url"
  by simp_all

lemma js_take: "take n (js s) = js (take n s)"
  by (simp add: js_def take_map)

lemma stands_for_lit: "stands_for (js l) (js u) = (if l = u then True else u = take (length l - 5) l @ ''_source.html'')"
  by (simp add: stands_for_def source_page_def js_take js_append)

lemma page_in_list: "items = xs \<Longrightarrow> page_in S url items b bs = page_in S url xs b bs"
  by simp

text \<open>The data below a step is not looked at before the step is taken.\<close>

lemma frozen_pages:
  "js s = js s" "page_below S url item bs = page_below S url item bs"
  "b = b' \<Longrightarrow> page_in S url items b bs = page_in S url items b' bs"
  "b = b' \<Longrightarrow> page_near S url items b bs = page_near S url items b' bs"
  by simp_all

definition spec_top :: nav_item where "spec_top = hd spec_NAVTREE"

lemma spec_tree_top: "spec_NAVTREE = [spec_top]"
  by (simp add: spec_top_def spec_NAVTREE_def)

lemmas spec_top_lit = spec_top_def [unfolded spec_NAVTREE_def list.sel]

lemma spec_top_list: "page_below S url spec_top (b # bs) = page_in S url (case snd (snd spec_top) of NavItems items \<Rightarrow> items | _ \<Rightarrow> []) b bs"
  by (simp add: spec_top_lit resolve_def page_in_def)

lemmas page_rules = page_in_eight page_in_short page_near_simps page_below_list page_below_script page_below_here
  stands_for_lit spec_scripts spec_lists [THEN page_in_list]
  spec_top_list [unfolded spec_top_lit snd_conv nav_data.case, folded spec_top_lit]

abbreviation paths_lead :: "nav_site \<Rightarrow> (jstr \<times> nat list) list \<Rightarrow> bool" where
  "paths_lead B es \<equiv> list_all (\<lambda>(url, bs). bs = [] \<or> page_below (spec_nav B) url spec_top bs) es"

lemma spec_paths0a: "paths_lead B spec_NAVTREEINDEX0a"
  unfolding spec_NAVTREEINDEX0a_def
  by (simp add: page_rules del: page_below.simps cong: frozen_pages)

lemma spec_paths0b: "paths_lead B spec_NAVTREEINDEX0b"
  unfolding spec_NAVTREEINDEX0b_def
  by (simp add: page_rules del: page_below.simps cong: frozen_pages)

lemma spec_paths1a: "paths_lead B spec_NAVTREEINDEX1a"
  unfolding spec_NAVTREEINDEX1a_def
  by (simp add: page_rules del: page_below.simps cong: frozen_pages)

lemma spec_paths1b: "paths_lead B spec_NAVTREEINDEX1b"
  unfolding spec_NAVTREEINDEX1b_def
  by (simp add: page_rules del: page_below.simps cong: frozen_pages)

lemma spec_paths2a: "paths_lead B spec_NAVTREEINDEX2a"
  unfolding spec_NAVTREEINDEX2a_def
  by (simp add: page_rules del: page_below.simps cong: frozen_pages)

lemma spec_paths2b: "paths_lead B spec_NAVTREEINDEX2b"
  unfolding spec_NAVTREEINDEX2b_def
  by (simp add: page_rules del: page_below.simps cong: frozen_pages)

lemmas spec_tables = spec_NAVTREEINDEX0_def spec_NAVTREEINDEX1_def spec_NAVTREEINDEX2_def

lemma spec_paths: "paths_lead B (spec_index i)"
  unfolding spec_index_def spec_tables
  using spec_paths0a spec_paths0b spec_paths1a spec_paths1b spec_paths2a spec_paths2b by simp

section \<open>The addresses of the index\<close>

text \<open>Each table ascends up to the first address of the following one.\<close>

lemma spec_chain0a: "chain spec_NAVTREEINDEX0a (js ''a00083.html#a70d944aa12cea2bad255b9bdd30225eb'')"
  unfolding spec_NAVTREEINDEX0a_def by (simp add: chain_rules del: chain.simps(2,3) lit_before.simps(3) cong: chain_frozen)

lemma spec_chain0b: "chain spec_NAVTREEINDEX0b (js ''a00092.html#aadb9bac764034588d3f2279f1453f8c0'')"
  unfolding spec_NAVTREEINDEX0b_def by (simp add: chain_rules del: chain.simps(2,3) lit_before.simps(3) cong: chain_frozen)

lemma spec_chain1a: "chain spec_NAVTREEINDEX1a (js ''a00212.html#af6f29b1bab1ae17c00e8a0cd458390ab'')"
  unfolding spec_NAVTREEINDEX1a_def by (simp add: chain_rules del: chain.simps(2,3) lit_before.simps(3) cong: chain_frozen)

lemma spec_chain1b: "chain spec_NAVTREEINDEX1b (js ''a00294.html#a12e0a5703767c19b688f1056ce87518f'')"
  unfolding spec_NAVTREEINDEX1b_def by (simp add: chain_rules del: chain.simps(2,3) lit_before.simps(3) cong: chain_frozen)

lemma spec_chain2a: "chain spec_NAVTREEINDEX2a (js ''a00333.html#a1aecd1c242901cf3c8844fd276c6047a'')"
  unfolding spec_NAVTREEINDEX2a_def by (simp add: chain_rules del: chain.simps(2,3) lit_before.simps(3) cong: chain_frozen)

lemma spec_chain2b: "chain spec_NAVTREEINDEX2b (js ''q'')"
  unfolding spec_NAVTREEINDEX2b_def by (simp add: chain_rules del: chain.simps(2,3) lit_before.simps(3) cong: chain_frozen)

lemma spec_heads:
  "spec_NAVTREEINDEX0a \<noteq> []" "fst (hd spec_NAVTREEINDEX0a) = js ''a00029.html''"
  "spec_NAVTREEINDEX0b \<noteq> []" "fst (hd spec_NAVTREEINDEX0b) = js ''a00083.html#a70d944aa12cea2bad255b9bdd30225eb''"
  "spec_NAVTREEINDEX1a \<noteq> []" "fst (hd spec_NAVTREEINDEX1a) = js ''a00092.html#aadb9bac764034588d3f2279f1453f8c0''"
  "spec_NAVTREEINDEX1b \<noteq> []" "fst (hd spec_NAVTREEINDEX1b) = js ''a00212.html#af6f29b1bab1ae17c00e8a0cd458390ab''"
  "spec_NAVTREEINDEX2a \<noteq> []" "fst (hd spec_NAVTREEINDEX2a) = js ''a00294.html#a12e0a5703767c19b688f1056ce87518f''"
  "spec_NAVTREEINDEX2b \<noteq> []" "fst (hd spec_NAVTREEINDEX2b) = js ''a00333.html#a1aecd1c242901cf3c8844fd276c6047a''"
  by (simp_all add: spec_NAVTREEINDEX0a_def spec_NAVTREEINDEX0b_def spec_NAVTREEINDEX1a_def spec_NAVTREEINDEX1b_def
    spec_NAVTREEINDEX2a_def spec_NAVTREEINDEX2b_def)

lemma spec_chain: "\<exists>w. chain (spec_index i) w \<and> (Suc i < length spec_NAVTREEINDEX \<longrightarrow> w = spec_NAVTREEINDEX ! Suc i)"
proof -
  have tables: "chain spec_NAVTREEINDEX0 (js ''a00092.html#aadb9bac764034588d3f2279f1453f8c0'')"
    "chain spec_NAVTREEINDEX1 (js ''a00294.html#a12e0a5703767c19b688f1056ce87518f'')" "chain spec_NAVTREEINDEX2 (js ''q'')"
    unfolding spec_tables
    by (intro chain_append; simp add: spec_heads spec_chain0a spec_chain0b spec_chain1a spec_chain1b spec_chain2a spec_chain2b)+
  consider "i = 0" | "i = 1" | "i = 2" | "i > 2" by linarith
  then show ?thesis using tables by cases (auto simp: spec_index_def spec_NAVTREEINDEX_def)
qed

interpretation spec_site: documented_site "spec_nav B" spec_index
proof unfold_locales
  show "sorted_wrt str_le (NAVTREEINDEX (spec_nav B))" by (simp add: spec_NAVTREEINDEX_def str_le_lit)
  show "clean_data (NavItems (NAVTREE (spec_nav B)))" using spec_clean by simp
  show "clean_loader (loads (spec_nav B))" by (rule spec_clean_loader)
next
  fix i assume i: "spec_index i \<noteq> []"
  then show "navIndexVar (spec_nav B) i = Some (map_of (spec_index i))"
    by (simp add: spec_index_def split: if_splits)
  show "i < length (NAVTREEINDEX (spec_nav B)) \<and> NAVTREEINDEX (spec_nav B) ! i = fst (hd (spec_index i))"
    using i spec_heads by (auto simp: spec_index_def spec_tables spec_NAVTREEINDEX_def split: if_splits)
next
  fix i show "\<exists>w. chain (spec_index i) w \<and>
      (Suc i < length (NAVTREEINDEX (spec_nav B)) \<longrightarrow> w = NAVTREEINDEX (spec_nav B) ! Suc i)"
    using spec_chain by simp
next
  fix url bs i assume e: "(url, bs) \<in> set (spec_index i)" "bs \<noteq> []"
  have "page_below (spec_nav B) url spec_top bs"
    using spec_paths [of B i] e by (auto simp: list_all_iff)
  then show "has_full_page url (full_entry (spec_nav B) (0 # bs))"
    by (intro page_below_full [OF spec_clean_loader]) (simp add: spec_tree_top)
qed

section \<open>The addresses of the site\<close>



end
