(* ===== verification/Resize.thy ===== *)
theory Resize
  imports JS_Strings
begin

text \<open>
  The resizable navigation panel (\<open>resize.js\<close>): the cookie that remembers its width,
  the layout of panel and content, collapsing and expanding, and the reaction to changes
  of the window. Sizes are whole numbers of pixels.
\<close>

section \<open>Numbers in text\<close>

text \<open>\<open>parseInt\<close>: blanks, a sign, and the longest run of digits, hexadecimal after \<open>0x\<close>.\<close>

abbreviation is_dec :: "cu \<Rightarrow> bool" where "is_dec c \<equiv> 48 \<le> unat c \<and> unat c \<le> 57"

definition number :: "nat \<Rightarrow> jstr \<Rightarrow> int" where
  "number base ds = foldl (\<lambda>n c. n * int base + int (the (hexval c))) 0 ds"

definition sign_of :: "jstr \<Rightarrow> int \<times> jstr" where
  "sign_of s = (case s of c # r \<Rightarrow> if c = cu_of (CHR ''-'') then (-1, r)
                 else if c = cu_of (CHR ''+'') then (1, r) else (1, s) | [] \<Rightarrow> (1, s))"

definition parseInt :: "jstr \<Rightarrow> int option" where
  "parseInt s =
     (let (sg, r) = sign_of (strip_leading s);
          hex = prefix (js ''0x'') r \<or> prefix (js ''0X'') r;
          ds = (if hex then takeWhile (\<lambda>c. hexval c \<noteq> None) (drop 2 r) else takeWhile is_dec r)
      in if ds = [] then None else Some (sg * number (if hex then 16 else 10) ds))"

text \<open>Text as a number in a comparison: whole decimal numbers; other text is not a number.\<close>

definition int_text :: "jstr \<Rightarrow> int option" where
  "int_text s =
     (let (sg, ds) = sign_of s
      in if ds \<noteq> [] \<and> list_all is_dec ds then Some (sg * number 10 ds) else None)"

definition toNumber :: "jstr \<Rightarrow> int option" where
  "toNumber s = (let t = strip_trailing (strip_leading s) in if t = [] then Some 0 else int_text t)"

section \<open>State\<close>

record cookie =
  cname :: jstr
  cvalue :: jstr
  cattrs :: "jstr list"

record panel =
  jar :: "cookie list"
  windowW :: int
  windowH :: int
  sideWidth :: int
  sidePad :: int
  contentH :: jstr
  navtreeH :: jstr
  sideH :: jstr
  marginLeft :: jstr
  handleWidth :: jstr
  syncRight :: jstr
  collapsed :: bool
  collapsedWidth :: int
  barWidth :: int
  href :: jstr
  locHash :: jstr
  scrolledTo :: "jstr option list"

text \<open>What the browser and the page provide.\<close>

record panel_env =
  now :: int
  toGMTString :: "int \<Rightarrow> jstr"
  headerH :: int
  footerH :: int
  page_layout :: "int option"
  hasElement :: "jstr \<Rightarrow> bool"
  userAgent :: jstr
  lowerText :: "jstr \<Rightarrow> jstr"

text \<open>A value that is a number or the text of a cookie.\<close>

datatype width_value = Num int | Txt jstr

abbreviation semicolon :: cu where "semicolon \<equiv> cu_of (CHR '';'')"
abbreviation equals :: cu where "equals \<equiv> cu_of (CHR ''='')"

section \<open>Cookies\<close>

text \<open>Reading \<open>document.cookie\<close> lists the pairs; assigning to it changes or adds one.\<close>

definition pair_text :: "cookie \<Rightarrow> jstr" where
  "pair_text c = cname c @ [equals] @ cvalue c"

fun join :: "jstr \<Rightarrow> jstr list \<Rightarrow> jstr" where
  "join sep [] = []"
| "join sep [x] = x"
| "join sep (x # y # xs) = x @ sep @ join sep (y # xs)"

definition document_cookie :: "cookie list \<Rightarrow> jstr" where
  "document_cookie cs = join (js ''; '') (map pair_text cs)"

fun storeCookie :: "cookie \<Rightarrow> cookie list \<Rightarrow> cookie list" where
  "storeCookie c [] = [c]"
| "storeCookie c (d # cs) = (if cname d = cname c then c # cs else d # storeCookie c cs)"

definition setCookie :: "jstr \<Rightarrow> cookie list \<Rightarrow> cookie list" where
  "setCookie line cs =
     (let parts = split_at semicolon line;
          pair = strip_trailing (strip_leading (hd parts));
          name = takeWhile (\<lambda>c. c \<noteq> equals) pair
      in storeCookie \<lparr>cname = name, cvalue = drop (Suc (length name)) pair, cattrs = tl parts\<rparr> cs)"

definition cookie_namespace :: jstr where "cookie_namespace = js ''doxygen''"

definition readCookie :: "jstr \<Rightarrow> panel \<Rightarrow> jstr option" where
  \<comment> \<open>\<open>None\<close> for the result \<open>0\<close>\<close>
  "readCookie cookie s =
     (let myCookie = cookie_namespace @ js ''_'' @ cookie @ js ''='';
          text = document_cookie (jar s);
          index = indexOf text myCookie
      in if text = [] \<or> index = -1 then None
         else let valStart = nat index + length myCookie;
                  valEnd0 = indexOf2 text [semicolon] valStart;
                  valEnd = (if valEnd0 = -1 then int (length text) else valEnd0)
              in Some (substring2 text (int valStart) valEnd))"

definition writeCookie :: "panel_env \<Rightarrow> jstr \<Rightarrow> jstr option \<Rightarrow> jstr option \<Rightarrow> panel \<Rightarrow> panel" where
  "writeCookie E cookie val expiration s =
     (case val of None \<Rightarrow> s
      | Some v \<Rightarrow>
         (let expires = (case expiration of Some x \<Rightarrow> x
                         | None \<Rightarrow> toGMTString E (now E + 10 * 365 * 24 * 60 * 60 * 1000))
          in s\<lparr>jar := setCookie (cookie_namespace @ js ''_'' @ cookie @ js ''='' @ v @
                 js ''; SameSite=Lax; expires='' @ expires @ js ''; path=/'') (jar s)\<rparr>))"

section \<open>Layout\<close>

abbreviation width_key :: jstr where "width_key \<equiv> js ''width''"

definition px :: "int \<Rightarrow> jstr" where "px n = num_str n @ js ''px''"

definition outerWidth :: "panel \<Rightarrow> int" where
  "outerWidth s = sideWidth s + sidePad s"

definition resizeWidth :: "panel_env \<Rightarrow> panel \<Rightarrow> panel" where
  "resizeWidth E s =
     writeCookie E width_key (Some (num_str (outerWidth s - barWidth s))) None
       (s\<lparr>marginLeft := px (outerWidth s)\<rparr>)"

definition css_width :: "width_value \<Rightarrow> int \<Rightarrow> int" where
  \<comment> \<open>the width after \<open>css({width: w + "px"})\<close>; what is not a length is ignored\<close>
  "css_width w old = (case (case w of Num n \<Rightarrow> Some n | Txt t \<Rightarrow> int_text t) of
     Some n \<Rightarrow> if 0 \<le> n then n else old | None \<Rightarrow> old)"

definition restoreWidth :: "width_value \<Rightarrow> panel \<Rightarrow> panel" where
  "restoreWidth navWidth s =
     s\<lparr>marginLeft := (case (case navWidth of Num n \<Rightarrow> Some n | Txt t \<Rightarrow> parseInt t) of
           Some n \<Rightarrow> px (n + barWidth s) | None \<Rightarrow> js ''NaNpx''),
       sideWidth := css_width navWidth (sideWidth s)\<rparr>"

definition in_range :: "jstr option \<Rightarrow> int \<Rightarrow> bool" where
  \<comment> \<open>\<open>width>200 && width<$(window).width()\<close>\<close>
  "in_range w win = (case (case w of None \<Rightarrow> Some 0 | Some t \<Rightarrow> toNumber t) of
     Some n \<Rightarrow> 200 < n \<and> n < win | None \<Rightarrow> False)"

definition collapseExpand :: "panel \<Rightarrow> panel" where
  "collapseExpand s =
     (if sideWidth s > 0 then (restoreWidth (Num 0) s)\<lparr>collapsed := True\<rparr>
      else let width = readCookie width_key s
           in (restoreWidth (if in_range width (windowW s) then Txt (the width) else Num 200) s)
                \<lparr>collapsed := False\<rparr>)"

abbreviation desktop_vp :: int where "desktop_vp \<equiv> 768"

definition heights :: "panel_env \<Rightarrow> panel \<Rightarrow> (int \<times> int \<times> int) option" where
  \<comment> \<open>content, tree and panel; undefined for any other layout\<close>
  "heights E s =
     (if page_layout E = None \<or> page_layout E = Some 0
      then (let h = windowH s - headerH E - footerH E in Some (h, h, h))
      else if page_layout E = Some 1
      then Some (windowH s - footerH E, windowH s - headerH E, windowH s)
      else None)"

definition autoCollapse :: "panel \<Rightarrow> panel" where
  \<comment> \<open>the part of \<open>resizeHeight\<close> that reacts to the width of the window\<close>
  "autoCollapse s =
     (let width = windowW s in
      if width \<noteq> collapsedWidth s then
        (let s1 = (if width < desktop_vp \<and> collapsedWidth s \<ge> desktop_vp
                   then (if \<not> collapsed s then collapseExpand s else s)
                   else if width > desktop_vp \<and> collapsedWidth s < desktop_vp
                   then (if collapsed s then collapseExpand s else s)
                   else s)
         in s1\<lparr>collapsedWidth := width\<rparr>)
      else s)"

definition resizeHeight :: "panel_env \<Rightarrow> panel \<Rightarrow> panel" where
  "resizeHeight E s =
     (let s1 = (case heights E s of
            Some (c, n, d) \<Rightarrow> s\<lparr>contentH := px c, navtreeH := px n, sideH := px d\<rparr> | None \<Rightarrow> s);
          s2 = autoCollapse s1;
          name = drop 1 (locHash s2)
      in if name \<noteq> [] then s2\<lparr>scrolledTo := scrolledTo s2 @ [if hasElement E name then Some name else None]\<rparr>
         else s2)"

section \<open>Starting\<close>

definition touch_device :: "panel_env \<Rightarrow> bool" where
  "touch_device E =
     (let device = toLowerCase (lowerText E) (userAgent E)
      in list_ex (\<lambda>p. indexOf device p \<noteq> -1) [js ''iphone'', js ''ipod'', js ''ipad'', js ''android''])"

definition widenBar :: "panel_env \<Rightarrow> panel \<Rightarrow> panel" where
  "widenBar E s =
     (if touch_device E
      then s\<lparr>sidePad := 20, handleWidth := js ''20px'', syncRight := js ''34px'', barWidth := 20\<rparr> else s)"

definition initResizable :: "panel_env \<Rightarrow> panel \<Rightarrow> panel" where
  "initResizable E s0 =
     (let s1 = s0\<lparr>collapsed := False, collapsedWidth := 0, barWidth := 6\<rparr>;
          s2 = widenBar E s1;
          width = readCookie width_key s2;
          s3 = (case width of Some t \<Rightarrow> if t \<noteq> [] then restoreWidth (Txt t) s2 else resizeWidth E s2
                | None \<Rightarrow> resizeWidth E s2);
          s4 = resizeHeight E s3;
          i = indexOf (href s4) (js ''#'')
      in if i \<ge> 0 then s4\<lparr>locHash := drop (nat i) (href s4)\<rparr> else s4)"

text \<open>The events that \<open>initResizable\<close> binds: dragging the bar, resizing, a double click.\<close>

definition dragTo :: "panel_env \<Rightarrow> int \<Rightarrow> panel \<Rightarrow> panel" where
  "dragTo E w s = resizeWidth E (s\<lparr>sideWidth := w\<rparr>)"

definition windowResize :: "panel_env \<Rightarrow> int \<Rightarrow> int \<Rightarrow> panel \<Rightarrow> panel" where
  "windowResize E w h s = resizeHeight E (s\<lparr>windowW := w, windowH := h\<rparr>)"

end
