(* ===== verification/Menu.thy ===== *)
theory Menu
  imports Resize
begin

text \<open>
  The main menu (\<open>menu.js\<close>, \<open>menudata.js\<close>): the markup of the menu and of the search
  box, the two places of the search box in narrow and wide windows, and the animation
  of the mobile menu, which sets the resizable panel up again at every step.
\<close>

section \<open>Menu data and markup\<close>

text \<open>An entry has a text, a link and, possibly, entries below it.\<close>

datatype menu_data = Menu "(jstr \<times> jstr \<times> menu_data) list option"

fun makeTree :: "jstr \<Rightarrow> menu_data \<Rightarrow> jstr" and makeItems :: "jstr \<Rightarrow> (jstr \<times> jstr \<times> menu_data) list \<Rightarrow> jstr" where
  "makeTree relPath (Menu None) = []"
| "makeTree relPath (Menu (Some cs)) = js ''<ul>'' @ makeItems relPath cs @ js ''</ul>''"
| "makeItems relPath [] = []"
| "makeItems relPath ((label, url, data) # cs) =
     js ''<li><a href=\"'' @ relPath @ url @ js ''\">'' @ label @ js ''</a>'' @
     makeTree relPath data @ js ''</li>'' @ makeItems relPath cs"

definition serverBox :: "jstr \<Rightarrow> jstr \<Rightarrow> jstr \<Rightarrow> jstr" where
  "serverBox relPath searchPage search =
     js ''<div id=\"MSearchBox\" class=\"MSearchBoxInactive\">'' @
     js ''<div class=\"left\">'' @
     js ''<form id=\"FSearchBox\" action=\"'' @ relPath @ searchPage @
     js ''\" method=\"get\"><img id=\"MSearchSelect\" src=\"'' @
     relPath @ js ''search/mag.svg\" alt=\"\"/>'' @
     js ''<input type=\"text\" id=\"MSearchField\" name=\"query\" value=\"'' @ search @
     js ''\" size=\"20\" accesskey=\"S\" onfocus=\"searchBox.OnSearchFieldFocus(true)\"'' @
     js '' onblur=\"searchBox.OnSearchFieldFocus(false)\">'' @
     js ''</form>'' @
     js ''</div>'' @
     js ''<div class=\"right\"></div>'' @
     js ''</div>''"

text \<open>
  In the other branch the expression ends after \<open>'search/close.svg" alt=""/></a>'\<close>: no operator
  follows, so that the closing tags on the next two lines are statements of their own.
\<close>

definition clientBox :: "jstr \<Rightarrow> jstr \<Rightarrow> jstr" where
  "clientBox relPath search =
     js ''<div id=\"MSearchBox\" class=\"MSearchBoxInactive\">'' @
     js ''<span class=\"left\">'' @
     js ''<img id=\"MSearchSelect\" src=\"'' @ relPath @
     js ''search/mag_sel.svg\" onmouseover=\"return searchBox.OnSearchSelectShow()\"'' @
     js '' onmouseout=\"return searchBox.OnSearchSelectHide()\" alt=\"\"/>'' @
     js ''<input type=\"text\" id=\"MSearchField\" value=\"'' @ search @
     js ''\" accesskey=\"S\" onfocus=\"searchBox.OnSearchFieldFocus(true)\" '' @
     js ''onblur=\"searchBox.OnSearchFieldFocus(false)\" '' @
     js ''onkeyup=\"searchBox.OnSearchFieldChange(event)\"/>'' @
     js ''</span>'' @
     js ''<span class=\"right\"><a id=\"MSearchClose\" '' @
     js ''href=\"javascript:searchBox.CloseResultsWindow()\">'' @
     js ''<img id=\"MSearchCloseImg\" border=\"0\" src=\"'' @ relPath @
     js ''search/close.svg\" alt=\"\"/></a>''"

definition searchBoxOf :: "jstr \<Rightarrow> bool \<Rightarrow> bool \<Rightarrow> jstr \<Rightarrow> jstr \<Rightarrow> jstr option" where
  "searchBoxOf relPath searchEnabled serverSide searchPage search =
     (if searchEnabled
      then Some (if serverSide then serverBox relPath searchPage search else clientBox relPath search)
      else None)"

section \<open>State\<close>

record menu_page =
  beforeNav :: jstr
  mainNav :: jstr
  hasMenu :: bool
  menuShown :: bool
  checked :: bool
  pos1 :: jstr
  pos2 :: "jstr option"
  pos2Shown :: bool
  prevWidth :: int
  outerW :: int
  sliding :: "bool option"
  mPanel :: "panel option"

text \<open>The panel is there when \<open>initResizable\<close> is a function of the page.\<close>

definition initResizableIfExists :: "panel_env \<Rightarrow> menu_page \<Rightarrow> menu_page" where
  "initResizableIfExists E s = s\<lparr>mPanel := map_option (initResizable E) (mPanel s)\<rparr>"

definition stateMarkup :: jstr where
  "stateMarkup =
     js ''<div class=\"sm sm-dox\"><input id=\"main-menu-state\" type=\"checkbox\"/>'' @
     js ''<label class=\"main-menu-btn\" for=\"main-menu-state\">'' @
     js ''<span class=\"main-menu-btn-icon\"></span> '' @
     js ''Toggle main menu visibility</label>'' @
     js ''<span id=\"searchBoxPos1\" style=\"position:absolute;right:8px;top:8px;height:36px;\"></span>'' @
     js ''</div>''"

text \<open>
  \<open>initMenu\<close> up to the binding of the events. The first element of the menu's markup, if
  there is one, becomes \<open>#main-menu\<close>, and the second place is made inside it.
\<close>

definition initMenu :: "menu_data \<Rightarrow> jstr \<Rightarrow> jstr option \<Rightarrow> menu_page \<Rightarrow> menu_page" where
  "initMenu data relPath searchBox s =
     (let tree = makeTree relPath data; menu = (tree \<noteq> [])
      in s\<lparr>beforeNav := beforeNav s @ stateMarkup, mainNav := mainNav s @ tree, hasMenu := menu,
           menuShown := True, checked := False, pos1 := [],
           pos2 := (if searchBox \<noteq> None \<and> menu then Some [] else None), pos2Shown := True,
           prevWidth := 0, sliding := None\<rparr>)"

definition html :: "jstr option \<Rightarrow> jstr \<Rightarrow> jstr" where
  \<comment> \<open>\<open>.html(x)\<close>, which changes nothing for \<open>undefined\<close>\<close>
  "html x old = (case x of None \<Rightarrow> old | Some t \<Rightarrow> t)"

definition resetState :: "jstr option \<Rightarrow> menu_page \<Rightarrow> menu_page" where
  "resetState searchBox s =
     (if outerW s \<noteq> prevWidth s then
        (if outerW s < 768
         then s\<lparr>checked := False, menuShown := False, pos1 := html searchBox (pos1 s), pos2Shown := False\<rparr>
         else s\<lparr>menuShown := True, pos1 := [], pos2 := map_option (html searchBox) (pos2 s), pos2Shown := True\<rparr>)
          \<lparr>prevWidth := outerW s\<rparr>
      else s)"

text \<open>The button of the mobile menu: the animation starts, its steps, and its end.\<close>

definition changeState :: "bool \<Rightarrow> menu_page \<Rightarrow> menu_page" where
  "changeState b s = s\<lparr>checked := b, menuShown := True, sliding := Some b\<rparr>"

definition slideStep :: "panel_env \<Rightarrow> menu_page \<Rightarrow> menu_page" where
  "slideStep E s = (if sliding s = None then s else initResizableIfExists E s)"

definition slideDone :: "menu_page \<Rightarrow> menu_page" where
  "slideDone s = (case sliding s of None \<Rightarrow> s | Some b \<Rightarrow> s\<lparr>menuShown := b, sliding := None\<rparr>)"

definition menuReady :: "panel_env \<Rightarrow> jstr option \<Rightarrow> menu_page \<Rightarrow> menu_page" where
  "menuReady E searchBox s = initResizableIfExists E (resetState searchBox s)"

definition menuResize :: "jstr option \<Rightarrow> int \<Rightarrow> menu_page \<Rightarrow> menu_page" where
  "menuResize searchBox w s = resetState searchBox (s\<lparr>outerW := w\<rparr>)"

section \<open>The menus of the two sites\<close>

definition readme_menudata :: menu_data where
  "readme_menudata = Menu (Some [
    (js ''Main Page'', js ''index.html'', Menu None),
    (js ''Related Pages'', js ''pages.html'', Menu None)])"

definition spec_menudata :: menu_data where
  "spec_menudata = Menu (Some [
    (js ''Main Page'', js ''index.html'', Menu None),
    (js ''Classes'', js ''annotated.html'', Menu (Some [
      (js ''Class List'', js ''annotated.html'', Menu None),
      (js ''Class Index'', js ''classes.html'', Menu None),
      (js ''Class Members'', js ''functions.html'', Menu (Some [
        (js ''All'', js ''functions.html'', Menu (Some [
          (js ''a'', js ''functions.html#index_a'', Menu None),
          (js ''b'', js ''functions.html#index_b'', Menu None),
          (js ''c'', js ''functions.html#index_c'', Menu None),
          (js ''d'', js ''functions.html#index_d'', Menu None),
          (js ''e'', js ''functions.html#index_e'', Menu None),
          (js ''f'', js ''functions.html#index_f'', Menu None),
          (js ''h'', js ''functions.html#index_h'', Menu None),
          (js ''i'', js ''functions.html#index_i'', Menu None),
          (js ''k'', js ''functions.html#index_k'', Menu None),
          (js ''l'', js ''functions.html#index_l'', Menu None),
          (js ''m'', js ''functions.html#index_m'', Menu None),
          (js ''n'', js ''functions.html#index_n'', Menu None),
          (js ''o'', js ''functions.html#index_o'', Menu None),
          (js ''p'', js ''functions.html#index_p'', Menu None),
          (js ''r'', js ''functions.html#index_r'', Menu None),
          (js ''s'', js ''functions.html#index_s'', Menu None),
          (js ''t'', js ''functions.html#index_t'', Menu None),
          (js ''u'', js ''functions.html#index_u'', Menu None),
          (js ''v'', js ''functions.html#index_v'', Menu None)])),
        (js ''Variables'', js ''functions_vars.html'', Menu (Some [
          (js ''a'', js ''functions_vars.html#index_a'', Menu None),
          (js ''b'', js ''functions_vars.html#index_b'', Menu None),
          (js ''c'', js ''functions_vars.html#index_c'', Menu None),
          (js ''d'', js ''functions_vars.html#index_d'', Menu None),
          (js ''e'', js ''functions_vars.html#index_e'', Menu None),
          (js ''f'', js ''functions_vars.html#index_f'', Menu None),
          (js ''h'', js ''functions_vars.html#index_h'', Menu None),
          (js ''i'', js ''functions_vars.html#index_i'', Menu None),
          (js ''k'', js ''functions_vars.html#index_k'', Menu None),
          (js ''l'', js ''functions_vars.html#index_l'', Menu None),
          (js ''m'', js ''functions_vars.html#index_m'', Menu None),
          (js ''n'', js ''functions_vars.html#index_n'', Menu None),
          (js ''o'', js ''functions_vars.html#index_o'', Menu None),
          (js ''p'', js ''functions_vars.html#index_p'', Menu None),
          (js ''r'', js ''functions_vars.html#index_r'', Menu None),
          (js ''s'', js ''functions_vars.html#index_s'', Menu None),
          (js ''t'', js ''functions_vars.html#index_t'', Menu None),
          (js ''u'', js ''functions_vars.html#index_u'', Menu None),
          (js ''v'', js ''functions_vars.html#index_v'', Menu None)]))]))])),
    (js ''Files'', js ''files.html'', Menu (Some [
      (js ''File List'', js ''files.html'', Menu None),
      (js ''File Members'', js ''globals.html'', Menu (Some [
        (js ''All'', js ''globals.html'', Menu (Some [
          (js ''_'', js ''globals.html#index__5F'', Menu None),
          (js ''a'', js ''globals_a.html#index_a'', Menu None),
          (js ''c'', js ''globals_c.html#index_c'', Menu None),
          (js ''d'', js ''globals_d.html#index_d'', Menu None),
          (js ''e'', js ''globals_e.html#index_e'', Menu None),
          (js ''f'', js ''globals_f.html#index_f'', Menu None),
          (js ''g'', js ''globals_g.html#index_g'', Menu None),
          (js ''i'', js ''globals_i.html#index_i'', Menu None),
          (js ''m'', js ''globals_m.html#index_m'', Menu None),
          (js ''o'', js ''globals_o.html#index_o'', Menu None),
          (js ''p'', js ''globals_p.html#index_p'', Menu None),
          (js ''r'', js ''globals_r.html#index_r'', Menu None),
          (js ''s'', js ''globals_s.html#index_s'', Menu None),
          (js ''t'', js ''globals_t.html#index_t'', Menu None),
          (js ''v'', js ''globals_v.html#index_v'', Menu None),
          (js ''w'', js ''globals_w.html#index_w'', Menu None)])),
        (js ''Functions'', js ''globals_func.html'', Menu (Some [
          (js ''_'', js ''globals_func.html#index__5F'', Menu None),
          (js ''c'', js ''globals_func_c.html#index_c'', Menu None),
          (js ''d'', js ''globals_func_d.html#index_d'', Menu None),
          (js ''e'', js ''globals_func_e.html#index_e'', Menu None),
          (js ''f'', js ''globals_func_f.html#index_f'', Menu None),
          (js ''g'', js ''globals_func_g.html#index_g'', Menu None),
          (js ''m'', js ''globals_func_m.html#index_m'', Menu None),
          (js ''o'', js ''globals_func_o.html#index_o'', Menu None),
          (js ''p'', js ''globals_func_p.html#index_p'', Menu None),
          (js ''s'', js ''globals_func_s.html#index_s'', Menu None),
          (js ''t'', js ''globals_func_t.html#index_t'', Menu None),
          (js ''v'', js ''globals_func_v.html#index_v'', Menu None),
          (js ''w'', js ''globals_func_w.html#index_w'', Menu None)])),
        (js ''Variables'', js ''globals_vars.html'', Menu None),
        (js ''Typedefs'', js ''globals_type.html'', Menu None),
        (js ''Enumerations'', js ''globals_enum.html'', Menu None),
        (js ''Enumerator'', js ''globals_eval.html'', Menu None),
        (js ''Macros'', js ''globals_defs.html'', Menu None)]))]))])"

end
