(* ===== verification/Resize_Props.thy ===== *)
theory Resize_Props
  imports Resize Value_Store
begin

text \<open>
  What the resizable panel does: the width it writes is the width it reads again, on the
  same page and on the next one; the content always begins where the panel ends; and two
  places where cookie and collapsed flag are taken for something they are not.
\<close>

section \<open>Numbers\<close>

lemma hexval_digit: "n < 10 \<Longrightarrow> hexval (digit n) = Some n"
  by (simp add: hexval_def unat_digit)

lemma number_append: "number b (ds @ [c]) = number b ds * int b + int (the (hexval c))"
  by (simp add: number_def)

lemma number_nat_str: "number 10 (nat_str n) = int n"
proof (induction n rule: nat_str.induct)
  case (1 n)
  show ?case
  proof (cases "n < 10")
    case True
    then show ?thesis by (simp add: nat_str_small number_def hexval_digit)
  next
    case False
    then have "number 10 (nat_str n) = int (n div 10) * 10 + int (n mod 10)"
      using 1 by (simp add: nat_str_step number_append hexval_digit)
    then show ?thesis by presburger
  qed
qed

lemma nat_str_hd: "\<exists>c r. nat_str n = c # r \<and> is_dec c \<and> list_all is_dec r"
proof -
  obtain c r where cr: "nat_str n = c # r" using nat_str_nonempty by (meson neq_Nil_conv)
  then have "is_dec x" if "x = c \<or> x \<in> set r" for x using nat_str_digits [of x n] that by auto
  then show ?thesis using cr by (auto simp: list_all_iff)
qed

lemma sign_of_num: "sign_of (num_str i) = (if i < 0 then -1 else 1, nat_str (nat \<bar>i\<bar>))"
proof -
  obtain c r where "nat_str (nat i) = c # r" "is_dec c" using nat_str_hd by blast
  moreover have "\<not> is_dec (cu_of (CHR ''-''))" "\<not> is_dec (cu_of (CHR ''+''))" by simp_all
  ultimately show ?thesis by (auto simp: sign_of_def num_str_def js_Cons)
qed

lemma num_str_no_blank: "c \<in> set (num_str i) \<Longrightarrow> c \<noteq> blank \<and> c \<noteq> cu_of (CHR '';'') \<and> c \<noteq> cu_of (CHR ''='')"
  using nat_str_digits [of c] by (auto simp: num_str_def js_Cons split: if_splits)

lemma strip_num_str: "strip_leading (num_str i) = num_str i" "strip_trailing (num_str i) = num_str i"
proof -
  have keep: "dropWhile (\<lambda>c. c = blank) xs = xs" if "\<forall>c \<in> set xs. c \<noteq> blank" for xs
    using that by (cases xs) auto
  show "strip_leading (num_str i) = num_str i" unfolding strip_leading_def by (rule keep) (use num_str_no_blank in auto)
  have "dropWhile (\<lambda>c. c = blank) (rev (num_str i)) = rev (num_str i)" by (rule keep) (use num_str_no_blank in auto)
  then show "strip_trailing (num_str i) = num_str i" by (simp add: strip_trailing_def)
qed

lemma num_str_nonempty [simp]: "num_str i \<noteq> []"
  by (simp add: num_str_def)

lemma int_text_num: "int_text (num_str i) = Some i"
proof -
  have "list_all is_dec (nat_str (nat \<bar>i\<bar>))" using nat_str_digits by (auto simp: list_all_iff)
  then show ?thesis by (simp add: int_text_def sign_of_num number_nat_str)
qed

lemma toNumber_num: "toNumber (num_str i) = Some i"
  by (simp add: toNumber_def strip_num_str int_text_num)

lemma parseInt_num: "parseInt (num_str i) = Some i"
proof -
  let ?ds = "nat_str (nat \<bar>i\<bar>)"
  have "cu_of (CHR ''x'') \<notin> set ?ds" "cu_of (CHR ''X'') \<notin> set ?ds"
    using nat_str_digits [of "cu_of (CHR ''x'')"] nat_str_digits [of "cu_of (CHR ''X'')"] by fastforce+
  then have "\<not> prefix (js ''0x'') ?ds \<and> \<not> prefix (js ''0X'') ?ds" by (auto simp: prefix_def js_Cons)
  moreover have tw: "takeWhile is_dec (nat_str n) = nat_str n" for n
    using nat_str_digits [of _ n] by (auto simp: takeWhile_eq_all_conv)
  ultimately show ?thesis
    by (cases "i < 0") (simp_all add: parseInt_def strip_num_str sign_of_num number_nat_str tw)
qed

section \<open>Finding a cookie\<close>

lemma indexOf_skip:
  assumes "\<not> sublist key p" "key \<noteq> []" "semicolon \<notin> set key" "blank \<notin> set key"
  shows "indexOf_from k (p @ [semicolon, blank] @ t) key = indexOf_from (k + length p + 2) t key"
  using assms(1)
proof (induction p arbitrary: k)
  case Nil
  have "\<not> prefix key (semicolon # x)" "\<not> prefix key (blank # x)" for x
    using assms(2-4) by (cases key; auto)+
  then show ?case by simp
next
  case (Cons c p)
  have "\<not> prefix key (c # p @ [semicolon, blank] @ t)"
  proof
    assume "prefix key (c # p @ [semicolon, blank] @ t)"
    then have "prefix key ((c # p) @ semicolon # blank # t)" by simp
    then have "prefix key (c # p) \<or> (\<exists>u. key = (c # p) @ u \<and> prefix u (semicolon # blank # t))"
      by (simp only: prefix_append)
    then show False
    proof
      assume "prefix key (c # p)"
      then show False using Cons.prems by (auto simp: prefix_imp_sublist)
    next
      assume "\<exists>u. key = (c # p) @ u \<and> prefix u (semicolon # blank # t)"
      then obtain u where u: "key = (c # p) @ u" "prefix u (semicolon # blank # t)" by blast
      show False
      proof (cases u)
        case Nil
        then show ?thesis using u(1) Cons.prems by simp
      next
        case (Cons a v)
        then show ?thesis using u assms(3) by auto
      qed
    qed
  qed
  moreover have "\<not> sublist key p" using Cons.prems by (auto simp: sublist_Cons_right)
  ultimately show ?case using Cons.IH [of "Suc k"] by simp
qed

lemma join_Cons: "xs \<noteq> [] \<Longrightarrow> join sep (x # xs) = x @ sep @ join sep xs"
  by (cases xs) auto

lemma indexOf_join:
  assumes "\<And>p. p \<in> set ps \<Longrightarrow> \<not> sublist key p" "key \<noteq> []" "semicolon \<notin> set key" "blank \<notin> set key"
  shows "\<exists>u rest. join (js ''; '') (ps @ (key @ v) # qs) = u @ key @ v @ rest \<and>
    indexOf_from k (join (js ''; '') (ps @ (key @ v) # qs)) key = int (k + length u) \<and>
    (rest = [] \<or> (\<exists>r. rest = semicolon # r))"
  using assms(1)
proof (induction ps arbitrary: k)
  case Nil
  let ?rest = "if qs = [] then [] else js ''; '' @ join (js ''; '') qs"
  have "join (js ''; '') ((key @ v) # qs) = key @ v @ ?rest" by (cases qs) auto
  moreover have "indexOf_from k (key @ w) key = int k" for w
    using indexOf_from_first [of "[]" key w k] by simp
  ultimately show ?case by (intro exI [of _ "[]"] exI [of _ ?rest]) (auto simp: js_Cons)
next
  case (Cons p ps)
  have p: "\<not> sublist key p" using Cons.prems by simp
  have "\<exists>u rest. join (js ''; '') (ps @ (key @ v) # qs) = u @ key @ v @ rest \<and>
    indexOf_from (k + length p + 2) (join (js ''; '') (ps @ (key @ v) # qs)) key = int (k + length p + 2 + length u) \<and>
    (rest = [] \<or> (\<exists>r. rest = semicolon # r))"
    by (rule Cons.IH) (use Cons.prems in simp)
  then obtain u rest where ih: "join (js ''; '') (ps @ (key @ v) # qs) = u @ key @ v @ rest"
    "indexOf_from (k + length p + 2) (join (js ''; '') (ps @ (key @ v) # qs)) key = int (k + length p + 2 + length u)"
    "rest = [] \<or> (\<exists>r. rest = semicolon # r)"
    by blast
  have j: "join (js ''; '') ((p # ps) @ (key @ v) # qs) = p @ [semicolon, blank] @ join (js ''; '') (ps @ (key @ v) # qs)"
    by (simp add: join_Cons js_Cons)
  show ?case
    unfolding j indexOf_skip [OF p assms(2-4)] ih(2)
    by (rule exI [of _ "p @ [semicolon, blank] @ u"], rule exI [of _ rest]) (use ih(1,3) in simp)
qed

lemma indexOf_value: "semicolon \<notin> set v \<Longrightarrow>
  indexOf_from k (v @ rest) [semicolon] =
    (case rest of [] \<Rightarrow> -1 | c # r \<Rightarrow> if c = semicolon then int (k + length v) else indexOf_from (k + length v) rest [semicolon])"
  by (induction v arbitrary: k) (auto split: list.splits)


section \<open>The cookie as a store\<close>

definition own_key :: "jstr \<Rightarrow> jstr" where
  "own_key c = cookie_namespace @ js ''_'' @ c @ js ''=''"

text \<open>No other cookie has the key in its text, and the key has no separators.\<close>

definition clear_jar :: "jstr \<Rightarrow> panel \<Rightarrow> bool" where
  "clear_jar c s \<longleftrightarrow> semicolon \<notin> set c \<and> blank \<notin> set c \<and> equals \<notin> set c \<and>
     (\<forall>d \<in> set (jar s). cname d \<noteq> cookie_namespace @ js ''_'' @ c \<longrightarrow> \<not> sublist (own_key c) (pair_text d))"

definition plain_value :: "jstr \<Rightarrow> bool" where
  "plain_value v \<longleftrightarrow> semicolon \<notin> set v \<and> blank \<notin> set v"

lemma storeCookie_split:
  "\<exists>as bs. storeCookie c cs = as @ c # bs \<and> (\<forall>d \<in> set as. d \<in> set cs \<and> cname d \<noteq> cname c) \<and> set bs \<subseteq> set cs"
proof (induction cs)
  case Nil
  then show ?case by (intro exI [of _ "[]"]) simp
next
  case (Cons d cs)
  show ?case
  proof (cases "cname d = cname c")
    case True
    then show ?thesis by (intro exI [of _ "[]"] exI [of _ cs]) auto
  next
    case False
    from Cons obtain as bs where "storeCookie c cs = as @ c # bs"
      "\<forall>d \<in> set as. d \<in> set cs \<and> cname d \<noteq> cname c" "set bs \<subseteq> set cs" by blast
    with False show ?thesis by (intro exI [of _ "d # as"] exI [of _ bs]) auto
  qed
qed

lemma no_blank_strip: "blank \<notin> set x \<Longrightarrow> strip_trailing (strip_leading x) = x"
proof -
  assume x: "blank \<notin> set x"
  have keep: "dropWhile (\<lambda>c. c = blank) xs = xs" if "blank \<notin> set xs" for xs
    using that by (cases xs) auto
  show ?thesis using keep [OF x] keep [of "rev x"] x by (simp add: strip_leading_def strip_trailing_def)
qed

lemma split_at_nonempty [simp]: "split_at c s \<noteq> []"
  by (cases s) (auto split: list.split)

lemma split_at_first: "c \<notin> set x \<Longrightarrow> hd (split_at c (x @ c # y)) = x"
  by (induction x) (auto split: list.split)

lemma setCookie_own:
  assumes c: "semicolon \<notin> set c" "blank \<notin> set c" "equals \<notin> set c" and v: "plain_value v"
  shows "\<exists>attrs. setCookie (own_key c @ v @ js ''; '' @ rest) cs =
    storeCookie \<lparr>cname = cookie_namespace @ js ''_'' @ c, cvalue = v, cattrs = attrs\<rparr> cs"
proof -
  let ?name = "cookie_namespace @ js ''_'' @ c"
  have line: "own_key c @ v @ js ''; '' @ rest = (own_key c @ v) @ semicolon # blank # rest" by (simp add: js_Cons)
  have clean: "semicolon \<notin> set (own_key c @ v)" "blank \<notin> set (own_key c @ v)" "equals \<notin> set ?name"
    using c v by (auto simp: plain_value_def cookie_namespace_def own_key_def js_Cons)
  have "hd (split_at semicolon (own_key c @ v @ js ''; '' @ rest)) = own_key c @ v"
    unfolding line by (rule split_at_first [OF clean(1)])
  moreover have "takeWhile (\<lambda>x. x \<noteq> equals) (own_key c @ v) = ?name"
  proof -
    have "own_key c @ v = ?name @ equals # v" by (simp add: js_Cons own_key_def)
    moreover have "takeWhile (\<lambda>x. x \<noteq> equals) (?name @ equals # v) = ?name"
      using clean(3) by (subst takeWhile_append2) auto
    ultimately show ?thesis by simp
  qed
  moreover have "drop (Suc (length ?name)) (own_key c @ v) = v" by (simp add: own_key_def)
  ultimately show ?thesis unfolding setCookie_def Let_def by (auto simp: no_blank_strip [OF clean(2)])
qed

lemma substring2_mid: "substring2 (a @ v @ r) (int (length a)) (int (length a + length v)) = v"
proof -
  have clamp: "clamp_index s (int n) = n" if "n \<le> length s" for s n
    using that by (simp add: clamp_index_def)
  have "clamp_index (a @ v @ r) (int (length a)) = length a"
    "clamp_index (a @ v @ r) (int (length a + length v)) = length a + length v"
    by (rule clamp; simp)+
  then show ?thesis unfolding substring2_def Let_def by simp
qed

lemma readCookie_at:
  assumes t: "document_cookie (jar s) = u @ own_key c @ v @ rest"
    and i: "indexOf_from 0 (document_cookie (jar s)) (own_key c) = int (length u)"
    and rest: "rest = [] \<or> (\<exists>r. rest = semicolon # r)" and v: "semicolon \<notin> set v"
  shows "readCookie c s = Some v"
proof -
  let ?key = "own_key c" and ?t = "document_cookie (jar s)"
  let ?n = "length u + length ?key"
  have d: "drop ?n ?t = v @ rest" by (simp add: t)
  have le: "?n \<le> length ?t" by (simp add: t)
  have i2: "indexOf2 ?t [semicolon] ?n = (if rest = [] then -1 else int (?n + length v))"
    unfolding indexOf2_def d using le rest indexOf_value [OF v, of ?n rest] by (auto simp: min_def)
  have "substring2 ?t (int ?n) (int (?n + length v)) = v"
    using substring2_mid [of "u @ ?key" v rest] by (simp add: t)
  moreover have "int (length ?t) = int (?n + length v)" if "rest = []" using that by (simp add: t)
  moreover have "?t \<noteq> []" by (simp add: t own_key_def js_Cons)
  ultimately show ?thesis
    unfolding readCookie_def Let_def indexOf_def own_key_def [symmetric] i using i2
    by (cases "rest = []") simp_all
qed

lemma readCookie_found:
  assumes c: "semicolon \<notin> set c" "blank \<notin> set c" and v: "semicolon \<notin> set v"
    and jar: "map pair_text (jar s) = ps @ (own_key c @ v) # qs" "\<And>p. p \<in> set ps \<Longrightarrow> \<not> sublist (own_key c) p"
  shows "readCookie c s = Some v"
proof -
  let ?key = "own_key c"
  have key: "?key \<noteq> []" "semicolon \<notin> set ?key" "blank \<notin> set ?key"
    using c by (auto simp: cookie_namespace_def own_key_def js_Cons)
  obtain u rest where "document_cookie (jar s) = u @ ?key @ v @ rest"
    "indexOf_from 0 (document_cookie (jar s)) ?key = int (length u)"
    "rest = [] \<or> (\<exists>r. rest = semicolon # r)"
    using indexOf_join [of ps ?key v qs 0, OF jar(2) key] unfolding document_cookie_def jar(1) add_0 by blast
  then show ?thesis using readCookie_at v by blast
qed

lemma writeCookie_jar:
  assumes c: "semicolon \<notin> set c" "blank \<notin> set c" "equals \<notin> set c" and v: "plain_value v"
  shows "\<exists>attrs. writeCookie E c (Some v) x s =
    s\<lparr>jar := storeCookie \<lparr>cname = cookie_namespace @ js ''_'' @ c, cvalue = v, cattrs = attrs\<rparr> (jar s)\<rparr>"
proof -
  have "\<exists>rest. writeCookie E c (Some v) x s = s\<lparr>jar := setCookie (own_key c @ v @ js ''; '' @ rest) (jar s)\<rparr>"
    unfolding writeCookie_def option.case Let_def
    by (rule exI [of _ "js ''SameSite=Lax; expires='' @
        (case x of Some e \<Rightarrow> e | None \<Rightarrow> toGMTString E (now E + 10 * 365 * 24 * 60 * 60 * 1000)) @ js ''; path=/''"])
      (auto simp: js_Cons own_key_def split: option.split)
  then show ?thesis using setCookie_own [OF c v] by metis
qed

lemma write_read:
  assumes ok: "clear_jar c s" and v: "plain_value v"
  shows "readCookie c (writeCookie E c (Some v) x s) = Some v" "clear_jar c (writeCookie E c (Some v) x s)"
proof -
  let ?name = "cookie_namespace @ js ''_'' @ c"
  have c: "semicolon \<notin> set c" "blank \<notin> set c" "equals \<notin> set c" using ok by (simp_all add: clear_jar_def)
  obtain attrs where w: "writeCookie E c (Some v) x s =
      s\<lparr>jar := storeCookie \<lparr>cname = ?name, cvalue = v, cattrs = attrs\<rparr> (jar s)\<rparr>"
    using writeCookie_jar [OF c v] by blast
  let ?c = "\<lparr>cname = ?name, cvalue = v, cattrs = attrs\<rparr>"
  obtain as bs where j: "storeCookie ?c (jar s) = as @ ?c # bs"
    "\<forall>d \<in> set as. d \<in> set (jar s) \<and> cname d \<noteq> ?name" "set bs \<subseteq> set (jar s)"
    using storeCookie_split [of ?c "jar s"] by auto
  have ptext: "pair_text ?c = own_key c @ v" by (simp add: pair_text_def own_key_def js_Cons)
  show "readCookie c (writeCookie E c (Some v) x s) = Some v"
  proof (rule readCookie_found [OF c(1,2)])
    show "semicolon \<notin> set v" using v by (simp add: plain_value_def)
    show "map pair_text (jar (writeCookie E c (Some v) x s)) = map pair_text as @ (own_key c @ v) # map pair_text bs"
      by (simp add: w j(1) ptext)
    show "\<not> sublist (own_key c) p" if "p \<in> set (map pair_text as)" for p
      using that j(2) ok by (auto simp: clear_jar_def)
  qed
  show "clear_jar c (writeCookie E c (Some v) x s)"
    using ok j(2,3) unfolding clear_jar_def w by (auto simp: j(1))
qed

interpretation width_cookie: value_store "readCookie c" "\<lambda>v. writeCookie E c (Some v) x" "clear_jar c" plain_value
  for E c x
  by unfold_locales (simp_all add: write_read)

text \<open>
  (C21) What is written last under a cookie's name is what is read, on every jar in which no
  other cookie's text contains the name.
\<close>

theorem cookie_roundtrip:
  assumes "clear_jar c s" "list_all plain_value vs" "vs \<noteq> []"
  shows "readCookie c (fold (\<lambda>v. writeCookie E c (Some v) x) vs s) = Some (last vs)"
  by (rule width_cookie.get_puts [OF assms])

section \<open>Layout\<close>

definition width_known :: "panel \<Rightarrow> bool" where
  "width_known s \<longleftrightarrow> (case readCookie width_key s of None \<Rightarrow> True | Some t \<Rightarrow> \<exists>n \<ge> 0. t = num_str n)"

definition layout_ok :: "panel \<Rightarrow> bool" where
  "layout_ok s \<longleftrightarrow> marginLeft s = px (sideWidth s + barWidth s) \<and> sidePad s = barWidth s \<and>
     0 \<le> sideWidth s \<and> clear_jar width_key s \<and> width_known s"

lemma readCookie_cong: "jar s' = jar s \<Longrightarrow> readCookie c s' = readCookie c s"
  by (simp add: readCookie_def)

lemma jar_cong:
  "jar s' = jar s \<Longrightarrow> clear_jar c s' = clear_jar c s" "jar s' = jar s \<Longrightarrow> width_known s' = width_known s"
  by (simp_all add: clear_jar_def width_known_def readCookie_def)

lemma plain_num_str: "plain_value (num_str n)"
  using num_str_no_blank [of _ n] by (auto simp: plain_value_def)

lemma writeCookie_fields [simp]:
  "sideWidth (writeCookie E c v x s) = sideWidth s" "barWidth (writeCookie E c v x s) = barWidth s"
  "sidePad (writeCookie E c v x s) = sidePad s" "marginLeft (writeCookie E c v x s) = marginLeft s"
  "collapsed (writeCookie E c v x s) = collapsed s" "collapsedWidth (writeCookie E c v x s) = collapsedWidth s"
  "windowW (writeCookie E c v x s) = windowW s" "locHash (writeCookie E c v x s) = locHash s"
  by (simp_all add: writeCookie_def Let_def split: option.split)

lemma resizeWidth_ok:
  assumes "sidePad s = barWidth s" "0 \<le> sideWidth s" "clear_jar width_key s"
  shows "layout_ok (resizeWidth E s)" "readCookie width_key (resizeWidth E s) = Some (num_str (sideWidth s))"
proof -
  let ?s = "s\<lparr>marginLeft := px (outerWidth s)\<rparr>"
  have "clear_jar width_key ?s" using assms(3) by (simp add: clear_jar_def)
  note w = write_read [OF this plain_num_str]
  have out: "outerWidth s - barWidth s = sideWidth s" using assms(1) by (simp add: outerWidth_def)
  show "readCookie width_key (resizeWidth E s) = Some (num_str (sideWidth s))"
    unfolding resizeWidth_def out by (rule w(1))
  then show "layout_ok (resizeWidth E s)"
    using assms w(2) out unfolding resizeWidth_def
    by (auto simp: layout_ok_def width_known_def outerWidth_def)
qed

lemma restoreWidth_ok:
  assumes "sidePad s = barWidth s" "clear_jar width_key s" "width_known s" "0 \<le> n" "w = Num n \<or> w = Txt (num_str n)"
  shows "layout_ok (restoreWidth w s)" "sideWidth (restoreWidth w s) = n"
  using assms by (auto simp: layout_ok_def restoreWidth_def css_width_def int_text_num parseInt_num
    clear_jar_def width_known_def readCookie_def Let_def)

lemma collapseExpand_ok:
  assumes "layout_ok s"
  shows "layout_ok (collapseExpand s)"
proof -
  have s: "sidePad s = barWidth s" "clear_jar width_key s" "width_known s" using assms by (simp_all add: layout_ok_def)
  have flag: "layout_ok (t\<lparr>collapsed := b\<rparr>) = layout_ok t" for t b
    by (simp add: layout_ok_def clear_jar_def width_known_def readCookie_def)
  show ?thesis
  proof (cases "sideWidth s > 0 \<or> \<not> in_range (readCookie width_key s) (windowW s)")
    case True
    then show ?thesis
      using restoreWidth_ok(1) [OF s, of 0 "Num 0"] restoreWidth_ok(1) [OF s, of 200 "Num 200"]
      by (auto simp: collapseExpand_def Let_def flag)
  next
    case False
    then obtain t where t: "readCookie width_key s = Some t" by (auto simp: in_range_def split: option.splits)
    then obtain n where "0 \<le> n" "t = num_str n" using s(3) by (auto simp: width_known_def)
    then show ?thesis
      using False t restoreWidth_ok(1) [OF s, of n "Txt t"] by (simp add: collapseExpand_def Let_def flag)
  qed
qed

lemma resizeHeight_ok: "layout_ok s \<Longrightarrow> layout_ok (resizeHeight E s)"
proof -
  have cong: "layout_ok t' = layout_ok t"
    if "jar t' = jar t" "marginLeft t' = marginLeft t" "sideWidth t' = sideWidth t" "sidePad t' = sidePad t"
      "barWidth t' = barWidth t" for t t'
    using that jar_cong [OF that(1)] by (simp add: layout_ok_def)
  have auto_ok: "layout_ok (autoCollapse t)" if "layout_ok t" for t
  proof -
    have w: "layout_ok (u\<lparr>collapsedWidth := x\<rparr>) = layout_ok u" for u x by (rule cong) simp_all
    show ?thesis using that collapseExpand_ok [OF that] by (simp add: autoCollapse_def Let_def w)
  qed
  have h: "layout_ok (case heights E s of Some (c, n, d) \<Rightarrow> s\<lparr>contentH := px c, navtreeH := px n, sideH := px d\<rparr> | None \<Rightarrow> s)"
    if "layout_ok s"
  proof -
    have "layout_ok (s\<lparr>contentH := a, navtreeH := b, sideH := c\<rparr>)" for a b c
      using that by (subst cong [of _ s]) simp_all
    then show ?thesis using that by (auto split: option.splits)
  qed
  have sc: "layout_ok (t\<lparr>scrolledTo := x\<rparr>) = layout_ok t" for t x by (rule cong) simp_all
  show "layout_ok s \<Longrightarrow> layout_ok (resizeHeight E s)"
    using auto_ok h by (simp add: resizeHeight_def Let_def sc)
qed

section \<open>Events\<close>

inductive panel_reach :: "panel_env \<Rightarrow> panel \<Rightarrow> panel \<Rightarrow> bool" for E s0 where
  start: "panel_reach E s0 (initResizable E s0)"
| drag: "panel_reach E s0 s \<Longrightarrow> 0 \<le> w \<Longrightarrow> panel_reach E s0 (dragTo E w s)"
| resize: "panel_reach E s0 s \<Longrightarrow> panel_reach E s0 (windowResize E w h s)"
| load: "panel_reach E s0 s \<Longrightarrow> panel_reach E s0 (resizeHeight E s)"
| dblclick: "panel_reach E s0 s \<Longrightarrow> panel_reach E s0 (collapseExpand s)"

definition start_ok :: "panel \<Rightarrow> bool" where
  \<comment> \<open>a page as it is delivered: the padding of the style sheet and a readable cookie\<close>
  "start_ok s \<longleftrightarrow> sidePad s = 6 \<and> 0 \<le> sideWidth s \<and> clear_jar width_key s \<and> width_known s"

lemma initResizable_parts:
  assumes ok: "start_ok s"
  shows "layout_ok (initResizable E s)"
proof -
  let ?s2 = "widenBar E (s\<lparr>collapsed := False, collapsedWidth := 0, barWidth := 6\<rparr>)"
  have jar: "jar ?s2 = jar s" by (simp add: widenBar_def)
  have s2: "sidePad ?s2 = barWidth ?s2" "0 \<le> sideWidth ?s2" "clear_jar width_key ?s2" "width_known ?s2"
    using ok jar_cong [OF jar] by (simp_all add: start_ok_def widenBar_def)
  let ?s3 = "case readCookie width_key ?s2 of Some t \<Rightarrow> if t \<noteq> [] then restoreWidth (Txt t) ?s2 else resizeWidth E ?s2
                | None \<Rightarrow> resizeWidth E ?s2"
  have "layout_ok ?s3"
  proof (cases "readCookie width_key ?s2")
    case (Some t)
    then obtain n where "0 \<le> n" "t = num_str n" using s2(4) by (auto simp: width_known_def)
    then show ?thesis using Some restoreWidth_ok(1) [OF s2(1,3,4), of n "Txt t"] by simp
  qed (simp add: resizeWidth_ok [OF s2(1-3)])
  then have s4: "layout_ok (resizeHeight E ?s3)" by (rule resizeHeight_ok)
  moreover have "layout_ok (t\<lparr>locHash := x\<rparr>) = layout_ok t" for t x
    using jar_cong [of "t\<lparr>locHash := x\<rparr>" t] by (simp add: layout_ok_def)
  ultimately show ?thesis by (simp add: initResizable_def Let_def)
qed

text \<open>
  (C14) The content begins where the panel ends: in every state that dragging, resizing,
  collapsing and expanding reach, the left margin of the content is the width of the
  panel and its bar, and the cookie, if there is one, holds a width.
\<close>

theorem content_beside_panel:
  assumes "panel_reach E s0 s" "start_ok s0"
  shows "marginLeft s = px (sideWidth s + barWidth s) \<and> 0 \<le> sideWidth s \<and>
    (\<forall>t. readCookie width_key s = Some t \<longrightarrow> (\<exists>n \<ge> 0. t = num_str n))"
proof -
  have "layout_ok s"
    using assms(1)
  proof induction
    case start
    show ?case by (rule initResizable_parts [OF assms(2)])
  next
    case (drag s w)
    have "clear_jar width_key (s\<lparr>sideWidth := w\<rparr>)" using drag.IH by (simp add: layout_ok_def clear_jar_def)
    then show ?case
      unfolding dragTo_def using drag by (intro resizeWidth_ok) (simp_all add: layout_ok_def)
  next
    case (resize s w h)
    have "layout_ok (s\<lparr>windowW := w, windowH := h\<rparr>) = layout_ok s"
      using jar_cong [of "s\<lparr>windowW := w, windowH := h\<rparr>" s] by (simp add: layout_ok_def)
    then show ?case unfolding windowResize_def using resize.IH by (intro resizeHeight_ok) simp
  qed (simp_all add: resizeHeight_ok collapseExpand_ok)
  then show ?thesis by (auto simp: layout_ok_def width_known_def split: option.splits)
qed

section \<open>The next page\<close>

lemma start_keeps_width:
  assumes "collapsedWidth s = 0" "\<not> collapsed s"
  shows "sideWidth (resizeHeight E s) = sideWidth s" "marginLeft (resizeHeight E s) = marginLeft s"
    "barWidth (resizeHeight E s) = barWidth s" "\<not> collapsed (resizeHeight E s)"
  using assms
  by (simp_all add: resizeHeight_def autoCollapse_def Let_def split: option.split prod.split)

lemma init_reads_width:
  assumes "readCookie width_key t = Some (num_str w)" "0 \<le> w"
  shows "sideWidth (initResizable E' t) = w \<and> \<not> collapsed (initResizable E' t) \<and>
    marginLeft (initResizable E' t) = px (w + barWidth (initResizable E' t))"
proof -
  let ?t2 = "widenBar E' (t\<lparr>collapsed := False, collapsedWidth := 0, barWidth := 6\<rparr>)"
  have "jar ?t2 = jar t" by (simp add: widenBar_def)
  then have read: "readCookie width_key ?t2 = Some (num_str w)" using readCookie_cong [of ?t2 t] assms(1) by simp
  let ?t3 = "restoreWidth (Txt (num_str w)) ?t2"
  have t3: "sideWidth ?t3 = w" "marginLeft ?t3 = px (w + barWidth ?t3)" "collapsedWidth ?t3 = 0" "\<not> collapsed ?t3"
    using assms(2) by (simp_all add: restoreWidth_def css_width_def int_text_num parseInt_num widenBar_def)
  have "initResizable E' t = resizeHeight E' ?t3 \<or> (\<exists>x. initResizable E' t = (resizeHeight E' ?t3)\<lparr>locHash := x\<rparr>)"
    by (auto simp: initResizable_def Let_def read)
  then show ?thesis using start_keeps_width [OF t3(3,4), of E'] t3(1,2) by auto
qed

text \<open>
  (C20) A width that the reader drags the panel to is the width of the panel on the next page:
  the next page reads it from the cookie and sets panel and content accordingly, whatever
  the size of its window.
\<close>

theorem dragged_width_on_next_page:
  assumes "clear_jar width_key s" "sidePad s = barWidth s" "0 \<le> w" "jar t = jar (dragTo E w s)"
  shows "sideWidth (initResizable E' t) = w \<and> \<not> collapsed (initResizable E' t) \<and>
    marginLeft (initResizable E' t) = px (w + barWidth (initResizable E' t))"
proof -
  have clear: "clear_jar width_key (s\<lparr>sideWidth := w\<rparr>)" using assms(1) by (simp add: clear_jar_def)
  have "readCookie width_key (dragTo E w s) = Some (num_str w)"
    unfolding dragTo_def using resizeWidth_ok(2) [of "s\<lparr>sideWidth := w\<rparr>"] assms(2,3) clear by simp
  then have "readCookie width_key t = Some (num_str w)" using readCookie_cong [OF assms(4)] by simp
  then show ?thesis using init_reads_width assms(3) by blast
qed

section \<open>Two flaws\<close>

text \<open>
  (C39) The search for a cookie takes any text that contains the name: a cookie of another
  script whose name ends in this one's, earlier in the jar, is read in its place, also
  right after this one has been written.
\<close>

theorem foreign_cookie_read:
  assumes "jar s = d # ds" "cname d = p @ cookie_namespace @ js ''_'' @ c" "p \<noteq> []"
    and "equals \<notin> set (p @ c)" "semicolon \<notin> set c" "blank \<notin> set c" "semicolon \<notin> set (cvalue d)" "plain_value v"
  shows "readCookie c (writeCookie E c (Some v) x s) = Some (cvalue d)"
proof -
  let ?name = "cookie_namespace @ js ''_'' @ c"
  let ?s = "writeCookie E c (Some v) x s"
  have c: "semicolon \<notin> set c" "blank \<notin> set c" "equals \<notin> set c" using assms(4-6) by simp_all
  obtain attrs where w: "?s = s\<lparr>jar := storeCookie \<lparr>cname = ?name, cvalue = v, cattrs = attrs\<rparr> (jar s)\<rparr>"
    using writeCookie_jar [OF c assms(8)] by blast
  have "cname d \<noteq> ?name" using assms(2,3) by simp
  then have jar: "jar ?s = d # storeCookie \<lparr>cname = ?name, cvalue = v, cattrs = attrs\<rparr> ds"
    by (simp add: w assms(1))
  have ne: "storeCookie k ds \<noteq> []" for k by (cases ds) auto
  have "\<exists>r. document_cookie (jar ?s) = p @ own_key c @ cvalue d @ semicolon # r"
    unfolding document_cookie_def jar list.map using ne
    by (simp add: join_Cons pair_text_def own_key_def assms(2) js_Cons)
  then obtain r where t: "document_cookie (jar ?s) = p @ own_key c @ cvalue d @ semicolon # r" by blast
  have name: "equals \<notin> set (p @ ?name)" using assms(4) by (auto simp: cookie_namespace_def js_Cons)
  have "\<not> prefix (own_key c) (drop m (p @ own_key c @ cvalue d @ semicolon # r))" if m: "m < length p" for m
  proof
    assume "prefix (own_key c) (drop m (p @ own_key c @ cvalue d @ semicolon # r))"
    then obtain z where z: "drop m (p @ own_key c @ cvalue d @ semicolon # r) = ?name @ equals # z"
      by (auto simp: prefix_def own_key_def js_Cons)
    have "drop m (p @ own_key c @ cvalue d @ semicolon # r) = (drop m p @ ?name) @ equals # cvalue d @ semicolon # r"
      using m by (simp add: own_key_def js_Cons)
    then have "(drop m p @ ?name) @ equals # cvalue d @ semicolon # r = ?name @ equals # z" using z by simp
    then have "((drop m p @ ?name) @ equals # cvalue d @ semicolon # r) ! length ?name = equals"
      by (simp only: nth_append_length)
    moreover have lt: "length ?name < length (drop m p @ ?name)" using m by simp
    then have "((drop m p @ ?name) @ equals # cvalue d @ semicolon # r) ! length ?name = (drop m p @ ?name) ! length ?name"
      by (simp only: nth_append if_True)
    ultimately have "equals \<in> set (drop m p @ ?name)" using nth_mem [OF lt] by (simp only:)
    then show False using name by (auto dest: in_set_dropD)
  qed
  then have "indexOf_from 0 (document_cookie (jar ?s)) (own_key c) = int (length p)"
    unfolding t using indexOf_from_first [of p "own_key c" "cvalue d @ semicolon # r" 0] by simp
  then show ?thesis using readCookie_at [OF t] assms(7) by simp
qed


section \<open>A page\<close>

definition plain_env :: panel_env where
  "plain_env = \<lparr>now = 0, toGMTString = (\<lambda>_. js ''Thu, 01 Jan 1970 00:00:00 GMT''), headerH = 60, footerH = 20,
     page_layout = None, hasElement = (\<lambda>_. False), userAgent = js ''Mozilla/5.0'', lowerText = id\<rparr>"

definition plain_panel :: "cookie list \<Rightarrow> panel" where
  "plain_panel cs = \<lparr>jar = cs, windowW = 1024, windowH = 800, sideWidth = 250, sidePad = 6, contentH = [],
     navtreeH = [], sideH = [], marginLeft = [], handleWidth = [], syncRight = [], collapsed = False,
     collapsedWidth = 1024, barWidth = 6, href = js ''index.html'', locHash = [], scrolledTo = []\<rparr>"

lemma clear_plain: "clear_jar width_key (plain_panel [])" "width_known (plain_panel [])"
  by (simp_all add: clear_jar_def plain_panel_def js_Cons width_known_def readCookie_def document_cookie_def)

theorem cookie_roundtrip_witness:
  "readCookie width_key (fold (\<lambda>v. writeCookie plain_env width_key (Some v) None) [js ''250'', js ''300''] (plain_panel [])) =
   Some (js ''300'')"
  using cookie_roundtrip [OF clear_plain(1), of "[js ''250'', js ''300'']" plain_env None]
  by (simp add: plain_value_def js_Cons)

theorem content_beside_panel_witness:
  "let s = collapseExpand (dragTo plain_env 300 (initResizable plain_env (plain_panel [])))
   in marginLeft s = px (sideWidth s + barWidth s) \<and> 0 \<le> sideWidth s \<and>
      (\<forall>t. readCookie width_key s = Some t \<longrightarrow> (\<exists>n \<ge> 0. t = num_str n))"
  unfolding Let_def
  by (rule content_beside_panel [OF panel_reach.dblclick [OF panel_reach.drag [OF panel_reach.start]]])
    (simp_all add: start_ok_def clear_plain, simp add: plain_panel_def)

theorem dragged_width_on_next_page_witness:
  "sideWidth (initResizable plain_env (dragTo plain_env 320 (plain_panel []))) = 320"
  using dragged_width_on_next_page [OF clear_plain(1), of 320 "dragTo plain_env 320 (plain_panel [])" plain_env plain_env]
  by (simp add: plain_panel_def)

theorem foreign_cookie_read_witness:
  "readCookie width_key (writeCookie plain_env width_key (Some (js ''300'')) None
     (plain_panel [\<lparr>cname = js ''my_doxygen_width'', cvalue = js ''5'', cattrs = []\<rparr>])) = Some (js ''5'')"
proof -
  have n: "js ''my_doxygen_width'' = js ''my_'' @ cookie_namespace @ js ''_'' @ width_key"
    by (simp add: cookie_namespace_def js_append)
  show ?thesis
    using foreign_cookie_read [where s = "plain_panel [\<lparr>cname = js ''my_doxygen_width'', cvalue = js ''5'', cattrs = []\<rparr>]"
        and c = width_key and p = "js ''my_''" and v = "js ''300''" and E = plain_env and x = None] n
    by (simp add: plain_panel_def plain_value_def js_Cons)
qed


end
