(* ===== verification/Menu_Props.thy ===== *)
theory Menu_Props
  imports Menu Resize_Props
begin

text \<open>
  What the main menu does: its markup determines the entries, the search box is in exactly
  one visible place, the client-side search box is left open, and the animation of the
  mobile menu opens a panel the reader has collapsed.
\<close>

section \<open>The markup determines the menu\<close>

abbreviation quote_cu :: cu where "quote_cu \<equiv> cu_of (CHR 0x22)"
abbreviation lt_cu :: cu where "lt_cu \<equiv> cu_of (CHR ''<'')"

fun clean_menu :: "menu_data \<Rightarrow> bool" and clean_entries :: "(jstr \<times> jstr \<times> menu_data) list \<Rightarrow> bool" where
  "clean_menu (Menu None) = True"
| "clean_menu (Menu (Some cs)) = clean_entries cs"
| "clean_entries [] = True"
| "clean_entries ((label, url, data) # cs) =
     (lt_cu \<notin> set label \<and> quote_cu \<notin> set url \<and> clean_menu data \<and> clean_entries cs)"

lemma markup_unambiguous:
  "clean_menu d \<Longrightarrow> clean_menu d' \<Longrightarrow> \<not> prefix (js ''<ul>'') x \<Longrightarrow> \<not> prefix (js ''<ul>'') y \<Longrightarrow>
   makeTree r d @ x = makeTree r d' @ y \<Longrightarrow> d = d' \<and> x = y"
  "clean_entries cs \<Longrightarrow> clean_entries cs' \<Longrightarrow> \<not> prefix (js ''<li>'') x \<Longrightarrow> \<not> prefix (js ''<li>'') y \<Longrightarrow>
   makeItems r cs @ x = makeItems r cs' @ y \<Longrightarrow> cs = cs' \<and> x = y"
proof (induction r d and r cs arbitrary: d' x y and cs' x y rule: makeTree_makeItems.induct)
  case (1 r)
  show ?case
  proof (cases "d' = Menu None")
    case False
    then obtain cs' where "d' = Menu (Some cs')" by (metis menu_data.exhaust option.exhaust)
    then have "x = js ''<ul>'' @ makeItems r cs' @ js ''</ul>'' @ y" using 1(5) by simp
    then have "prefix (js ''<ul>'') x" by (simp only: prefix_def) blast
    then show ?thesis using 1(3) by simp
  qed (use 1 in simp)
next
  case (2 r cs)
  obtain cs' where d': "d' = Menu (Some cs')"
  proof (cases "d' = Menu None")
    case True
    then have "y = js ''<ul>'' @ makeItems r cs @ js ''</ul>'' @ x" using 2(6) by simp
    then have "prefix (js ''<ul>'') y" by (simp only: prefix_def) blast
    then show thesis using 2(5) by simp
  next
    case False
    then show thesis using that by (metis menu_data.exhaust option.exhaust)
  qed
  have "makeItems r cs @ js ''</ul>'' @ x = makeItems r cs' @ js ''</ul>'' @ y"
    using 2(6) d' by simp
  moreover have "\<not> prefix (js ''<li>'') (js ''</ul>'' @ z)" for z by (simp add: js_Cons)
  ultimately have "cs = cs' \<and> js ''</ul>'' @ x = js ''</ul>'' @ y"
    using 2(1) [of cs' "js ''</ul>'' @ x" "js ''</ul>'' @ y"] 2(2,3) d' by simp
  then show ?case using d' by simp
next
  case (3 r)
  show ?case
  proof (cases cs')
    case (Cons e es)
    obtain t u d where e: "e = (t, u, d)" by (cases e)
    have "x = js ''<li>'' @ js ''<a href=\"'' @ r @ u @ js ''\">'' @ t @ js ''</a>'' @ makeTree r d @ js ''</li>'' @ makeItems r es @ y"
      using 3 Cons e by (simp add: js_Cons)
    then have "prefix (js ''<li>'') x" by (simp only: prefix_def) blast
    then show ?thesis using 3(3) by simp
  qed (use 3 in simp)
next
  case (4 r t u d cs)
  obtain t' u' d' es where cs': "cs' = (t', u', d') # es"
  proof (cases cs')
    case Nil
    then have "y = js ''<li>'' @ js ''<a href=\"'' @ r @ u @ js ''\">'' @ t @ js ''</a>'' @ makeTree r d @ js ''</li>'' @ makeItems r cs @ x"
      using 4(7) by (simp add: js_Cons)
    then have "prefix (js ''<li>'') y" by (simp only: prefix_def) blast
    then show thesis using 4(6) by simp
  next
    case (Cons e es)
    then show thesis using that by (cases e) auto
  qed
  have clean: "lt_cu \<notin> set t" "quote_cu \<notin> set u" "lt_cu \<notin> set t'" "quote_cu \<notin> set u'" "clean_menu d" "clean_menu d'"
    "clean_entries cs" "clean_entries es"
    using 4(3,4) cs' by simp_all
  have eq: "u @ quote_cu # cu_of (CHR ''>'') # t @ lt_cu # js ''/a>'' @ makeTree r d @ js ''</li>'' @ makeItems r cs @ x =
      u' @ quote_cu # cu_of (CHR ''>'') # t' @ lt_cu # js ''/a>'' @ makeTree r d' @ js ''</li>'' @ makeItems r es @ y"
    using 4(7) cs' by (simp add: js_Cons)
  have u: "u = u'" and "t @ lt_cu # js ''/a>'' @ makeTree r d @ js ''</li>'' @ makeItems r cs @ x =
      t' @ lt_cu # js ''/a>'' @ makeTree r d' @ js ''</li>'' @ makeItems r es @ y"
    using cut_at [OF clean(2,4) eq] by simp_all
  from cut_at [OF clean(1,3) this(2)] have t: "t = t'"
    and "makeTree r d @ js ''</li>'' @ makeItems r cs @ x = makeTree r d' @ js ''</li>'' @ makeItems r es @ y"
    by simp_all
  moreover have "\<not> prefix (js ''<ul>'') (js ''</li>'' @ z)" for z by (simp add: js_Cons)
  ultimately have "d = d' \<and> js ''</li>'' @ makeItems r cs @ x = js ''</li>'' @ makeItems r es @ y"
    using 4(1) [OF clean(5,6)] by blast
  then have d: "d = d'" and "makeItems r cs @ x = makeItems r es @ y" by simp_all
  then have "cs = es \<and> x = y" using 4(2) [OF clean(7,8) 4(5,6)] by blast
  then show ?case using u t d cs' by simp
qed

text \<open>
  (C22) The markup of the menu determines the menu: two menus whose texts have no \<open><\<close> and
  whose links have no quote have the same markup only when they are the same.
\<close>

theorem menu_markup_injective:
  assumes "clean_menu d" "clean_menu d'" "makeTree r d = makeTree r d'"
  shows "d = d'"
  using markup_unambiguous(1) [OF assms(1,2), of "[]" "[]" r] assms(3) by simp

section \<open>The markup of the search box\<close>

definition in_name :: "cu \<Rightarrow> bool" where
  "in_name c \<longleftrightarrow> c \<noteq> blank \<and> c \<noteq> cu_of (CHR ''>'')"

fun tag_names :: "jstr \<Rightarrow> jstr list" where
  \<comment> \<open>the names after each \<open><\<close>, closing tags with their slash\<close>
  "tag_names [] = []"
| "tag_names (c # s) = (if c = lt_cu then takeWhile in_name s # tag_names s else tag_names s)"

lemma tag_names_skip: "lt_cu \<notin> set x \<Longrightarrow> tag_names (x @ y) = tag_names y"
  by (induction x) auto

lemma tag_names_literal:
  "tag_names (js [] @ y) = tag_names y"
  "tag_names (js (e # s) @ y) =
     (if e = CHR ''<'' then takeWhile in_name (js s @ y) # tag_names (js s @ y) else tag_names (js s @ y))"
  "takeWhile in_name (js (e # s) @ y) =
     (if e = CHR '' '' \<or> e = CHR ''>'' then [] else cu_of e # takeWhile in_name (js s @ y))"
  by (simp_all add: js_Cons in_name_def)

lemma client_tags:
  assumes "lt_cu \<notin> set relPath" "lt_cu \<notin> set search"
  shows "tag_names (clientBox relPath search) =
    [js ''div'', js ''span'', js ''img'', js ''input'', js ''/span'', js ''span'', js ''a'', js ''img'', js ''/a'']"
proof -
  have "clientBox relPath search = clientBox relPath search @ js []" by simp
  then show ?thesis
    using assms unfolding clientBox_def append_assoc
    by (simp add: tag_names_literal tag_names_skip del: append_Nil2 js_Nil) (simp add: js_Cons in_name_def)
qed

lemma server_tags:
  assumes "lt_cu \<notin> set relPath" "lt_cu \<notin> set search" "lt_cu \<notin> set searchPage"
  shows "tag_names (serverBox relPath searchPage search) =
    [js ''div'', js ''div'', js ''form'', js ''img'', js ''input'', js ''/form'', js ''/div'', js ''div'', js ''/div'', js ''/div'']"
proof -
  have "serverBox relPath searchPage search = serverBox relPath searchPage search @ js []" by simp
  then show ?thesis
    using assms unfolding serverBox_def append_assoc
    by (simp add: tag_names_literal tag_names_skip del: append_Nil2 js_Nil) (simp add: js_Cons in_name_def)
qed

text \<open>
  The search box of pages that search on the server is closed; the one of pages that
  search in the browser is left open: its markup closes the first \<open>span\<close> and the link, but
  neither the second \<open>span\<close> nor the \<open>div\<close> around it.
\<close>

lemma client_box_unclosed:
  assumes "lt_cu \<notin> set relPath" "lt_cu \<notin> set search" "lt_cu \<notin> set searchPage"
  shows "map_option tag_names (searchBoxOf relPath True True searchPage search) =
      Some [js ''div'', js ''div'', js ''form'', js ''img'', js ''input'', js ''/form'', js ''/div'', js ''div'', js ''/div'', js ''/div''] \<and>
    map_option tag_names (searchBoxOf relPath True False searchPage search) =
      Some [js ''div'', js ''span'', js ''img'', js ''input'', js ''/span'', js ''span'', js ''a'', js ''img'', js ''/a'']"
  using client_tags [OF assms(1,2)] server_tags [OF assms] by (simp add: searchBoxOf_def)

theorem menu_markup_injective_witness:
  "readme_menudata = readme_menudata \<and> makeTree [] readme_menudata \<noteq> makeTree [] (Menu (Some []))"
proof
  have clean: "clean_menu readme_menudata" "clean_menu (Menu (Some []))"
    by (simp_all add: readme_menudata_def js_Cons)
  show "readme_menudata = readme_menudata" by (rule menu_markup_injective [OF clean(1,1) refl])
  have "readme_menudata \<noteq> Menu (Some [])" by (simp add: readme_menudata_def)
  then show "makeTree [] readme_menudata \<noteq> makeTree [] (Menu (Some []))"
    using menu_markup_injective [OF clean] by blast
qed

section \<open>The places of the search box\<close>

inductive menu_reach :: "panel_env \<Rightarrow> menu_data \<Rightarrow> jstr \<Rightarrow> jstr option \<Rightarrow> menu_page \<Rightarrow> menu_page \<Rightarrow> bool"
  for E data rel box s0 where
  ready: "menu_reach E data rel box s0 (menuReady E box (initMenu data rel box s0))"
| resize: "menu_reach E data rel box s0 s \<Longrightarrow> 0 < w \<Longrightarrow> menu_reach E data rel box s0 (menuResize box w s)"
| change: "menu_reach E data rel box s0 s \<Longrightarrow> menu_reach E data rel box s0 (changeState b s)"
| step: "menu_reach E data rel box s0 s \<Longrightarrow> menu_reach E data rel box s0 (slideStep E s)"
| finish: "menu_reach E data rel box s0 s \<Longrightarrow> menu_reach E data rel box s0 (slideDone s)"

definition place_ok :: "jstr \<Rightarrow> menu_page \<Rightarrow> bool" where
  "place_ok box s \<longleftrightarrow> prevWidth s = outerW s \<and> pos2 s \<noteq> None \<and>
     (if prevWidth s < 768 then pos1 s = box \<and> \<not> pos2Shown s else pos1 s = [] \<and> pos2 s = Some box \<and> pos2Shown s)"

lemma resetState_same: "outerW s = prevWidth s \<Longrightarrow> resetState box s = s"
  by (simp add: resetState_def)

lemma resetState_place:
  assumes "outerW s \<noteq> prevWidth s" "pos2 s \<noteq> None"
  shows "place_ok box (resetState (Some box) s)"
  using assms by (cases "outerW s < 768") (simp_all add: place_ok_def resetState_def html_def)

lemma place_ok_events:
  assumes "place_ok box s"
  shows "place_ok box (menuResize (Some box) w s)" "place_ok box (changeState b s)" "place_ok box (slideStep E s)"
    "place_ok box (slideDone s)"
proof -
  show "place_ok box (menuResize (Some box) w s)"
  proof (cases "w = outerW s")
    case True
    then have "s\<lparr>outerW := w\<rparr> = s" by simp
    then show ?thesis using assms by (simp add: menuResize_def resetState_same place_ok_def)
  next
    case False
    show ?thesis
      unfolding menuResize_def by (intro resetState_place) (use False assms in \<open>simp_all add: place_ok_def\<close>)
  qed
  show "place_ok box (changeState b s)" "place_ok box (slideStep E s)" "place_ok box (slideDone s)"
    using assms by (simp_all add: place_ok_def changeState_def slideStep_def slideDone_def initResizableIfExists_def
      split: option.split)
qed


section \<open>Menu and panel\<close>

text \<open>
  (C38) Every step of the mobile menu's animation sets the panel up again: a panel that the
  reader has collapsed is open again, at the width of the cookie, as soon as the menu moves.
\<close>

theorem menu_step_reopens_panel:
  assumes "sliding s \<noteq> None" "mPanel s = Some p" "sideWidth p = 0" "collapsed p"
    and "readCookie width_key p = Some (num_str n)" "0 < n"
  shows "\<exists>p'. mPanel (slideStep E s) = Some p' \<and> sideWidth p' = n \<and> \<not> collapsed p'"
  using assms init_reads_width [OF assms(5), of E] by (simp add: slideStep_def initResizableIfExists_def)

definition plain_menu :: "panel option \<Rightarrow> menu_page" where
  "plain_menu p = \<lparr>beforeNav = [], mainNav = [], hasMenu = False, menuShown = False, checked = False, pos1 = [],
     pos2 = None, pos2Shown = False, prevWidth = 0, outerW = 1024, sliding = Some True, mPanel = p\<rparr>"


theorem menu_step_reopens_panel_witness:
  "\<exists>p'. mPanel (slideStep plain_env (plain_menu (Some ((dragTo plain_env 300 (plain_panel []))\<lparr>sideWidth := 0, collapsed := True\<rparr>)))) = Some p' \<and>
     sideWidth p' = 300 \<and> \<not> collapsed p'"
proof (rule menu_step_reopens_panel)
  have "readCookie width_key (dragTo plain_env 300 (plain_panel [])) = Some (num_str 300)"
    unfolding dragTo_def
    by (rule resizeWidth_ok(2) [THEN trans]) (use clear_plain in \<open>simp_all add: plain_panel_def clear_jar_def\<close>)
  then show "readCookie width_key ((dragTo plain_env 300 (plain_panel []))\<lparr>sideWidth := 0, collapsed := True\<rparr>) = Some (num_str 300)"
    by (simp add: readCookie_def)
qed (simp_all add: plain_menu_def)

end
