(* ===== verification/Dyn_Sections.thy ===== *)
theory Dyn_Sections
  imports Id_Codes
begin

text \<open>
  The parts of a page that open and close (\<open>dynsections.js\<close>): sections with a summary, the
  rows of a directory table with their folders, levels and stripes, and inherited members.
\<close>

section \<open>Sections\<close>

record section_view =
  contentShown :: bool
  summaryShown :: bool
  linkClosed :: bool
  linkOpened :: bool
  triggerSrc :: "jstr option"

text \<open>
  The image changes its name at the end: \<open>src.substring(0,src.length-n)\<close> and the new ending.
  An image without \<open>src\<close> has no \<open>substring\<close>.
\<close>

definition newEnding :: "jstr option \<Rightarrow> int \<Rightarrow> jstr \<Rightarrow> ('s, jstr) script" where
  "newEnding src n ending =
     jbind (of_option TypeError src) (\<lambda>t. jret (substring2 t 0 (int (length t) - n) @ ending))"

definition toggleVisibility :: "(section_view, bool) script" where
  "toggleVisibility =
     jbind (jget triggerSrc) (\<lambda>src.
     jbind (jget contentShown) (\<lambda>visible.
     jbind (if visible then
       jbind (jmod (\<lambda>v. v\<lparr>contentShown := False, summaryShown := True, linkClosed := True, linkOpened := False\<rparr>)) (\<lambda>_.
       jbind (newEnding src 8 (js ''closed.png'')) (\<lambda>t. jmod (\<lambda>v. v\<lparr>triggerSrc := Some t\<rparr>)))
     else
       jbind (jmod (\<lambda>v. v\<lparr>contentShown := True, summaryShown := False, linkClosed := False, linkOpened := True\<rparr>)) (\<lambda>_.
       jbind (newEnding src 10 (js ''open.png'')) (\<lambda>t. jmod (\<lambda>v. v\<lparr>triggerSrc := Some t\<rparr>)))) (\<lambda>_.
     jret False)))"

section \<open>Directory tables\<close>

text \<open>
  A row with its folder icon and arrow, if it has them; the icon and the arrow of a row have
  the row's number in their names.
\<close>

datatype folder_icon = FolderOpen | FolderClosed

record drow =
  rid :: jstr
  shown :: bool
  evenRow :: bool
  icon :: "folder_icon option"
  arrow :: "jstr option"

fun stripe :: "bool \<Rightarrow> drow list \<Rightarrow> drow list" where
  "stripe b [] = []"
| "stripe b (r # rs) =
     (if shown r then r\<lparr>evenRow := b\<rparr> # stripe (\<not> b) rs else r\<lparr>evenRow := False\<rparr> # stripe b rs)"

definition updateStripes :: "drow list \<Rightarrow> drow list" where
  "updateStripes rows = stripe True rows"

abbreviation downArrow :: jstr where "downArrow \<equiv> js ''&#9660;''"
abbreviation rightArrow :: jstr where "rightArrow \<equiv> js ''&#9658;''"

definition setIcon :: "folder_icon \<Rightarrow> jstr \<Rightarrow> drow \<Rightarrow> drow" where
  "setIcon i a r = r\<lparr>icon := map_option (\<lambda>_. i) (icon r), arrow := map_option (\<lambda>_. a) (arrow r)\<rparr>"

definition rowLevel :: "drow \<Rightarrow> int" where
  \<comment> \<open>\<open>this.id.split('_').length-1\<close>\<close>
  "rowLevel r = int (length (split_at (cu_of (CHR ''_'')) (rid r))) - 1"

definition levelRow :: "int \<Rightarrow> drow \<Rightarrow> drow" where
  "levelRow level r =
     (if rowLevel r < level + 1 then (setIcon FolderOpen downArrow r)\<lparr>shown := True\<rparr>
      else if rowLevel r = level + 1 then (setIcon FolderClosed rightArrow r)\<lparr>shown := True\<rparr>
      else r\<lparr>shown := False\<rparr>)"

definition toggleLevel :: "int \<Rightarrow> drow list \<Rightarrow> drow list" where
  "toggleLevel level rows = updateStripes (map (levelRow level) rows)"

text \<open>
  \<open>new RegExp('^row_'+id+'\\d+_$', "i")\<close> for an \<open>id\<close> of digits and underscores, and the
  selector \<open>[id^=row_...]\<close>.
\<close>

definition childMatch :: "jstr \<Rightarrow> jstr \<Rightarrow> bool" where
  "childMatch fid name =
     (let p = map lower_cu (js ''row_'' @ fid); n = map lower_cu name; t = drop (length p) n
      in prefix p n \<and> t \<noteq> [] \<and> last t = cu_of (CHR ''_'') \<and> butlast t \<noteq> [] \<and>
         list_all (\<lambda>c. 48 \<le> unat c \<and> unat c \<le> 57) (butlast t))"

definition startsWith :: "jstr \<Rightarrow> jstr \<Rightarrow> bool" where
  "startsWith fid name = prefix (js ''row_'' @ fid) name"

definition swapIcon :: "folder_icon \<Rightarrow> folder_icon \<Rightarrow> jstr \<Rightarrow> drow \<Rightarrow> drow" where
  \<comment> \<open>spans with one class get the other; the arrow is replaced\<close>
  "swapIcon from to a r =
     r\<lparr>icon := map_option (\<lambda>i. if i = from then to else i) (icon r), arrow := map_option (\<lambda>_. a) (arrow r)\<rparr>"

definition hideBelow :: "jstr \<Rightarrow> drow \<Rightarrow> drow" where
  "hideBelow fid r = (if startsWith fid (rid r) then r\<lparr>shown := False\<rparr> else r)"

definition showChild :: "jstr \<Rightarrow> drow \<Rightarrow> drow" where
  "showChild fid r =
     (if childMatch fid (rid r) then (swapIcon FolderOpen FolderClosed rightArrow r)\<lparr>shown := True\<rparr> else r)"

definition firstChildShown :: "jstr \<Rightarrow> drow list \<Rightarrow> bool" where
  "firstChildShown fid rows = (case filter (\<lambda>r. childMatch fid (rid r)) rows of [] \<Rightarrow> False | c # _ \<Rightarrow> shown c)"

fun atRow :: "jstr \<Rightarrow> (drow \<Rightarrow> drow list \<Rightarrow> drow list) \<Rightarrow> drow list \<Rightarrow> drow list" where
  \<comment> \<open>the row of a name and the rows after it\<close>
  "atRow name f [] = []"
| "atRow name f (r # rs) = (if rid r = name then f r rs else r # atRow name f rs)"

definition toggleFolder :: "jstr \<Rightarrow> drow list \<Rightarrow> drow list" where
  "toggleFolder fid rows = updateStripes
     (atRow (js ''row_'' @ fid) (\<lambda>current after.
        if firstChildShown fid after
        then swapIcon FolderOpen FolderClosed rightArrow current # map (hideBelow fid) after
        else swapIcon FolderClosed FolderOpen downArrow current # map (showChild fid) after) rows)"

section \<open>Inherited members\<close>

record inherit_view =
  inheritRows :: "jstr list"
  headerSrc :: "jstr option"

definition toggleInherit :: "(inherit_view, unit) script" where
  \<comment> \<open>the rows' \<open>display\<close>; no rows count as not visible\<close>
  "toggleInherit =
     jbind (jget headerSrc) (\<lambda>src.
     jbind (jget inheritRows) (\<lambda>ds.
     if ds \<noteq> [] \<and> hd ds \<noteq> js ''none'' then
       jbind (jmod (\<lambda>v. v\<lparr>inheritRows := map (\<lambda>_. js ''none'') ds\<rparr>)) (\<lambda>_.
       jbind (newEnding src 8 (js ''closed.png'')) (\<lambda>t. jmod (\<lambda>v. v\<lparr>headerSrc := Some t\<rparr>)))
     else
       jbind (jmod (\<lambda>v. v\<lparr>inheritRows := map (\<lambda>_. js ''table-row'') ds\<rparr>)) (\<lambda>_.
       jbind (newEnding src 10 (js ''open.png'')) (\<lambda>t. jmod (\<lambda>v. v\<lparr>headerSrc := Some t\<rparr>)))))"

end
