(* ===== verification/Dyn_Props.thy ===== *)
theory Dyn_Props
  imports Dyn_Sections
begin

text \<open>
  What opens and closes on a page: a section toggled twice is as before; in a directory
  table a row is visible exactly when its folder is visible and open, whatever levels and
  folders the reader chooses; and the stripes of the visible rows alternate.
\<close>

section \<open>Sections\<close>

definition section_ok :: "jstr \<Rightarrow> section_view \<Rightarrow> bool" where
  "section_ok base v \<longleftrightarrow> summaryShown v = (\<not> contentShown v) \<and> linkClosed v = (\<not> contentShown v) \<and>
     linkOpened v = contentShown v \<and>
     triggerSrc v = Some (base @ (if contentShown v then js ''open.png'' else js ''closed.png''))"

lemma cut_ending: "substring2 (b @ e) 0 (int (length (b @ e)) - int (length e)) = b"
  by (simp add: substring2_def clamp_index_def)

lemma newEnding_run: "n = int (length e) \<Longrightarrow> newEnding (Some (b @ e)) n e' s = (Inr (b @ e'), s)"
  using cut_ending [of b e] by (simp add: newEnding_def run_jbind)

lemma toggleVisibility_run:
  assumes "section_ok base v"
  shows "toggleVisibility v = (Inr False, v\<lparr>contentShown := \<not> contentShown v, summaryShown := contentShown v,
     linkClosed := contentShown v, linkOpened := \<not> contentShown v,
     triggerSrc := Some (base @ (if contentShown v then js ''closed.png'' else js ''open.png''))\<rparr>)"
proof -
  have "newEnding (Some (base @ js ''open.png'')) 8 (js ''closed.png'') s = (Inr (base @ js ''closed.png''), s)"
    "newEnding (Some (base @ js ''closed.png'')) 10 (js ''open.png'') s = (Inr (base @ js ''open.png''), s)" for s :: section_view
    by (rule newEnding_run; simp)+
  then show ?thesis using assms by (cases v) (auto simp: section_ok_def toggleVisibility_def run_jbind)
qed

text \<open>
  Toggling a section shows the content in place of the summary, or the other way round,
  with the arrow's image to match; toggling it again restores the section.
\<close>

lemma section_toggled_twice:
  assumes "section_ok base v"
  shows "\<exists>v'. toggleVisibility v = (Inr False, v') \<and> section_ok base v' \<and> contentShown v' = (\<not> contentShown v) \<and>
    toggleVisibility v' = (Inr False, v)"
proof -
  let ?v = "v\<lparr>contentShown := \<not> contentShown v, summaryShown := contentShown v,
     linkClosed := contentShown v, linkOpened := \<not> contentShown v,
     triggerSrc := Some (base @ (if contentShown v then js ''closed.png'' else js ''open.png''))\<rparr>"
  have ok: "section_ok base ?v" by (simp add: section_ok_def)
  have "toggleVisibility ?v = (Inr False, v)"
    unfolding toggleVisibility_run [OF ok] using assms by (cases v) (auto simp: section_ok_def)
  then show ?thesis using toggleVisibility_run [OF assms] ok by (intro exI [of _ ?v]) simp
qed

section \<open>Names of rows\<close>

definition word :: "nat \<Rightarrow> jstr" where
  "word n = nat_str n @ js ''_''"

abbreviation mark :: cu where "mark \<equiv> cu_of (CHR ''_'')"

lemma underscore_not_digit: "mark \<notin> set (nat_str n)"
  using nat_str_digits [of mark n] by auto

interpretation folder_id: prefix_code word
proof
  show "word a \<noteq> []" for a by (simp add: word_def)
next
  fix a b assume "prefix (word a) (word b)"
  then obtain t where "nat_str b @ mark # [] = nat_str a @ mark # t" by (auto simp: prefix_def word_def js_Cons)
  then have "nat_str b = nat_str a" using cut_at [OF underscore_not_digit underscore_not_digit] by blast
  then show "a = b" by (simp add: nat_str_inj)
qed

definition folder :: "nat list \<Rightarrow> jstr" where
  "folder p = concat (map word p)"

definition row_name :: "nat list \<Rightarrow> jstr" where
  "row_name p = js ''row_'' @ folder p"

lemma folder_encode: "folder = folder_id.encode"
  by (simp add: fun_eq_iff folder_def folder_id.encode_def)

lemma row_name_inj: "row_name p = row_name q \<longleftrightarrow> p = q"
  by (simp add: row_name_def folder_encode folder_id.encode_inj)

lemma startsWith_row: "startsWith (folder p) (row_name q) \<longleftrightarrow> prefix p q"
  by (simp add: startsWith_def row_name_def folder_encode folder_id.encode_prefix)

lemma lower_plain: "\<forall>c \<in> set s. \<not> (65 \<le> unat c \<and> unat c \<le> 90) \<Longrightarrow> map lower_cu s = s"
  by (rule map_idI) (auto simp: lower_cu_def)

lemma folder_chars: "c \<in> set (folder p) \<Longrightarrow> 48 \<le> unat c \<and> unat c \<le> 57 \<or> c = mark"
  by (auto simp: folder_def word_def js_Cons split: if_splits dest: nat_str_digits)

lemma lower_row: "map lower_cu (row_name p) = row_name p"
  by (rule lower_plain) (use folder_chars in \<open>fastforce simp: row_name_def js_Cons\<close>)

lemma childMatch_row: "childMatch (folder p) (row_name q) \<longleftrightarrow> (\<exists>n. q = p @ [n])"
proof -
  let ?digits = "\<lambda>t. list_all (\<lambda>c. 48 \<le> unat c \<and> unat c \<le> 57) t"
  let ?t = "drop (length (row_name p)) (row_name q)"
  have "childMatch (folder p) (row_name q) \<longleftrightarrow>
      prefix (row_name p) (row_name q) \<and> ?t \<noteq> [] \<and> last ?t = mark \<and> butlast ?t \<noteq> [] \<and> ?digits (butlast ?t)"
    unfolding childMatch_def Let_def row_name_def [symmetric] lower_row ..
  also have "\<dots> \<longleftrightarrow> (\<exists>n. q = p @ [n])"
  proof
    assume match: "prefix (row_name p) (row_name q) \<and> ?t \<noteq> [] \<and> last ?t = mark \<and> butlast ?t \<noteq> [] \<and> ?digits (butlast ?t)"
    then have "prefix p q" by (simp add: row_name_def folder_encode folder_id.encode_prefix)
    then obtain r where q: "q = p @ r" by (auto simp: prefix_def)
    then have t: "?t = folder r" by (simp add: row_name_def folder_def)
    obtain n r' where r: "r = n # r'" using match t by (cases r) (auto simp: folder_def)
    have "r' = []"
    proof (rule ccontr)
      assume "r' \<noteq> []"
      then have "folder r' \<noteq> []" by (cases r') (simp_all add: folder_def word_def)
      then have "butlast ?t = nat_str n @ mark # butlast (folder r')"
        unfolding t r by (simp add: folder_def word_def js_Cons butlast_append)
      then have "?digits (nat_str n @ mark # butlast (folder r'))" using match by simp
      then show False by simp
    qed
    then show "\<exists>n. q = p @ [n]" using q r by simp
  next
    assume "\<exists>n. q = p @ [n]"
    then obtain n where q: "q = p @ [n]" by blast
    then have "?t = nat_str n @ [mark]" by (simp add: row_name_def folder_def word_def js_Cons)
    moreover have "prefix (row_name p) (row_name q)" by (simp add: q row_name_def folder_def)
    moreover have "?digits (nat_str n)" using nat_str_digits by (auto simp: list_all_iff)
    ultimately show "prefix (row_name p) (row_name q) \<and> ?t \<noteq> [] \<and> last ?t = mark \<and> butlast ?t \<noteq> [] \<and> ?digits (butlast ?t)"
      by simp
  qed
  finally show ?thesis .
qed

lemma level_row: "rid r = row_name p \<Longrightarrow> rowLevel r = int (length p) + 1"
proof -
  have skip: "length (split_at mark (x @ mark # y)) = Suc (length (split_at mark y))" if "mark \<notin> set x" for x y
    using that by (induction x) (auto split: list.split)
  have "length (split_at mark (folder p)) = Suc (length p)"
    by (induction p) (simp_all add: folder_def word_def js_Cons skip underscore_not_digit)
  then have "length (split_at mark (row_name p)) = Suc (Suc (length p))"
    using skip [of "js ''row''" "folder p"] by (simp add: row_name_def js_Cons)
  then show "rid r = row_name p \<Longrightarrow> rowLevel r = int (length p) + 1" by (simp add: rowLevel_def)
qed

section \<open>Tables\<close>

text \<open>
  The rows of a table are named by paths; the row of a folder comes before the rows in it,
  and has an icon.
\<close>

definition dir_paths :: "nat list list \<Rightarrow> bool" where
  "dir_paths paths \<longleftrightarrow> distinct paths \<and> [] \<notin> set paths \<and>
     (\<forall>i < length paths. 1 < length (paths ! i) \<longrightarrow> butlast (paths ! i) \<in> set (take i paths))"

definition is_child :: "drow \<Rightarrow> drow \<Rightarrow> bool" where
  "is_child s r \<longleftrightarrow> childMatch (drop 4 (rid s)) (rid r)"

definition dir_table :: "nat list list \<Rightarrow> drow list \<Rightarrow> bool" where
  "dir_table paths rows \<longleftrightarrow> map rid rows = map row_name paths \<and>
     (\<forall>s \<in> set rows. \<forall>r \<in> set rows. is_child s r \<longrightarrow> icon s \<noteq> None)"

text \<open>A row is visible exactly when the row of its folder is visible and open.\<close>

definition consistent :: "drow list \<Rightarrow> bool" where
  "consistent rows \<longleftrightarrow> (\<forall>s \<in> set rows. \<forall>r \<in> set rows.
     is_child s r \<longrightarrow> (shown r \<longleftrightarrow> shown s \<and> icon s = Some FolderOpen))"

lemma is_child_row: "rid s = row_name p \<Longrightarrow> rid r = row_name q \<Longrightarrow> is_child s r \<longleftrightarrow> (\<exists>n. q = p @ [n])"
  by (simp add: is_child_def childMatch_row [symmetric]) (simp add: row_name_def js_Cons)

lemma table_row:
  assumes "dir_table paths rows" "r \<in> set rows"
  obtains p where "rid r = row_name p" "p \<in> set paths"
proof -
  have "rid r \<in> set (map row_name paths)" using assms by (metis dir_table_def list.set_map imageI)
  then show ?thesis using that by auto
qed

lemma row_of_path:
  assumes "dir_table paths rows" "p \<in> set paths"
  obtains r where "r \<in> set rows" "rid r = row_name p"
proof -
  have "row_name p \<in> set (map rid rows)" using assms by (metis dir_table_def list.set_map imageI)
  then show ?thesis using that by auto
qed

text \<open>Changing rows one by one, without their names, and putting on stripes.\<close>

abbreviation bare :: "drow \<Rightarrow> drow" where
  "bare r \<equiv> r\<lparr>evenRow := False\<rparr>"

lemma bare_stripe: "map bare (stripe b rows) = map bare rows"
  by (induction b rows rule: stripe.induct) simp_all

lemma is_child_cong: "rid s' = rid s \<Longrightarrow> rid r' = rid r \<Longrightarrow> is_child s' r' = is_child s r"
  by (simp add: is_child_def)

lemma table_map:
  assumes "dir_table paths rows" "\<And>r. rid (f r) = rid r" "\<And>r. icon r \<noteq> None \<Longrightarrow> icon (f r) \<noteq> None"
  shows "dir_table paths (map f rows)"
proof -
  have "map rid (map f rows) = map rid rows" by (simp add: assms(2))
  moreover have "icon (f s) \<noteq> None" if "s \<in> set rows" "r \<in> set rows" "is_child (f s) (f r)" for s r
  proof -
    have "is_child s r" using that(3) by (simp add: is_child_def assms(2))
    then have "icon s \<noteq> None" using that assms(1) unfolding dir_table_def by blast
    then show ?thesis by (rule assms(3))
  qed
  ultimately show ?thesis using assms(1) unfolding dir_table_def by (metis (no_types, lifting) imageE list.set_map)
qed

lemma consistent_map:
  assumes "\<And>r. rid (f r) = rid r"
  shows "consistent (map f rows) \<longleftrightarrow> (\<forall>s \<in> set rows. \<forall>r \<in> set rows.
     is_child s r \<longrightarrow> (shown (f r) \<longleftrightarrow> shown (f s) \<and> icon (f s) = Some FolderOpen))"
  by (simp add: consistent_def is_child_cong [OF assms assms])

lemma consistent_stripe: "consistent (updateStripes rows) = consistent rows"
  using consistent_map [of bare rows] consistent_map [of bare "stripe True rows"] bare_stripe [of True rows]
  by (simp add: updateStripes_def consistent_def)

lemma table_bare: "dir_table paths (map bare rows) = dir_table paths rows"
proof -
  have "map rid (map bare rows) = map rid rows" by simp
  then show ?thesis unfolding dir_table_def by (simp add: is_child_def comp_def)
qed

lemma table_stripe: "dir_table paths (updateStripes rows) = dir_table paths rows"
  using table_bare [of paths rows] table_bare [of paths "stripe True rows"] bare_stripe [of True rows]
  by (simp add: updateStripes_def)

section \<open>Levels\<close>

lemma levelRow_simps [simp]: "rid (levelRow l r) = rid r" "icon r \<noteq> None \<Longrightarrow> icon (levelRow l r) \<noteq> None"
  by (auto simp: levelRow_def setIcon_def)

lemma toggleLevel_table: "dir_table paths rows \<Longrightarrow> dir_table paths (toggleLevel l rows)"
  by (simp add: toggleLevel_def table_stripe) (rule table_map; simp)

lemma toggleLevel_consistent:
  assumes "dir_table paths rows"
  shows "consistent (toggleLevel l rows)"
proof -
  have "shown (levelRow l r) \<longleftrightarrow> shown (levelRow l s) \<and> icon (levelRow l s) = Some FolderOpen"
    if sr: "s \<in> set rows" "r \<in> set rows" "is_child s r" for s r
  proof -
    obtain p q where pq: "rid s = row_name p" "rid r = row_name q"
      using table_row [OF assms sr(1)] table_row [OF assms sr(2)] by metis
    then have "rowLevel r = rowLevel s + 1" using sr(3) by (auto simp: is_child_row level_row)
    moreover have "icon s \<noteq> None" using assms sr by (auto simp: dir_table_def)
    ultimately show ?thesis by (auto simp: levelRow_def setIcon_def)
  qed
  then show ?thesis by (simp add: toggleLevel_def consistent_stripe consistent_map)
qed

section \<open>Folders\<close>

lemma below_is_after:
  assumes "dir_paths (xs @ p # ys)" "q \<in> set (xs @ p # ys)" "strict_prefix p q"
  shows "q \<in> set ys"
  using assms(2,3)
proof (induction q rule: measure_induct_rule [where f = length])
  case (less q)
  let ?all = "xs @ p # ys"
  obtain i where i: "i < length ?all" "?all ! i = q" using less.prems(1) by (metis in_set_conv_nth)
  have "[] \<notin> set ?all" using assms(1) unfolding dir_paths_def by blast
  then have p: "p \<noteq> []" by auto
  then have "1 < length q" using prefix_length_less [OF less.prems(2)] by (cases p) auto
  then have up: "butlast q \<in> set (take i ?all)" using assms(1) i by (auto simp: dir_paths_def)
  have dist: "distinct ?all" using assms(1) by (simp add: dir_paths_def)
  have "butlast q \<in> set (p # ys)"
  proof (cases "butlast q = p")
    case False
    have "q \<noteq> []" using \<open>1 < length q\<close> by auto
    then have "prefix p (butlast q)"
      using less.prems(2) prefix_snoc [of p "butlast q" "last q"] by (auto simp: strict_prefix_def)
    then have "strict_prefix p (butlast q)" using False by (simp add: strict_prefix_def)
    moreover have "butlast q \<in> set ?all" using up by (rule in_set_takeD)
    ultimately show ?thesis using less.IH [of "butlast q"] \<open>1 < length q\<close> by simp
  qed simp
  then have "butlast q \<notin> set xs" using dist by auto
  moreover have "i \<le> length xs \<Longrightarrow> take i ?all = take i xs" by simp
  ultimately have "\<not> i \<le> length xs" using up in_set_takeD [of "butlast q" i xs] by auto
  moreover have "i \<noteq> length xs" using calculation by simp
  ultimately have "length xs < i" by simp
  then have "q = ys ! (i - Suc (length xs))" using i by (simp add: nth_append nth_Cons')
  then show ?case using i \<open>length xs < i\<close> by (auto intro!: nth_mem)
qed

text \<open>
  On a table, a click on a folder changes every row by itself: rows before the folder's own
  are never in it.
\<close>

definition closeRow :: "jstr \<Rightarrow> drow \<Rightarrow> drow" where
  "closeRow fid r = (if rid r = js ''row_'' @ fid then swapIcon FolderOpen FolderClosed rightArrow r else hideBelow fid r)"

definition openRow :: "jstr \<Rightarrow> drow \<Rightarrow> drow" where
  "openRow fid r = (if rid r = js ''row_'' @ fid then swapIcon FolderClosed FolderOpen downArrow r else showChild fid r)"

lemma atRow_split:
  "rid r = name \<Longrightarrow> \<forall>r' \<in> set xs. rid r' \<noteq> name \<Longrightarrow> atRow name f (xs @ r # ys) = xs @ f r ys"
  by (induction xs) auto

lemma toggleFolder_rows:
  assumes "dir_paths paths" "dir_table paths rows" "p \<in> set paths"
  shows "toggleFolder (folder p) rows =
    updateStripes (map (if firstChildShown (folder p) rows then closeRow (folder p) else openRow (folder p)) rows)"
proof -
  obtain ps qs where paths: "paths = ps @ p # qs" using split_list [OF assms(3)] by blast
  then obtain xs r ys where rows: "rows = xs @ r # ys" "map rid xs = map row_name ps" "rid r = row_name p"
    "map rid ys = map row_name qs"
    using assms(2) by (auto simp: dir_table_def map_eq_append_conv Cons_eq_map_conv append_eq_map_conv map_eq_Cons_conv)
  have dist: "distinct paths" using assms(1) by (simp add: dir_paths_def)
  have before: "\<not> prefix p q" if "q \<in> set ps" for q
  proof
    assume "prefix p q"
    moreover have "p \<noteq> q" using dist that by (auto simp: paths)
    ultimately have "q \<in> set qs"
      using below_is_after [of ps p qs q] assms(1) that by (simp add: paths strict_prefix_def)
    then show False using dist that by (auto simp: paths)
  qed
  have xs: "\<exists>q \<in> set ps. rid x = row_name q" if "x \<in> set xs" for x
    using that rows(2) by (metis imageE imageI list.set_map)
  have ys: "\<exists>q \<in> set qs. rid x = row_name q" if "x \<in> set ys" for x
    using that rows(4) by (metis imageE imageI list.set_map)
  have out: "rid x \<noteq> row_name p \<and> \<not> startsWith (folder p) (rid x) \<and> \<not> childMatch (folder p) (rid x)"
    if "x \<in> set xs" for x
    using xs [OF that] before by (fastforce simp: startsWith_row childMatch_row row_name_inj)
  have ne: "rid x \<noteq> row_name p" if "x \<in> set ys" for x
    using ys [OF that] dist by (auto simp: paths row_name_inj)
  have first: "firstChildShown (folder p) rows = firstChildShown (folder p) ys"
    using out by (simp add: firstChildShown_def rows childMatch_row filter_empty_conv [THEN iffD2])
  have "map (closeRow (folder p)) rows = xs @ swapIcon FolderOpen FolderClosed rightArrow r # map (hideBelow (folder p)) ys"
    "map (openRow (folder p)) rows = xs @ swapIcon FolderClosed FolderOpen downArrow r # map (showChild (folder p)) ys"
    using out ne rows(3)
    by (auto simp: rows(1) closeRow_def openRow_def hideBelow_def showChild_def row_name_def [symmetric] intro!: map_idI)
  then show ?thesis
    unfolding toggleFolder_def row_name_def [symmetric] rows(1) [THEN arg_cong, of "atRow _ _"] first
    using out by (simp add: atRow_split rows(3))
qed

lemma swapIcon_simps [simp]:
  "rid (swapIcon i j a r) = rid r" "shown (swapIcon i j a r) = shown r"
  "icon (swapIcon i j a r) = map_option (\<lambda>k. if k = i then j else k) (icon r)"
  by (simp_all add: swapIcon_def)

lemma folderRow_simps [simp]:
  "rid (closeRow fid r) = rid r" "icon r \<noteq> None \<Longrightarrow> icon (closeRow fid r) \<noteq> None"
  "rid (openRow fid r) = rid r" "icon r \<noteq> None \<Longrightarrow> icon (openRow fid r) \<noteq> None"
  by (auto simp: closeRow_def openRow_def hideBelow_def showChild_def)

lemma toggleFolder_table:
  assumes "dir_paths paths" "dir_table paths rows" "p \<in> set paths"
  shows "dir_table paths (toggleFolder (folder p) rows)"
  unfolding toggleFolder_rows [OF assms] table_stripe 
  by (rule table_map [OF assms(2)]) (simp_all only: folderRow_simps split: if_split, simp_all)

lemma firstChild_iff:
  assumes "dir_table paths rows" "consistent rows" "s \<in> set rows" "rid s = row_name p" "shown s"
    "r \<in> set rows" "is_child s r"
  shows "firstChildShown (folder p) rows \<longleftrightarrow> icon s = Some FolderOpen"
proof -
  have child: "is_child s x \<longleftrightarrow> childMatch (folder p) (rid x)" for x
    by (simp add: is_child_def assms(4)) (simp add: row_name_def js_Cons)
  then have "filter (\<lambda>x. childMatch (folder p) (rid x)) rows \<noteq> []"
    using assms(6,7) by (auto simp: filter_empty_conv)
  then obtain c cs where c: "filter (\<lambda>x. childMatch (folder p) (rid x)) rows = c # cs" by (meson neq_Nil_conv)
  then have "c \<in> set rows" "childMatch (folder p) (rid c)"
    by (auto dest!: arg_cong [of _ _ set])
  then have "shown c \<longleftrightarrow> icon s = Some FolderOpen"
    using assms(2,3,5) by (simp add: consistent_def child)
  then show ?thesis by (simp add: firstChildShown_def c)
qed

lemma closeRow_path:
  assumes "rid r = row_name a"
  shows "shown (closeRow (folder p) r) \<longleftrightarrow> shown r \<and> \<not> strict_prefix p a"
    "icon (closeRow (folder p) r) =
       (if a = p then map_option (\<lambda>i. if i = FolderOpen then FolderClosed else i) (icon r) else icon r)"
  using assms
  by (auto simp: closeRow_def hideBelow_def startsWith_row row_name_inj strict_prefix_def row_name_def [symmetric])

lemma openRow_path:
  assumes "rid r = row_name a"
  shows "shown (openRow (folder p) r) \<longleftrightarrow> shown r \<or> (\<exists>n. a = p @ [n])"
    "icon (openRow (folder p) r) =
       (if a = p then map_option (\<lambda>i. if i = FolderClosed then FolderOpen else i) (icon r)
        else if \<exists>n. a = p @ [n] then map_option (\<lambda>i. if i = FolderOpen then FolderClosed else i) (icon r)
        else icon r)"
  using assms
  by (auto simp: openRow_def showChild_def childMatch_row row_name_inj row_name_def [symmetric])

lemma row_unique:
  assumes "dir_paths paths" "dir_table paths rows" "s \<in> set rows" "k \<in> set rows" "rid s = rid k"
  shows "s = k"
proof -
  have "inj_on row_name (set paths)" by (simp add: inj_on_def row_name_inj)
  then have "distinct (map rid rows)"
    using assms(1,2) by (simp add: dir_paths_def dir_table_def distinct_map)
  then show ?thesis using assms(3-5) by (auto simp: distinct_map dest: inj_onD)
qed

lemma folder_icons: "i \<noteq> None \<Longrightarrow> i \<noteq> Some FolderOpen \<Longrightarrow> i = Some FolderClosed"
  by (metis folder_icon.exhaust not_None_eq)

lemma toggleFolder_child:
  assumes "dir_paths paths" "dir_table paths rows" "consistent rows"
    "k \<in> set rows" "rid k = row_name p" "shown k" "s \<in> set rows" "r \<in> set rows" "is_child s r"
    "f = (if firstChildShown (folder p) rows then closeRow (folder p) else openRow (folder p))"
  shows "shown (f r) \<longleftrightarrow> shown (f s) \<and> icon (f s) = Some FolderOpen"
proof -
  obtain a where a: "rid s = row_name a" using table_row [OF assms(2,7)] by blast
  obtain b where b: "rid r = row_name b" using table_row [OF assms(2,8)] by blast
  obtain n where n: "b = a @ [n]" using assms(9) a b by (auto simp: is_child_row)
  have old: "shown r \<longleftrightarrow> shown s \<and> icon s = Some FolderOpen" using assms by (simp add: consistent_def)
  have icon: "icon s \<noteq> None" using assms by (auto simp: dir_table_def)
  note change = closeRow_path [OF a, of p] closeRow_path [OF b, of p] openRow_path [OF a, of p] openRow_path [OF b, of p]
  show ?thesis
  proof (cases "a = p")
    case True
    then have "s = k" using row_unique assms(1,2,4,5,7) a by metis
    then have "firstChildShown (folder p) rows \<longleftrightarrow> icon s = Some FolderOpen"
      using firstChild_iff assms(2-6,8,9) by metis
    moreover have "shown s" "strict_prefix p b" using assms(6) \<open>s = k\<close> n True by (simp_all add: strict_prefix_def)
    ultimately show ?thesis using True n folder_icons [OF icon] by (auto simp: assms(10) change)
  next
    case False
    have "strict_prefix p b \<longleftrightarrow> strict_prefix p a"
      using False n by (auto simp: strict_prefix_def)
    moreover have "\<not> shown s" if "a = p @ [m]" "\<not> firstChildShown (folder p) rows" for m
    proof -
      have "is_child k s" using that(1) a assms(5) by (simp add: is_child_row)
      then have "icon k \<noteq> Some FolderOpen" "shown s \<longleftrightarrow> shown k \<and> icon k = Some FolderOpen"
        using firstChild_iff [OF assms(2-6) assms(7)] that(2) assms(3,4,7) by (auto simp: consistent_def)
      then show ?thesis by simp
    qed
    ultimately show ?thesis using False n old by (auto simp: assms(10) change)
  qed
qed

lemma toggleFolder_consistent:
  assumes "dir_paths paths" "dir_table paths rows" "consistent rows"
    "k \<in> set rows" "rid k = row_name p" "shown k"
  shows "consistent (toggleFolder (folder p) rows)"
proof -
  obtain p' where "rid k = row_name p'" "p' \<in> set paths" using table_row [OF assms(2,4)] by blast
  then have p: "p \<in> set paths" using assms(5) by (simp add: row_name_inj)
  let ?f = "if firstChildShown (folder p) rows then closeRow (folder p) else openRow (folder p)"
  have "consistent (map ?f rows)"
    using toggleFolder_child [OF assms _ _ _ refl] by (subst consistent_map) (simp, blast)
  then show ?thesis by (simp only: toggleFolder_rows [OF assms(1,2) p] consistent_stripe)
qed

section \<open>What the reader does\<close>

text \<open>The links above a table choose a level, from one up; a click needs a row one can see.\<close>

inductive dir_step :: "drow list \<Rightarrow> drow list \<Rightarrow> bool" where
  level: "1 \<le> l \<Longrightarrow> dir_step rows (toggleLevel l rows)"
| click: "r \<in> set rows \<Longrightarrow> shown r \<Longrightarrow> rid r = row_name p \<Longrightarrow> dir_step rows (toggleFolder (folder p) rows)"

definition roots_shown :: "drow list \<Rightarrow> bool" where
  "roots_shown rows \<longleftrightarrow> (\<forall>r \<in> set rows. rowLevel r = 2 \<longrightarrow> shown r)"

lemma roots_map:
  "(\<And>r. rid (f r) = rid r) \<Longrightarrow> roots_shown (map f rows) \<longleftrightarrow> (\<forall>r \<in> set rows. rowLevel r = 2 \<longrightarrow> shown (f r))"
  by (simp add: roots_shown_def rowLevel_def)

lemma roots_stripe: "roots_shown (updateStripes rows) = roots_shown rows"
  using roots_map [of bare rows] roots_map [of bare "stripe True rows"] bare_stripe [of True rows]
  by (simp add: updateStripes_def roots_shown_def)

lemma folderRow_root:
  assumes "dir_table paths rows" "p \<noteq> []" "roots_shown rows" "r \<in> set rows" "rowLevel r = 2"
  shows "shown (closeRow (folder p) r)" "shown (openRow (folder p) r)"
proof -
  obtain a where a: "rid r = row_name a" using table_row [OF assms(1,4)] by blast
  then have "length a = 1" using assms(5) by (simp add: level_row)
  then have "\<not> strict_prefix p a" using assms(2) prefix_length_less [of p a] by auto
  moreover have "shown r" using assms(3-5) by (simp add: roots_shown_def)
  ultimately show "shown (closeRow (folder p) r)" "shown (openRow (folder p) r)"
    by (simp_all add: closeRow_path [OF a] openRow_path [OF a])
qed

definition dir_ok :: "nat list list \<Rightarrow> drow list \<Rightarrow> bool" where
  "dir_ok paths rows \<longleftrightarrow> dir_paths paths \<and> dir_table paths rows \<and> consistent rows \<and> roots_shown rows"

lemma dir_step_ok:
  assumes "dir_step rows rows'" "dir_ok paths rows"
  shows "dir_ok paths rows'"
  using assms
proof cases
  case (level l)
  have "roots_shown (map (levelRow l) rows)" using level(2) by (subst roots_map) (auto simp: levelRow_def setIcon_def)
  then have "roots_shown rows'" by (simp add: level(1) toggleLevel_def roots_stripe)
  then show ?thesis using assms(2) level toggleLevel_table [of paths rows l] toggleLevel_consistent [of paths rows l] by (simp add: dir_ok_def)
next
  case (click r p)
  note ok = assms(2) [unfolded dir_ok_def]
  obtain p' where "rid r = row_name p'" "p' \<in> set paths" using table_row click(2) ok by blast
  then have p: "p \<in> set paths" using click(4) by (simp add: row_name_inj)
  then have "p \<noteq> []" using ok by (auto simp: dir_paths_def)
  let ?f = "if firstChildShown (folder p) rows then closeRow (folder p) else openRow (folder p)"
  have "roots_shown (map ?f rows)"
    using folderRow_root [of paths rows p] ok \<open>p \<noteq> []\<close> by (subst roots_map) auto
  then have "roots_shown rows'"
    using toggleFolder_rows [of paths rows p] ok p by (simp only: click(1) roots_stripe simp_thms)
  then show ?thesis
    using toggleFolder_table [of paths rows p] toggleFolder_consistent [of paths rows r p] ok p click by (simp add: dir_ok_def)
qed

definition sample_rows :: "drow list" where
  "sample_rows =
     [\<lparr>rid = js ''row_0_'', shown = True, evenRow = True, icon = Some FolderClosed, arrow = Some rightArrow\<rparr>,
      \<lparr>rid = js ''row_0_0_'', shown = False, evenRow = False, icon = None, arrow = None\<rparr>,
      \<lparr>rid = js ''row_1_'', shown = True, evenRow = False, icon = None, arrow = None\<rparr>]"

lemma sample_rows_ok: "dir_ok [[0], [0, 0], [1]] sample_rows"
  by code_simp

section \<open>Stripes\<close>

lemma stripe_flags:
  "map evenRow (filter shown (stripe b rows)) = map (\<lambda>i. even i = b) [0..<length (filter shown rows)]"
proof (induction rows arbitrary: b)
  case (Cons r rs)
  have "map (\<lambda>i. even i = b) [0..<Suc n] = b # map (\<lambda>i. even i = (\<not> b)) [0..<n]" for n
    by (rule nth_equalityI) (auto simp: nth_Cons split: nat.split simp del: upt_Suc)
  then show ?case by (simp add: Cons.IH)
qed simp

lemma stripe_hidden: "filter (\<lambda>r. evenRow r \<and> \<not> shown r) (stripe b rows) = []"
  by (induction b rows rule: stripe.induct) auto

text \<open>
  After a choice of a level or a click on a folder the visible rows of the table are
  striped in turn, from an even first one, and no hidden row has a stripe.
\<close>

lemma stripes_alternate:
  "map evenRow (filter shown (toggleLevel l rows)) = map even [0..<length (filter shown (toggleLevel l rows))] \<and>
   map evenRow (filter shown (toggleFolder fid rows)) = map even [0..<length (filter shown (toggleFolder fid rows))] \<and>
   filter (\<lambda>r. evenRow r \<and> \<not> shown r) (toggleLevel l rows @ toggleFolder fid rows) = []"
proof -
  have "length (filter shown (updateStripes rs)) = length (filter shown rs)" for rs
    using arg_cong [OF stripe_flags [of True rs], of length] by (simp add: updateStripes_def)
  then have "map evenRow (filter shown (updateStripes rs)) = map even [0..<length (filter shown (updateStripes rs))]" for rs
    using stripe_flags [of True rs] by (simp add: updateStripes_def)
  moreover have "filter (\<lambda>r. evenRow r \<and> \<not> shown r) (updateStripes rs) = []" for rs
    by (simp add: updateStripes_def stripe_hidden)
  ultimately show ?thesis by (simp add: toggleLevel_def toggleFolder_def)
qed

end
