(* ===== verification/Action_Refinement.thy ===== *)
theory Action_Refinement
  imports Main
begin

text \<open>
  The interface between a component that reacts to actions one after the other and a
  specification of it: an invariant of the component's states, which of the actions it has
  to answer for, and an abstraction that every such action commutes with.
\<close>

locale action_refinement =
  fixes inv :: "'s \<Rightarrow> bool"
    and proper :: "'a \<Rightarrow> bool"
    and step :: "'a \<Rightarrow> 's \<Rightarrow> 's"
    and abs :: "'s \<Rightarrow> 't"
    and spec :: "'a \<Rightarrow> 't \<Rightarrow> 't"
  assumes step_inv: "inv s \<Longrightarrow> proper a \<Longrightarrow> inv (step a s)"
    and step_abs: "inv s \<Longrightarrow> proper a \<Longrightarrow> abs (step a s) = spec a (abs s)"
begin

lemma run_inv: "inv s \<Longrightarrow> list_all proper as \<Longrightarrow> inv (fold step as s)"
  by (induction as arbitrary: s) (simp_all add: step_inv)

lemma run_abs: "inv s \<Longrightarrow> list_all proper as \<Longrightarrow> abs (fold step as s) = fold spec as (abs s)"
  by (induction as arbitrary: s) (simp_all add: step_inv step_abs)

end

end
