(* ===== verification/Dyn_Spec.thy ===== *)
theory Dyn_Spec
  imports Dyn_Props Action_Refinement
begin

text \<open>
  The directory table as the reader thinks of it: a set of open folders. Choosing a level and
  clicking a folder change that set, and the table shows what the set says.
\<close>

section \<open>The specification\<close>

datatype dir_action = Level int | Click "nat list"

definition folders :: "nat list list \<Rightarrow> nat list set" where
  "folders paths = {p \<in> set paths. \<exists>q \<in> set paths. q \<noteq> [] \<and> butlast q = p}"

definition visible :: "nat list set \<Rightarrow> nat list \<Rightarrow> bool" where
  "visible S p \<longleftrightarrow> (\<forall>q \<in> set (prefixes p). q = [] \<or> q = p \<or> q \<in> S)"

fun spec_act :: "nat list list \<Rightarrow> dir_action \<Rightarrow> nat list set \<Rightarrow> nat list set" where
  "spec_act paths (Level l) S = {p \<in> folders paths. int (length p) < l}"
| "spec_act paths (Click p) S =
     (if p \<in> S then {q \<in> S. \<not> prefix p q}
      else if p \<in> folders paths \<and> visible S p then insert p S else S)"

section \<open>The table\<close>

text \<open>A reader can only click on a row that is there and visible.\<close>

fun table_act :: "dir_action \<Rightarrow> drow list \<Rightarrow> drow list" where
  "table_act (Level l) rows = toggleLevel l rows"
| "table_act (Click p) rows =
     (if \<exists>r \<in> set rows. rid r = row_name p \<and> shown r then toggleFolder (folder p) rows else rows)"

fun proper_action :: "dir_action \<Rightarrow> bool" where
  "proper_action (Level l) = (1 \<le> l)"
| "proper_action (Click p) = True"

definition open_folders :: "nat list list \<Rightarrow> drow list \<Rightarrow> nat list set" where
  "open_folders paths rows =
     {p \<in> folders paths. \<exists>s \<in> set rows. rid s = row_name p \<and> shown s \<and> icon s = Some FolderOpen}"

lemma folders_child: "p \<in> folders paths \<longleftrightarrow> p \<in> set paths \<and> (\<exists>n. p @ [n] \<in> set paths)"
  unfolding folders_def by (auto, metis append_butlast_last_id, metis snoc_eq_iff_butlast)

lemma open_map:
  "(\<And>r. rid (f r) = rid r) \<Longrightarrow> open_folders paths (map f rows) =
     {p \<in> folders paths. \<exists>s \<in> set rows. rid s = row_name p \<and> shown (f s) \<and> icon (f s) = Some FolderOpen}"
  by (auto simp: open_folders_def)

lemma open_stripe: "open_folders paths (updateStripes rows) = open_folders paths rows"
  using open_map [of bare paths rows] open_map [of bare paths "stripe True rows"] bare_stripe [of True rows]
  by (simp add: updateStripes_def open_folders_def)

lemma table_act_ok: "dir_ok paths rows \<Longrightarrow> proper_action a \<Longrightarrow> dir_ok paths (table_act a rows)"
  by (cases a) (auto intro: dir_step_ok dir_step.intros)

text \<open>The rows on the way to a row.\<close>

lemma ancestor_path:
  assumes "dir_paths paths" "p \<in> set paths" "strict_prefix q p" "q \<noteq> []"
  shows "q \<in> folders paths"
  using assms(2,3)
proof (induction p rule: rev_induct)
  case (snoc n p)
  have pre: "prefix q p" using snoc.prems(2) by (auto simp: strict_prefix_def)
  then have "p \<noteq> []" using assms(4) by auto
  obtain i where i: "i < length paths" "paths ! i = p @ [n]" using snoc.prems(1) by (metis in_set_conv_nth)
  have "1 < length (paths ! i)" using \<open>p \<noteq> []\<close> i by (cases p) auto
  then have "butlast (paths ! i) \<in> set (take i paths)" using assms(1) i(1) unfolding dir_paths_def by blast
  then have p: "p \<in> set paths" using i(2) in_set_takeD by fastforce
  show ?case
  proof (cases "q = p")
    case True
    then show ?thesis using p snoc.prems(1) by (auto simp: folders_child)
  qed (use pre p snoc.IH in \<open>simp add: strict_prefix_def\<close>)
qed simp

lemma visible_snoc: "p \<noteq> [] \<Longrightarrow> visible S (p @ [n]) \<longleftrightarrow> visible S p \<and> p \<in> S"
proof -
  assume "p \<noteq> []"
  have "q \<noteq> p @ [n]" if "prefix q p" for q using prefix_length_le [OF that] by auto
  moreover have "set (prefixes (p @ [n])) = insert (p @ [n]) (set (prefixes p))" by auto
  moreover have "p \<in> set (prefixes p)" by simp
  ultimately show ?thesis using \<open>p \<noteq> []\<close> unfolding visible_def in_set_prefixes [symmetric]
    by (metis (no_types, lifting) insert_iff)
qed

lemma row_in_open:
  assumes "dir_ok paths rows" "s \<in> set rows" "rid s = row_name p" "p \<in> folders paths"
  shows "p \<in> open_folders paths rows \<longleftrightarrow> shown s \<and> icon s = Some FolderOpen"
proof -
  have "x = s" if "x \<in> set rows" "rid x = row_name p" for x
    using row_unique [of paths rows x s] that assms(1-3) by (simp add: dir_ok_def)
  then show ?thesis using assms(2-4) unfolding open_folders_def by blast
qed

lemma shown_iff_visible:
  assumes "dir_ok paths rows" "r \<in> set rows" "rid r = row_name p"
  shows "shown r \<longleftrightarrow> visible (open_folders paths rows) p"
  using assms(2,3)
proof (induction p arbitrary: r rule: rev_induct)
  case Nil
  note ok = assms(1) [unfolded dir_ok_def]
  obtain q where "rid r = row_name q" "q \<in> set paths" using table_row Nil(1) ok by blast
  then show ?case using Nil(2) ok by (simp add: row_name_inj dir_paths_def)
next
  case (snoc n p)
  note ok = assms(1) [unfolded dir_ok_def]
  obtain q where "rid r = row_name q" "q \<in> set paths" using table_row snoc.prems(1) ok by blast
  then have path: "p @ [n] \<in> set paths" using snoc.prems(2) by (simp add: row_name_inj)
  show ?case
  proof (cases "p = []")
    case True
    then have "shown r" using ok snoc.prems by (simp add: roots_shown_def level_row)
    then show ?thesis using True by (simp add: visible_def)
  next
    case False
    then have p: "p \<in> folders paths" using ancestor_path [of paths "p @ [n]" p] ok path by (simp add: strict_prefix_def)
    then obtain s where s: "s \<in> set rows" "rid s = row_name p" using row_of_path ok by (metis folders_child)
    have "shown r \<longleftrightarrow> shown s \<and> icon s = Some FolderOpen"
      using ok s snoc.prems by (simp add: consistent_def is_child_row)
    also have "\<dots> \<longleftrightarrow> shown s \<and> p \<in> open_folders paths rows" using row_in_open [OF assms(1) s p] by blast
    also have "\<dots> \<longleftrightarrow> visible (open_folders paths rows) (p @ [n])"
      using snoc.IH [OF s] False by (simp add: visible_snoc)
    finally show ?thesis .
  qed
qed

section \<open>Refinement\<close>

lemma folder_icon_present:
  assumes "dir_ok paths rows" "s \<in> set rows" "rid s = row_name p" "p \<in> folders paths"
  shows "icon s \<noteq> None"
proof -
  note ok = assms(1) [unfolded dir_ok_def]
  obtain n r where r: "r \<in> set rows" "rid r = row_name (p @ [n])"
    using assms(4) ok row_of_path [of paths rows] by (metis folders_child)
  then have "is_child s r" using assms(3) by (simp add: is_child_row)
  then show ?thesis using ok assms(2) r(1) unfolding dir_table_def by blast
qed

lemma level_refines:
  assumes "dir_ok paths rows"
  shows "open_folders paths (toggleLevel l rows) = spec_act paths (Level l) (open_folders paths rows)"
proof -
  have "(\<exists>s \<in> set rows. rid s = row_name p \<and> shown (levelRow l s) \<and> icon (levelRow l s) = Some FolderOpen) \<longleftrightarrow>
      int (length p) < l" if p: "p \<in> folders paths" for p
  proof -
    obtain s where s: "s \<in> set rows" "rid s = row_name p"
      using p assms row_of_path [of paths rows p] by (metis folders_child dir_ok_def)
    have "shown (levelRow l s) \<and> icon (levelRow l s) = Some FolderOpen \<longleftrightarrow> int (length p) < l"
      if "s \<in> set rows" "rid s = row_name p" for s
      using folder_icon_present [OF assms that p] level_row [OF that(2)] by (auto simp: levelRow_def setIcon_def)
    then show ?thesis using s by blast
  qed
  then show ?thesis by (auto simp: toggleLevel_def open_stripe open_map)
qed

lemma no_child_shown:
  assumes "dir_ok paths rows" "p \<in> set paths" "p \<notin> folders paths"
  shows "\<not> firstChildShown (folder p) rows"
proof -
  note ok = assms(1) [unfolded dir_ok_def]
  have "\<not> childMatch (folder p) (rid r)" if row: "r \<in> set rows" for r
  proof -
    obtain q where "rid r = row_name q" "q \<in> set paths" using table_row row ok by blast
    then show ?thesis using assms(2,3) by (auto simp: childMatch_row folders_child)
  qed
  then have "filter (\<lambda>r. childMatch (folder p) (rid r)) rows = []" by (simp add: filter_empty_conv)
  then show ?thesis by (simp add: firstChildShown_def)
qed

lemma first_iff_open:
  assumes "dir_ok paths rows" "k \<in> set rows" "rid k = row_name p" "shown k"
  shows "firstChildShown (folder p) rows \<longleftrightarrow> p \<in> open_folders paths rows"
proof (cases "p \<in> folders paths")
  case True
  note ok = assms(1) [unfolded dir_ok_def]
  obtain n r where r: "r \<in> set rows" "rid r = row_name (p @ [n])"
    using True ok row_of_path [of paths rows] by (metis folders_child)
  then have "is_child k r" using assms(3) by (simp add: is_child_row)
  then show ?thesis using firstChild_iff [of paths rows k p r] row_in_open [OF assms(1-3) True] ok assms r by simp
next
  case False
  obtain p' where "rid k = row_name p'" "p' \<in> set paths" using table_row assms(1,2) by (metis dir_ok_def)
  then show ?thesis using no_child_shown [OF assms(1)] False assms(3) by (simp add: row_name_inj open_folders_def)
qed

lemma child_not_open:
  assumes "dir_ok paths rows" "p \<notin> open_folders paths rows" "p \<noteq> []"
  shows "p @ [n] \<notin> open_folders paths rows"
proof
  assume "p @ [n] \<in> open_folders paths rows"
  then obtain s where "s \<in> set rows" "rid s = row_name (p @ [n])" "shown s" by (auto simp: open_folders_def)
  then have "visible (open_folders paths rows) (p @ [n])" using shown_iff_visible [OF assms(1)] by blast
  then show False using assms(2,3) by (simp add: visible_snoc)
qed

lemma closeRow_open:
  assumes "rid s = row_name a"
  shows "shown (closeRow (folder p) s) \<and> icon (closeRow (folder p) s) = Some FolderOpen \<longleftrightarrow>
    shown s \<and> icon s = Some FolderOpen \<and> \<not> prefix p a"
  by (cases "a = p") (auto simp: closeRow_path [OF assms] strict_prefix_def)

lemma openRow_open:
  assumes "rid s = row_name a"
  shows "shown (openRow (folder p) s) \<and> icon (openRow (folder p) s) = Some FolderOpen \<longleftrightarrow>
    (if a = p then shown s \<and> icon s \<noteq> None else shown s \<and> icon s = Some FolderOpen \<and> (\<nexists>n. a = p @ [n]))"
  using folder_icons [of "icon s"] by (cases "a = p") (auto simp: openRow_path [OF assms])

lemma click_refines:
  assumes "dir_ok paths rows" "k \<in> set rows" "rid k = row_name p" "shown k"
  shows "open_folders paths (toggleFolder (folder p) rows) = spec_act paths (Click p) (open_folders paths rows)"
proof -
  note ok = assms(1) [unfolded dir_ok_def]
  let ?S = "open_folders paths rows"
  obtain p' where "rid k = row_name p'" "p' \<in> set paths" using table_row assms(2) ok by blast
  then have p: "p \<in> set paths" using assms(3) by (simp add: row_name_inj)
  then have "p \<noteq> []" using ok by (auto simp: dir_paths_def)
  have vis: "visible ?S p" using shown_iff_visible [OF assms(1-3)] assms(4) by simp
  have in_S: "a \<in> ?S \<longleftrightarrow> a \<in> folders paths \<and> (\<exists>s \<in> set rows. rid s = row_name a \<and> shown s \<and> icon s = Some FolderOpen)" for a
    by (simp add: open_folders_def)
  have "?S \<subseteq> folders paths" by (auto simp: open_folders_def)
  note rows' = toggleFolder_rows [of paths rows p] first_iff_open [OF assms]
  show ?thesis
  proof (cases "p \<in> ?S")
    case True
    then have "open_folders paths (toggleFolder (folder p) rows) = open_folders paths (map (closeRow (folder p)) rows)"
      using rows' ok p by (simp add: open_stripe)
    also have "\<dots> = {q \<in> ?S. \<not> prefix p q}"
      by (simp add: open_map) (use closeRow_open in_S in blast)
    finally show ?thesis using True by simp
  next
    case False
    then have "open_folders paths (toggleFolder (folder p) rows) = open_folders paths (map (openRow (folder p)) rows)"
      using rows' ok p by (simp add: open_stripe)
    also have "\<dots> = {q \<in> folders paths. q = p \<or> q \<in> ?S}"
    proof (simp add: open_map, rule Collect_cong, rule conj_cong [OF refl])
      fix q assume q: "q \<in> folders paths"
      show "(\<exists>s \<in> set rows. rid s = row_name q \<and> shown (openRow (folder p) s) \<and> icon (openRow (folder p) s) = Some FolderOpen) \<longleftrightarrow>
          q = p \<or> q \<in> ?S"
      proof (cases "q = p")
        case True
        then have "icon k \<noteq> None" using folder_icon_present [OF assms(1,2)] q assms(3) by blast
        then show ?thesis using True openRow_open [OF assms(3), of p] assms(2-4) by auto
      next
        case False
        have "\<not> (\<exists>n. q = p @ [n])" if "q \<in> ?S"
          using child_not_open [OF assms(1) \<open>p \<notin> ?S\<close> \<open>p \<noteq> []\<close>] that by blast
        then show ?thesis using False q openRow_open [of _ q p] in_S [of q] by auto
      qed
    qed
    finally show ?thesis using False vis \<open>?S \<subseteq> folders paths\<close> by auto
  qed
qed

lemma act_refines:
  assumes "dir_ok paths rows"
  shows "open_folders paths (table_act a rows) = spec_act paths a (open_folders paths rows)"
proof (cases a)
  case (Level l)
  then show ?thesis using level_refines [OF assms] by simp
next
  case (Click p)
  show ?thesis
  proof (cases "\<exists>r \<in> set rows. rid r = row_name p \<and> shown r")
    case True
    then show ?thesis using click_refines [OF assms] Click by auto
  next
    case False
    then have "p \<notin> open_folders paths rows" by (auto simp: open_folders_def)
    moreover have "\<not> (p \<in> folders paths \<and> visible (open_folders paths rows) p)"
      using False shown_iff_visible [OF assms] row_of_path [of paths rows p] assms
      by (metis folders_child dir_ok_def)
    ultimately show ?thesis using False Click by auto
  qed
qed

interpretation directory: action_refinement "dir_ok paths" proper_action table_act "open_folders paths" "spec_act paths"
  for paths :: "nat list list"
  by unfold_locales (simp_all add: table_act_ok act_refines)

text \<open>
  (C6) The directory table refines the set of open folders: for every sequence of levels and
  clicks the folders open in the table are those the specification computes, and a row is
  visible exactly when the specification has every folder on the way to it open.
\<close>

theorem directory_refines_open_set:
  assumes "dir_ok paths rows" "list_all proper_action as"
  shows "open_folders paths (fold table_act as rows) = fold (spec_act paths) as (open_folders paths rows) \<and>
    (\<forall>r \<in> set (fold table_act as rows). \<forall>p. rid r = row_name p \<longrightarrow>
       (shown r \<longleftrightarrow> visible (fold (spec_act paths) as (open_folders paths rows)) p))"
  using directory.run_abs [OF assms] shown_iff_visible [OF directory.run_inv [OF assms]] by metis

theorem directory_refines_open_set_witness:
  "open_folders [[0], [0, 0], [1]] (fold table_act [Click [0], Level 1, Click [0]] sample_rows) = {[0]}"
proof -
  have "fold (spec_act [[0], [0, 0], [1]]) [Click [0], Level 1, Click [0]] (open_folders [[0], [0, 0], [1]] sample_rows) = {[0]}"
    by (auto simp: folders_def visible_def)
  moreover have "list_all proper_action [Click [0], Level 1, Click [0]]" by simp
  ultimately show ?thesis
    by (metis directory_refines_open_set [OF sample_rows_ok, of "[Click [0], Level 1, Click [0]]"])
qed

end
