(* ===== verification/Spec2Isabelle.thy ===== *)
theory Spec2Isabelle
  imports Search_Up_Props Site_Search Nav_Races Site_Readme Spec_Tree Menu_Props Dyn_Spec
begin

text \<open>
  The scripts of the documentation sites of ta-ref (\<open>src/docs/ta-ref_spec_html\<close> and
  \<open>src/docs/ta-ref_readme_html\<close>): the JavaScript that the repository's pages run in the
  reader's browser. Both sites have the same scripts (the files \<open>search/search.js\<close>,
  \<open>navtree.js\<close>, \<open>resize.js\<close>, \<open>menu.js\<close> and \<open>dynsections.js\<close> are equal, byte for byte) and
  data files of their own.

  \<^bold>\<open>The program.\<close> A page has a search panel, a navigation tree in a panel of its own, a main
  menu and sections that open and close.
  \<^item> The \<^emph>\<open>search panel\<close> (class \<open>SearchBox\<close> of \<open>search.js\<close>) reacts to the keys in the search
    field with a timer, picks the result page of the first character in the selected section
    from \<open>searchdata.js\<close>, and loads it into a frame with the escaped text as query.
  \<^item> The \<^emph>\<open>results page\<close> in the frame builds its rows from its table (\<open>createResults\<close>),
    filters them by the text of its address and moves the focus with the arrow keys
    (class \<open>SearchResults\<close>); Escape leads back to the panel.
  \<^item> The \<^emph>\<open>navigation tree\<close> (\<open>navtree.js\<close>) shows the node of the page's address: it asks
    for the index file that has the address, opens the nodes on the path the index names,
    loading their data on demand, and selects the last; a button and the browser's storage
    let it stay with a link of the reader.
  \<^item> The \<^emph>\<open>panel\<close> of the tree can be dragged and collapsed (\<open>resize.js\<close>); its width is kept
    in a cookie. The \<^emph>\<open>menu\<close> (\<open>menu.js\<close>) writes the menu and the search box into the page,
    moves the box between two places, and sets up the panel again while its mobile form moves.
  \<^item> \<^emph>\<open>Sections\<close> and \<^emph>\<open>directory tables\<close> (\<open>dynsections.js\<close>) open and close by clicks.

  \<^bold>\<open>The library.\<close> \<open>JS_Prelude\<close> has strings as lists of 16-bit code units (\<open>jstr\<close>, with
  \<open>js\<close> for literals), the string operations of the language the scripts use, and scripts
  as functions from a state to an exception or a result and a state (\<open>jbind\<close>, \<open>jget\<close>,
  \<open>jmod\<close>, \<open>block\<close>), with two collections of rules: \<open>keeps\<close> (an invariant is kept on every
  path) and \<open>safe\<close> (no exception, no endless loop, and the invariant is kept).
  \<open>JS_Strings\<close> adds numbers in text and \<open>escape\<close>/\<open>unescape\<close>; \<open>DOM\<close>, \<open>DOM_Walk\<close> and
  \<open>DOM_Build\<close> model documents as trees of numbered nodes with the walks and changes of the
  DOM; \<open>Value_Store\<close> and \<open>Action_Refinement\<close> are interfaces (locales): a store that returns
  what was written last, and a component that refines a specification action by action.

  \<^bold>\<open>The components.\<close>
  \<^item> \<open>Search_Box\<close>: record \<open>search_box\<close> (the object's fields), \<open>world\<close> (page, frame, timers),
    one definition per method; \<open>Search_Tables\<close>: the tables of both sites. \<open>Search_Panel\<close>
    proves that every handler returns and keeps the page well formed;
    \<open>Search_Panel_Props\<close> has the functional properties, the timers and the errors.
  \<^item> \<open>Id_Codes\<close>: \<open>convertToId\<close> and prefix codes (a locale, interpreted for the encoding of
    characters and for the names of table rows).
  \<^item> \<open>Search_Results\<close>, \<open>Search_Create\<close>: the methods of \<open>SearchResults\<close>, \<open>createResults\<close> and
    \<open>init_search\<close>; \<open>Search_Results_Props\<close> (the query arrives, rows are filtered),
    \<open>Search_Nav_Props\<close> (\<open>FindChildElement\<close> is a tree search, what \<open>createResults\<close> builds),
    \<open>Search_Keys_Props\<close> and \<open>Search_Up_Props\<close> (the keys, the filter menu).
  \<^item> \<open>Search_Data\<close>: what an entry of a result page's table has to be and rules to check it;
    \<open>Search_Data_All\<close>, \<open>Search_Data_Kinds\<close>, \<open>Search_Data_Readme\<close>: the tables of both sites;
    \<open>Site_Search\<close>: panel, tables and results page together (locale \<open>search_site\<close>, interpreted
    for both sites): every name of a site is found.
  \<^item> \<open>Nav_Paths\<close>: paths and anchors; \<open>Nav_Tree\<close>: record \<open>nav_state\<close> (nodes, storage, pending
    scripts), every function of \<open>navtree.js\<close>; \<open>Nav_Build\<close>, \<open>Nav_Open\<close>: building and opening
    nodes keeps a well-formed tree (\<open>nav_ok\<close>, relative to a loader: what the scripts on
    demand define) and shows a path; \<open>Nav_Props\<close>: loading a page whose data is there;
    \<open>Nav_Events\<close>: sequences of events, the button, the stored link, the arrows; \<open>Nav_Lazy\<close>:
    loading a page while the data arrives script by script; \<open>Nav_Invariant\<close>: the tree in
    every state that events reach; \<open>Nav_Follow\<close>: anchors followed on a loaded page;
    \<open>Nav_Races\<close>: scripts that arrive late; \<open>Nav_Index\<close>: index files that
    fit their site (locales \<open>indexed_site\<close>, \<open>documented_site\<close>, interpreted for the sites);
    \<open>Site_Readme\<close>, \<open>Site_Spec\<close>, \<open>Spec_Tree_Data\<close>, \<open>Spec_Tree\<close>: the sites' own tables, and
    that the tree shows every address of the index.
  \<^item> \<open>Resize\<close>, \<open>Resize_Props\<close>: record \<open>panel\<close>; cookies, dragging, collapsing, window sizes.
  \<^item> \<open>Menu\<close>, \<open>Menu_Props\<close>: the markup and the states of the menu, and both menu tables.
  \<^item> \<open>Dyn_Sections\<close>, \<open>Dyn_Props\<close>, \<open>Dyn_Spec\<close>: sections and directory tables, their
    invariant, and the refinement of a set of open folders.

  \<^bold>\<open>Loops and bounds.\<close> Loops of the scripts that need not end (the chain of offset parents,
  the walk of \<open>FindChildElement\<close>, the search for a visible item) are partial functions with
  \<open>None\<close> for no return, and theorems state that they return. The other loops are
  recursions over lists. Scripts on demand arrive in steps of their own (\<open>scriptLoaded\<close>); the
  theorems on loading a page bound their number by the length of the path. Pixel lengths, indices and key codes are unbounded integers, as the
  scripts' numbers are exact at these sizes; code units are 16-bit words.

  \<^bold>\<open>Parameters.\<close> What the browser and jQuery compute is a parameter: the layout of elements
  (\<open>layout\<close>, sizes of windows), the lower case of characters beyond ASCII (\<open>unicode_lower\<close>),
  the data files that arrive on demand (\<open>navVar\<close>, \<open>navIndexVar\<close>; instantiated by the sites'
  own files in \<open>readme_nav\<close> and \<open>spec_nav\<close>), the classes of anchors.

  \<^bold>\<open>Not modelled.\<close> \<open>jquery.js\<close> (third-party; the operations used are modelled where they are
  used), the smartmenus plugin, animations but for their ends and steps, and the C sources,
  test applications and build files of the repository, which are outside the language this
  development covers.
\<close>

end
